(* ===== verification/Prelude.thy ===== *)
theory Prelude
  imports Complex_Main "HOL-Library.Sublist" "HOL-Library.Multiset"
begin

text \<open>
  Shared vocabulary of the CoTaxiage development: the names of the model's basic types,
  the few JavaScript and Firestore primitives the application code relies on
  (\<open>String.prototype.toLowerCase\<close>, \<open>String.prototype.includes\<close>,
  Firestore's \<open>arrayUnion\<close>), and the generic lemmas on lists that the component
  theories share. None of these definitions is code of the repository: they fix the
  semantics of the platform the code runs on, and each comes with the lemma that relates
  it to the corresponding notion of the HOL library.
\<close>

named_theorems store_simps \<open>characteristic equations of the store and hook operations\<close>

type_synonym uid = string
type_synonym doc_id = string
type_synonym timestamp = int \<comment> \<open>a JavaScript \<open>Date\<close>, as milliseconds since the epoch\<close>

subsection \<open>Strings\<close>

text \<open>
  \<open>toLowerCase\<close> restricted to the ASCII range: the station identifiers of the catalogue
  are ASCII, and a non-ASCII byte is left unchanged.
\<close>

definition js_lower_char :: "char \<Rightarrow> char" where
  "js_lower_char c =
     (let n = of_char c :: nat in if 65 \<le> n \<and> n \<le> 90 then char_of (n + 32) else c)"

definition js_lower :: "string \<Rightarrow> string" where
  "js_lower s = map js_lower_char s"

fun starts_with :: "string \<Rightarrow> string \<Rightarrow> bool" where
  "starts_with [] _ = True"
| "starts_with (x # xs) [] = False"
| "starts_with (x # xs) (y # ys) = (x = y \<and> starts_with xs ys)"

text \<open>\<open>hay.includes(needle)\<close>: the needle occurs at some position of the haystack.\<close>

fun js_includes :: "string \<Rightarrow> string \<Rightarrow> bool" where
  "js_includes n [] = (n = [])"
| "js_includes n (h # hs) = (starts_with n (h # hs) \<or> js_includes n hs)"

lemma starts_with_prefix: "starts_with xs ys \<longleftrightarrow> prefix xs ys"
  by (induction xs ys rule: starts_with.induct) auto

lemma js_includes_sublist: "js_includes n h \<longleftrightarrow> sublist n h"
  by (induction h) (auto simp: starts_with_prefix sublist_Cons_right)

lemma js_lower_length [simp]: "length (js_lower s) = length s"
  by (simp add: js_lower_def)

text \<open>\<open>x || ''\<close> on an optional string field: \<open>undefined\<close> and \<open>''\<close> both give \<open>''\<close>.\<close>

definition js_or_empty :: "string option \<Rightarrow> string" where
  "js_or_empty v = (case v of None \<Rightarrow> [] | Some s \<Rightarrow> s)"

text \<open>
  \<open>String.prototype.trim\<close> on the ASCII white space and line terminators (tab, line
  feed, vertical tab, form feed, carriage return, space).
\<close>

definition js_space :: "char \<Rightarrow> bool" where
  "js_space c = ((of_char c :: nat) \<in> {9, 10, 11, 12, 13, 32})"

definition js_trim :: "string \<Rightarrow> string" where
  "js_trim s = rev (dropWhile js_space (rev (dropWhile js_space s)))"

subsection \<open>Firestore array and counter updates\<close>

text \<open>
  \<open>arrayUnion(u)\<close> appends \<open>u\<close> to the stored array unless it is already an element;
  \<open>increment(1)\<close> adds one to the stored number. Both are applied by the server to the
  document as it is when the update arrives, not to the client's copy.
\<close>

definition array_union :: "'a list \<Rightarrow> 'a \<Rightarrow> 'a list" where
  "array_union xs u = (if u \<in> set xs then xs else xs @ [u])"

lemma set_array_union [simp]: "set (array_union xs u) = insert u (set xs)"
  by (auto simp: array_union_def)

lemma distinct_array_union [simp]: "distinct (array_union xs u) \<longleftrightarrow> distinct xs"
  by (simp add: array_union_def)

lemma length_array_union:
  "length (array_union xs u) = (if u \<in> set xs then length xs else Suc (length xs))"
  by (simp add: array_union_def)

lemma array_union_fresh [simp]: "u \<notin> set xs \<Longrightarrow> array_union xs u = xs @ [u]"
  by (simp add: array_union_def)

lemma array_union_present [simp]: "u \<in> set xs \<Longrightarrow> array_union xs u = xs"
  by (simp add: array_union_def)

subsection \<open>Effects shared by the handlers\<close>

text \<open>
  A failed Firestore call rejects with an error whose \<open>code\<close> the handlers test only
  against \<open>'permission-denied'\<close>; a \<open>react-hot-toast\<close> notice is an error or a
  success toast carrying a message, the messages of each component being a datatype of
  its own.
\<close>

datatype backend_error = PermissionDenied | BackendFailure

datatype 'm toast = ToastError 'm | ToastSuccess 'm

text \<open>The application's routes, as targets of \<open>navigate(...)\<close>.\<close>

datatype route =
    RHome | RLogin | RTrips | RCreateTrip | RTrip doc_id
  | RBooking | RBookingPayment | RPayment doc_id | RConfirmation | RAdmin | RRegister | RProfile | RDashboard
  | RBookingConfirm

subsection \<open>Firestore collections and queries\<close>

text \<open>
  A collection as a query sees it: its documents as (id, data) pairs in ascending order
  of document id, the order in which Firestore breaks ties of an \<open>orderBy\<close>. A query
  \<open>where(...)\<close> keeps the documents satisfying its conditions; \<open>orderBy(f, 'asc')\<close>
  sorts them stably by \<open>f\<close>, so that ties stay in id order; \<open>orderBy(f, 'desc')\<close> is
  the reverse, since the implicit id order then also descends.
\<close>

type_synonym 'a collection = "(doc_id \<times> 'a) list"

datatype direction = Asc | Desc

definition fs_query ::
  "('a \<Rightarrow> bool) \<Rightarrow> ('a \<Rightarrow> 'k::linorder) \<Rightarrow> direction \<Rightarrow> 'a collection \<Rightarrow> 'a collection" where
  "fs_query P key dir docs =
     (let sorted_docs = sort_key (\<lambda>d. key (snd d)) (filter (\<lambda>d. P (snd d)) docs)
      in case dir of Asc \<Rightarrow> sorted_docs | Desc \<Rightarrow> rev sorted_docs)"

text \<open>\<open>setDoc\<close> without \<open>merge\<close> on a collection: the document of the id is replaced or created.\<close>

definition coll_set :: "doc_id \<Rightarrow> 'a \<Rightarrow> 'a collection \<Rightarrow> 'a collection" where
  "coll_set i v docs =
     (if i \<in> fst ` set docs then map (\<lambda>d. if fst d = i then (i, v) else d) docs else docs @ [(i, v)])"

subsection \<open>Lists\<close>

lemma map_of_replace:
  "map_of (map (\<lambda>d. if fst d = i then (i, v) else d) docs) k
   = (if k = i \<and> i \<in> fst ` set docs then Some v else map_of docs k)"
  by (induction docs) (auto simp: image_iff, fastforce+)

lemma map_of_coll_set: "map_of (coll_set i v docs) k = (if k = i then Some v else map_of docs k)"
proof (cases "i \<in> fst ` set docs")
  case True
  then show ?thesis by (simp add: coll_set_def map_of_replace)
next
  case False
  then have "map_of docs i = None" by (simp add: map_of_eq_None_iff)
  with False show ?thesis by (auto simp: coll_set_def map_of_append map_add_def split: option.splits)
qed

lemma map_of_foldl_coll_set:
  assumes "distinct (map key xs)" "x \<in> set xs"
  shows "map_of (foldl (\<lambda>docs s. coll_set (key s) (f s) docs) docs0 xs) (key x) = Some (f x)"
  using assms
proof (induction xs rule: rev_induct)
  case Nil then show ?case by simp
next
  case (snoc y ys)
  show ?case
  proof (cases "x = y")
    case True then show ?thesis by (simp add: map_of_coll_set)
  next
    case False
    with snoc.prems have x: "x \<in> set ys" and d: "distinct (map key ys)" "key y \<notin> key ` set ys" by auto
    from x d(2) have "key x \<noteq> key y" by (metis image_eqI)
    with snoc.IH x d(1) show ?thesis by (simp add: map_of_coll_set)
  qed
qed

lemma find_Some_in_set: "List.find P xs = Some x \<Longrightarrow> x \<in> set xs \<and> P x"
  by (induction xs) (auto split: if_splits)

lemma find_None_iff': "List.find P xs = None \<longleftrightarrow> (\<forall>x \<in> set xs. \<not> P x)"
  by (induction xs) auto

lemma set_fs_query [simp]:
  "set (fs_query P key dir docs) = {d \<in> set docs. P (snd d)}"
  by (simp add: fs_query_def Let_def split: direction.splits)

lemma mset_fs_query:
  "mset (fs_query P key dir docs) = filter_mset (\<lambda>d. P (snd d)) (mset docs)"
  by (simp add: fs_query_def Let_def split: direction.splits)

lemma distinct_fs_query [simp]:
  assumes "distinct (map fst docs)"
  shows "distinct (map fst (fs_query P key dir docs))"
proof -
  have "mset (map fst (fs_query P key dir docs)) = mset (map fst (filter (\<lambda>d. P (snd d)) docs))"
    by (simp add: fs_query_def Let_def split: direction.splits)
  then have "distinct (map fst (fs_query P key dir docs)) = distinct (map fst (filter (\<lambda>d. P (snd d)) docs))"
    by (rule mset_eq_imp_distinct_iff)
  with assms show ?thesis by (simp add: distinct_map_filter)
qed

lemma fs_query_snoc_reject:
  "\<not> P (snd x) \<Longrightarrow> fs_query P key dir (docs @ [x]) = fs_query P key dir docs"
  by (simp add: fs_query_def)

lemma sorted_fs_query_Asc: "sorted (map (\<lambda>d. key (snd d)) (fs_query P key Asc docs))"
  by (simp add: fs_query_def Let_def)

lemma sorted_fs_query_Desc: "sorted_wrt (\<ge>) (map (\<lambda>d. key (snd d)) (fs_query P key Desc docs))"
  by (simp add: fs_query_def Let_def rev_map [symmetric] sorted_wrt_rev)

lemma js_trim_Nil_iff: "js_trim s = [] \<longleftrightarrow> (\<forall>c \<in> set s. js_space c)"
proof -
  have "(\<forall>x \<in> set (dropWhile js_space s). js_space x) \<longleftrightarrow> (\<forall>c \<in> set s. js_space c)"
    by (induction s) auto
  then show ?thesis by (simp add: js_trim_def dropWhile_eq_Nil_conv)
qed

lemma find_key_distinct:
  "distinct (map k xs) \<Longrightarrow> x \<in> set xs \<Longrightarrow> List.find (\<lambda>y. k y = k x) xs = Some x"
  by (induction xs) (auto simp: image_iff)

end
