(* ===== verification/Stations.thy ===== *)
theory Stations
  imports Prelude
begin

text \<open>
  The static station catalogue of \<open>src/src/data/stations.ts\<close> and the two shapes in
  which a place reaches the fare calculator: a catalogue \<open>Station\<close> object, whose
  coordinates sit in a nested \<open>location\<close> field, and the flat \<open>Location\<close> of
  \<open>src/src/types/booking.ts\<close> that the search form builds from it. Latitudes are real
  numbers: the catalogue's decimal literals are read exactly (none of them is within
  rounding distance of the bank threshold of the fare calculator). Names and addresses
  are kept as their UTF-8 bytes.
\<close>

datatype station_type = Train | Airport | Taxi

record geo =
  geo_lat :: real
  geo_lng :: real

text \<open>
  One record for the three kinds of catalogue entries: train stations carry neither a
  district nor terminals, airports carry terminals, taxi stations a district.
\<close>

record station =
  st_id :: string
  st_name :: string
  st_type :: station_type
  st_location :: geo
  st_address :: string
  st_district :: "string option"
  st_terminals :: "string list"

definition e_acute :: string where
  "e_acute = [CHR 0xC3, CHR 0xA9]"

definition TRAIN_STATIONS :: "station list" where
  "TRAIN_STATIONS = [
     \<lparr>st_id = ''gare-de-lyon'', st_name = ''Gare de Lyon'', st_type = Train,
      st_location = \<lparr>geo_lat = 48.84414213061917, geo_lng = 2.3768609563012624\<rparr>,
      st_address = ''20 Boulevard Diderot, 75012 Paris'', st_district = None, st_terminals = []\<rparr>,
     \<lparr>st_id = ''gare-austerlitz'', st_name = ''Gare d'Austerlitz'', st_type = Train,
      st_location = \<lparr>geo_lat = 48.842782176737195, geo_lng = 2.366443239664965\<rparr>,
      st_address = ''85 Quai d'Austerlitz, 75013 Paris'', st_district = None, st_terminals = []\<rparr>,
     \<lparr>st_id = ''gare-montparnasse'', st_name = ''Gare Montparnasse'', st_type = Train,
      st_location = \<lparr>geo_lat = 48.841098835106344, geo_lng = 2.317884809279539\<rparr>,
      st_address = ''17 Boulevard de Vaugirard, 75015 Paris'', st_district = None,
      st_terminals = []\<rparr>]"

definition AIRPORTS :: "station list" where
  "AIRPORTS = [
     \<lparr>st_id = ''cdg'', st_name = ''Charles de Gaulle Airport'', st_type = Airport,
      st_location = \<lparr>geo_lat = 49.009691, geo_lng = 2.547925\<rparr>,
      st_address = ''95700 Roissy-en-France'', st_district = None,
      st_terminals = [''Terminal 1'', ''Terminal 2'', ''Terminal 3'']\<rparr>,
     \<lparr>st_id = ''orly'', st_name = ''Paris Orly Airport'', st_type = Airport,
      st_location = \<lparr>geo_lat = 48.725278, geo_lng = 2.359444\<rparr>,
      st_address = ''94390 Orly'', st_district = None,
      st_terminals = [''Terminal 1'', ''Terminal 2'', ''Terminal 3'', ''Terminal 4'']\<rparr>]"

definition RIGHT_BANK_STATIONS :: "station list" where
  "RIGHT_BANK_STATIONS = [
     \<lparr>st_id = ''haussmann-chaussee-antin'',
      st_name = ''Haussmann / Chauss'' @ e_acute @ ''e d'Antin'', st_type = Taxi,
      st_location = \<lparr>geo_lat = 48.872837984471694, geo_lng = 2.3335711538224615\<rparr>,
      st_address = ''23 Boulevard Haussmann'', st_district = Some ''right-bank'',
      st_terminals = []\<rparr>,
     \<lparr>st_id = ''opera'', st_name = ''Op'' @ e_acute @ ''ra'', st_type = Taxi,
      st_location = \<lparr>geo_lat = 48.86802072101611, geo_lng = 2.3336487113910276\<rparr>,
      st_address = ''30 Avenue de l'Op'' @ e_acute @ ''ra'', st_district = Some ''right-bank'',
      st_terminals = []\<rparr>]"

definition LEFT_BANK_STATIONS :: "station list" where
  "LEFT_BANK_STATIONS = [
     \<lparr>st_id = ''saint-antoine'', st_name = ''Rue Saint Antoine'', st_type = Taxi,
      st_location = \<lparr>geo_lat = 48.85336439015277, geo_lng = 2.3667863819295443\<rparr>,
      st_address = ''13 Rue Saint-Antoine'', st_district = Some ''left-bank'',
      st_terminals = []\<rparr>,
     \<lparr>st_id = ''breteuil-hauy'', st_name = ''Place de Breteuil / Valentin Hauy'', st_type = Taxi,
      st_location = \<lparr>geo_lat = 48.84718552920911, geo_lng = 2.3110011131633645\<rparr>,
      st_address = ''4 Place de Breteuil'', st_district = Some ''left-bank'',
      st_terminals = []\<rparr>]"

definition TAXI_STATIONS :: "station list" where
  "TAXI_STATIONS = RIGHT_BANK_STATIONS @ LEFT_BANK_STATIONS"

definition ALL_STATIONS :: "station list" where
  "ALL_STATIONS = TRAIN_STATIONS @ AIRPORTS @ TAXI_STATIONS"

text \<open>\<open>ALL_STATIONS.find(s => s.id === id)\<close>, used by every caller of the catalogue.\<close>

definition find_station :: "string \<Rightarrow> station option" where
  "find_station sid = List.find (\<lambda>s. st_id s = sid) ALL_STATIONS"

lemmas catalogue_defs = TRAIN_STATIONS_def AIRPORTS_def RIGHT_BANK_STATIONS_def
  LEFT_BANK_STATIONS_def TAXI_STATIONS_def ALL_STATIONS_def

subsection \<open>Locations and the object a fare computation reads\<close>

text \<open>The flat \<open>Location\<close> of \<open>types/booking.ts\<close>; \<open>id\<close> and \<open>name\<close> are optional.\<close>

record location =
  loc_lat :: real
  loc_lng :: real
  loc_address :: string
  loc_id :: "string option"
  loc_name :: "string option"

text \<open>
  The location \<open>SearchForm.handleSubmit\<close> stores for a chosen catalogue station: the
  station's coordinates are copied to the top level.
\<close>

definition location_of_station :: "station \<Rightarrow> location" where
  "location_of_station s =
     \<lparr>loc_lat = geo_lat (st_location s), loc_lng = geo_lng (st_location s),
      loc_address = st_address s, loc_id = Some (st_id s), loc_name = Some (st_name s)\<rparr>"

text \<open>
  \<open>calculateFare\<close> reads two properties of its arguments, \<open>id\<close> and \<open>lat\<close>. Which
  of them are defined depends on the object a caller passes: a flat \<open>Location\<close> has
  \<open>lat\<close> and maybe \<open>id\<close>; a catalogue \<open>Station\<close> has \<open>id\<close>, and its latitude is
  \<open>location.lat\<close>, so its \<open>lat\<close> property is \<open>undefined\<close>.
\<close>

record fare_point =
  fp_id :: "string option"
  fp_lat :: "real option"

definition location_point :: "location \<Rightarrow> fare_point" where
  "location_point l = \<lparr>fp_id = loc_id l, fp_lat = Some (loc_lat l)\<rparr>"

definition station_point :: "station \<Rightarrow> fare_point" where
  "station_point s = \<lparr>fp_id = Some (st_id s), fp_lat = None\<rparr>"

subsection \<open>Well-formedness of the catalogue\<close>

lemma ALL_STATIONS_ids_distinct: "distinct (map st_id ALL_STATIONS)"
  by (simp add: catalogue_defs)

lemma find_station_Some: "find_station sid = Some s \<Longrightarrow> s \<in> set ALL_STATIONS \<and> st_id s = sid"
  unfolding find_station_def by (drule find_Some_in_set) simp

lemma find_station_member: "s \<in> set ALL_STATIONS \<Longrightarrow> find_station (st_id s) = Some s"
  unfolding find_station_def by (rule find_key_distinct [OF ALL_STATIONS_ids_distinct])

lemma find_station_None: "find_station sid = None \<longleftrightarrow> sid \<notin> st_id ` set ALL_STATIONS"
  by (auto simp: find_station_def find_None_iff')

end
