(* ===== verification/Fare.thy ===== *)
theory Fare
  imports Stations
begin

text \<open>
  The fixed-rate fare calculator of \<open>src/src/utils/fareCalculator.ts\<close>: the rate
  table, the airport test by substring match on the lower-cased station id, the bank test
  by a latitude threshold, \<open>calculateFare\<close> and \<open>calculatePerPersonFare\<close>. Amounts
  are integers (every rate of the table is), the per-person fare is the real-valued
  \<open>Math.ceil(total / Math.max(1, passengers))\<close> of the source, and an integer
  characterisation of it is proved below.
\<close>

datatype airport = CDG | ORLY

datatype bank = RightBank | LeftBank

definition FIXED_RATES :: "airport \<Rightarrow> bank \<Rightarrow> int" where
  "FIXED_RATES a b =
     (case a of
        CDG \<Rightarrow> (case b of RightBank \<Rightarrow> 56 | LeftBank \<Rightarrow> 65)
      | ORLY \<Rightarrow> (case b of RightBank \<Rightarrow> 44 | LeftBank \<Rightarrow> 36))"

definition isAirport :: "string \<Rightarrow> airport option" where
  "isAirport stationId =
     (if js_includes ''cdg'' (js_lower stationId) then Some CDG
      else if js_includes ''orly'' (js_lower stationId) then Some ORLY
      else None)"

text \<open>
  \<open>location.lat < 48.8566\<close>; when \<open>lat\<close> is \<open>undefined\<close> the comparison is
  \<open>NaN < 48.8566\<close>, which is false.
\<close>

definition isLeftBank :: "fare_point \<Rightarrow> bool" where
  "isLeftBank location = (case fp_lat location of None \<Rightarrow> False | Some lat \<Rightarrow> lat < 48.8566)"

definition calculateFare :: "fare_point \<Rightarrow> fare_point \<Rightarrow> int" where
  "calculateFare pickup dropoff =
     (let pickupAirport = isAirport (js_or_empty (fp_id pickup));
          dropoffAirport = isAirport (js_or_empty (fp_id dropoff))
      in if (pickupAirport = None \<and> dropoffAirport = None)
            \<or> (pickupAirport \<noteq> None \<and> dropoffAirport \<noteq> None) then 0
         else
           let airport = (case pickupAirport of Some a \<Rightarrow> a | None \<Rightarrow> the dropoffAirport);
               nonAirportLocation = (if pickupAirport \<noteq> None then dropoff else pickup);
               isLeft = isLeftBank nonAirportLocation
           in FIXED_RATES airport (if isLeft then LeftBank else RightBank))"

definition calculatePerPersonFare :: "int \<Rightarrow> int \<Rightarrow> int" where
  "calculatePerPersonFare totalFare passengers =
     \<lceil>real_of_int totalFare / real_of_int (max 1 passengers)\<rceil>"

subsection \<open>Characteristic equations\<close>

text \<open>The bank of a point and the airport of a point, as \<open>calculateFare\<close> sees them.\<close>

definition bank_of :: "fare_point \<Rightarrow> bank" where
  "bank_of p = (if isLeftBank p then LeftBank else RightBank)"

definition airport_of :: "fare_point \<Rightarrow> airport option" where
  "airport_of p = isAirport (js_or_empty (fp_id p))"

lemma calculateFare_eq:
  "calculateFare p d =
     (case (airport_of p, airport_of d) of
        (Some a, None) \<Rightarrow> FIXED_RATES a (bank_of d)
      | (None, Some a) \<Rightarrow> FIXED_RATES a (bank_of p)
      | _ \<Rightarrow> 0)"
  by (auto simp: calculateFare_def airport_of_def bank_of_def Let_def split: option.splits)

lemma FIXED_RATES_pos: "0 < FIXED_RATES a b"
  by (simp add: FIXED_RATES_def split: airport.splits bank.splits)

lemma FIXED_RATES_values: "FIXED_RATES a b \<in> {56, 65, 44, 36}"
  by (simp add: FIXED_RATES_def split: airport.splits bank.splits)

lemma FIXED_RATES_RightBank: "FIXED_RATES a RightBank = 56 \<or> FIXED_RATES a RightBank = 44"
  by (cases a) (simp_all add: FIXED_RATES_def)

lemma bank_of_location_point:
  "bank_of (location_point l) = (if loc_lat l < 48.8566 then LeftBank else RightBank)"
  by (simp add: bank_of_def isLeftBank_def location_point_def)

lemma bank_of_station_point [simp]: "bank_of (station_point s) = RightBank"
  by (simp add: bank_of_def isLeftBank_def station_point_def)

lemma airport_of_station_point: "airport_of (station_point s) = isAirport (st_id s)"
  by (simp add: airport_of_def station_point_def js_or_empty_def)

lemma airport_of_location_point:
  "airport_of (location_point l) = isAirport (js_or_empty (loc_id l))"
  by (simp add: airport_of_def location_point_def)

subsection \<open>Per-person fare as integer arithmetic\<close>

text \<open>The ceiling of a quotient of integers by a positive integer is a floor division.\<close>

lemma ceiling_int_divide:
  assumes "0 < n"
  shows "\<lceil>real_of_int t / real_of_int n\<rceil> = - ((- t) div n)"
proof -
  have "\<lceil>real_of_int t / real_of_int n\<rceil> = - \<lfloor>real_of_int (- t) / real_of_int n\<rfloor>"
    by (simp add: ceiling_def)
  also have "\<lfloor>real_of_int (- t) / real_of_int n\<rfloor> = (- t) div n"
    by (rule floor_divide_of_int_eq)
  finally show ?thesis .
qed

lemma calculatePerPersonFare_div:
  "calculatePerPersonFare t n = - ((- t) div max 1 n)"
  unfolding calculatePerPersonFare_def by (rule ceiling_int_divide) simp

subsection \<open>Properties of the fare calculator\<close>

text \<open>
  C6: the fare is the sentinel 0 exactly when the route is not applicable, that is when
  both endpoints or neither endpoint is recognised as an airport; every applicable route
  has a positive fare.
\<close>

theorem calculateFare_zero_iff:
  "calculateFare p d = 0 \<longleftrightarrow> (airport_of p = None \<longleftrightarrow> airport_of d = None)"
  using FIXED_RATES_pos by (auto simp: calculateFare_eq split: option.splits) (metis less_irrefl)+

text \<open>Every fare is one of the four rates of the table or the sentinel 0.\<close>

theorem calculateFare_values: "calculateFare p d \<in> {0, 36, 44, 56, 65}"
  using FIXED_RATES_values by (auto simp: calculateFare_eq split: option.splits)

text \<open>
  A passenger count of zero or less is treated as one: the per-person fare is then
  the whole fare.
\<close>

theorem calculatePerPersonFare_clamp:
  "n \<le> 0 \<Longrightarrow> calculatePerPersonFare t n = calculatePerPersonFare t 1"
  by (simp add: calculatePerPersonFare_def)

theorem calculatePerPersonFare_clamp_witness:
  "(0::int) \<le> 0 \<and> calculatePerPersonFare 65 0 = calculatePerPersonFare 65 1
   \<and> calculatePerPersonFare 65 1 = 65"
  using calculatePerPersonFare_clamp [of 0 65] by (simp add: calculatePerPersonFare_div)

text \<open>
  C15: for a positive passenger count the per-person fare is the ceiling of the quotient:
  the passengers together pay at least the fare, and less than one euro each above it.
\<close>

theorem calculatePerPersonFare_ceiling:
  assumes "0 < n"
  shows "t \<le> n * calculatePerPersonFare t n \<and> n * (calculatePerPersonFare t n - 1) < t"
proof -
  have f: "calculatePerPersonFare t n = - ((- t) div n)"
    using assms by (simp add: calculatePerPersonFare_div)
  obtain q r where qr: "(- t) div n = q" "(- t) mod n = r" by blast
  have e: "n * q + r = - t"
    using qr by (metis div_mult_mod_eq mult.commute)
  have b: "0 \<le> r" "r < n" using qr assms by auto
  have m: "n * (- q) = - (n * q)" "n * (- q - 1) = - (n * q) - n"
    by (simp_all add: algebra_simps)
  show ?thesis unfolding f qr(1) using e b m by linarith
qed

theorem calculatePerPersonFare_ceiling_witness:
  "(0::int) < 3 \<and> calculatePerPersonFare 100 3 = 34 \<and> calculatePerPersonFare 120 3 = 40
   \<and> 100 \<le> 3 * calculatePerPersonFare 100 3 \<and> 3 * (calculatePerPersonFare 100 3 - 1) < 100"
  using calculatePerPersonFare_ceiling [of 3 100] by (simp add: calculatePerPersonFare_div)

end
