(* ===== verification/Calendar.thy ===== *)
theory Calendar
  imports Prelude
begin

text \<open>
  The part of the JavaScript \<open>Date\<close> object the booking validators use: a date is its
  time value in milliseconds since 1970-01-01, and the calendar fields are computed from
  it in the proleptic Gregorian calendar, as ECMA-262 (section 21.4.1) prescribes. The
  model reads the fields in UTC: the local time-zone offset of the browser is not
  modelled. The conversions between day numbers and civil dates are the closed-form
  algorithms of the ECMA day/year functions, written with floor division.
\<close>

definition msPerDay :: int where
  "msPerDay = 86400000"

definition js_day :: "timestamp \<Rightarrow> int" where
  "js_day t = t div msPerDay"

definition time_within_day :: "timestamp \<Rightarrow> int" where
  "time_within_day t = t mod msPerDay"

text \<open>Day number of a civil date (month 1 to 12); day 0 is 1970-01-01.\<close>

definition days_from_civil :: "int \<Rightarrow> int \<Rightarrow> int \<Rightarrow> int" where
  "days_from_civil y m d =
     (let y' = (if m \<le> 2 then y - 1 else y);
          era = y' div 400;
          yoe = y' - era * 400;
          doy = (153 * (if 2 < m then m - 3 else m + 9) + 2) div 5 + d - 1;
          doe = yoe * 365 + yoe div 4 - yoe div 100 + doy
      in era * 146097 + doe - 719468)"

text \<open>Civil date (year, month 1 to 12, day 1 to 31) of a day number.\<close>

definition civil_from_days :: "int \<Rightarrow> int \<times> int \<times> int" where
  "civil_from_days z =
     (let z' = z + 719468;
          era = z' div 146097;
          doe = z' - era * 146097;
          yoe = (doe - doe div 1460 + doe div 36524 - doe div 146096) div 365;
          doy = doe - (365 * yoe + yoe div 4 - yoe div 100);
          mp = (5 * doy + 2) div 153;
          d = doy - (153 * mp + 2) div 5 + 1;
          m = (if mp < 10 then mp + 3 else mp - 9);
          y = yoe + era * 400
      in (if m \<le> 2 then y + 1 else y, m, d))"

definition js_getFullYear :: "timestamp \<Rightarrow> int" where
  "js_getFullYear t = fst (civil_from_days (js_day t))"

text \<open>\<open>getMonth\<close> counts months from 0.\<close>

definition js_getMonth :: "timestamp \<Rightarrow> int" where
  "js_getMonth t = fst (snd (civil_from_days (js_day t))) - 1"

definition js_getDate :: "timestamp \<Rightarrow> int" where
  "js_getDate t = snd (snd (civil_from_days (js_day t)))"

text \<open>
  \<open>MakeDay(year, month, date)\<close>: a month outside 0 to 11 carries into the year, and a
  date past the end of the month runs on into the next one.
\<close>

definition js_make_day :: "int \<Rightarrow> int \<Rightarrow> int \<Rightarrow> int" where
  "js_make_day year month date =
     days_from_civil (year + month div 12) (month mod 12 + 1) 1 + date - 1"

text \<open>\<open>d.setMonth(m)\<close> keeps the year, the day of the month and the time of day.\<close>

definition js_setMonth :: "timestamp \<Rightarrow> int \<Rightarrow> timestamp" where
  "js_setMonth t month =
     js_make_day (js_getFullYear t) month (js_getDate t) * msPerDay + time_within_day t"

lemmas calendar_defs = js_day_def time_within_day_def msPerDay_def days_from_civil_def
  civil_from_days_def js_getFullYear_def js_getMonth_def js_getDate_def js_make_day_def
  js_setMonth_def

end
