(* ===== verification/Validation.thy ===== *)
theory Validation
  imports Stations Calendar
begin

text \<open>
  The validators of \<open>src/src/utils/validation.ts\<close>. Each returns
  \<open>{valid: true}\<close> or \<open>{valid: false, error: message}\<close>; the model returns
  \<open>Inr ()\<close> or \<open>Inl e\<close>, one constructor of \<open>validation_error\<close> per message (the
  passenger message is parameterised by the limit and the creator flag, as the template
  string is). The current time \<open>new Date()\<close> is the parameter \<open>now\<close>; the two clock
  reads of \<open>validateDateTime\<close> are taken at the same instant.
\<close>

datatype validation_error =
    InvalidPoint
  | NotAirportStationRoute
  | PassengerLimit int bool
  | BookingTooSoon
  | BookingTooFarAhead
  | InvalidCardNumber
  | InvalidExpiry
  | InvalidCvc

type_synonym validation = "validation_error + unit"

definition validateRoute :: "string \<Rightarrow> string \<Rightarrow> validation" where
  "validateRoute pickupId dropoffId =
     (case (find_station pickupId, find_station dropoffId) of
        (Some pickup, Some dropoff) \<Rightarrow>
          (if (st_type pickup = Airport \<and> (st_type dropoff = Train \<or> st_type dropoff = Taxi))
              \<or> ((st_type pickup = Train \<or> st_type pickup = Taxi) \<and> st_type dropoff = Airport)
           then Inr () else Inl NotAirportStationRoute)
      | _ \<Rightarrow> Inl InvalidPoint)"

definition validatePassengers :: "int \<Rightarrow> bool \<Rightarrow> validation" where
  "validatePassengers cnt isCreator =
     (let maxPassengers = (if isCreator then 4 else 3)
      in if cnt < 1 \<or> maxPassengers < cnt
         then Inl (PassengerLimit maxPassengers isCreator) else Inr ())"

definition validateDateTime :: "timestamp \<Rightarrow> timestamp \<Rightarrow> validation" where
  "validateDateTime now date =
     (let minTime = now + 30 * 60000
      in if date < minTime then Inl BookingTooSoon
         else let maxDate = js_setMonth now (js_getMonth now + 3)
              in if maxDate < date then Inl BookingTooFarAhead else Inr ())"

subsection \<open>Payment details\<close>

text \<open>\<open>/^\d{n}$/\<close>: exactly \<open>n\<close> ASCII digits.\<close>

definition is_digit :: "char \<Rightarrow> bool" where
  "is_digit c = (48 \<le> (of_char c :: nat) \<and> (of_char c :: nat) \<le> 57)"

definition digits_exactly :: "nat \<Rightarrow> string \<Rightarrow> bool" where
  "digits_exactly n s = (length s = n \<and> list_all is_digit s)"

text \<open>\<open>parseInt\<close> of a string of decimal digits.\<close>

definition parse_digits :: "string \<Rightarrow> int" where
  "parse_digits s = foldl (\<lambda>acc c. 10 * acc + (int (of_char c) - 48)) 0 s"

definition validatePaymentDetails :: "timestamp \<Rightarrow> string \<Rightarrow> string \<Rightarrow> string \<Rightarrow> validation" where
  "validatePaymentDetails now cardNumber expiryDate cvc =
     (if \<not> digits_exactly 16 cardNumber then Inl InvalidCardNumber
      else if \<not> digits_exactly 4 expiryDate then Inl InvalidExpiry
      else
        let month = parse_digits (take 2 expiryDate);
            year = parse_digits (''20'' @ take 2 (drop 2 expiryDate))
        in if month < 1 \<or> 12 < month \<or> year < js_getFullYear now
              \<or> (year = js_getFullYear now \<and> month < js_getMonth now + 1)
           then Inl InvalidExpiry
           else if \<not> digits_exactly 3 cvc then Inl InvalidCvc
           else Inr ())"

lemma validateRoute_Inr_D:
  assumes "validateRoute p d = Inr ()"
  shows "\<exists>ps ds. find_station p = Some ps \<and> find_station d = Some ds
                 \<and> (st_type ps = Airport) \<noteq> (st_type ds = Airport)"
proof -
  have types: "((a = Airport \<and> (b = Train \<or> b = Taxi)) \<or> ((a = Train \<or> a = Taxi) \<and> b = Airport))
                \<Longrightarrow> (a = Airport) \<noteq> (b = Airport)" for a b
    by (cases a; cases b) simp_all
  from assms show ?thesis
    by (auto simp: validateRoute_def dest: types split: option.splits if_splits)
qed

subsection \<open>Properties of the route validator\<close>

text \<open>
  C4: a route is accepted exactly when both ids are in the catalogue and exactly one of
  the two stations is an airport (the other then being a train or taxi station).
\<close>

theorem validateRoute_valid_iff:
  "validateRoute p d = Inr () \<longleftrightarrow>
     (\<exists>ps ds. find_station p = Some ps \<and> find_station d = Some ds
              \<and> (st_type ps = Airport) \<noteq> (st_type ds = Airport))"
proof -
  have types: "((a = Airport \<and> (b = Train \<or> b = Taxi)) \<or> ((a = Train \<or> a = Taxi) \<and> b = Airport))
                \<longleftrightarrow> (a = Airport) \<noteq> (b = Airport)" for a b
    by (cases a; cases b) simp_all
  show ?thesis by (auto simp: validateRoute_def types split: option.splits)
qed

theorem validateRoute_valid_iff_witness:
  "validateRoute ''cdg'' ''opera'' = Inr () \<and> validateRoute ''cdg'' ''orly'' \<noteq> Inr ()"
proof -
  have "\<exists>ps ds. find_station ''cdg'' = Some ps \<and> find_station ''opera'' = Some ds
              \<and> (st_type ps = Airport) \<noteq> (st_type ds = Airport)"
    by (simp add: find_station_def catalogue_defs)
  moreover have "\<not> (\<exists>ps ds. find_station ''cdg'' = Some ps \<and> find_station ''orly'' = Some ds
              \<and> (st_type ps = Airport) \<noteq> (st_type ds = Airport))"
    by (simp add: find_station_def catalogue_defs)
  ultimately show ?thesis
    using validateRoute_valid_iff [of "''cdg''" "''opera''"] validateRoute_valid_iff [of "''cdg''" "''orly''"]
    by blast
qed

end
