(* ===== verification/Trips.thy ===== *)
theory Trips
  imports Fare Validation
begin

text \<open>
  Shared trips: the \<open>Trip\<close> document of \<open>src/src/types/trip.ts\<close>, the Firestore
  \<open>trips\<close> collection as a map from document ids to trips, trip creation
  (\<open>hooks/useCreateTrip.ts\<close>) and the three join paths of the code:
  \<open>hooks/useJoinTrip.ts\<close>, \<open>useTrip(...).joinTrip\<close> of \<open>hooks/useTrip.ts\<close> and
  the \<open>handleJoin\<close> handler of \<open>components/trip/TripDetails.tsx\<close> that calls it.
  A handler returns the new store and the toasts it shows, in order. External results
  are parameters: whether the user completed the share dialog (\<open>shareTrip\<close>), whether
  the backend rejected a write, the server time and the id \<open>addDoc\<close> assigns. The
  React \<open>loading\<close> flags are not modelled: every handler resets them in \<open>finally\<close>.
\<close>

datatype trip_status = Open | Full | Cancelled | Completed

text \<open>
  The stored document. \<open>pickup\<close> and \<open>dropoff\<close> hold the catalogue station objects,
  which is what \<open>useCreateTrip\<close> writes.
\<close>

record trip =
  creatorId :: uid
  participants :: "uid list"
  pickup :: station
  dropoff :: station
  scheduledFor :: timestamp
  maxPassengers :: int
  currentPassengers :: int
  availableSeats :: int
  status :: trip_status
  fare :: int
  perPersonFare :: "int option"
  createdAt :: timestamp
  updatedAt :: timestamp

type_synonym trip_store = "doc_id \<Rightarrow> trip option"

datatype message =
    CreateLoginRequired | RouteRejected validation_error | InvalidLocation | TripCreated
  | CreateNoPermission | CreateFailed
  | JoinLoginRequired | JoinOwnTrip | JoinAlreadyJoined | JoinTripFull | JoinShareRequired
  | JoinFailed | JoinSucceeded | AlreadyPartOfTrip | JoinedTrip
  | DetailsLoginRequired | DetailsOwnTrip | DetailsAlreadyJoined | DetailsJoined

subsection \<open>Trip creation\<close>

record create_trip_data =
  ct_pickup :: string
  ct_dropoff :: string
  ct_date :: timestamp
  ct_availableSeats :: int

text \<open>The document \<open>createTrip\<close> writes (its \<open>tripData\<close>).\<close>

definition new_trip :: "uid \<Rightarrow> station \<Rightarrow> station \<Rightarrow> create_trip_data \<Rightarrow> timestamp \<Rightarrow> trip" where
  "new_trip u pickupStation dropoffStation data now =
     \<lparr>creatorId = u, participants = [u], pickup = pickupStation, dropoff = dropoffStation,
      scheduledFor = ct_date data, maxPassengers = 4, currentPassengers = 1,
      availableSeats = ct_availableSeats data, status = Open,
      fare = calculateFare (station_point pickupStation) (station_point dropoffStation),
      perPersonFare = None, createdAt = now, updatedAt = now\<rparr>"

text \<open>\<open>addResult\<close> is the outcome of \<open>addDoc\<close>: an error or the new document's id.\<close>

definition createTrip ::
  "uid option \<Rightarrow> create_trip_data \<Rightarrow> timestamp \<Rightarrow> backend_error + doc_id \<Rightarrow> trip_store
   \<Rightarrow> doc_id option \<times> trip_store \<times> message toast list" where
  "createTrip user data now addResult store =
     (case user of
        None \<Rightarrow> (None, store, [ToastError CreateLoginRequired])
      | Some u \<Rightarrow>
          (case validateRoute (ct_pickup data) (ct_dropoff data) of
             Inl e \<Rightarrow> (None, store, [ToastError (RouteRejected e)])
           | Inr _ \<Rightarrow>
               (case (find_station (ct_pickup data), find_station (ct_dropoff data)) of
                  (Some ps, Some ds) \<Rightarrow>
                    (case addResult of
                       Inl PermissionDenied \<Rightarrow> (None, store, [ToastError CreateNoPermission])
                     | Inl BackendFailure \<Rightarrow> (None, store, [ToastError CreateFailed])
                     | Inr tid \<Rightarrow>
                         (Some tid, store(tid \<mapsto> new_trip u ps ds data now),
                          [ToastSuccess TripCreated]))
                | _ \<Rightarrow> (None, store, [ToastError InvalidLocation]))))"

subsection \<open>Joining\<close>

text \<open>
  The update both join hooks send: \<open>arrayUnion\<close> and \<open>increment\<close> act on the stored
  document \<open>doc\<close>, while the new status is computed from the client's snapshot
  \<open>snap\<close>.
\<close>

definition join_update :: "trip \<Rightarrow> uid \<Rightarrow> timestamp \<Rightarrow> trip \<Rightarrow> trip" where
  "join_update snap u now doc =
     doc\<lparr>participants := array_union (participants doc) u,
         currentPassengers := currentPassengers doc + 1,
         status := (if maxPassengers snap \<le> currentPassengers snap + 1 then Full else Open),
         updatedAt := now\<rparr>"

text \<open>Firestore \<open>updateDoc\<close>: fails on a rejected write or a missing document.\<close>

definition update_doc ::
  "trip_store \<Rightarrow> doc_id \<Rightarrow> (trip \<Rightarrow> trip) \<Rightarrow> backend_error option \<Rightarrow> trip_store option" where
  "update_doc store tid f fault =
     (case fault of
        Some _ \<Rightarrow> None
      | None \<Rightarrow> (case store tid of None \<Rightarrow> None | Some doc \<Rightarrow> Some (store(tid \<mapsto> f doc))))"

definition useJoinTrip_joinTrip ::
  "doc_id \<Rightarrow> uid option \<Rightarrow> trip \<Rightarrow> bool \<Rightarrow> backend_error option \<Rightarrow> timestamp \<Rightarrow> trip_store
   \<Rightarrow> bool \<times> trip_store \<times> message toast list" where
  "useJoinTrip_joinTrip tid user snap shared fault now store =
     (case user of
        None \<Rightarrow> (False, store, [ToastError JoinLoginRequired])
      | Some u \<Rightarrow>
          if creatorId snap = u then (False, store, [ToastError JoinOwnTrip])
          else if u \<in> set (participants snap) then (False, store, [ToastError JoinAlreadyJoined])
          else if maxPassengers snap \<le> currentPassengers snap
          then (False, store, [ToastError JoinTripFull])
          else if \<not> shared then (False, store, [ToastError JoinShareRequired])
          else (case update_doc store tid (join_update snap u now) fault of
                  None \<Rightarrow> (False, store, [ToastError JoinFailed])
                | Some store' \<Rightarrow> (True, store', [ToastSuccess JoinSucceeded])))"

text \<open>\<open>useTrip(tripId).joinTrip(userId)\<close>; \<open>snap\<close> is the hook's \<open>trip\<close> state.\<close>

definition useTrip_joinTrip ::
  "doc_id \<Rightarrow> trip option \<Rightarrow> uid \<Rightarrow> bool \<Rightarrow> backend_error option \<Rightarrow> timestamp \<Rightarrow> trip_store
   \<Rightarrow> trip_store \<times> message toast list" where
  "useTrip_joinTrip tid snap userId shared fault now store =
     (case snap of
        None \<Rightarrow> (store, [])
      | Some t \<Rightarrow>
          if maxPassengers t \<le> currentPassengers t then (store, [ToastError JoinTripFull])
          else if userId \<in> set (participants t) then (store, [ToastError AlreadyPartOfTrip])
          else if \<not> shared then (store, [ToastError JoinShareRequired])
          else (case update_doc store tid (join_update t userId now) fault of
                  None \<Rightarrow> (store, [ToastError JoinFailed])
                | Some store' \<Rightarrow> (store', [ToastSuccess JoinedTrip])))"

text \<open>
  \<open>TripDetails.handleJoin\<close>: its own guards, then \<open>joinTrip\<close>, which reports its
  failures by toasts and never throws, then a second share and a success toast. The
  boolean result is the redirection to the login page.
\<close>

definition handleJoin ::
  "doc_id \<Rightarrow> uid option \<Rightarrow> trip option \<Rightarrow> bool \<Rightarrow> backend_error option \<Rightarrow> timestamp
   \<Rightarrow> trip_store \<Rightarrow> trip_store \<times> message toast list \<times> bool" where
  "handleJoin tid user snap shared fault now store =
     (case user of
        None \<Rightarrow> (store, [ToastError DetailsLoginRequired], True)
      | Some u \<Rightarrow>
          (case snap of
             None \<Rightarrow> (store, [], False)
           | Some t \<Rightarrow>
               if creatorId t = u then (store, [ToastError DetailsOwnTrip], False)
               else if u \<in> set (participants t) then (store, [ToastError DetailsAlreadyJoined], False)
               else
                 (let (store', msgs) = useTrip_joinTrip tid snap u shared fault now store
                  in (store', msgs @ [ToastSuccess DetailsJoined], False))))"

text \<open>The \<open>disabled\<close> condition of the join button of \<open>TripDetails\<close>.\<close>

definition join_button_disabled :: "bool \<Rightarrow> trip \<Rightarrow> uid option \<Rightarrow> timestamp \<Rightarrow> bool" where
  "join_button_disabled joining t user now =
     (joining \<or> maxPassengers t - currentPassengers t = 0 \<or> user = Some (creatorId t)
      \<or> js_or_empty user \<in> set (participants t) \<or> scheduledFor t < now)"

subsection \<open>Invariant of a stored trip\<close>

text \<open>
  What every stored trip should satisfy (spec, section 3): participants are unique and
  include the creator, \<open>currentPassengers\<close> counts them, the count stays within the
  capacity, and a trip that is neither cancelled nor completed is \<open>full\<close> exactly when
  the count has reached the capacity.
\<close>

definition trip_inv :: "trip \<Rightarrow> bool" where
  "trip_inv t \<longleftrightarrow>
     distinct (participants t) \<and> creatorId t \<in> set (participants t)
     \<and> currentPassengers t = int (length (participants t))
     \<and> currentPassengers t \<le> maxPassengers t
     \<and> (status t \<in> {Open, Full} \<longrightarrow> (status t = Full \<longleftrightarrow> maxPassengers t \<le> currentPassengers t))"

definition store_inv :: "trip_store \<Rightarrow> bool" where
  "store_inv store \<longleftrightarrow> (\<forall>tid t. store tid = Some t \<longrightarrow> trip_inv t)"

text \<open>A trip one seat short of full, used by the witnesses.\<close>

definition example_trip :: trip where
  "example_trip =
     \<lparr>creatorId = ''carla'', participants = [''carla'', ''ana'', ''ben''],
      pickup = hd AIRPORTS, dropoff = hd TAXI_STATIONS, scheduledFor = 1763000000000,
      maxPassengers = 4, currentPassengers = 3, availableSeats = 3, status = Open, fare = 56,
      perPersonFare = None, createdAt = 1762600000000, updatedAt = 1762600000000\<rparr>"

definition example_store :: trip_store where
  "example_store = [''t1'' \<mapsto> example_trip]"

subsection \<open>Characteristic lemmas\<close>

lemma update_doc_Some:
  "store tid = Some doc \<Longrightarrow> update_doc store tid f None = Some (store(tid \<mapsto> f doc))"
  by (simp add: update_doc_def)

lemma update_doc_cases:
  "update_doc store tid f fault = None
   \<or> (\<exists>doc. fault = None \<and> store tid = Some doc \<and> update_doc store tid f fault = Some (store(tid \<mapsto> f doc)))"
  by (auto simp: update_doc_def split: option.splits)

lemma join_update_participants [simp]:
  "participants (join_update snap u now doc) = array_union (participants doc) u"
  by (simp add: join_update_def)

lemma join_update_count [simp]:
  "currentPassengers (join_update snap u now doc) = currentPassengers doc + 1"
  by (simp add: join_update_def)

lemma join_update_status [simp]:
  "status (join_update snap u now doc) =
     (if maxPassengers snap \<le> currentPassengers snap + 1 then Full else Open)"
  by (simp add: join_update_def)

lemma join_update_frame [simp]:
  "maxPassengers (join_update snap u now doc) = maxPassengers doc"
  "creatorId (join_update snap u now doc) = creatorId doc"
  "availableSeats (join_update snap u now doc) = availableSeats doc"
  "fare (join_update snap u now doc) = fare doc"
  "scheduledFor (join_update snap u now doc) = scheduledFor doc"
  by (simp_all add: join_update_def)

text \<open>A join computed on a fresh snapshot of a trip with room and a new user keeps the invariant.\<close>

lemma join_update_fresh_inv:
  assumes "trip_inv doc" "u \<notin> set (participants doc)"
    and "currentPassengers doc < maxPassengers doc"
  shows "trip_inv (join_update doc u now doc)"
  using assms by (auto simp: trip_inv_def)

lemma new_trip_inv: "trip_inv (new_trip u ps ds data now)"
  by (simp add: trip_inv_def new_trip_def)

lemma store_inv_upd:
  "store_inv store \<Longrightarrow> trip_inv t \<Longrightarrow> store_inv (store(tid \<mapsto> t))"
  by (simp add: store_inv_def)

lemma useTrip_joinTrip_commit:
  assumes "store tid = Some doc" "currentPassengers t < maxPassengers t" "u \<notin> set (participants t)"
  shows "useTrip_joinTrip tid (Some t) u True None now store =
           (store(tid \<mapsto> join_update t u now doc), [ToastSuccess JoinedTrip])"
  using assms by (simp add: useTrip_joinTrip_def update_doc_def)

text \<open>Every path of \<open>useTrip(...).joinTrip\<close> leaves the store unchanged or commits the join update.\<close>

lemma useTrip_joinTrip_cases:
  "fst (useTrip_joinTrip tid snap u sh f now store) = store
   \<or> (\<exists>t doc. snap = Some t \<and> store tid = Some doc \<and> currentPassengers t < maxPassengers t
        \<and> u \<notin> set (participants t) \<and> sh \<and> f = None
        \<and> useTrip_joinTrip tid snap u sh f now store
            = (store(tid \<mapsto> join_update t u now doc), [ToastSuccess JoinedTrip]))"
  by (auto simp: useTrip_joinTrip_def update_doc_def split: option.splits)

lemma useTrip_joinTrip_fresh_inv:
  assumes "store_inv store" "store tid = snap"
  shows "store_inv (fst (useTrip_joinTrip tid snap u sh f now store))"
proof (cases "store tid")
  case None
  then show ?thesis using assms by (simp add: useTrip_joinTrip_def)
next
  case (Some doc)
  have "trip_inv doc" using assms Some by (simp add: store_inv_def)
  then show ?thesis using assms Some
    by (auto simp: useTrip_joinTrip_def update_doc_def store_inv_upd join_update_fresh_inv
             split: option.splits)
qed

lemma createTrip_store_cases:
  "fst (snd (createTrip user data now r store)) = store
   \<or> (\<exists>u ps ds tid. fst (snd (createTrip user data now r store)) = store(tid \<mapsto> new_trip u ps ds data now))"
  by (auto simp: createTrip_def split: option.splits sum.splits backend_error.splits)

lemma createTrip_Some_store:
  "fst (createTrip user data now r store) = Some tid \<Longrightarrow>
   \<exists>u ps ds. user = Some u \<and> fst (snd (createTrip user data now r store)) = store(tid \<mapsto> new_trip u ps ds data now)"
  by (auto simp: createTrip_def split: option.splits sum.splits backend_error.splits)

text \<open>When its own guards pass, \<open>handleJoin\<close> is \<open>joinTrip\<close> followed by a success toast.\<close>

lemma handleJoin_calls_joinTrip:
  assumes "u \<noteq> creatorId t" "u \<notin> set (participants t)"
  shows "handleJoin tid (Some u) (Some t) sh f now store =
           (fst (useTrip_joinTrip tid (Some t) u sh f now store),
            snd (useTrip_joinTrip tid (Some t) u sh f now store) @ [ToastSuccess DetailsJoined], False)"
  using assms by (simp add: handleJoin_def split_def Let_def)

lemma example_trip_inv: "trip_inv example_trip"
  by (simp add: trip_inv_def example_trip_def)

lemma example_store_inv: "store_inv example_store"
  by (simp add: store_inv_def example_store_def example_trip_inv)

subsection \<open>Properties of creation and joining\<close>

text \<open>
  C2: a join through the trip page, decided on the current document, keeps every stored
  trip consistent: participants unique and including the creator, the count equal to the
  number of participants and within the capacity, and \<open>full\<close> exactly at capacity.
\<close>

theorem handleJoin_fresh_keeps_inv:
  "store_inv store \<Longrightarrow> store_inv (fst (handleJoin tid user (store tid) sh f now store))"
proof (cases "\<exists>u t. user = Some u \<and> store tid = Some t \<and> u \<noteq> creatorId t \<and> u \<notin> set (participants t)")
  case True
  then obtain u t where ut: "user = Some u" "store tid = Some t" "u \<noteq> creatorId t"
    "u \<notin> set (participants t)" by blast
  assume inv: "store_inv store"
  have "store_inv (fst (useTrip_joinTrip tid (store tid) u sh f now store))"
    using inv by (rule useTrip_joinTrip_fresh_inv) simp
  with ut show ?thesis by (simp add: handleJoin_calls_joinTrip)
next
  case False
  assume inv: "store_inv store"
  with False show ?thesis by (auto simp: handleJoin_def split: option.splits)
qed

theorem handleJoin_fresh_keeps_inv_witness:
  "store_inv example_store
   \<and> store_inv (fst (handleJoin ''t1'' (Some ''dan'') (example_store ''t1'') True None 1762700000000
                      example_store))"
  using example_store_inv handleJoin_fresh_keeps_inv [OF example_store_inv] by blast

text \<open>
  C3: creating a trip keeps every stored trip consistent, and a trip whose creation
  succeeds is stored under the returned id with its creator as sole participant, one
  passenger of four, and status \<open>open\<close>.
\<close>

theorem createTrip_keeps_inv:
  assumes "store_inv store"
  shows "store_inv (fst (snd (createTrip user data now r store)))
         \<and> (fst (createTrip user data now r store) = Some tid \<longrightarrow>
              (\<exists>u t. user = Some u \<and> fst (snd (createTrip user data now r store)) tid = Some t
                     \<and> creatorId t = u \<and> participants t = [u] \<and> currentPassengers t = 1
                     \<and> maxPassengers t = 4 \<and> status t = Open))"
proof
  show "store_inv (fst (snd (createTrip user data now r store)))"
    using assms createTrip_store_cases [of user data now r store] by (auto simp: store_inv_upd new_trip_inv)
next
  show "fst (createTrip user data now r store) = Some tid \<longrightarrow>
          (\<exists>u t. user = Some u \<and> fst (snd (createTrip user data now r store)) tid = Some t
                 \<and> creatorId t = u \<and> participants t = [u] \<and> currentPassengers t = 1
                 \<and> maxPassengers t = 4 \<and> status t = Open)"
    using createTrip_Some_store [of user data now r store tid] by (auto simp: new_trip_def)
qed

theorem createTrip_keeps_inv_witness:
  "store_inv example_store
   \<and> store_inv (fst (snd (createTrip (Some ''dan'')
        \<lparr>ct_pickup = ''opera'', ct_dropoff = ''cdg'', ct_date = 1763000000000, ct_availableSeats = 3\<rparr>
        1762700000000 (Inr ''t2'') example_store)))
   \<and> fst (createTrip (Some ''dan'')
        \<lparr>ct_pickup = ''opera'', ct_dropoff = ''cdg'', ct_date = 1763000000000, ct_availableSeats = 3\<rparr>
        1762700000000 (Inr ''t2'') example_store) = Some ''t2''
   \<and> (\<exists>u t. Some ''dan'' = Some u \<and> fst (snd (createTrip (Some ''dan'')
        \<lparr>ct_pickup = ''opera'', ct_dropoff = ''cdg'', ct_date = 1763000000000, ct_availableSeats = 3\<rparr>
        1762700000000 (Inr ''t2'') example_store)) ''t2'' = Some t
          \<and> creatorId t = u \<and> participants t = [u] \<and> currentPassengers t = 1
          \<and> maxPassengers t = 4 \<and> status t = Open)"
proof -
  have run: "fst (createTrip (Some ''dan'')
        \<lparr>ct_pickup = ''opera'', ct_dropoff = ''cdg'', ct_date = 1763000000000, ct_availableSeats = 3\<rparr>
        1762700000000 (Inr ''t2'') example_store) = Some ''t2''"
    by code_simp
  show ?thesis
    using example_store_inv run
      createTrip_keeps_inv [OF example_store_inv, of "Some ''dan''"
        "\<lparr>ct_pickup = ''opera'', ct_dropoff = ''cdg'', ct_date = 1763000000000, ct_availableSeats = 3\<rparr>"
        1762700000000 "Inr ''t2''" "''t2''"]
    by blast
qed

text \<open>
  C8: the join path of the trip page never looks at the trip's status: joining a
  cancelled trip that still has room succeeds and rewrites its status to \<open>open\<close> or
  \<open>full\<close>, where the spec requires the join to fail with \<open>TripTerminal\<close>.
\<close>

theorem handleJoin_reopens_cancelled:
  assumes "store tid = Some t" "status t = Cancelled" "currentPassengers t < maxPassengers t"
    "u \<noteq> creatorId t" "u \<notin> set (participants t)"
  shows "\<exists>t'. fst (handleJoin tid (Some u) (Some t) True None now store) tid = Some t'
              \<and> status t' \<in> {Open, Full} \<and> u \<in> set (participants t')"
  using assms by (simp add: handleJoin_calls_joinTrip useTrip_joinTrip_commit)

theorem handleJoin_reopens_cancelled_witness:
  "\<exists>t'. fst (handleJoin ''t1'' (Some ''dan'') (Some (example_trip\<lparr>status := Cancelled\<rparr>)) True None
            1762700000000 [''t1'' \<mapsto> example_trip\<lparr>status := Cancelled\<rparr>]) ''t1'' = Some t'
        \<and> status t' \<in> {Open, Full} \<and> ''dan'' \<in> set (participants t')"
  by (rule handleJoin_reopens_cancelled) (simp_all add: example_trip_def)

text \<open>
  C9: when the trip is full, \<open>joinTrip\<close> refuses the join and shows \<open>This trip is
  full\<close>, but \<open>handleJoin\<close> goes on and shows its success message as well; the store
  is unchanged.
\<close>

theorem handleJoin_full_reports_success:
  assumes "maxPassengers t \<le> currentPassengers t" "u \<noteq> creatorId t" "u \<notin> set (participants t)"
  shows "handleJoin tid (Some u) (Some t) sh f now store
           = (store, [ToastError JoinTripFull, ToastSuccess DetailsJoined], False)"
  using assms by (simp add: handleJoin_calls_joinTrip useTrip_joinTrip_def)

theorem handleJoin_full_reports_success_witness:
  "handleJoin ''t1'' (Some ''dan'') (Some (example_trip\<lparr>maxPassengers := 3\<rparr>)) True None 1762700000000
      example_store
   = (example_store, [ToastError JoinTripFull, ToastSuccess DetailsJoined], False)"
  by (rule handleJoin_full_reports_success) (simp_all add: example_trip_def)

text \<open>
  C10: trip creation succeeds exactly when a user is signed in, the route passes
  \<open>validateRoute\<close> and the backend accepts the write; the second catalogue lookup of
  \<open>createTrip\<close> can never fail after the route check.
\<close>

theorem createTrip_success_iff:
  "fst (createTrip user data now r store) = Some tid \<longleftrightarrow>
     user \<noteq> None \<and> validateRoute (ct_pickup data) (ct_dropoff data) = Inr () \<and> r = Inr tid"
  by (auto simp: createTrip_def dest!: validateRoute_Inr_D
           split: option.splits sum.splits backend_error.splits)

end
