(* ===== verification/TripRace.thy ===== *)
theory TripRace
  imports Trips
begin

text \<open>
  Concurrent joins. Each browser holds its own copy of the trip, delivered by the
  \<open>onSnapshot\<close> listener of \<open>useTrip\<close>, and decides on that copy whether a seat is
  left and which status to write; the server applies \<open>arrayUnion\<close> and
  \<open>increment(1)\<close> to the current document. The system is the server's trip collection
  and the clients' copies; a step is a snapshot delivery to one client or one client's
  join. The spec requires the join to be an atomic conditional update (spec, section 5);
  the code is not, and the theorems below show what two interleaved joins do. A client
  that commits on a fresh copy (the serial discipline) keeps every stored trip
  consistent.
\<close>

record join_sys =
  server :: trip_store
  views :: "nat \<Rightarrow> trip option"

inductive join_step :: "doc_id \<Rightarrow> join_sys \<Rightarrow> join_sys \<Rightarrow> bool" for tid where
  sync: "join_step tid s (s\<lparr>views := (views s)(i := server s tid)\<rparr>)"
| commit: "join_step tid s (s\<lparr>server := fst (useTrip_joinTrip tid (views s i) u sh f now (server s))\<rparr>)"

inductive serial_step :: "doc_id \<Rightarrow> trip_store \<Rightarrow> trip_store \<Rightarrow> bool" for tid where
  fresh: "serial_step tid store (fst (useTrip_joinTrip tid (store tid) u sh f now store))"

text \<open>A sequence of joins, each decided on the current document.\<close>

definition serial_joins :: "doc_id \<Rightarrow> uid list \<Rightarrow> timestamp \<Rightarrow> trip_store \<Rightarrow> trip_store" where
  "serial_joins tid us now store =
     foldl (\<lambda>st u. fst (useTrip_joinTrip tid (st tid) u True None now st)) store us"

subsection \<open>Two joins from one snapshot\<close>

text \<open>C1: overbooking.\<close>

theorem stale_joins_overbook:
  assumes "trip_inv t" "currentPassengers t + 1 = maxPassengers t" "store tid = Some t"
    and "u \<notin> set (participants t)" "v \<notin> set (participants t)" "u \<noteq> v"
  shows "case fst (useTrip_joinTrip tid (Some t) v True None n
                    (fst (useTrip_joinTrip tid (Some t) u True None m store))) tid of
           None \<Rightarrow> False
         | Some t' \<Rightarrow> currentPassengers t' = maxPassengers t' + 1
                      \<and> participants t' = participants t @ [u, v]"
  using assms by (simp add: useTrip_joinTrip_commit)

theorem stale_joins_overbook_witness:
  "trip_inv example_trip \<and> currentPassengers example_trip + 1 = maxPassengers example_trip
   \<and> example_store ''t1'' = Some example_trip
   \<and> ''dan'' \<notin> set (participants example_trip) \<and> ''eve'' \<notin> set (participants example_trip)
   \<and> (case fst (useTrip_joinTrip ''t1'' (Some example_trip) ''eve'' True None 1762700000002
                    (fst (useTrip_joinTrip ''t1'' (Some example_trip) ''dan'' True None 1762700000001
                      example_store))) ''t1'' of
          None \<Rightarrow> False
        | Some t' \<Rightarrow> currentPassengers t' = maxPassengers t' + 1
                     \<and> participants t' = participants example_trip @ [''dan'', ''eve''])"
proof -
  have h: "trip_inv example_trip" "currentPassengers example_trip + 1 = maxPassengers example_trip"
    "example_store ''t1'' = Some example_trip"
    "''dan'' \<notin> set (participants example_trip)" "''eve'' \<notin> set (participants example_trip)"
    "''dan'' \<noteq> ''eve''"
    by (simp_all add: trip_inv_def example_store_def example_trip_def)
  show ?thesis
    using h stale_joins_overbook [where t = example_trip and store = example_store
        and tid = "''t1''" and u = "''dan''" and v = "''eve''"
        and m = 1762700000001 and n = 1762700000002, OF h]
    by blast
qed

text \<open>
  C11: two joins decided on one snapshot of a trip with two free seats both succeed and
  fill it, but both write the status computed from the snapshot, so the full trip is left
  \<open>open\<close>.
\<close>

theorem stale_joins_leave_full_open:
  assumes "trip_inv t" "currentPassengers t + 2 = maxPassengers t" "store tid = Some t"
    and "u \<notin> set (participants t)" "v \<notin> set (participants t)" "u \<noteq> v"
  shows "case fst (useTrip_joinTrip tid (Some t) v True None n
                    (fst (useTrip_joinTrip tid (Some t) u True None m store))) tid of
           None \<Rightarrow> False
         | Some t' \<Rightarrow> currentPassengers t' = maxPassengers t' \<and> status t' = Open \<and> \<not> trip_inv t'"
  using assms by (simp add: useTrip_joinTrip_commit trip_inv_def)

theorem stale_joins_leave_full_open_witness:
  "case fst (useTrip_joinTrip ''t1'' (Some (example_trip\<lparr>maxPassengers := 5\<rparr>)) ''eve'' True None 2
              (fst (useTrip_joinTrip ''t1'' (Some (example_trip\<lparr>maxPassengers := 5\<rparr>)) ''dan'' True None 1
                 [''t1'' \<mapsto> example_trip\<lparr>maxPassengers := 5\<rparr>]))) ''t1'' of
     None \<Rightarrow> False
   | Some t' \<Rightarrow> currentPassengers t' = maxPassengers t' \<and> status t' = Open \<and> \<not> trip_inv t'"
  by (rule stale_joins_leave_full_open) (simp_all add: example_trip_def trip_inv_def)

lemma serial_step_inv: "serial_step tid st st' \<Longrightarrow> store_inv st \<Longrightarrow> store_inv st'"
  by (induction rule: serial_step.induct) (simp add: useTrip_joinTrip_fresh_inv)

text \<open>
  C12: under the serial discipline, where every join is decided on the current document,
  every reachable collection of trips is consistent (rule induction over the steps).
\<close>

theorem serial_joins_keep_inv:
  assumes "(serial_step tid)\<^sup>*\<^sup>* st0 st" "store_inv st0"
  shows "store_inv st"
  using assms by (induction rule: rtranclp_induct) (auto intro: serial_step_inv)

theorem serial_joins_keep_inv_witness:
  "(serial_step ''t1'')\<^sup>*\<^sup>* example_store
      (fst (useTrip_joinTrip ''t1'' (example_store ''t1'') ''dan'' True None 1 example_store))
   \<and> store_inv (fst (useTrip_joinTrip ''t1'' (example_store ''t1'') ''dan'' True None 1 example_store))"
proof -
  have run: "(serial_step ''t1'')\<^sup>*\<^sup>* example_store
      (fst (useTrip_joinTrip ''t1'' (example_store ''t1'') ''dan'' True None 1 example_store))"
    by (rule r_into_rtranclp) (rule serial_step.fresh)
  with serial_joins_keep_inv [OF run example_store_inv] show ?thesis by blast
qed

text \<open>
  In the interleaving semantics, two clients that receive the same snapshot of a trip
  with one free seat and then both join reach an overbooked trip, from any state.
\<close>

lemma join_step_reaches_overbook:
  assumes "server s tid = Some t" "currentPassengers t + 1 = maxPassengers t"
    and "u \<notin> set (participants t)" "v \<notin> set (participants t)" "(i::nat) \<noteq> j"
  shows "\<exists>s'. (join_step tid)\<^sup>*\<^sup>* s s'
              \<and> (case server s' tid of None \<Rightarrow> False | Some t' \<Rightarrow> maxPassengers t' < currentPassengers t')"
proof -
  let ?s1 = "s\<lparr>views := (views s)(i := server s tid)\<rparr>"
  let ?s2 = "?s1\<lparr>views := (views ?s1)(j := server ?s1 tid)\<rparr>"
  let ?s3 = "?s2\<lparr>server := fst (useTrip_joinTrip tid (views ?s2 i) u True None m (server ?s2))\<rparr>"
  let ?s4 = "?s3\<lparr>server := fst (useTrip_joinTrip tid (views ?s3 j) v True None n (server ?s3))\<rparr>"
  have run: "(join_step tid)\<^sup>*\<^sup>* s ?s4"
    using join_step.sync [of tid s i] join_step.sync [of tid ?s1 j]
      join_step.commit [of tid ?s2 i u True None m] join_step.commit [of tid ?s3 j v True None n]
    by (meson r_into_rtranclp rtranclp.rtrancl_into_rtrancl)
  have v2: "views ?s2 i = Some t" "views ?s2 j = Some t" "server ?s2 = server s"
    using assms by simp_all
  then have s3: "server ?s3 = (server s)(tid \<mapsto> join_update t u m t)"
    using assms by (simp add: useTrip_joinTrip_commit)
  have "server ?s4 = (server s)(tid \<mapsto> join_update t v n (join_update t u m t))"
    using assms v2 s3 by (simp add: useTrip_joinTrip_commit)
  then have "case server ?s4 tid of None \<Rightarrow> False | Some t' \<Rightarrow> maxPassengers t' < currentPassengers t'"
    using assms(2) by (simp add: join_update_def)
  with run show ?thesis by blast
qed

subsection \<open>Filling a trip\<close>

lemma serial_joins_Cons:
  "serial_joins tid (u # us) now store
   = serial_joins tid us now (fst (useTrip_joinTrip tid (store tid) u True None now store))"
  by (simp add: serial_joins_def)

lemma serial_joins_run: "(serial_step tid)\<^sup>*\<^sup>* store (serial_joins tid us now store)"
proof (induction us arbitrary: store)
  case Nil
  then show ?case by (simp add: serial_joins_def)
next
  case (Cons u us)
  have "serial_step tid store (fst (useTrip_joinTrip tid (store tid) u True None now store))"
    by (rule serial_step.fresh)
  with Cons.IH show ?case by (simp add: serial_joins_Cons converse_rtranclp_into_rtranclp)
qed

lemma serial_joins_fill_aux:
  assumes "store_inv store" "store tid = Some t" "distinct us" "us \<noteq> []"
    and "set us \<inter> set (participants t) = {}"
    and "int (length us) = maxPassengers t - currentPassengers t"
  shows "\<exists>t'. serial_joins tid us now store tid = Some t' \<and> status t' = Full
              \<and> currentPassengers t' = maxPassengers t'
              \<and> set (participants t) \<union> set us \<subseteq> set (participants t')"
  using assms
proof (induction us arbitrary: store t)
  case Nil
  then show ?case by simp
next
  case (Cons u us)
  let ?t1 = "join_update t u now t"
  let ?s1 = "store(tid \<mapsto> ?t1)"
  have room: "currentPassengers t < maxPassengers t" using Cons.prems(6) by simp
  have new: "u \<notin> set (participants t)" using Cons.prems(5) by auto
  have step: "fst (useTrip_joinTrip tid (store tid) u True None now store) = ?s1"
    using useTrip_joinTrip_commit [where store = store and tid = tid and doc = t, OF Cons.prems(2) room new] Cons.prems(2) by simp
  have inv1: "store_inv ?s1"
    using useTrip_joinTrip_fresh_inv [where tid = tid and u = u and sh = True and f = None and now = now, OF Cons.prems(1) refl] step by simp
  show ?case
  proof (cases "us = []")
    case True
    with Cons.prems(6) show ?thesis
      by (auto simp: serial_joins_Cons step serial_joins_def)
  next
    case False
    have p2: "?s1 tid = Some ?t1" by simp
    have p3: "distinct us" using Cons.prems(3) by simp
    have p5: "set us \<inter> set (participants ?t1) = {}" using Cons.prems(3,5) by auto
    have p6: "int (length us) = maxPassengers ?t1 - currentPassengers ?t1" using Cons.prems(6) by simp
    obtain t' where h: "serial_joins tid us now ?s1 tid = Some t'" "status t' = Full"
        "currentPassengers t' = maxPassengers t'" "set (participants ?t1) \<union> set us \<subseteq> set (participants t')"
      using Cons.IH [OF inv1 p2 p3 False p5 p6] by blast
    have "serial_joins tid (u # us) now store tid = Some t'"
      using h(1) by (simp only: serial_joins_Cons step)
    moreover have "set (participants t) \<union> set (u # us) \<subseteq> set (participants t')"
      using h(4) by auto
    ultimately show ?thesis using h(2,3) by blast
  qed
qed

text \<open>
  C30: progress of the serial discipline. From a consistent collection, a trip with free
  seats is filled by as many distinct new users as it has free seats, each joining on the
  current document: the run consists of serial steps and ends with a full trip holding all
  of them.
\<close>

theorem serial_joins_fill:
  assumes "store_inv store" "store tid = Some t" "currentPassengers t < maxPassengers t"
    and "distinct us" "set us \<inter> set (participants t) = {}"
    and "int (length us) = maxPassengers t - currentPassengers t"
  shows "(serial_step tid)\<^sup>*\<^sup>* store (serial_joins tid us now store)
         \<and> (\<exists>t'. serial_joins tid us now store tid = Some t' \<and> status t' = Full
                 \<and> currentPassengers t' = maxPassengers t' \<and> set us \<subseteq> set (participants t'))"
proof -
  have "us \<noteq> []" using assms(3,6) by auto
  from serial_joins_fill_aux [OF assms(1,2,4) this assms(5,6)] serial_joins_run show ?thesis by blast
qed

theorem serial_joins_fill_witness:
  "(serial_step ''t1'')\<^sup>*\<^sup>* example_store (serial_joins ''t1'' [''dan''] 1 example_store)
   \<and> (\<exists>t'. serial_joins ''t1'' [''dan''] 1 example_store ''t1'' = Some t' \<and> status t' = Full
           \<and> currentPassengers t' = maxPassengers t' \<and> set [''dan''] \<subseteq> set (participants t'))"
  by (rule serial_joins_fill [OF example_store_inv, where t = example_trip])
     (simp_all add: example_store_def example_trip_def)

end
