(* ===== verification/Stores.thy ===== *)
theory Stores
  imports Stations
begin

text \<open>
  The three zustand stores of \<open>src/src/stores\<close>. A store is a record of its state
  fields; each action is a function from the state to the new state, as the \<open>set\<close>
  callback computes it. The notification store's actions are also collected in a
  datatype with one step function, so that its invariant is proved once per action and
  then for any sequence of actions.
\<close>

subsection \<open>Notifications (\<open>stores/notificationStore.ts\<close>, \<open>types/notification.ts\<close>)\<close>

datatype notification_type = TripUpdate | TripCancelled | ParticipantJoined | ParticipantLeft

record notification =
  n_id :: string
  n_userId :: uid
  n_tripId :: "doc_id option"
  n_type :: notification_type
  n_title :: string
  n_message :: string
  n_read :: bool
  n_createdAt :: timestamp

record notification_state =
  notifications :: "notification list"
  unreadCount :: int
  ns_loading :: bool
  ns_error :: "string option"

definition notification_init :: notification_state where
  "notification_init = \<lparr>notifications = [], unreadCount = 0, ns_loading = True, ns_error = None\<rparr>"

definition count_unread :: "notification list \<Rightarrow> int" where
  "count_unread ns = int (length (filter (\<lambda>n. \<not> n_read n) ns))"

definition setNotifications :: "notification list \<Rightarrow> notification_state \<Rightarrow> notification_state" where
  "setNotifications ns st = st\<lparr>notifications := ns, unreadCount := count_unread ns\<rparr>"

definition addNotification :: "notification \<Rightarrow> notification_state \<Rightarrow> notification_state" where
  "addNotification n st =
     st\<lparr>notifications := n # notifications st,
        unreadCount := unreadCount st + (if n_read n then 0 else 1)\<rparr>"

text \<open>
  \<open>markAsRead(id)\<close> subtracts \<open>find(...)?.read ? 0 : 1\<close>: when no notification has
  the id, \<open>find\<close> gives \<open>undefined\<close>, whose \<open>?.read\<close> is falsy, so one is
  subtracted.
\<close>

definition markAsRead :: "string \<Rightarrow> notification_state \<Rightarrow> notification_state" where
  "markAsRead nid st =
     st\<lparr>notifications := map (\<lambda>n. if n_id n = nid then n\<lparr>n_read := True\<rparr> else n) (notifications st),
        unreadCount := unreadCount st
          - (case List.find (\<lambda>n. n_id n = nid) (notifications st) of
               Some n \<Rightarrow> (if n_read n then 0 else 1)
             | None \<Rightarrow> 1)\<rparr>"

definition markAllAsRead :: "notification_state \<Rightarrow> notification_state" where
  "markAllAsRead st =
     st\<lparr>notifications := map (\<lambda>n. n\<lparr>n_read := True\<rparr>) (notifications st), unreadCount := 0\<rparr>"

datatype notification_action =
    SetNotifications "notification list" | AddNotification notification | MarkAsRead string
  | MarkAllAsRead | SetLoading bool | SetError "string option"

fun notification_step :: "notification_state \<Rightarrow> notification_action \<Rightarrow> notification_state" where
  "notification_step st (SetNotifications ns) = setNotifications ns st"
| "notification_step st (AddNotification n) = addNotification n st"
| "notification_step st (MarkAsRead nid) = markAsRead nid st"
| "notification_step st MarkAllAsRead = markAllAsRead st"
| "notification_step st (SetLoading b) = st\<lparr>ns_loading := b\<rparr>"
| "notification_step st (SetError e) = st\<lparr>ns_error := e\<rparr>"

text \<open>
  The invariant the store's counter is meant to keep: \<open>unreadCount\<close> is the number of
  unread notifications in the list.
\<close>

definition unread_inv :: "notification_state \<Rightarrow> bool" where
  "unread_inv st \<longleftrightarrow> unreadCount st = count_unread (notifications st)"

text \<open>
  An action is \<open>safe\<close> when it is not a \<open>markAsRead\<close> of an id that is missing from
  the list or shared by several notifications.
\<close>

fun safe_action :: "notification_state \<Rightarrow> notification_action \<Rightarrow> bool" where
  "safe_action st (MarkAsRead nid) =
     (nid \<in> n_id ` set (notifications st) \<and> distinct (map n_id (notifications st)))"
| "safe_action st _ = True"

fun safe_run :: "notification_state \<Rightarrow> notification_action list \<Rightarrow> bool" where
  "safe_run st [] = True"
| "safe_run st (a # as) = (safe_action st a \<and> safe_run (notification_step st a) as)"

definition example_notification :: "string \<Rightarrow> bool \<Rightarrow> notification" where
  "example_notification nid r =
     \<lparr>n_id = nid, n_userId = ''carla'', n_tripId = Some ''t1'', n_type = ParticipantJoined,
      n_title = ''Nouveau participant'', n_message = [], n_read = r, n_createdAt = 1762600000000\<rparr>"

subsection \<open>Booking (\<open>stores/bookingStore.ts\<close>)\<close>

text \<open>
  \<open>fare\<close> is a JavaScript number: \<open>RideSelection\<close> stores a quotient in it, so it is
  real-valued.
\<close>

record booking_state =
  bs_pickup :: "location option"
  bs_dropoff :: "location option"
  bs_date :: "timestamp option"
  bs_passengers :: int
  bs_fare :: real

definition booking_initial :: booking_state where
  "booking_initial = \<lparr>bs_pickup = None, bs_dropoff = None, bs_date = None, bs_passengers = 1, bs_fare = 0\<rparr>"

definition setPassengers :: "int \<Rightarrow> booking_state \<Rightarrow> booking_state" where
  "setPassengers cnt st = (if 1 \<le> cnt \<and> cnt \<le> 3 then st\<lparr>bs_passengers := cnt\<rparr> else st)"

datatype booking_action =
    SetPickup "location option" | SetDropoff "location option" | SetDate "timestamp option"
  | SetPassengers int | SetFare real | Reset

fun booking_step :: "booking_state \<Rightarrow> booking_action \<Rightarrow> booking_state" where
  "booking_step st (SetPickup l) = st\<lparr>bs_pickup := l\<rparr>"
| "booking_step st (SetDropoff l) = st\<lparr>bs_dropoff := l\<rparr>"
| "booking_step st (SetDate d) = st\<lparr>bs_date := d\<rparr>"
| "booking_step st (SetPassengers n) = setPassengers n st"
| "booking_step st (SetFare a) = st\<lparr>bs_fare := a\<rparr>"
| "booking_step st Reset = booking_initial"

definition passengers_inv :: "booking_state \<Rightarrow> bool" where
  "passengers_inv st \<longleftrightarrow> 1 \<le> bs_passengers st \<and> bs_passengers st \<le> 3"

subsection \<open>Chat (\<open>stores/chatStore.ts\<close>, \<open>types/message.ts\<close>)\<close>

record chat_message =
  m_id :: string
  m_chatId :: doc_id
  m_senderId :: uid
  m_content :: string
  m_timestamp :: timestamp
  m_read :: bool

record chat =
  c_id :: doc_id
  c_participants :: "uid list"
  c_lastMessage :: "chat_message option"
  c_updatedAt :: timestamp
  c_bookingId :: "doc_id option"

record chat_state =
  cs_chats :: "chat list"
  cs_activeChat :: "chat option"
  cs_messages :: "chat_message list"
  cs_loading :: bool
  cs_error :: "string option"

definition chat_initial :: chat_state where
  "chat_initial = \<lparr>cs_chats = [], cs_activeChat = None, cs_messages = [], cs_loading = False, cs_error = None\<rparr>"

definition addMessage :: "chat_message \<Rightarrow> chat_state \<Rightarrow> chat_state" where
  "addMessage m st = st\<lparr>cs_messages := cs_messages st @ [m]\<rparr>"

datatype chat_action =
    SetChats "chat list" | SetActiveChat "chat option" | SetMessages "chat_message list"
  | SetChatLoading bool | SetChatError "string option" | AddMessage chat_message

fun chat_step :: "chat_state \<Rightarrow> chat_action \<Rightarrow> chat_state" where
  "chat_step st (SetChats cs) = st\<lparr>cs_chats := cs\<rparr>"
| "chat_step st (SetActiveChat c) = st\<lparr>cs_activeChat := c\<rparr>"
| "chat_step st (SetMessages ms) = st\<lparr>cs_messages := ms\<rparr>"
| "chat_step st (SetChatLoading b) = st\<lparr>cs_loading := b\<rparr>"
| "chat_step st (SetChatError e) = st\<lparr>cs_error := e\<rparr>"
| "chat_step st (AddMessage m) = addMessage m st"

subsection \<open>Properties of the stores\<close>

lemma count_unread_Cons [simp]:
  "count_unread (n # ns) = (if n_read n then 0 else 1) + count_unread ns"
  by (simp add: count_unread_def)

lemma count_unread_Nil [simp]: "count_unread [] = 0"
  by (simp add: count_unread_def)

lemma map_mark_absent:
  "nid \<notin> n_id ` set ns \<Longrightarrow> map (\<lambda>n. if n_id n = nid then n\<lparr>n_read := True\<rparr> else n) ns = ns"
  by (induction ns) auto

lemma find_id_absent:
  "nid \<notin> n_id ` set ns \<Longrightarrow> List.find (\<lambda>n. n_id n = nid) ns = None"
  by (induction ns) auto

lemma count_unread_mark:
  "distinct (map n_id ns) \<Longrightarrow>
   count_unread (map (\<lambda>n. if n_id n = nid then n\<lparr>n_read := True\<rparr> else n) ns)
   = count_unread ns - (case List.find (\<lambda>n. n_id n = nid) ns of
                          Some n \<Rightarrow> (if n_read n then 0 else 1) | None \<Rightarrow> 0)"
  by (induction ns) (auto simp: map_mark_absent split: option.splits)

lemma count_unread_all_read [simp]: "count_unread (map (\<lambda>n. n\<lparr>n_read := True\<rparr>) ns) = 0"
  by (induction ns) auto

lemma notification_step_keeps_unread:
  "unread_inv st \<Longrightarrow> safe_action st a \<Longrightarrow> unread_inv (notification_step st a)"
proof (cases a)
  case (MarkAsRead nid)
  assume inv: "unread_inv st" and safe: "safe_action st a"
  with MarkAsRead have "nid \<in> n_id ` set (notifications st)" "distinct (map n_id (notifications st))"
    by simp_all
  moreover from this(1) obtain m where "List.find (\<lambda>n. n_id n = nid) (notifications st) = Some m"
    by (metis (mono_tags, lifting) find_None_iff' imageE option.exhaust)
  ultimately show ?thesis using inv MarkAsRead
    by (simp add: unread_inv_def markAsRead_def count_unread_mark)
qed (auto simp: unread_inv_def setNotifications_def addNotification_def markAllAsRead_def)

lemma notification_run_keeps_unread:
  "unread_inv st \<Longrightarrow> safe_run st as \<Longrightarrow> unread_inv (foldl notification_step st as)"
  by (induction as arbitrary: st) (auto intro: notification_step_keeps_unread)

text \<open>
  The counter of unread notifications equals the number of unread notifications in
  the list after any sequence of store actions in which every \<open>markAsRead\<close> names an id
  that occurs exactly once in the list.
\<close>

theorem notification_store_counts_unread:
  assumes "safe_run notification_init as"
  shows "unreadCount (foldl notification_step notification_init as)
         = count_unread (notifications (foldl notification_step notification_init as))"
proof -
  have "unread_inv notification_init" by (simp add: unread_inv_def notification_init_def)
  from notification_run_keeps_unread [OF this assms] show ?thesis by (simp add: unread_inv_def)
qed

theorem notification_store_counts_unread_witness:
  "safe_run notification_init
     [SetNotifications [example_notification ''n1'' False, example_notification ''n2'' False],
      MarkAsRead ''n1'', AddNotification (example_notification ''n3'' False), SetLoading False]
   \<and> unreadCount (foldl notification_step notification_init
     [SetNotifications [example_notification ''n1'' False, example_notification ''n2'' False],
      MarkAsRead ''n1'', AddNotification (example_notification ''n3'' False), SetLoading False]) = 2"
proof -
  have h: "safe_run notification_init
     [SetNotifications [example_notification ''n1'' False, example_notification ''n2'' False],
      MarkAsRead ''n1'', AddNotification (example_notification ''n3'' False), SetLoading False]"
    by (simp add: notification_init_def example_notification_def setNotifications_def
                  markAsRead_def addNotification_def)
  have "count_unread (notifications (foldl notification_step notification_init
     [SetNotifications [example_notification ''n1'' False, example_notification ''n2'' False],
      MarkAsRead ''n1'', AddNotification (example_notification ''n3'' False), SetLoading False])) = 2"
    by (simp add: notification_init_def example_notification_def setNotifications_def
                  markAsRead_def addNotification_def)
  with h notification_store_counts_unread [OF h] show ?thesis by simp
qed

text \<open>
  C19: \<open>markAsRead\<close> with an id that is not in the list changes no notification but
  still decrements the counter, so the counter falls one below the number of unread
  notifications (to -1 on an empty list).
\<close>

theorem markAsRead_missing_breaks:
  "nid \<notin> n_id ` set (notifications st) \<Longrightarrow> unread_inv st \<Longrightarrow>
   unreadCount (markAsRead nid st) = count_unread (notifications (markAsRead nid st)) - 1"
  by (simp add: markAsRead_def unread_inv_def map_mark_absent find_id_absent)

theorem markAsRead_missing_breaks_witness:
  "unreadCount (markAsRead ''n9'' notification_init) = -1
   \<and> count_unread (notifications (markAsRead ''n9'' notification_init)) = 0"
proof -
  have h: "''n9'' \<notin> n_id ` set (notifications notification_init)" "unread_inv notification_init"
    by (simp_all add: notification_init_def unread_inv_def)
  from markAsRead_missing_breaks [OF h] show ?thesis
    by (simp add: markAsRead_def notification_init_def)
qed

lemma booking_step_passengers: "passengers_inv st \<Longrightarrow> passengers_inv (booking_step st a)"
  by (cases a) (auto simp: passengers_inv_def setPassengers_def booking_initial_def)

text \<open>
  Whatever sequence of actions the booking pages run on the booking store, the
  passenger count stays between 1 and 3: \<open>setPassengers\<close> ignores a value outside that
  range and \<open>reset\<close> restores 1.
\<close>

theorem booking_run_passengers: "passengers_inv (foldl booking_step booking_initial as)"
proof -
  have "passengers_inv st \<Longrightarrow> passengers_inv (foldl booking_step st as)" for st
    by (induction as arbitrary: st) (auto intro: booking_step_passengers)
  then show ?thesis by (simp add: passengers_inv_def booking_initial_def)
qed
end
