(* ===== verification/Booking.thy ===== *)
theory Booking
  imports Fare Validation Stores
begin

text \<open>
  The individual booking flow of \<open>src/src/components/booking\<close> and
  \<open>src/src/hooks/useBooking.ts\<close>: the \<open>Booking\<close> document (\<open>types/booking.ts\<close>),
  the \<open>bookings\<close> collection as a map from document ids, the two handlers that create a
  booking from the booking store (\<open>BookingStep.handleConfirm\<close> and
  \<open>useBooking.createBooking\<close>), the fare effect and the rendering of
  \<open>RideSelection\<close>, and the payment page (\<open>PaymentStep\<close>: loading the booking, the
  three card inputs, \<open>handlePayment\<close>). A handler returns its new state, the toasts it
  shows and the route it navigates to; the result of \<open>addDoc\<close>, a backend fault and
  the current time are parameters. Flags that a handler sets and resets before it returns
  (\<open>isProcessing\<close>, \<open>processing\<close>, \<open>loading\<close> of \<open>useBooking\<close>) are not
  part of the state.
\<close>

datatype booking_status = BPending | BConfirmed | BCompleted | BCancelled

datatype payment_status = PPending | PCompleted | PFailed

record booking =
  b_userId :: uid
  b_pickup :: location
  b_dropoff :: location
  b_scheduledFor :: timestamp
  b_passengers :: int
  b_fare :: real
  b_status :: booking_status
  b_paymentStatus :: payment_status
  b_createdAt :: timestamp
  b_updatedAt :: "timestamp option"
  b_driverId :: "uid option"

type_synonym booking_store = "doc_id \<Rightarrow> booking option"

datatype booking_message =
    BookLoginRequired | BookMissingFields | BookInvalidDate validation_error | BookFailed
  | BookingMissingInfo | BookingCreateFailed
  | PayBookingNotFound | PayUnauthorized | PayLoadFailed | PayFieldsRequired
  | PaySucceeded | PaymentFailed

subsection \<open>Creating a booking\<close>

text \<open>
  The document both handlers write: status and payment status \<open>'pending'\<close>, the
  server timestamp as creation time.
\<close>

definition new_booking ::
  "uid \<Rightarrow> location \<Rightarrow> location \<Rightarrow> timestamp \<Rightarrow> int \<Rightarrow> real \<Rightarrow> timestamp \<Rightarrow> booking" where
  "new_booking u pickup dropoff date passengers fare now =
     \<lparr>b_userId = u, b_pickup = pickup, b_dropoff = dropoff, b_scheduledFor = date,
      b_passengers = passengers, b_fare = fare, b_status = BPending, b_paymentStatus = PPending,
      b_createdAt = now, b_updatedAt = None, b_driverId = None\<rparr>"

text \<open>
  \<open>BookingStep.handleConfirm\<close>: login, the three fields of the booking store, the
  booking window; then the fare of the two stored locations is written to the store
  (\<open>setFare\<close>, before \<open>addDoc\<close>, so also when \<open>addDoc\<close> fails) and into the new
  document, and the page navigates to the payment of the new id.
\<close>

definition handleConfirm ::
  "uid option \<Rightarrow> timestamp \<Rightarrow> backend_error + doc_id \<Rightarrow> booking_state \<Rightarrow> booking_store
   \<Rightarrow> booking_state \<times> booking_store \<times> booking_message toast list \<times> route option" where
  "handleConfirm user now addResult bs store =
     (case user of
        None \<Rightarrow> (bs, store, [ToastError BookLoginRequired], Some RLogin)
      | Some u \<Rightarrow>
          (case (bs_pickup bs, bs_dropoff bs, bs_date bs) of
             (Some pickup, Some dropoff, Some date) \<Rightarrow>
               (case validateDateTime now date of
                  Inl e \<Rightarrow> (bs, store, [ToastError (BookInvalidDate e)], None)
                | Inr _ \<Rightarrow>
                    let fare = calculateFare (location_point pickup) (location_point dropoff);
                        bs' = bs\<lparr>bs_fare := real_of_int fare\<rparr>;
                        b = new_booking u pickup dropoff date (bs_passengers bs) (real_of_int fare) now
                    in case addResult of
                         Inl _ \<Rightarrow> (bs', store, [ToastError BookFailed], None)
                       | Inr bid \<Rightarrow> (bs', store(bid \<mapsto> b), [], Some (RPayment bid)))
           | _ \<Rightarrow> (bs, store, [ToastError BookMissingFields], None)))"

text \<open>
  \<open>useBooking.createBooking\<close>: the same document, but with the fare held by the booking
  store, and the store is reset after a successful write. It returns the new id or
  \<open>null\<close>.
\<close>

definition createBooking ::
  "uid option \<Rightarrow> timestamp \<Rightarrow> backend_error + doc_id \<Rightarrow> booking_state \<Rightarrow> booking_store
   \<Rightarrow> doc_id option \<times> booking_state \<times> booking_store \<times> booking_message toast list" where
  "createBooking user now addResult bs store =
     (case (user, bs_pickup bs, bs_dropoff bs, bs_date bs) of
        (Some u, Some pickup, Some dropoff, Some date) \<Rightarrow>
          (let b = new_booking u pickup dropoff date (bs_passengers bs) (bs_fare bs) now
           in case addResult of
                Inl _ \<Rightarrow> (None, bs, store, [ToastError BookingCreateFailed])
              | Inr bid \<Rightarrow> (Some bid, booking_initial, store(bid \<mapsto> b), []))
      | _ \<Rightarrow> (None, bs, store, [ToastError BookingMissingInfo]))"

subsection \<open>Ride selection\<close>

text \<open>
  The shared-taxi option of \<open>RideSelection\<close>: four seats, none taken, multiplier one.
  Its effect stores the fare divided by the number of travellers in the booking store.
  JavaScript's division by zero (\<open>Infinity\<close>) has no real counterpart; the booking
  store never holds zero passengers (\<open>Stores.booking_run_passengers\<close>).
\<close>

definition SHARING_maxPassengers :: int where "SHARING_maxPassengers = 4"

definition SHARING_currentPassengers :: int where "SHARING_currentPassengers = 0"

definition rideSelection_effect :: "booking_state \<Rightarrow> booking_state" where
  "rideSelection_effect bs =
     (case (bs_pickup bs, bs_dropoff bs) of
        (Some pickup, Some dropoff) \<Rightarrow>
          let baseFare = calculateFare (location_point pickup) (location_point dropoff);
              totalPassengers = SHARING_currentPassengers + bs_passengers bs
          in bs\<lparr>bs_fare := real_of_int baseFare / real_of_int totalPassengers\<rparr>
      | _ \<Rightarrow> bs)"

text \<open>
  The rendering of \<open>RideSelection\<close>: nothing without pickup, dropoff and date;
  otherwise it calls \<open>getEstimatedDuration\<close>, which \<open>utils/fareCalculator.ts\<close> does not
  export, so the imported binding is \<open>undefined\<close> and the call throws a
  \<open>TypeError\<close>. The values it would display after that call are given for reference.
\<close>

datatype render_error = NotAFunction string

record ride_view =
  rv_remainingSeats :: int
  rv_pricePerPerson :: real
  rv_available :: bool

definition rideSelection_render :: "booking_state \<Rightarrow> render_error + ride_view option" where
  "rideSelection_render bs =
     (case (bs_pickup bs, bs_dropoff bs, bs_date bs) of
        (Some pickup, Some dropoff, Some date) \<Rightarrow> Inl (NotAFunction ''getEstimatedDuration'')
      | _ \<Rightarrow> Inr None)"

definition ride_view_of :: "location \<Rightarrow> location \<Rightarrow> int \<Rightarrow> ride_view" where
  "ride_view_of pickup dropoff passengers =
     (let remainingSeats = SHARING_maxPassengers - SHARING_currentPassengers;
          totalPassengers = SHARING_currentPassengers + passengers
      in \<lparr>rv_remainingSeats = remainingSeats,
          rv_pricePerPerson = real_of_int (calculateFare (location_point pickup) (location_point dropoff))
                              / real_of_int totalPassengers,
          rv_available = (passengers \<le> remainingSeats)\<rparr>)"

text \<open>\<open>SelectionStep.handleContinue\<close>: on to the payment page when the stored fare is non-zero.\<close>

definition selection_handleContinue :: "booking_state \<Rightarrow> route option" where
  "selection_handleContinue bs = (if bs_fare bs = 0 then None else Some RBookingPayment)"

text \<open>
  The guards of \<open>BookingFlow\<close> (the \<open>book\<close> and \<open>confirmation\<close> routes need pickup,
  dropoff and date, else redirect to \<open>/booking\<close>) and the effect of \<open>SearchStep\<close>
  (with all three set it moves on to \<open>/booking/payment\<close>).
\<close>

definition bookingFlow_guard :: "booking_state \<Rightarrow> bool" where
  "bookingFlow_guard bs = (bs_pickup bs \<noteq> None \<and> bs_dropoff bs \<noteq> None \<and> bs_date bs \<noteq> None)"

definition searchStep_effect :: "booking_state \<Rightarrow> route option" where
  "searchStep_effect bs = (if bookingFlow_guard bs then Some RBookingPayment else None)"

subsection \<open>Payment (\<open>components/booking/steps/PaymentStep.tsx\<close>)\<close>

record payment_page =
  pp_loading :: bool
  pp_booking :: "booking option"
  pp_cardNumber :: string
  pp_expiryDate :: string
  pp_cvc :: string

definition payment_page_init :: payment_page where
  "payment_page_init =
     \<lparr>pp_loading = True, pp_booking = None, pp_cardNumber = [], pp_expiryDate = [], pp_cvc = []\<rparr>"

text \<open>
  The effect that loads the booking. Without a booking id or a user it returns before
  its \<open>try\<close>, so its \<open>finally\<close> does not run and the page keeps its spinner.
\<close>

definition fetchBooking ::
  "doc_id option \<Rightarrow> uid option \<Rightarrow> backend_error option \<Rightarrow> booking_store \<Rightarrow> payment_page
   \<Rightarrow> payment_page \<times> booking_message toast list \<times> route option" where
  "fetchBooking bookingId user fault store pg =
     (case (bookingId, user) of
        (Some bid, Some u) \<Rightarrow>
          (case fault of
             Some _ \<Rightarrow> (pg\<lparr>pp_loading := False\<rparr>, [ToastError PayLoadFailed], Some RBooking)
           | None \<Rightarrow>
               (case store bid of
                  None \<Rightarrow> (pg\<lparr>pp_loading := False\<rparr>, [ToastError PayBookingNotFound], Some RBooking)
                | Some b \<Rightarrow>
                    if b_userId b \<noteq> u
                    then (pg\<lparr>pp_loading := False\<rparr>, [ToastError PayUnauthorized], Some RBooking)
                    else (pg\<lparr>pp_booking := Some b, pp_loading := False\<rparr>, [], None)))
      | _ \<Rightarrow> (pg, [], None))"

text \<open>\<open>e.target.value.replace(/\\D/g, '').slice(0, n)\<close>: the digits of the input, at most \<open>n\<close>.\<close>

definition digits_prefix :: "nat \<Rightarrow> string \<Rightarrow> string" where
  "digits_prefix n s = take n (filter is_digit s)"

datatype card_field = CardNumber | ExpiryDate | Cvc

definition payment_input :: "card_field \<Rightarrow> string \<Rightarrow> payment_page \<Rightarrow> payment_page" where
  "payment_input f v pg =
     (case f of
        CardNumber \<Rightarrow> pg\<lparr>pp_cardNumber := digits_prefix 16 v\<rparr>
      | ExpiryDate \<Rightarrow> pg\<lparr>pp_expiryDate := digits_prefix 4 v\<rparr>
      | Cvc \<Rightarrow> pg\<lparr>pp_cvc := digits_prefix 3 v\<rparr>)"

text \<open>
  \<open>handlePayment\<close>: a loaded booking and a booking id, three non-blank fields, then
  (after a simulated delay) \<open>updateDoc\<close> of status and payment status, which fails on a
  backend fault or when the document no longer exists.
\<close>

definition handlePayment ::
  "doc_id option \<Rightarrow> backend_error option \<Rightarrow> timestamp \<Rightarrow> payment_page \<Rightarrow> booking_store
   \<Rightarrow> booking_store \<times> booking_message toast list \<times> route option" where
  "handlePayment bookingId fault now pg store =
     (case (pp_booking pg, bookingId) of
        (Some _, Some bid) \<Rightarrow>
          if js_trim (pp_cardNumber pg) = [] \<or> js_trim (pp_expiryDate pg) = [] \<or> js_trim (pp_cvc pg) = []
          then (store, [ToastError PayFieldsRequired], None)
          else
            (case (fault, store bid) of
               (None, Some b) \<Rightarrow>
                 (store(bid \<mapsto> b\<lparr>b_status := BConfirmed, b_paymentStatus := PCompleted,
                                  b_updatedAt := Some now\<rparr>),
                  [ToastSuccess PaySucceeded], Some RConfirmation)
             | _ \<Rightarrow> (store, [ToastError PaymentFailed], None))
      | _ \<Rightarrow> (store, [], None))"

subsection \<open>The booking pages together\<close>

text \<open>
  The client state the booking pages share: the zustand booking store, the
  \<open>bookings\<close> collection, and the payment page with the booking id of its route. An
  event is an action of the booking store (the search form's setters, \<open>reset\<close>), the
  fare effect of \<open>RideSelection\<close>, one of the two creation handlers, opening the
  payment page of an id (a fresh page whose effect loads the booking), an input in one
  of the card fields, or a submission of the payment form.
\<close>

record booking_sys =
  bk_state :: booking_state
  bk_store :: booking_store
  bk_page :: payment_page
  bk_pageId :: "doc_id option"

datatype booking_event =
    EvStore booking_action
  | EvRideSelection
  | EvConfirm "uid option" timestamp "backend_error + doc_id"
  | EvCreateBooking "uid option" timestamp "backend_error + doc_id"
  | EvOpenPayment "doc_id option" "uid option" "backend_error option"
  | EvInput card_field string
  | EvPay "backend_error option" timestamp

fun booking_sys_step :: "booking_sys \<Rightarrow> booking_event \<Rightarrow> booking_sys" where
  "booking_sys_step s (EvStore a) = s\<lparr>bk_state := booking_step (bk_state s) a\<rparr>"
| "booking_sys_step s EvRideSelection = s\<lparr>bk_state := rideSelection_effect (bk_state s)\<rparr>"
| "booking_sys_step s (EvConfirm user now r) =
     (let (bs', store', _, _) = handleConfirm user now r (bk_state s) (bk_store s)
      in s\<lparr>bk_state := bs', bk_store := store'\<rparr>)"
| "booking_sys_step s (EvCreateBooking user now r) =
     (let (_, bs', store', _) = createBooking user now r (bk_state s) (bk_store s)
      in s\<lparr>bk_state := bs', bk_store := store'\<rparr>)"
| "booking_sys_step s (EvOpenPayment bid user fault) =
     s\<lparr>bk_page := fst (fetchBooking bid user fault (bk_store s) payment_page_init), bk_pageId := bid\<rparr>"
| "booking_sys_step s (EvInput f v) = s\<lparr>bk_page := payment_input f v (bk_page s)\<rparr>"
| "booking_sys_step s (EvPay fault now) =
     s\<lparr>bk_store := fst (handlePayment (bk_pageId s) fault now (bk_page s) (bk_store s))\<rparr>"

definition booking_sys_init :: booking_sys where
  "booking_sys_init =
     \<lparr>bk_state = booking_initial, bk_store = Map.empty, bk_page = payment_page_init, bk_pageId = None\<rparr>"

text \<open>
  What the stored bookings satisfy: no payment ever failed, a booking is confirmed exactly
  when its payment completed, and it is for one to three passengers.
\<close>

definition booking_ok :: "booking \<Rightarrow> bool" where
  "booking_ok b \<longleftrightarrow>
     b_paymentStatus b \<noteq> PFailed \<and> (b_status b = BConfirmed \<longleftrightarrow> b_paymentStatus b = PCompleted)
     \<and> 1 \<le> b_passengers b \<and> b_passengers b \<le> 3"

definition bookings_ok :: "booking_store \<Rightarrow> bool" where
  "bookings_ok store \<longleftrightarrow> (\<forall>bid b. store bid = Some b \<longrightarrow> booking_ok b)"

definition booking_sys_inv :: "booking_sys \<Rightarrow> bool" where
  "booking_sys_inv s \<longleftrightarrow> passengers_inv (bk_state s) \<and> bookings_ok (bk_store s)"

text \<open>A booking and a booking store used by the examples below.\<close>

definition ex_booking :: booking where
  "ex_booking = new_booking ''ana'' (location_of_station (hd LEFT_BANK_STATIONS))
            (location_of_station (hd AIRPORTS)) 1762786400000 2 65 1762700000000"

definition ex_booking_state :: booking_state where
  "ex_booking_state = booking_initial\<lparr>bs_pickup := Some (location_of_station (hd LEFT_BANK_STATIONS)),
     bs_dropoff := Some (location_of_station (hd AIRPORTS)), bs_date := Some 1762786400000,
     bs_passengers := 2\<rparr>"

subsection \<open>Properties of the booking flow\<close>

lemma bookings_ok_upd:
  "bookings_ok store \<Longrightarrow> booking_ok b \<Longrightarrow> bookings_ok (store(bid \<mapsto> b))"
  by (simp add: bookings_ok_def)

lemma new_booking_ok:
  "1 \<le> p \<Longrightarrow> p \<le> 3 \<Longrightarrow> booking_ok (new_booking u pickup dropoff t p fare now)"
  by (simp add: booking_ok_def new_booking_def)

lemma handleConfirm_cases:
  assumes "handleConfirm user now r bs store = (bs', store', ms, rt)"
  shows "bs_passengers bs' = bs_passengers bs
         \<and> (store' = store \<or> (\<exists>bid u p d t fare. store' = store(bid \<mapsto> new_booking u p d t (bs_passengers bs) fare now)))"
  using assms unfolding handleConfirm_def Let_def
  by (auto split: option.splits sum.splits) blast+

lemma createBooking_cases:
  assumes "createBooking user now r bs store = (res, bs', store', ms)"
  shows "(bs' = bs \<or> bs' = booking_initial)
         \<and> (store' = store \<or> (\<exists>bid u p d t. store' = store(bid \<mapsto> new_booking u p d t (bs_passengers bs) (bs_fare bs) now)))"
  using assms unfolding createBooking_def Let_def
  by (auto split: option.splits sum.splits) blast+

lemma handlePayment_ok:
  "bookings_ok store \<Longrightarrow> bookings_ok (fst (handlePayment bid fault now pg store))"
  by (auto simp: handlePayment_def bookings_ok_def booking_ok_def split: option.splits prod.splits)

lemma rideSelection_passengers [simp]:
  "bs_passengers (rideSelection_effect bs) = bs_passengers bs"
  by (simp add: rideSelection_effect_def Let_def split: option.splits)

lemma booking_sys_step_inv:
  assumes "booking_sys_inv s"
  shows "booking_sys_inv (booking_sys_step s e)"
proof (cases e)
  case (EvConfirm user now r)
  obtain bs' store' ms rt where h: "handleConfirm user now r (bk_state s) (bk_store s) = (bs', store', ms, rt)"
    by (metis prod.exhaust)
  from handleConfirm_cases [OF h] assms show ?thesis
    by (auto simp: EvConfirm h booking_sys_inv_def passengers_inv_def intro!: bookings_ok_upd new_booking_ok)
next
  case (EvCreateBooking user now r)
  obtain res bs' store' ms where h: "createBooking user now r (bk_state s) (bk_store s) = (res, bs', store', ms)"
    by (metis prod.exhaust)
  from createBooking_cases [OF h] assms show ?thesis
    by (auto simp: EvCreateBooking h booking_sys_inv_def passengers_inv_def booking_initial_def
             intro!: bookings_ok_upd new_booking_ok)
qed (use assms booking_step_passengers in \<open>auto simp: booking_sys_inv_def handlePayment_ok passengers_inv_def\<close>)

lemma booking_sys_run_inv:
  "booking_sys_inv s \<Longrightarrow> booking_sys_inv (foldl booking_sys_step s evs)"
  by (induction evs arbitrary: s) (auto intro: booking_sys_step_inv)

lemma booking_sys_init_inv: "booking_sys_inv booking_sys_init"
  by (simp add: booking_sys_inv_def booking_sys_init_def booking_initial_def passengers_inv_def
                bookings_ok_def)

lemma handleConfirm_Inr:
  assumes "bs_pickup bs = Some p" "bs_dropoff bs = Some d" "bs_date bs = Some t"
          "validateDateTime now t = Inr ()"
  shows "handleConfirm (Some u) now (Inr bid) bs store =
    (bs\<lparr>bs_fare := real_of_int (calculateFare (location_point p) (location_point d))\<rparr>,
     store(bid \<mapsto> new_booking u p d t (bs_passengers bs)
                    (real_of_int (calculateFare (location_point p) (location_point d))) now),
     [], Some (RPayment bid))"
  using assms by (simp add: handleConfirm_def Let_def)

lemma createBooking_Inr:
  assumes "bs_pickup bs = Some p" "bs_dropoff bs = Some d" "bs_date bs = Some t"
  shows "createBooking (Some u) now (Inr bid) bs store =
    (Some bid, booking_initial, store(bid \<mapsto> new_booking u p d t (bs_passengers bs) (bs_fare bs) now), [])"
  using assms by (simp add: createBooking_def Let_def)

lemma rideSelection_effect_Some:
  "bs_pickup bs = Some p \<Longrightarrow> bs_dropoff bs = Some d \<Longrightarrow>
   rideSelection_effect bs = bs\<lparr>bs_fare := real_of_int (calculateFare (location_point p) (location_point d))
                                           / real_of_int (bs_passengers bs)\<rparr>"
  by (simp add: rideSelection_effect_def SHARING_currentPassengers_def)

text \<open>
  C21: whatever the booking pages do, in any order and with any outcome of the backend,
  every stored booking has a payment status other than \<open>'failed'\<close>, is confirmed
  exactly when its payment is completed, and is for one to three passengers. The
  \<open>'failed'\<close> payment status the data model provides is never written.
\<close>

theorem booking_pages_keep_bookings_ok:
  assumes "bk_store (foldl booking_sys_step booking_sys_init evs) bid = Some b"
  shows "b_paymentStatus b \<noteq> PFailed \<and> (b_status b = BConfirmed \<longleftrightarrow> b_paymentStatus b = PCompleted)
         \<and> 1 \<le> b_passengers b \<and> b_passengers b \<le> 3"
proof -
  have "booking_sys_inv (foldl booking_sys_step booking_sys_init evs)"
    by (rule booking_sys_run_inv [OF booking_sys_init_inv])
  with assms show ?thesis by (auto simp: booking_sys_inv_def bookings_ok_def booking_ok_def)
qed

theorem booking_pages_keep_bookings_ok_witness:
  "\<exists>b. bk_store (foldl booking_sys_step booking_sys_init
          [EvStore (SetPickup (Some (location_of_station (hd LEFT_BANK_STATIONS)))),
           EvStore (SetDropoff (Some (location_of_station (hd AIRPORTS)))),
           EvStore (SetDate (Some 1762786400000)), EvStore (SetPassengers 2),
           EvConfirm (Some ''ana'') 1762700000000 (Inr ''b1''),
           EvOpenPayment (Some ''b1'') (Some ''ana'') None,
           EvInput CardNumber ''1'', EvInput ExpiryDate ''1'', EvInput Cvc ''1'',
           EvPay None 1762700100000]) ''b1'' = Some b
       \<and> b_status b = BConfirmed \<and> b_paymentStatus b = PCompleted \<and> b_passengers b = 2"
proof -
  let ?s = "foldl booking_sys_step booking_sys_init
          [EvStore (SetPickup (Some (location_of_station (hd LEFT_BANK_STATIONS)))),
           EvStore (SetDropoff (Some (location_of_station (hd AIRPORTS)))),
           EvStore (SetDate (Some 1762786400000)), EvStore (SetPassengers 2),
           EvConfirm (Some ''ana'') 1762700000000 (Inr ''b1''),
           EvOpenPayment (Some ''b1'') (Some ''ana'') None,
           EvInput CardNumber ''1'', EvInput ExpiryDate ''1'', EvInput Cvc ''1'',
           EvPay None 1762700100000]"
  have c: "case bk_store ?s ''b1'' of None \<Rightarrow> False
           | Some b \<Rightarrow> b_status b = BConfirmed \<and> b_passengers b = 2"
    by code_simp
  then obtain b where b: "bk_store ?s ''b1'' = Some b" "b_status b = BConfirmed" "b_passengers b = 2"
    by (auto split: option.splits)
  from booking_pages_keep_bookings_ok [OF b(1)] b show ?thesis by auto
qed

text \<open>
  C22: the payment form confirms a loaded booking as soon as the three fields are not
  blank: card number, expiry and CVC are never checked (\<open>validatePaymentDetails\<close> is
  not called), so a one-digit card number is accepted.
\<close>

theorem handlePayment_ignores_card:
  assumes "pp_booking pg \<noteq> None" "js_trim (pp_cardNumber pg) \<noteq> []"
          "js_trim (pp_expiryDate pg) \<noteq> []" "js_trim (pp_cvc pg) \<noteq> []" "store bid = Some b"
  shows "handlePayment (Some bid) None now pg store =
    (store(bid \<mapsto> b\<lparr>b_status := BConfirmed, b_paymentStatus := PCompleted, b_updatedAt := Some now\<rparr>),
     [ToastSuccess PaySucceeded], Some RConfirmation)"
  using assms by (auto simp: handlePayment_def)

theorem handlePayment_ignores_card_witness:
  "validatePaymentDetails 1762700000000 ''1'' ''1'' ''1'' = Inl InvalidCardNumber
   \<and> handlePayment (Some ''b1'') None 1762700100000
        (payment_page_init\<lparr>pp_booking := Some ex_booking,
          pp_cardNumber := ''1'', pp_expiryDate := ''1'', pp_cvc := ''1''\<rparr>)
        [''b1'' \<mapsto> ex_booking]
     = ([''b1'' \<mapsto> ex_booking\<lparr>b_status := BConfirmed, b_paymentStatus := PCompleted,
                                  b_updatedAt := Some 1762700100000\<rparr>],
        [ToastSuccess PaySucceeded], Some RConfirmation)"
proof -
  have v: "validatePaymentDetails 1762700000000 ''1'' ''1'' ''1'' = Inl InvalidCardNumber" by code_simp
  have t: "js_trim ''1'' \<noteq> []" by (simp add: js_trim_def js_space_def)
  have "handlePayment (Some ''b1'') None 1762700100000
        (payment_page_init\<lparr>pp_booking := Some ex_booking,
          pp_cardNumber := ''1'', pp_expiryDate := ''1'', pp_cvc := ''1''\<rparr>)
        [''b1'' \<mapsto> ex_booking]
     = ([''b1'' \<mapsto> ex_booking]
          (''b1'' \<mapsto> ex_booking\<lparr>b_status := BConfirmed, b_paymentStatus := PCompleted,
                                  b_updatedAt := Some 1762700100000\<rparr>),
        [ToastSuccess PaySucceeded], Some RConfirmation)"
    by (rule handlePayment_ignores_card
          [where pg = "payment_page_init\<lparr>pp_booking := Some ex_booking,
                       pp_cardNumber := ''1'', pp_expiryDate := ''1'', pp_cvc := ''1''\<rparr>"
             and store = "[''b1'' \<mapsto> ex_booking]" and bid = "''b1''" and b = ex_booking])
       (simp_all add: t)
  with v show ?thesis by simp
qed

text \<open>
  C23: the two handlers that create a booking store different fares for the same booking
  store: after the fare effect of \<open>RideSelection\<close>, \<open>useBooking.createBooking\<close> stores
  the fare divided by the number of passengers, \<open>BookingStep.handleConfirm\<close> the whole
  fare.
\<close>

theorem booking_creators_store_different_fares:
  assumes "bs_pickup bs = Some p" "bs_dropoff bs = Some d" "bs_date bs = Some t"
          "validateDateTime now t = Inr ()"
  shows "(\<exists>b. fst (snd (snd (createBooking (Some u) now (Inr bid) (rideSelection_effect bs) store))) bid = Some b
              \<and> b_fare b = real_of_int (calculateFare (location_point p) (location_point d))
                           / real_of_int (bs_passengers bs))
       \<and> (\<exists>b. fst (snd (handleConfirm (Some u) now (Inr bid) (rideSelection_effect bs) store)) bid = Some b
              \<and> b_fare b = real_of_int (calculateFare (location_point p) (location_point d)))"
proof -
  let ?bs = "rideSelection_effect bs"
  have r: "bs_pickup ?bs = Some p" "bs_dropoff ?bs = Some d" "bs_date ?bs = Some t"
    "bs_passengers ?bs = bs_passengers bs"
    "bs_fare ?bs = real_of_int (calculateFare (location_point p) (location_point d)) / real_of_int (bs_passengers bs)"
    using assms by (simp_all add: rideSelection_effect_Some)
  show ?thesis
    using createBooking_Inr [OF r(1-3)] handleConfirm_Inr [OF r(1-3) assms(4)] r(5)
    by (simp add: new_booking_def)
qed

theorem booking_creators_store_different_fares_witness:
  "(\<exists>b. fst (snd (snd (createBooking (Some ''ana'') 1762700000000 (Inr ''b1'')
                (rideSelection_effect ex_booking_state) Map.empty))) ''b1'' = Some b \<and> b_fare b = 65 / 2)
   \<and> (\<exists>b. fst (snd (handleConfirm (Some ''ana'') 1762700000000 (Inr ''b1'')
                (rideSelection_effect ex_booking_state) Map.empty)) ''b1'' = Some b \<and> b_fare b = 65)"
proof -
  have h: "bs_pickup ex_booking_state = Some (location_of_station (hd LEFT_BANK_STATIONS))"
    "bs_dropoff ex_booking_state = Some (location_of_station (hd AIRPORTS))"
    "bs_date ex_booking_state = Some 1762786400000"
    "validateDateTime 1762700000000 1762786400000 = Inr ()"
    by (simp_all add: ex_booking_state_def booking_initial_def) code_simp
  have f: "calculateFare (location_point (location_of_station (hd LEFT_BANK_STATIONS)))
             (location_point (location_of_station (hd AIRPORTS))) = 65"
    and p: "bs_passengers ex_booking_state = 2"
    by code_simp (simp add: ex_booking_state_def)
  from booking_creators_store_different_fares [OF h, where u = "''ana''" and bid = "''b1''" and store = Map.empty]
  show ?thesis unfolding f p by simp
qed

end
