(* ===== verification/Queries.thy ===== *)
theory Queries
  imports Trips Booking
begin

text \<open>
  The hooks of \<open>src/src/hooks\<close> that read collections: each builds a Firestore query
  (conditions and an order, \<open>Prelude.fs_query\<close>) and, on a snapshot or a
  \<open>getDocs\<close> result, copies the documents into its state, possibly after a client-side
  filter; on an error it records a message. A collection is the list of its documents in
  id order; a result of the backend is \<open>Inl\<close> of an error or \<open>Inr\<close> of the collection.
  Each hook is modelled by what its effect and one callback do to its state. The
  conversions \<open>x?.toDate() || new Date()\<close> are identities here, since every time
  field of the model is present; subscriptions and their cancellation are not modelled.
\<close>

text \<open>The state of a hook that loads a list: \<open>[items, loading, error]\<close>.\<close>

record ('a, 'e) list_hook =
  lh_items :: "'a list"
  lh_loading :: bool
  lh_error :: "'e option"

definition list_hook_init :: "('a, 'e) list_hook" where
  "list_hook_init = \<lparr>lh_items = [], lh_loading = True, lh_error = None\<rparr>"

datatype query_error =
    TripsLoadFailed | TripsInitFailed | TripsLoadToast
  | UserTripsLoadFailed
  | BookingsNoPermission | BookingsLoadFailed
  | ReviewsUnavailable | ReviewsLoadFailed
  | ParticipantsLoadFailed
  | StationsLoadFailed
  | NotificationsNoPermission | NotificationsLoadFailed
  | MessagesLoadFailed
  | ChatsUnavailable | ChatsLoadFailed

text \<open>JavaScript truthiness of an optional string and an optional number.\<close>

definition js_truthy_str :: "string option \<Rightarrow> bool" where
  "js_truthy_str v = (case v of None \<Rightarrow> False | Some s \<Rightarrow> s \<noteq> [])"

definition js_truthy_int :: "int option \<Rightarrow> bool" where
  "js_truthy_int v = (case v of None \<Rightarrow> False | Some n \<Rightarrow> n \<noteq> 0)"

subsection \<open>Open trips (\<open>hooks/useTrips.ts\<close>)\<close>

record trip_filters =
  tf_pickup :: "string option"
  tf_dropoff :: "string option"
  tf_fromDate :: "timestamp option"
  tf_availableSeats :: "int option"

text \<open>
  The server-side part: status \<open>'open'\<close>, and the pickup and dropoff ids when the
  filter has them (a missing or empty id adds no condition).
\<close>

definition trips_where :: "trip_filters \<Rightarrow> trip \<Rightarrow> bool" where
  "trips_where f t =
     (status t = Open
      \<and> (js_truthy_str (tf_pickup f) \<longrightarrow> Some (st_id (pickup t)) = tf_pickup f)
      \<and> (js_truthy_str (tf_dropoff f) \<longrightarrow> Some (st_id (dropoff t)) = tf_dropoff f))"

text \<open>
  The client-side filter of the snapshot handler: trips before \<open>fromDate\<close> and trips with
  fewer free seats (\<open>maxPassengers - currentPassengers\<close>) than requested are dropped;
  a requested seat count of 0 is falsy and drops nothing.
\<close>

definition trips_client_filter :: "trip_filters \<Rightarrow> trip \<Rightarrow> bool" where
  "trips_client_filter f t =
     (\<not> (case tf_fromDate f of Some d \<Rightarrow> scheduledFor t < d | None \<Rightarrow> False)
      \<and> \<not> (js_truthy_int (tf_availableSeats f)
           \<and> maxPassengers t - currentPassengers t < the (tf_availableSeats f)))"

definition useTrips ::
  "trip_filters \<Rightarrow> backend_error + trip collection \<Rightarrow> (doc_id \<times> trip, query_error) list_hook
   \<Rightarrow> (doc_id \<times> trip, query_error) list_hook \<times> query_error toast list" where
  "useTrips f snap st =
     (case snap of
        Inl _ \<Rightarrow> (st\<lparr>lh_error := Some TripsLoadFailed, lh_loading := False\<rparr>, [ToastError TripsLoadToast])
      | Inr docs \<Rightarrow>
          (st\<lparr>lh_items := filter (\<lambda>d. trips_client_filter f (snd d))
                            (fs_query (trips_where f) scheduledFor Asc docs),
              lh_error := None, lh_loading := False\<rparr>, []))"

subsection \<open>A user's trips (\<open>hooks/useUserTrips.ts\<close>)\<close>

text \<open>Without a user id the effect only clears \<open>loading\<close>.\<close>

definition useUserTrips ::
  "uid \<Rightarrow> backend_error + trip collection \<Rightarrow> (doc_id \<times> trip, query_error) list_hook
   \<Rightarrow> (doc_id \<times> trip, query_error) list_hook" where
  "useUserTrips userId snap st =
     (if userId = [] then st\<lparr>lh_loading := False\<rparr>
      else case snap of
        Inl _ \<Rightarrow> st\<lparr>lh_error := Some UserTripsLoadFailed, lh_loading := False\<rparr>
      | Inr docs \<Rightarrow>
          st\<lparr>lh_items := fs_query (\<lambda>t. userId \<in> set (participants t)) scheduledFor Desc docs,
             lh_error := None, lh_loading := False\<rparr>)"

subsection \<open>A user's bookings (\<open>hooks/useBookings.ts\<close>)\<close>

definition useBookings ::
  "uid \<Rightarrow> backend_error + booking collection \<Rightarrow> (doc_id \<times> booking, query_error) list_hook
   \<Rightarrow> (doc_id \<times> booking, query_error) list_hook" where
  "useBookings userId snap st =
     (if userId = [] then st\<lparr>lh_loading := False\<rparr>
      else case snap of
        Inl e \<Rightarrow> st\<lparr>lh_error := Some (if e = PermissionDenied then BookingsNoPermission
                                       else BookingsLoadFailed),
                    lh_loading := False\<rparr>
      | Inr docs \<Rightarrow>
          st\<lparr>lh_items := fs_query (\<lambda>b. b_userId b = userId) b_createdAt Desc docs,
             lh_error := None, lh_loading := False\<rparr>)"

subsection \<open>Reviews (\<open>types/review.ts\<close>, \<open>hooks/useReviews.ts\<close>)\<close>

record review =
  r_userId :: uid
  r_authorId :: uid
  r_authorName :: string
  r_authorPhoto :: "string option"
  r_rating :: int
  r_comment :: string
  r_bookingId :: "doc_id option"
  r_createdAt :: timestamp

text \<open>
  A one-time \<open>getDocs\<close>; the fetch only starts for a non-empty user id, so with an empty
  one the state keeps its initial \<open>loading = true\<close>.
\<close>

definition useReviews ::
  "uid \<Rightarrow> backend_error + review collection \<Rightarrow> (doc_id \<times> review, query_error) list_hook
   \<Rightarrow> (doc_id \<times> review, query_error) list_hook" where
  "useReviews userId res st =
     (if userId = [] then st
      else case res of
        Inl e \<Rightarrow> st\<lparr>lh_error := Some (if e = PermissionDenied then ReviewsUnavailable
                                       else ReviewsLoadFailed),
                    lh_loading := False\<rparr>
      | Inr docs \<Rightarrow>
          st\<lparr>lh_items := fs_query (\<lambda>r. r_userId r = userId) r_createdAt Desc docs,
             lh_error := None, lh_loading := False\<rparr>)"

subsection \<open>Participants (\<open>types/user.ts\<close>, \<open>hooks/useParticipants.ts\<close>)\<close>

record profile_settings =
  ps_isPublic :: bool
  ps_emailNotifications :: bool
  ps_pushNotifications :: bool

record user_profile =
  up_uid :: uid
  up_email :: string
  up_displayName :: "string option"
  up_photoURL :: "string option"
  up_bio :: "string option"
  up_phoneNumber :: "string option"
  up_isPublic :: bool
  up_createdAt :: "timestamp option"
  up_lastLoginAt :: "timestamp option"
  up_settings :: "profile_settings option"

text \<open>
  One \<open>getDoc\<close> per participant id, awaited with \<open>Promise.all\<close>: a single failed read
  fails the whole load and leaves the list as it was; otherwise the profiles that exist,
  in the order of the ids, with \<open>uid\<close> set to the document id. An empty id list only
  clears \<open>loading\<close>.
\<close>

definition useParticipants ::
  "uid list \<Rightarrow> backend_error option \<Rightarrow> (uid \<Rightarrow> user_profile option)
   \<Rightarrow> (user_profile, query_error) list_hook \<Rightarrow> (user_profile, query_error) list_hook" where
  "useParticipants participantIds fault users st =
     (if participantIds = [] then st\<lparr>lh_loading := False\<rparr>
      else case fault of
        Some _ \<Rightarrow> st\<lparr>lh_error := Some ParticipantsLoadFailed, lh_loading := False\<rparr>
      | None \<Rightarrow>
          st\<lparr>lh_items := List.map_filter (\<lambda>u. map_option (\<lambda>p. p\<lparr>up_uid := u\<rparr>) (users u)) participantIds,
             lh_error := None, lh_loading := False\<rparr>)"

subsection \<open>Taxi stations (\<open>types/station.ts\<close>, \<open>hooks/useStations.ts\<close>)\<close>

record taxi_station =
  ts_name :: string
  ts_address :: string
  ts_location :: geo
  ts_capacity :: int
  ts_isActive :: bool
  ts_district :: string
  ts_open :: string
  ts_close :: string

definition useStations ::
  "string option \<Rightarrow> backend_error + taxi_station collection \<Rightarrow> (doc_id \<times> taxi_station, query_error) list_hook
   \<Rightarrow> (doc_id \<times> taxi_station, query_error) list_hook" where
  "useStations district res st =
     (case res of
        Inl _ \<Rightarrow> st\<lparr>lh_error := Some StationsLoadFailed, lh_loading := False\<rparr>
      | Inr docs \<Rightarrow>
          let cond = (if js_truthy_str district
                      then (\<lambda>s. Some (ts_district s) = district \<and> ts_isActive s)
                      else ts_isActive)
          in st\<lparr>lh_items := filter (\<lambda>d. cond (snd d)) docs, lh_error := None, lh_loading := False\<rparr>)"

subsection \<open>Notifications (\<open>hooks/useNotifications.ts\<close>)\<close>

text \<open>
  The hook feeds the notification store: without a user it clears \<open>loading\<close>;
  otherwise it sets \<open>loading\<close> and on each snapshot replaces the store's list by the
  user's notifications, newest first, each with its document id, then clears the error
  and \<open>loading\<close>.
\<close>

definition useNotifications ::
  "uid option \<Rightarrow> backend_error + notification collection \<Rightarrow> notification_state
   \<Rightarrow> notification_state \<times> query_error option" where
  "useNotifications user snap st =
     (case user of
        None \<Rightarrow> (st\<lparr>ns_loading := False\<rparr>, None)
      | Some u \<Rightarrow>
          let st1 = st\<lparr>ns_loading := True\<rparr>
          in case snap of
               Inl e \<Rightarrow> (st1\<lparr>ns_loading := False\<rparr>,
                          Some (if e = PermissionDenied then NotificationsNoPermission
                                else NotificationsLoadFailed))
             | Inr docs \<Rightarrow>
                 let ns = map (\<lambda>d. (snd d)\<lparr>n_id := fst d\<rparr>)
                              (fs_query (\<lambda>n. n_userId n = u) n_createdAt Desc docs)
                 in ((setNotifications ns st1)\<lparr>ns_error := None, ns_loading := False\<rparr>, None))"

subsection \<open>Messages and chats (\<open>hooks/useMessages.ts\<close>, \<open>useChats.ts\<close>, \<open>useChat.ts\<close>)\<close>

text \<open>\<open>useMessages\<close> writes the chat's messages, oldest first, into the chat store.\<close>

definition useMessages ::
  "doc_id \<Rightarrow> backend_error + chat_message collection \<Rightarrow> chat_state \<Rightarrow> chat_state \<times> query_error option" where
  "useMessages chatId snap cs =
     (if chatId = [] then (cs, None)
      else case snap of
        Inl _ \<Rightarrow> (cs, Some MessagesLoadFailed)
      | Inr docs \<Rightarrow>
          (cs\<lparr>cs_messages := map (\<lambda>d. (snd d)\<lparr>m_id := fst d\<rparr>)
                               (fs_query (\<lambda>m. m_chatId m = chatId) m_timestamp Asc docs),
              cs_error := None\<rparr>, None))"

text \<open>
  The error of \<open>useMessages\<close> goes to the chat store's \<open>error\<close> field as a string;
  the model returns it beside the store.
\<close>

definition chats_query :: "uid \<Rightarrow> chat collection \<Rightarrow> chat list" where
  "chats_query u docs =
     map (\<lambda>d. (snd d)\<lparr>c_id := fst d\<rparr>) (fs_query (\<lambda>c. u \<in> set (c_participants c)) c_updatedAt Desc docs)"

definition useChats ::
  "uid option \<Rightarrow> backend_error + chat collection \<Rightarrow> (chat, query_error) list_hook
   \<Rightarrow> (chat, query_error) list_hook" where
  "useChats user snap st =
     (case user of
        None \<Rightarrow> st\<lparr>lh_loading := False\<rparr>
      | Some u \<Rightarrow>
          (case snap of
             Inl _ \<Rightarrow> st\<lparr>lh_error := Some ChatsUnavailable, lh_loading := False\<rparr>
           | Inr docs \<Rightarrow> st\<lparr>lh_items := chats_query u docs, lh_error := None, lh_loading := False\<rparr>))"

definition useChat ::
  "uid option \<Rightarrow> backend_error + chat collection \<Rightarrow> chat_state \<Rightarrow> chat_state \<times> query_error option" where
  "useChat user snap cs =
     (case user of
        None \<Rightarrow> (cs, None)
      | Some u \<Rightarrow>
          (case snap of
             Inl _ \<Rightarrow> (cs\<lparr>cs_loading := False\<rparr>, Some ChatsLoadFailed)
           | Inr docs \<Rightarrow> (cs\<lparr>cs_chats := chats_query u docs, cs_error := None, cs_loading := False\<rparr>, None)))"

subsection \<open>Properties of the queries\<close>

lemma set_useTrips_Inr:
  "set (lh_items (fst (useTrips f (Inr docs) st)))
     = {d \<in> set docs. trips_where f (snd d) \<and> trips_client_filter f (snd d)}"
  by (auto simp: useTrips_def)

lemma useUserTrips_Inr:
  "userId \<noteq> [] \<Longrightarrow> set (lh_items (useUserTrips userId (Inr docs) st))
     = {d \<in> set docs. userId \<in> set (participants (snd d))}"
  by (simp add: useUserTrips_def)

lemma map_up_uid_map_filter:
  "map up_uid (List.map_filter (\<lambda>u. map_option (\<lambda>p. p\<lparr>up_uid := u\<rparr>) (users u)) ids)
   = filter (\<lambda>u. users u \<noteq> None) ids"
  by (induction ids) (auto simp: List.map_filter_simps split: option.splits)

lemma example_trip_trips_where: "trips_where \<lparr>tf_pickup = Some ''cdg'', tf_dropoff = None,
             tf_fromDate = Some 1762900000000, tf_availableSeats = Some (1::int)\<rparr> example_trip"
  by (simp add: trips_where_def example_trip_def js_truthy_str_def catalogue_defs)
lemma example_trip_client_filter: "trips_client_filter \<lparr>tf_pickup = Some ''cdg'', tf_dropoff = None,
             tf_fromDate = Some 1762900000000, tf_availableSeats = Some (1::int)\<rparr> example_trip"
  by (simp add: trips_client_filter_def example_trip_def js_truthy_int_def)
text \<open>
  For a collection of consistent trips, a user's trip list (\<open>useUserTrips\<close>)
  contains every trip the user created, since the creator is always a participant.
\<close>

theorem useUserTrips_shows_created:
  assumes "userId \<noteq> []" "\<forall>d \<in> set docs. trip_inv (snd d)" "(tid, t) \<in> set docs" "creatorId t = userId"
  shows "(tid, t) \<in> set (lh_items (useUserTrips userId (Inr docs) st))"
  using assms by (auto simp: useUserTrips_Inr trip_inv_def)

theorem useUserTrips_shows_created_witness:
  "(''t1'', example_trip) \<in> set (lh_items (useUserTrips ''carla'' (Inr [(''t1'', example_trip)]) list_hook_init))"
proof -
  have h: "''carla'' \<noteq> []" "\<forall>d \<in> set [(''t1'', example_trip)]. trip_inv (snd d)"
    "(''t1'', example_trip) \<in> set [(''t1'', example_trip)]" "creatorId example_trip = ''carla''"
    using example_trip_inv by (simp_all add: example_trip_def)
  from useUserTrips_shows_created [OF h] show ?thesis .
qed

text \<open>
  C26: the notification store keeps nothing of its own across snapshots: whatever store
  actions ran since (\<open>markAsRead\<close>, \<open>markAllAsRead\<close>, additions), the next
  snapshot of \<open>useNotifications\<close> leaves the store exactly as it would have without
  them; a notification marked as read in the list is unread again, and counted again, at
  the next snapshot, since the read flag is never written to the backend.
\<close>

theorem notification_snapshot_overrides:
  "useNotifications (Some u) (Inr docs) (foldl notification_step st as)
   = useNotifications (Some u) (Inr docs) st"
  by (simp add: useNotifications_def setNotifications_def Let_def)

text \<open>
  \<open>useMessages\<close> puts into the chat store exactly the messages of its chat, each
  with its document id, in ascending order of time.
\<close>

theorem useMessages_chat_order:
  assumes "chatId \<noteq> []"
  shows "(\<forall>m \<in> set (cs_messages (fst (useMessages chatId (Inr docs) cs))). m_chatId m = chatId)
         \<and> sorted (map m_timestamp (cs_messages (fst (useMessages chatId (Inr docs) cs))))
         \<and> set (cs_messages (fst (useMessages chatId (Inr docs) cs)))
           = (\<lambda>d. (snd d)\<lparr>m_id := fst d\<rparr>) ` {d \<in> set docs. m_chatId (snd d) = chatId}"
  using assms sorted_fs_query_Asc [of m_timestamp "\<lambda>m. m_chatId m = chatId" docs]
  by (auto simp: useMessages_def comp_def)

theorem useMessages_chat_order_witness:
  "cs_messages (fst (useMessages ''c1''
       (Inr [(''m1'', \<lparr>m_id = [], m_chatId = ''c1'', m_senderId = ''ana'', m_content = ''bonjour'',
                      m_timestamp = 1762700000000, m_read = False\<rparr>),
             (''m2'', \<lparr>m_id = [], m_chatId = ''c2'', m_senderId = ''ben'', m_content = ''salut'',
                      m_timestamp = 1762600000000, m_read = False\<rparr>)]) chat_initial))
   = [\<lparr>m_id = ''m1'', m_chatId = ''c1'', m_senderId = ''ana'', m_content = ''bonjour'',
       m_timestamp = 1762700000000, m_read = False\<rparr>]
   \<and> sorted (map m_timestamp (cs_messages (fst (useMessages ''c1''
       (Inr [(''m1'', \<lparr>m_id = [], m_chatId = ''c1'', m_senderId = ''ana'', m_content = ''bonjour'',
                      m_timestamp = 1762700000000, m_read = False\<rparr>),
             (''m2'', \<lparr>m_id = [], m_chatId = ''c2'', m_senderId = ''ben'', m_content = ''salut'',
                      m_timestamp = 1762600000000, m_read = False\<rparr>)]) chat_initial))))"
proof -
  have "''c1'' \<noteq> []" by simp
  note w = useMessages_chat_order [OF this]
  have "cs_messages (fst (useMessages ''c1''
       (Inr [(''m1'', \<lparr>m_id = [], m_chatId = ''c1'', m_senderId = ''ana'', m_content = ''bonjour'',
                      m_timestamp = 1762700000000, m_read = False\<rparr>),
             (''m2'', \<lparr>m_id = [], m_chatId = ''c2'', m_senderId = ''ben'', m_content = ''salut'',
                      m_timestamp = 1762600000000, m_read = False\<rparr>)]) chat_initial))
   = [\<lparr>m_id = ''m1'', m_chatId = ''c1'', m_senderId = ''ana'', m_content = ''bonjour'',
       m_timestamp = 1762700000000, m_read = False\<rparr>]"
    by code_simp
  with w show ?thesis by blast
qed

text \<open>
  \<open>useParticipants\<close> lists, in the order of the ids, the profiles of exactly those
  participants that have a user document; the others are dropped silently.
\<close>

theorem useParticipants_existing:
  assumes "participantIds \<noteq> []"
  shows "map up_uid (lh_items (useParticipants participantIds None users st))
         = filter (\<lambda>u. users u \<noteq> None) participantIds"
  using assms by (simp add: useParticipants_def map_up_uid_map_filter)


theorem useParticipants_existing_witness:
  "map up_uid (lh_items (useParticipants [''ana'', ''zoe''] None
      [''ana'' \<mapsto> \<lparr>up_uid = [], up_email = ''ana@example.org'', up_displayName = Some ''Ana'',
                   up_photoURL = None, up_bio = None, up_phoneNumber = None, up_isPublic = True,
                   up_createdAt = None, up_lastLoginAt = None, up_settings = None\<rparr>] list_hook_init))
   = [''ana'']"
proof -
  have "[''ana'', ''zoe''] \<noteq> []" by simp
  from useParticipants_existing [OF this] show ?thesis by simp
qed

end
