(* ===== verification/Pages.thy ===== *)
theory Pages
  imports Queries
begin

text \<open>
  The page components that drive the stores and hooks: the search form of the home page
  (\<open>components/SearchForm.tsx\<close>), the trip list page (\<open>pages/TripsPage.tsx\<close>,
  \<open>components/trip/TripList.tsx\<close>, \<open>TripCard.tsx\<close>), the trip creation form
  (\<open>components/trip/CreateTripForm.tsx\<close>, \<open>pages/CreateTripPage.tsx\<close>), the home
  page's button, and the notification list and bell. A form's state is a record of its
  \<open>useState\<close> fields, each \<open>onChange\<close> an update of one field, each \<open>useEffect\<close>
  a function of the state, and each submit handler returns the new state of the stores
  it writes, its toasts and its navigation. The browser's parsing of the
  \<open>datetime-local\<close> string (\<open>new Date(date)\<close>) is the parameter \<open>parse\<close>.
\<close>

datatype page_message =
    FillAllFields | InvalidPoints | RouteInvalid validation_error | CreateLoginFirst
  | TripCreatedForm | ViewLoginRequired | SignInToCreate | HookMessage message

datatype trip_direction = ToAirport | FromAirport

subsection \<open>The search form (\<open>components/SearchForm.tsx\<close>)\<close>

record search_form =
  sf_direction :: trip_direction
  sf_pickup :: string
  sf_dropoff :: string
  sf_date :: string
  sf_passengers :: int
  sf_estimatedFare :: int

definition search_form_init :: search_form where
  "search_form_init =
     \<lparr>sf_direction = ToAirport, sf_pickup = [], sf_dropoff = [], sf_date = [], sf_passengers = 1,
      sf_estimatedFare = 0\<rparr>"

text \<open>The stations offered by the two selects for a direction.\<close>

definition pickup_options :: "trip_direction \<Rightarrow> station list" where
  "pickup_options d = (if d = ToAirport then TRAIN_STATIONS @ TAXI_STATIONS else AIRPORTS)"

definition dropoff_options :: "trip_direction \<Rightarrow> station list" where
  "dropoff_options d = (if d = ToAirport then AIRPORTS else TRAIN_STATIONS @ TAXI_STATIONS)"

datatype search_input =
    SetDirection trip_direction | InputPickup string | InputDropoff string | InputDate string
  | InputPassengers int

text \<open>
  The direction buttons clear pickup and dropoff (and leave the estimate as it was); the
  selects and the date input set their field.
\<close>

definition search_form_input :: "search_input \<Rightarrow> search_form \<Rightarrow> search_form" where
  "search_form_input i fs =
     (case i of
        SetDirection d \<Rightarrow> fs\<lparr>sf_direction := d, sf_pickup := [], sf_dropoff := []\<rparr>
      | InputPickup v \<Rightarrow> fs\<lparr>sf_pickup := v\<rparr>
      | InputDropoff v \<Rightarrow> fs\<lparr>sf_dropoff := v\<rparr>
      | InputDate v \<Rightarrow> fs\<lparr>sf_date := v\<rparr>
      | InputPassengers n \<Rightarrow> fs\<lparr>sf_passengers := n\<rparr>)"

text \<open>
  The estimate effect: for two catalogue stations forming a valid route, the fare of the
  two \<open>Station\<close> objects.
\<close>

definition searchForm_effect :: "search_form \<Rightarrow> search_form" where
  "searchForm_effect fs =
     (if sf_pickup fs \<noteq> [] \<and> sf_dropoff fs \<noteq> [] then
        (case (find_station (sf_pickup fs), find_station (sf_dropoff fs)) of
           (Some ps, Some ds) \<Rightarrow>
             (case validateRoute (sf_pickup fs) (sf_dropoff fs) of
                Inr _ \<Rightarrow> fs\<lparr>sf_estimatedFare := calculateFare (station_point ps) (station_point ds)\<rparr>
              | Inl _ \<Rightarrow> fs)
         | _ \<Rightarrow> fs)
      else fs)"

text \<open>
  \<open>handleSubmit\<close>: required fields, catalogue lookup, route validation; then the two
  stations are flattened into \<open>Location\<close>s and written to the booking store with the
  parsed date and the passenger count, and the page moves on to \<open>/trips\<close>.
\<close>

definition searchForm_submit ::
  "(string \<Rightarrow> timestamp) \<Rightarrow> search_form \<Rightarrow> booking_state
   \<Rightarrow> booking_state \<times> page_message toast list \<times> route option" where
  "searchForm_submit parse fs bs =
     (if sf_pickup fs = [] \<or> sf_dropoff fs = [] \<or> sf_date fs = []
      then (bs, [ToastError FillAllFields], None)
      else case (find_station (sf_pickup fs), find_station (sf_dropoff fs)) of
        (Some ps, Some ds) \<Rightarrow>
          (case validateRoute (sf_pickup fs) (sf_dropoff fs) of
             Inl e \<Rightarrow> (bs, [ToastError (RouteInvalid e)], None)
           | Inr _ \<Rightarrow>
               (foldl booking_step bs
                  [SetPickup (Some (location_of_station ps)), SetDropoff (Some (location_of_station ds)),
                   SetDate (Some (parse (sf_date fs))), SetPassengers (sf_passengers fs)],
                [], Some RTrips))
      | _ \<Rightarrow> (bs, [ToastError InvalidPoints], None))"

text \<open>What the form shows below its fields: the estimate and its share per passenger.\<close>

definition searchForm_estimate :: "search_form \<Rightarrow> (int \<times> int) option" where
  "searchForm_estimate fs =
     (if 0 < sf_estimatedFare fs
      then Some (sf_estimatedFare fs, calculatePerPersonFare (sf_estimatedFare fs) (sf_passengers fs))
      else None)"

subsection \<open>The trip list page (\<open>pages/TripsPage.tsx\<close>)\<close>

text \<open>
  The redirect effect: without pickup, dropoff or date, or for a route the validator
  rejects, back to the home page. \<open>pickup.id!\<close> of a location without id is
  \<open>undefined\<close>, which no station has as id, like the empty string.
\<close>

definition tripsPage_effect :: "booking_state \<Rightarrow> page_message toast list \<times> route option" where
  "tripsPage_effect bs =
     (case (bs_pickup bs, bs_dropoff bs, bs_date bs) of
        (Some p, Some d, Some _) \<Rightarrow>
          (case validateRoute (js_or_empty (loc_id p)) (js_or_empty (loc_id d)) of
             Inl e \<Rightarrow> ([ToastError (RouteInvalid e)], Some RHome)
           | Inr _ \<Rightarrow> ([], None))
      | _ \<Rightarrow> ([], Some RHome))"

text \<open>The filters the page passes to \<open>useTrips\<close>.\<close>

definition tripsPage_filters :: "booking_state \<Rightarrow> trip_filters" where
  "tripsPage_filters bs =
     \<lparr>tf_pickup = (case bs_pickup bs of Some p \<Rightarrow> loc_id p | None \<Rightarrow> None),
      tf_dropoff = (case bs_dropoff bs of Some d \<Rightarrow> loc_id d | None \<Rightarrow> None),
      tf_fromDate = bs_date bs, tf_availableSeats = Some (bs_passengers bs)\<rparr>"

datatype 'e list_view = SpinnerView | ErrorView 'e | EmptyView | CardsView "doc_id list"

text \<open>\<open>TripsPage\<close> and \<open>TripList\<close> render a spinner, the error, an empty notice or one card per trip.\<close>

definition tripList_view :: "(doc_id \<times> trip, 'e) list_hook \<Rightarrow> 'e list_view" where
  "tripList_view h =
     (if lh_loading h then SpinnerView
      else case lh_error h of
        Some e \<Rightarrow> ErrorView e
      | None \<Rightarrow> if lh_items h = [] then EmptyView else CardsView (map fst (lh_items h)))"

subsection \<open>Trip cards (\<open>components/trip/TripCard.tsx\<close>)\<close>

datatype trip_badge = PastTrip | FullBadge | AvailableBadge

record trip_card =
  tc_perPersonFare :: int
  tc_availableSeats :: int
  tc_badge :: trip_badge

definition tripCard_view :: "timestamp \<Rightarrow> trip \<Rightarrow> trip_card" where
  "tripCard_view now t =
     (let availableSeats = maxPassengers t - currentPassengers t
      in \<lparr>tc_perPersonFare = calculatePerPersonFare (fare t) (currentPassengers t),
          tc_availableSeats = availableSeats,
          tc_badge = (if scheduledFor t < now then PastTrip
                      else if availableSeats = 0 then FullBadge else AvailableBadge)\<rparr>)"

definition tripCard_handleClick :: "uid option \<Rightarrow> doc_id \<Rightarrow> page_message toast list \<times> route" where
  "tripCard_handleClick user tid =
     (case user of None \<Rightarrow> ([ToastError ViewLoginRequired], RLogin) | Some _ \<Rightarrow> ([], RTrip tid))"

subsection \<open>Creating a trip (\<open>components/trip/CreateTripForm.tsx\<close>, \<open>pages/CreateTripPage.tsx\<close>)\<close>

record create_form =
  cf_direction :: trip_direction
  cf_pickup :: string
  cf_dropoff :: string
  cf_date :: string
  cf_availableSeats :: int
  cf_estimatedFare :: int

definition create_form_init :: create_form where
  "create_form_init =
     \<lparr>cf_direction = ToAirport, cf_pickup = [], cf_dropoff = [], cf_date = [], cf_availableSeats = 3,
      cf_estimatedFare = 0\<rparr>"

text \<open>The estimate effect of the creation form; unlike the search form it does not validate the route.\<close>

definition createForm_effect :: "create_form \<Rightarrow> create_form" where
  "createForm_effect cf =
     (if cf_pickup cf \<noteq> [] \<and> cf_dropoff cf \<noteq> [] then
        (case (find_station (cf_pickup cf), find_station (cf_dropoff cf)) of
           (Some ps, Some ds) \<Rightarrow> cf\<lparr>cf_estimatedFare := calculateFare (station_point ps) (station_point ds)\<rparr>
         | _ \<Rightarrow> cf)
      else cf)"

text \<open>The estimate per person shown by the form, for a full taxi (the seats offered plus the creator).\<close>

definition createForm_perPerson :: "create_form \<Rightarrow> int" where
  "createForm_perPerson cf = calculatePerPersonFare (cf_estimatedFare cf) (cf_availableSeats cf + 1)"

text \<open>
  The inputs of the creation form: the direction buttons clear pickup and dropoff (the
  estimate stays), the selects and the date input set their field, and the seat select
  stores \<open>Number(value)\<close>.
\<close>

datatype create_input =
    CSetDirection trip_direction | CInputPickup string | CInputDropoff string | CInputDate string
  | CInputSeats int

definition createForm_input :: "create_input \<Rightarrow> create_form \<Rightarrow> create_form" where
  "createForm_input i cf =
     (case i of
        CSetDirection d \<Rightarrow> cf\<lparr>cf_direction := d, cf_pickup := [], cf_dropoff := []\<rparr>
      | CInputPickup v \<Rightarrow> cf\<lparr>cf_pickup := v\<rparr>
      | CInputDropoff v \<Rightarrow> cf\<lparr>cf_dropoff := v\<rparr>
      | CInputDate v \<Rightarrow> cf\<lparr>cf_date := v\<rparr>
      | CInputSeats n \<Rightarrow> cf\<lparr>cf_availableSeats := n\<rparr>)"

text \<open>
  What the form renders: the station lists of the direction (the same lists as the search
  form's), the seat choices 1 to 3, the estimate panel when the estimate is positive (the
  fare and the per-person share), and the submit button, disabled while the hook is busy.
\<close>

record create_form_view =
  cfv_pickupOptions :: "station list"
  cfv_dropoffOptions :: "station list"
  cfv_seatOptions :: "int list"
  cfv_estimate :: "(int \<times> int) option"
  cfv_submitDisabled :: bool

definition createForm_view :: "bool \<Rightarrow> create_form \<Rightarrow> create_form_view" where
  "createForm_view loading cf =
     \<lparr>cfv_pickupOptions = pickup_options (cf_direction cf),
      cfv_dropoffOptions = dropoff_options (cf_direction cf),
      cfv_seatOptions = [1, 2, 3],
      cfv_estimate = (if 0 < cf_estimatedFare cf then Some (cf_estimatedFare cf, createForm_perPerson cf)
                      else None),
      cfv_submitDisabled = loading\<rparr>"

text \<open>
  \<open>handleSubmit\<close>: login, required fields, route; then \<open>useCreateTrip.createTrip\<close>
  with the form's data (whose toasts are shown too), and on a new id a second success
  toast and the trip's page.
\<close>

definition createForm_submit ::
  "(string \<Rightarrow> timestamp) \<Rightarrow> uid option \<Rightarrow> timestamp \<Rightarrow> backend_error + doc_id \<Rightarrow> create_form
   \<Rightarrow> trip_store \<Rightarrow> trip_store \<times> page_message toast list \<times> route option" where
  "createForm_submit parse user now addResult cf store =
     (case user of
        None \<Rightarrow> (store, [ToastError CreateLoginFirst], None)
      | Some _ \<Rightarrow>
          if cf_pickup cf = [] \<or> cf_dropoff cf = [] \<or> cf_date cf = []
          then (store, [ToastError FillAllFields], None)
          else case validateRoute (cf_pickup cf) (cf_dropoff cf) of
            Inl e \<Rightarrow> (store, [ToastError (RouteInvalid e)], None)
          | Inr _ \<Rightarrow>
              (let (tid, store', ts) =
                     createTrip user \<lparr>ct_pickup = cf_pickup cf, ct_dropoff = cf_dropoff cf,
                                      ct_date = parse (cf_date cf), ct_availableSeats = cf_availableSeats cf\<rparr>
                       now addResult store;
                   hook_toasts = map (map_toast HookMessage) ts
               in case tid of
                    None \<Rightarrow> (store', hook_toasts, None)
                  | Some i \<Rightarrow> (store', hook_toasts @ [ToastSuccess TripCreatedForm], Some (RTrip i))))"

text \<open>\<open>CreateTripPage\<close> without a user: a toast and a redirect to the login page, during rendering.\<close>

definition createTripPage_guard :: "uid option \<Rightarrow> (page_message toast list \<times> route) option" where
  "createTripPage_guard user =
     (case user of None \<Rightarrow> Some ([ToastError SignInToCreate], RLogin) | Some _ \<Rightarrow> None)"

text \<open>\<open>HomePage.handleCreateTrip\<close>.\<close>

definition home_handleCreateTrip :: "uid option \<Rightarrow> route" where
  "home_handleCreateTrip user = (case user of None \<Rightarrow> RLogin | Some _ \<Rightarrow> RCreateTrip)"

subsection \<open>Notifications (\<open>components/notifications\<close>)\<close>

text \<open>
  A click on a listed notification marks it as read in the store and opens its trip, if
  it has one; the bell shows the store's counter when it is positive; the list offers
  \<open>Mark all as read\<close> when some notification is unread.
\<close>

definition handleNotificationClick :: "notification \<Rightarrow> notification_state \<Rightarrow> notification_state \<times> route option" where
  "handleNotificationClick n st =
     (markAsRead (n_id n) st, if js_truthy_str (n_tripId n) then Some (RTrip (the (n_tripId n))) else None)"

definition notificationBell_badge :: "notification_state \<Rightarrow> int option" where
  "notificationBell_badge st = (if 0 < unreadCount st then Some (unreadCount st) else None)"

definition notificationList_showMarkAll :: "notification_state \<Rightarrow> bool" where
  "notificationList_showMarkAll st = list_ex (\<lambda>n. \<not> n_read n) (notifications st)"

text \<open>
  What the user and the backend can do to the notification store while the bell is
  mounted: a snapshot of \<open>useNotifications\<close>, a click on the notification at a position
  of the list, or \<open>Mark all as read\<close>.
\<close>

datatype bell_event = BellSnapshot "notification collection" | BellClick nat | BellMarkAll

fun bell_step :: "uid \<Rightarrow> notification_state \<Rightarrow> bell_event \<Rightarrow> notification_state" where
  "bell_step u st (BellSnapshot docs) = fst (useNotifications (Some u) (Inr docs) st)"
| "bell_step u st (BellClick i) =
     (if i < length (notifications st) then fst (handleNotificationClick (notifications st ! i) st) else st)"
| "bell_step u st BellMarkAll = (if notificationList_showMarkAll st then markAllAsRead st else st)"

text \<open>
  The invariant of the notification store under the bell's events: the counter is exact
  and the listed notifications have distinct ids. A snapshot is well-formed when its
  documents have distinct ids, as Firestore's do.
\<close>

definition bell_inv :: "notification_state \<Rightarrow> bool" where
  "bell_inv st \<longleftrightarrow> unread_inv st \<and> distinct (map n_id (notifications st))"

definition bell_event_ok :: "bell_event \<Rightarrow> bool" where
  "bell_event_ok e = (case e of BellSnapshot docs \<Rightarrow> distinct (map fst docs) | _ \<Rightarrow> True)"

subsection \<open>Properties of the pages\<close>

lemma searchForm_submit_RTrips:
  assumes "searchForm_submit parse fs bs = (bs', ts, Some RTrips)"
  obtains ps ds where "find_station (sf_pickup fs) = Some ps" "find_station (sf_dropoff fs) = Some ds"
    "validateRoute (sf_pickup fs) (sf_dropoff fs) = Inr ()" "sf_date fs \<noteq> []"
    "bs' = foldl booking_step bs
                  [SetPickup (Some (location_of_station ps)), SetDropoff (Some (location_of_station ds)),
                   SetDate (Some (parse (sf_date fs))), SetPassengers (sf_passengers fs)]"
  using assms
  by (auto simp: searchForm_submit_def split: if_splits option.splits sum.splits)

lemma n_id_snapshot [simp]: "n_id \<circ> (\<lambda>d. (snd d)\<lparr>n_id := fst d\<rparr>) = fst"
  by (rule ext) simp

lemma markAsRead_ids [simp]: "map n_id (notifications (markAsRead nid st)) = map n_id (notifications st)"
  by (induction "notifications st") (auto simp: markAsRead_def)

lemma markAllAsRead_ids [simp]: "map n_id (notifications (markAllAsRead st)) = map n_id (notifications st)"
  by (simp add: markAllAsRead_def)

lemma bell_step_inv:
  assumes "bell_inv st" "bell_event_ok e"
  shows "bell_inv (bell_step u st e)"
proof (cases e)
  case (BellSnapshot docs)
  with assms show ?thesis
    by (simp add: bell_inv_def bell_event_ok_def useNotifications_def Let_def setNotifications_def
                  unread_inv_def)
next
  case (BellClick i)
  show ?thesis
  proof (cases "i < length (notifications st)")
    case True
    then have "safe_action st (MarkAsRead (n_id (notifications st ! i)))"
      using assms(1) by (simp add: bell_inv_def)
    then have "unread_inv (markAsRead (n_id (notifications st ! i)) st)"
      using notification_step_keeps_unread [of st "MarkAsRead (n_id (notifications st ! i))"] assms(1)
      by (simp add: bell_inv_def)
    with True BellClick assms(1) show ?thesis
      by (simp add: bell_inv_def handleNotificationClick_def)
  next
    case False with BellClick assms(1) show ?thesis by simp
  qed
next
  case BellMarkAll
  have "unread_inv (markAllAsRead st)" by (simp add: unread_inv_def markAllAsRead_def)
  with BellMarkAll assms(1) show ?thesis by (simp add: bell_inv_def)
qed

lemma bell_run_inv:
  "bell_inv st \<Longrightarrow> list_all bell_event_ok evs \<Longrightarrow> bell_inv (foldl (bell_step u) st evs)"
  by (induction evs arbitrary: st) (auto intro: bell_step_inv)

text \<open>
  C29: searching from the home page lists exactly the matching trips: after a successful
  submission of the search form (with a passenger count the select offers), the trip
  list page does not redirect, and \<open>useTrips\<close> with the page's filters lists exactly the
  open trips from the chosen pickup to the chosen dropoff that leave at or after the
  chosen time and have at least as many free seats as passengers.
\<close>

theorem search_lists_matching_trips:
  assumes "searchForm_submit parse fs bs = (bs', ts, Some RTrips)"
      and "1 \<le> sf_passengers fs" "sf_passengers fs \<le> 3"
  shows "tripsPage_effect bs' = ([], None)
         \<and> set (lh_items (fst (useTrips (tripsPage_filters bs') (Inr docs) st)))
           = {d \<in> set docs. status (snd d) = Open \<and> st_id (pickup (snd d)) = sf_pickup fs
                          \<and> st_id (dropoff (snd d)) = sf_dropoff fs
                          \<and> parse (sf_date fs) \<le> scheduledFor (snd d)
                          \<and> sf_passengers fs \<le> maxPassengers (snd d) - currentPassengers (snd d)}"
proof -
  obtain ps ds where f: "find_station (sf_pickup fs) = Some ps" "find_station (sf_dropoff fs) = Some ds"
    "validateRoute (sf_pickup fs) (sf_dropoff fs) = Inr ()" "sf_date fs \<noteq> []"
    and b: "bs' = foldl booking_step bs
                  [SetPickup (Some (location_of_station ps)), SetDropoff (Some (location_of_station ds)),
                   SetDate (Some (parse (sf_date fs))), SetPassengers (sf_passengers fs)]"
    using searchForm_submit_RTrips [OF assms(1)] by blast
  have ids: "st_id ps = sf_pickup fs" "st_id ds = sf_dropoff fs"
    using find_station_Some [OF f(1)] find_station_Some [OF f(2)] by simp_all
  have ne: "sf_pickup fs \<noteq> []" "sf_dropoff fs \<noteq> []"
    using f(1,2) by (auto simp: find_station_def catalogue_defs)
  have st: "bs_pickup bs' = Some (location_of_station ps)" "bs_dropoff bs' = Some (location_of_station ds)"
    "bs_date bs' = Some (parse (sf_date fs))" "bs_passengers bs' = sf_passengers fs"
    using b assms(2,3) by (simp_all add: setPassengers_def)
  have "tripsPage_effect bs' = ([], None)"
    using st f(3) ids by (simp add: tripsPage_effect_def location_of_station_def js_or_empty_def)
  moreover have "trips_where (tripsPage_filters bs') t \<and> trips_client_filter (tripsPage_filters bs') t
      \<longleftrightarrow> status t = Open \<and> st_id (pickup t) = sf_pickup fs \<and> st_id (dropoff t) = sf_dropoff fs
          \<and> parse (sf_date fs) \<le> scheduledFor t \<and> sf_passengers fs \<le> maxPassengers t - currentPassengers t"
    for t
    using st ids ne assms(2)
    by (auto simp: trips_where_def trips_client_filter_def tripsPage_filters_def location_of_station_def
                   js_truthy_str_def js_truthy_int_def)
  ultimately show ?thesis by (simp add: set_useTrips_Inr)
qed

theorem search_lists_matching_trips_witness:
  "tripsPage_effect (fst (searchForm_submit (\<lambda>_. 1762940000000)
      (search_form_init\<lparr>sf_pickup := ''cdg'', sf_dropoff := ''haussmann-chaussee-antin'',
                         sf_date := ''2025-11-12T10:00'', sf_passengers := 1\<rparr>) booking_initial)) = ([], None)
   \<and> set (lh_items (fst (useTrips (tripsPage_filters (fst (searchForm_submit (\<lambda>_. 1762940000000)
      (search_form_init\<lparr>sf_pickup := ''cdg'', sf_dropoff := ''haussmann-chaussee-antin'',
                         sf_date := ''2025-11-12T10:00'', sf_passengers := 1\<rparr>) booking_initial)))
        (Inr [(''t1'', example_trip)]) list_hook_init))) = {(''t1'', example_trip)}"
proof -
  let ?fs = "search_form_init\<lparr>sf_pickup := ''cdg'', sf_dropoff := ''haussmann-chaussee-antin'',
                         sf_date := ''2025-11-12T10:00'', sf_passengers := 1\<rparr>"
  let ?r = "searchForm_submit (\<lambda>_. 1762940000000) ?fs booking_initial"
  have "snd (snd ?r) = Some RTrips" by code_simp
  then have h: "?r = (fst ?r, fst (snd ?r), Some RTrips)" by (metis prod.collapse)
  have p: "1 \<le> sf_passengers ?fs" "sf_passengers ?fs \<le> 3" by (simp_all add: search_form_init_def)
  have e: "{d \<in> set [(''t1'', example_trip)]. status (snd d) = Open \<and> st_id (pickup (snd d)) = sf_pickup ?fs
                          \<and> st_id (dropoff (snd d)) = sf_dropoff ?fs
                          \<and> 1762940000000 \<le> scheduledFor (snd d)
                          \<and> sf_passengers ?fs \<le> maxPassengers (snd d) - currentPassengers (snd d)}
        = {(''t1'', example_trip)}"
  proof -
    have "status example_trip = Open \<and> st_id (pickup example_trip) = ''cdg''
          \<and> st_id (dropoff example_trip) = ''haussmann-chaussee-antin''
          \<and> 1762940000000 \<le> scheduledFor example_trip
          \<and> 1 \<le> maxPassengers example_trip - currentPassengers example_trip"
      by (simp add: example_trip_def catalogue_defs)
    then show ?thesis by (auto simp: search_form_init_def)
  qed
  from search_lists_matching_trips [OF h p, where docs = "[(''t1'', example_trip)]" and st = list_hook_init] e
  show ?thesis by simp
qed

text \<open>
  C31: while notifications are only changed through the bell (snapshots, clicks on listed
  notifications, \<open>Mark all as read\<close>), the bell's badge shows exactly the number of
  unread notifications in the list, or nothing when there are none.
\<close>

theorem bell_badge_exact:
  assumes "list_all bell_event_ok evs"
  shows "notificationBell_badge (foldl (bell_step u) notification_init evs)
         = (if 0 < count_unread (notifications (foldl (bell_step u) notification_init evs))
            then Some (count_unread (notifications (foldl (bell_step u) notification_init evs)))
            else None)"
proof -
  have "bell_inv notification_init" by (simp add: bell_inv_def unread_inv_def notification_init_def)
  from bell_run_inv [OF this assms] show ?thesis
    by (simp add: bell_inv_def unread_inv_def notificationBell_badge_def)
qed

theorem bell_badge_exact_witness:
  "notificationBell_badge (foldl (bell_step ''carla'') notification_init
     [BellSnapshot [(''n1'', example_notification [] False), (''n2'', example_notification [] False)],
      BellClick 0]) = Some 1"
proof -
  let ?evs = "[BellSnapshot [(''n1'', example_notification [] False), (''n2'', example_notification [] False)],
      BellClick 0]"
  have h: "list_all bell_event_ok ?evs" by (simp add: bell_event_ok_def)
  have c: "count_unread (notifications (foldl (bell_step ''carla'') notification_init ?evs)) = 1"
    by code_simp
  from bell_badge_exact [OF h, of "''carla''"] c show ?thesis by simp
qed

text \<open>
  C33: a trip created from the creation form always has three free seats, whatever
  number of seats the form offered; the number chosen is stored in \<open>availableSeats\<close>
  and never consulted. On success the form shows two success toasts, one from the hook
  and one of its own.
\<close>

theorem createForm_seats_ignored:
  assumes "createForm_submit parse (Some u) now (Inr tid) cf store = (store', ts, r)"
      and "validateRoute (cf_pickup cf) (cf_dropoff cf) = Inr ()" "cf_date cf \<noteq> []"
  shows "r = Some (RTrip tid)
         \<and> ts = [ToastSuccess (HookMessage TripCreated), ToastSuccess TripCreatedForm]
         \<and> (\<exists>t. store' tid = Some t \<and> maxPassengers t - currentPassengers t = 3
                \<and> availableSeats t = cf_availableSeats cf)"
proof -
  obtain ps ds where f: "find_station (cf_pickup cf) = Some ps" "find_station (cf_dropoff cf) = Some ds"
    using validateRoute_Inr_D [OF assms(2)] by blast
  have ne: "cf_pickup cf \<noteq> []" "cf_dropoff cf \<noteq> []"
    using f by (auto simp: find_station_def catalogue_defs)
  show ?thesis
    using assms(1) assms(2,3) f ne
    by (auto simp: createForm_submit_def createTrip_def new_trip_def)
qed


theorem createForm_seats_ignored_witness:
  "\<exists>t. fst (createForm_submit (\<lambda>_. 1763000000000) (Some ''ana'') 1762700000000 (Inr ''t2'')
          (create_form_init\<lparr>cf_pickup := ''saint-antoine'', cf_dropoff := ''cdg'', cf_date := ''x'',
                             cf_availableSeats := 1\<rparr>) example_store) ''t2'' = Some t
       \<and> maxPassengers t - currentPassengers t = 3 \<and> availableSeats t = 1"
proof -
  let ?cf = "create_form_init\<lparr>cf_pickup := ''saint-antoine'', cf_dropoff := ''cdg'', cf_date := ''x'',
                             cf_availableSeats := 1\<rparr>"
  let ?r = "createForm_submit (\<lambda>_. 1763000000000) (Some ''ana'') 1762700000000 (Inr ''t2'') ?cf example_store"
  have h: "?r = (fst ?r, fst (snd ?r), snd (snd ?r))" by simp
  have v: "validateRoute (cf_pickup ?cf) (cf_dropoff ?cf) = Inr ()" by code_simp
  have d: "cf_date ?cf \<noteq> []" by (simp add: create_form_init_def)
  from createForm_seats_ignored [OF h v d] show ?thesis by (simp add: create_form_init_def)
qed

subsection \<open>The search form and the route validator agree\<close>

lemma AIRPORTS_type_all: "\<forall>s \<in> set AIRPORTS. st_type s = Airport"
  by code_simp

lemma ground_stations_type_all: "\<forall>s \<in> set (TRAIN_STATIONS @ TAXI_STATIONS). st_type s = Train \<or> st_type s = Taxi"
  by code_simp

lemma AIRPORTS_type: "s \<in> set AIRPORTS \<Longrightarrow> st_type s = Airport"
  using AIRPORTS_type_all by blast

lemma ground_stations_type:
  "s \<in> set TRAIN_STATIONS \<or> s \<in> set TAXI_STATIONS \<Longrightarrow> st_type s = Train \<or> st_type s = Taxi"
  using ground_stations_type_all by auto

lemma pickup_options_station: "s \<in> set (pickup_options dir) \<Longrightarrow> s \<in> set ALL_STATIONS"
  by (cases dir) (auto simp: pickup_options_def ALL_STATIONS_def)

lemma dropoff_options_station: "s \<in> set (dropoff_options dir) \<Longrightarrow> s \<in> set ALL_STATIONS"
  by (cases dir) (auto simp: dropoff_options_def ALL_STATIONS_def)

text \<open>
  C40. The search form offers exactly the routes the route validator accepts: a pair of
  ids passes \<open>validateRoute\<close> if and only if, for some direction, the pickup select
  offers the first and the dropoff select the second.
\<close>

theorem search_options_exact:
  "validateRoute p d = Inr () \<longleftrightarrow>
   (\<exists>dir. p \<in> st_id ` set (pickup_options dir) \<and> d \<in> st_id ` set (dropoff_options dir))"
proof
  assume "validateRoute p d = Inr ()"
  then obtain ps ds where f: "find_station p = Some ps" "find_station d = Some ds"
      and ty: "(st_type ps = Airport) \<noteq> (st_type ds = Airport)"
    using validateRoute_Inr_D by blast
  from f have m: "ps \<in> set ALL_STATIONS" "st_id ps = p" "ds \<in> set ALL_STATIONS" "st_id ds = d"
    using find_station_Some by blast+
  have side: "s \<in> set ALL_STATIONS \<Longrightarrow> (st_type s = Airport) = (s \<in> set AIRPORTS)" for s
    using AIRPORTS_type ground_stations_type by (fastforce simp: ALL_STATIONS_def)
  show "\<exists>dir. p \<in> st_id ` set (pickup_options dir) \<and> d \<in> st_id ` set (dropoff_options dir)"
  proof (cases "st_type ps = Airport")
    case True
    with ty m side have "ps \<in> set AIRPORTS" "ds \<in> set (TRAIN_STATIONS @ TAXI_STATIONS)"
      by (auto simp: ALL_STATIONS_def)
    with m show ?thesis
      by (intro exI [of _ FromAirport]) (auto simp: pickup_options_def dropoff_options_def)
  next
    case False
    with ty m side have "ds \<in> set AIRPORTS" "ps \<in> set (TRAIN_STATIONS @ TAXI_STATIONS)"
      by (auto simp: ALL_STATIONS_def)
    with m show ?thesis
      by (intro exI [of _ ToAirport]) (auto simp: pickup_options_def dropoff_options_def)
  qed
next
  assume "\<exists>dir. p \<in> st_id ` set (pickup_options dir) \<and> d \<in> st_id ` set (dropoff_options dir)"
  then obtain dir ps ds where o: "ps \<in> set (pickup_options dir)" "ds \<in> set (dropoff_options dir)"
      and ids: "p = st_id ps" "d = st_id ds"
    by blast
  have f: "find_station p = Some ps" "find_station d = Some ds"
    using ids find_station_member pickup_options_station [OF o(1)] dropoff_options_station [OF o(2)] by simp_all
  show "validateRoute p d = Inr ()"
    using o AIRPORTS_type ground_stations_type
    by (cases dir) (fastforce simp: validateRoute_def f pickup_options_def dropoff_options_def)+
qed

theorem search_options_exact_witness:
  "validateRoute ''cdg'' ''saint-antoine'' = Inr ()
   \<and> validateRoute ''cdg'' ''orly'' \<noteq> Inr ()"
proof -
  have "''cdg'' \<in> st_id ` set (pickup_options FromAirport)"
       "''saint-antoine'' \<in> st_id ` set (dropoff_options FromAirport)"
    by code_simp+
  moreover have "\<not> (\<exists>dir. ''cdg'' \<in> st_id ` set (pickup_options dir) \<and> ''orly'' \<in> st_id ` set (dropoff_options dir))"
  proof -
    have "''cdg'' \<notin> st_id ` set (pickup_options ToAirport)"
         "''orly'' \<notin> st_id ` set (dropoff_options FromAirport)"
      by code_simp+
    then show ?thesis by (metis trip_direction.exhaust)
  qed
  ultimately show ?thesis using search_options_exact [of "''cdg''" "''saint-antoine''"]
      search_options_exact [of "''cdg''" "''orly''"] by blast
qed

lemma createForm_direction_keeps_estimate:
  "cf_estimatedFare (createForm_effect (createForm_input (CSetDirection d) cf)) = cf_estimatedFare cf
   \<and> cfv_estimate (createForm_view l (createForm_effect (createForm_input (CSetDirection d) cf)))
     = cfv_estimate (createForm_view l cf)"
  by (simp add: createForm_effect_def createForm_input_def createForm_view_def createForm_perPerson_def)

end
