(* ===== verification/Profile.thy ===== *)
theory Profile
  imports Queries "HOL-Library.AList" "HOL-Library.Monad_Syntax"
begin

text \<open>
  User documents, authentication and the profile pages: \<open>contexts/AuthContext.tsx\<close>
  (the auth state listener, the redirect handler, \<open>signUp\<close>),
  \<open>components/auth/SocialLogin.tsx\<close>, \<open>pages/ProfilePage.tsx\<close>,
  \<open>components/profile/ProfileTabs.tsx\<close> and \<open>ProfileSettings.tsx\<close>.

  The \<open>users\<close> collection is written with \<open>setDoc\<close> (replace), \<open>setDoc(...,
  {merge: true})\<close> (override the given top-level fields, create the document if absent)
  and \<open>updateDoc\<close> (the same on an existing document, an error otherwise), and read back
  with \<open>{uid: docSnap.id, ...docSnap.data()} as UserProfile\<close>. To give those writes
  their meaning a user document is modelled as Firestore stores it, a list of
  (field, value) pairs, and \<open>profile_of\<close> is the typed reading: it returns the
  \<open>UserProfile\<close> when every field the interface declares is present with its declared
  type, and \<open>None\<close> for a document the cast misdescribes. Authentication itself
  (Firebase Auth) is outside the model; its results are parameters.
\<close>

datatype fs_value = FsNull | FsBool bool | FsStr string | FsTime timestamp | FsMap "(string \<times> fs_value) list"

type_synonym fs_doc = "(string \<times> fs_value) list"

type_synonym doc_store = "doc_id \<Rightarrow> fs_doc option"

subsection \<open>Document writes\<close>

text \<open>The given fields override those of the old document, which keeps its other fields.\<close>

definition fs_merge :: "fs_doc \<Rightarrow> fs_doc \<Rightarrow> fs_doc" where
  "fs_merge new old = foldl (\<lambda>d (k, v). AList.update k v d) old new"

definition setDoc_merge :: "doc_store \<Rightarrow> doc_id \<Rightarrow> fs_doc \<Rightarrow> doc_store" where
  "setDoc_merge s i new = s(i \<mapsto> fs_merge new (case s i of None \<Rightarrow> [] | Some d \<Rightarrow> d))"

definition updateDoc_fs :: "doc_store \<Rightarrow> doc_id \<Rightarrow> fs_doc \<Rightarrow> doc_store option" where
  "updateDoc_fs s i new = (case s i of None \<Rightarrow> None | Some d \<Rightarrow> Some (s(i \<mapsto> fs_merge new d)))"

subsection \<open>User profiles as documents (\<open>types/user.ts\<close>)\<close>

definition str_or_null :: "string option \<Rightarrow> fs_value" where
  "str_or_null v = (case v of None \<Rightarrow> FsNull | Some s \<Rightarrow> FsStr s)"

definition time_or_null :: "timestamp option \<Rightarrow> fs_value" where
  "time_or_null v = (case v of None \<Rightarrow> FsNull | Some t \<Rightarrow> FsTime t)"

definition settings_value :: "profile_settings \<Rightarrow> fs_value" where
  "settings_value s =
     FsMap [(''isPublic'', FsBool (ps_isPublic s)), (''emailNotifications'', FsBool (ps_emailNotifications s)),
            (''pushNotifications'', FsBool (ps_pushNotifications s))]"

fun read_str :: "fs_value option \<Rightarrow> string option" where
  "read_str (Some (FsStr s)) = Some s"
| "read_str _ = None"

fun read_bool :: "fs_value option \<Rightarrow> bool option" where
  "read_bool (Some (FsBool b)) = Some b"
| "read_bool _ = None"

fun read_str_or_null :: "fs_value option \<Rightarrow> string option option" where
  "read_str_or_null (Some FsNull) = Some None"
| "read_str_or_null (Some (FsStr s)) = Some (Some s)"
| "read_str_or_null _ = None"

fun read_time_or_null :: "fs_value option \<Rightarrow> timestamp option option" where
  "read_time_or_null (Some FsNull) = Some None"
| "read_time_or_null (Some (FsTime t)) = Some (Some t)"
| "read_time_or_null _ = None"

fun read_settings :: "fs_value option \<Rightarrow> profile_settings option option" where
  "read_settings None = Some None"
| "read_settings (Some (FsMap m)) =
     do { a \<leftarrow> read_bool (map_of m ''isPublic'');
          b \<leftarrow> read_bool (map_of m ''emailNotifications'');
          c \<leftarrow> read_bool (map_of m ''pushNotifications'');
          Some (Some \<lparr>ps_isPublic = a, ps_emailNotifications = b, ps_pushNotifications = c\<rparr>) }"
| "read_settings (Some _) = None"

definition profile_of :: "uid \<Rightarrow> fs_doc \<Rightarrow> user_profile option" where
  "profile_of u d =
     do { email \<leftarrow> read_str (map_of d ''email'');
          displayName \<leftarrow> read_str_or_null (map_of d ''displayName'');
          photoURL \<leftarrow> read_str_or_null (map_of d ''photoURL'');
          bio \<leftarrow> read_str_or_null (map_of d ''bio'');
          phoneNumber \<leftarrow> read_str_or_null (map_of d ''phoneNumber'');
          isPublic \<leftarrow> read_bool (map_of d ''isPublic'');
          createdAt \<leftarrow> read_time_or_null (map_of d ''createdAt'');
          lastLoginAt \<leftarrow> read_time_or_null (map_of d ''lastLoginAt'');
          settings \<leftarrow> read_settings (map_of d ''settings'');
          Some \<lparr>up_uid = u, up_email = email, up_displayName = displayName, up_photoURL = photoURL,
                up_bio = bio, up_phoneNumber = phoneNumber, up_isPublic = isPublic,
                up_createdAt = createdAt, up_lastLoginAt = lastLoginAt, up_settings = settings\<rparr> }"

subsection \<open>Authentication (\<open>contexts/AuthContext.tsx\<close>)\<close>

datatype auth_message =
    LoggedIn | ProfileUpdateFailed | SignInFailed | GoogleLoggedIn | PopupBlocked | UnauthorizedDomain
  | GoogleFailed | SettingsUpdated | SettingsUpdateFailed
  | InvalidEmailAddress | PasswordTooShort | PasswordsDiffer | LoginSucceeded | BadCredentials
  | AccountDisabled | LoginFailed | AccountCreated | EmailInUse | EmailSignupDisabled | PasswordTooWeak
  | SignupFailed

text \<open>The error codes of Firebase Auth the handlers distinguish.\<close>

datatype auth_error =
    RedirectCancelledByUser | PopupBlockedErr | UnauthorizedDomainErr | InvalidCredential | WrongPassword
  | UserNotFound | UserDisabled | EmailAlreadyInUse | InvalidEmailErr | OperationNotAllowed | WeakPassword
  | OtherAuthError

text \<open>What Firebase Auth reports of a signed-in account.\<close>

record auth_user =
  au_uid :: uid
  au_email :: "string option"
  au_displayName :: "string option"
  au_photoURL :: "string option"

record auth_state =
  as_user :: "uid option"
  as_loading :: bool

definition auth_init :: auth_state where
  "auth_init = \<lparr>as_user = None, as_loading = True\<rparr>"

text \<open>
  The \<open>onAuthStateChanged\<close> listener: for a signed-in user it merges the login time into
  the user's document (a failed write only shows a toast), then records the user and
  clears \<open>loading\<close>.
\<close>

definition onAuthStateChanged ::
  "auth_user option \<Rightarrow> backend_error option \<Rightarrow> timestamp \<Rightarrow> auth_state \<Rightarrow> doc_store
   \<Rightarrow> auth_state \<times> doc_store \<times> auth_message toast list" where
  "onAuthStateChanged user fault now st users =
     (let st' = st\<lparr>as_user := map_option au_uid user, as_loading := False\<rparr>
      in case user of
           None \<Rightarrow> (st', users, [])
         | Some u \<Rightarrow>
             (case fault of
                None \<Rightarrow> (st', setDoc_merge users (au_uid u) [(''lastLoginAt'', FsTime now)], [])
              | Some _ \<Rightarrow> (st', users, [ToastError ProfileUpdateFailed])))"

text \<open>
  The handler of \<open>getRedirectResult\<close>: the account's public fields are merged in; a
  rejected redirect shows an error unless the user cancelled it.
\<close>

definition redirectResult ::
  "auth_error + auth_user option \<Rightarrow> backend_error option \<Rightarrow> timestamp \<Rightarrow> doc_store
   \<Rightarrow> doc_store \<times> auth_message toast list" where
  "redirectResult result fault now users =
     (case result of
        Inl e \<Rightarrow> (users, if e = RedirectCancelledByUser then [] else [ToastError SignInFailed])
      | Inr None \<Rightarrow> (users, [])
      | Inr (Some u) \<Rightarrow>
          (case fault of
             None \<Rightarrow> (setDoc_merge users (au_uid u)
                        [(''email'', str_or_null (au_email u)), (''displayName'', str_or_null (au_displayName u)),
                         (''photoURL'', str_or_null (au_photoURL u)), (''lastLoginAt'', FsTime now)],
                      [ToastSuccess LoggedIn])
           | Some _ \<Rightarrow> (users, [ToastError ProfileUpdateFailed])))"

text \<open>
  \<open>signUp\<close>: after Firebase Auth created the account (\<open>created\<close>, an error or the new
  account), the user document is written with \<open>setDoc\<close>, replacing any document of
  that id; a failure of either step is rethrown, as \<open>Inl\<close>.
\<close>

definition default_settings :: profile_settings where
  "default_settings = \<lparr>ps_isPublic = True, ps_emailNotifications = True, ps_pushNotifications = True\<rparr>"

definition signup_doc :: "auth_user \<Rightarrow> timestamp \<Rightarrow> fs_doc" where
  "signup_doc u now =
     [(''email'', str_or_null (au_email u)), (''displayName'', FsNull), (''photoURL'', FsNull),
      (''bio'', FsNull), (''phoneNumber'', FsNull), (''isPublic'', FsBool True), (''createdAt'', FsTime now),
      (''lastLoginAt'', FsTime now), (''settings'', settings_value default_settings)]"

definition signUp ::
  "auth_error + auth_user \<Rightarrow> backend_error option \<Rightarrow> timestamp \<Rightarrow> doc_store
   \<Rightarrow> (auth_error + backend_error) + doc_store" where
  "signUp created fault now users =
     (case created of
        Inl e \<Rightarrow> Inl (Inl e)
      | Inr u \<Rightarrow>
          (case fault of
             Some e \<Rightarrow> Inl (Inr e)
           | None \<Rightarrow> Inr (users(au_uid u \<mapsto> signup_doc u now))))"

text \<open>\<open>AuthProvider\<close> renders the application only once the first auth state has arrived.\<close>

definition authProvider_renders :: "auth_state \<Rightarrow> bool" where
  "authProvider_renders st = (\<not> as_loading st)"

subsection \<open>Google sign-in (\<open>components/auth/SocialLogin.tsx\<close>)\<close>

text \<open>
  \<open>handleGoogleLogin\<close> reads the user document and then writes it: a full document when
  the read found none, a merge of the login time otherwise. The two steps are separate
  requests; \<open>googleLogin_write\<close> is the second, given what the first observed.
\<close>

definition google_doc :: "auth_user \<Rightarrow> timestamp \<Rightarrow> fs_doc" where
  "google_doc u now =
     [(''email'', str_or_null (au_email u)), (''displayName'', str_or_null (au_displayName u)),
      (''photoURL'', str_or_null (au_photoURL u)), (''createdAt'', FsTime now), (''lastLoginAt'', FsTime now),
      (''provider'', FsStr ''google''), (''settings'', settings_value default_settings)]"

definition googleLogin_write :: "bool \<Rightarrow> auth_user \<Rightarrow> timestamp \<Rightarrow> doc_store \<Rightarrow> doc_store" where
  "googleLogin_write existed u now users =
     (if \<not> existed then users(au_uid u \<mapsto> google_doc u now)
      else setDoc_merge users (au_uid u) [(''lastLoginAt'', FsTime now)])"

text \<open>
  The handler as a whole, when no other write intervenes: a failure of the popup or of a
  document request lands in the \<open>catch\<close>, whose toast depends on the error code.
\<close>

definition handleGoogleLogin ::
  "auth_error + auth_user \<Rightarrow> backend_error option \<Rightarrow> timestamp \<Rightarrow> doc_store
   \<Rightarrow> doc_store \<times> auth_message toast list \<times> route option" where
  "handleGoogleLogin popup fault now users =
     (case popup of
        Inl e \<Rightarrow> (users, [ToastError (if e = PopupBlockedErr then PopupBlocked
                                     else if e = UnauthorizedDomainErr then UnauthorizedDomain
                                     else GoogleFailed)], None)
      | Inr u \<Rightarrow>
          (case fault of
             Some _ \<Rightarrow> (users, [ToastError GoogleFailed], None)
           | None \<Rightarrow> (googleLogin_write (users (au_uid u) \<noteq> None) u now users,
                      [ToastSuccess GoogleLoggedIn], Some RHome)))"

subsection \<open>The profile pages\<close>

text \<open>
  \<open>ProfilePage\<close>: the profile of the route's user id, or of the signed-in user; the page
  is the owner's when the signed-in user is that profile's user.
\<close>

record profile_page =
  prp_profile :: "(uid \<times> fs_doc) option"
  prp_loading :: bool

definition fetchProfile ::
  "string option \<Rightarrow> uid option \<Rightarrow> backend_error option \<Rightarrow> doc_store \<Rightarrow> profile_page \<Rightarrow> profile_page" where
  "fetchProfile userId user fault users pg =
     (let profileId = (if js_truthy_str userId then userId else user)
      in case profileId of
           None \<Rightarrow> pg\<lparr>prp_loading := False\<rparr>
         | Some pid \<Rightarrow>
             (case (fault, users pid) of
                (None, Some d) \<Rightarrow> pg\<lparr>prp_profile := Some (pid, d), prp_loading := False\<rparr>
              | _ \<Rightarrow> pg\<lparr>prp_loading := False\<rparr>))"

definition isOwnProfile :: "uid option \<Rightarrow> profile_page \<Rightarrow> bool" where
  "isOwnProfile user pg = (case prp_profile pg of Some (pid, _) \<Rightarrow> user = Some pid | None \<Rightarrow> False)"

datatype profile_tab = TabTrips | TabReviews | TabSettings

datatype tab_content = UserTripsOf uid | UserReviewsOf uid | SettingsPanel | NoContent

definition profile_tabs :: "bool \<Rightarrow> profile_tab list" where
  "profile_tabs own = [TabTrips, TabReviews] @ (if own then [TabSettings] else [])"

definition renderTabContent :: "uid \<Rightarrow> bool \<Rightarrow> profile_tab \<Rightarrow> tab_content" where
  "renderTabContent u own tab =
     (case tab of
        TabTrips \<Rightarrow> UserTripsOf u
      | TabReviews \<Rightarrow> UserReviewsOf u
      | TabSettings \<Rightarrow> (if own then SettingsPanel else NoContent))"

text \<open>
  \<open>ProfileSettings\<close>: the panel starts from fixed defaults, not from the stored settings;
  a switch negates one setting; \<open>handleSave\<close> writes the panel's settings into the
  signed-in user's document with \<open>updateDoc\<close>.
\<close>

datatype setting_key = KeyIsPublic | KeyEmailNotifications | KeyPushNotifications

definition handleToggle :: "setting_key \<Rightarrow> profile_settings \<Rightarrow> profile_settings" where
  "handleToggle k s =
     (case k of
        KeyIsPublic \<Rightarrow> s\<lparr>ps_isPublic := \<not> ps_isPublic s\<rparr>
      | KeyEmailNotifications \<Rightarrow> s\<lparr>ps_emailNotifications := \<not> ps_emailNotifications s\<rparr>
      | KeyPushNotifications \<Rightarrow> s\<lparr>ps_pushNotifications := \<not> ps_pushNotifications s\<rparr>)"

definition settings_handleSave ::
  "uid option \<Rightarrow> backend_error option \<Rightarrow> profile_settings \<Rightarrow> doc_store \<Rightarrow> doc_store \<times> auth_message toast list" where
  "settings_handleSave user fault s users =
     (case user of
        None \<Rightarrow> (users, [])
      | Some u \<Rightarrow>
          (case (fault, updateDoc_fs users u [(''settings'', settings_value s)]) of
             (None, Some users') \<Rightarrow> (users', [ToastSuccess SettingsUpdated])
           | _ \<Rightarrow> (users, [ToastError SettingsUpdateFailed])))"

subsection \<open>Login and registration forms (\<open>components/LoginForm.tsx\<close>, \<open>RegisterForm.tsx\<close>)\<close>

text \<open>
  The zod schemas: a well-formed email address (zod's pattern, the parameter
  \<open>email_ok\<close>), a password of at least six characters and, for registration, an equal
  confirmation. String checks do not abort the object, so every check runs and
  \<open>errors[0]\<close> is the first failing one in schema order.
\<close>

definition login_schema_error :: "(string \<Rightarrow> bool) \<Rightarrow> string \<Rightarrow> string \<Rightarrow> auth_message option" where
  "login_schema_error email_ok email password =
     (if \<not> email_ok email then Some InvalidEmailAddress
      else if length password < 6 then Some PasswordTooShort else None)"

definition register_schema_error ::
  "(string \<Rightarrow> bool) \<Rightarrow> string \<Rightarrow> string \<Rightarrow> string \<Rightarrow> auth_message option" where
  "register_schema_error email_ok email password confirm =
     (case login_schema_error email_ok email password of
        Some m \<Rightarrow> Some m
      | None \<Rightarrow> if password \<noteq> confirm then Some PasswordsDiffer else None)"

text \<open>
  \<open>LoginForm.handleSubmit\<close>: on success the administrator's address goes to
  \<open>/admin\<close>, every other user to the home page; a rejected sign-in shows the message
  of its error code.
\<close>

definition login_error_message :: "auth_error \<Rightarrow> auth_message" where
  "login_error_message e =
     (if e \<in> {InvalidCredential, WrongPassword, UserNotFound} then BadCredentials
      else if e = UserDisabled then AccountDisabled else LoginFailed)"

definition login_handleSubmit ::
  "(string \<Rightarrow> bool) \<Rightarrow> string \<Rightarrow> string \<Rightarrow> auth_error option \<Rightarrow> auth_message toast list \<times> route option" where
  "login_handleSubmit email_ok email password signInResult =
     (case login_schema_error email_ok email password of
        Some m \<Rightarrow> ([ToastError m], None)
      | None \<Rightarrow>
          (case signInResult of
             Some e \<Rightarrow> ([ToastError (login_error_message e)], None)
           | None \<Rightarrow> ([ToastSuccess LoginSucceeded],
                      Some (if email = ''admin@cotaxiage.com'' then RAdmin else RHome))))"

text \<open>
  \<open>RegisterForm.handleSubmit\<close>: \<open>signUp\<close> as above; a Firestore error from its
  \<open>setDoc\<close> is a \<open>FirebaseError\<close> with a code of its own and gets the default
  message. A new account navigates to \<open>/dashboard\<close>.
\<close>

definition register_error_message :: "auth_error + backend_error \<Rightarrow> auth_message" where
  "register_error_message e =
     (case e of
        Inl EmailAlreadyInUse \<Rightarrow> EmailInUse
      | Inl InvalidEmailErr \<Rightarrow> InvalidEmailAddress
      | Inl OperationNotAllowed \<Rightarrow> EmailSignupDisabled
      | Inl WeakPassword \<Rightarrow> PasswordTooWeak
      | _ \<Rightarrow> SignupFailed)"

definition register_handleSubmit ::
  "(string \<Rightarrow> bool) \<Rightarrow> string \<Rightarrow> string \<Rightarrow> string \<Rightarrow> auth_error + auth_user \<Rightarrow> backend_error option
   \<Rightarrow> timestamp \<Rightarrow> doc_store \<Rightarrow> doc_store \<times> auth_message toast list \<times> route option" where
  "register_handleSubmit email_ok email password confirm created fault now users =
     (case register_schema_error email_ok email password confirm of
        Some m \<Rightarrow> (users, [ToastError m], None)
      | None \<Rightarrow>
          (case signUp created fault now users of
             Inl e \<Rightarrow> (users, [ToastError (register_error_message e)], None)
           | Inr users' \<Rightarrow> (users', [ToastSuccess AccountCreated], Some RDashboard)))"

text \<open>The paths of \<open>App.tsx\<close> with a route, and those of the nested \<open>BookingPage\<close>.\<close>

definition app_route :: "route \<Rightarrow> bool" where
  "app_route r =
     (case r of
        RHome \<Rightarrow> True | RLogin \<Rightarrow> True | RRegister \<Rightarrow> True | RBooking \<Rightarrow> True | RTrips \<Rightarrow> True
      | RProfile \<Rightarrow> True | RCreateTrip \<Rightarrow> True | RTrip _ \<Rightarrow> True | RAdmin \<Rightarrow> True
      | _ \<Rightarrow> False)"

text \<open>An account used by the examples below.\<close>

definition example_auth_user :: auth_user where
  "example_auth_user = \<lparr>au_uid = ''u1'', au_email = Some ''ana@example.org'', au_displayName = Some ''Ana'',
                         au_photoURL = None\<rparr>"

subsection \<open>Properties of the user documents\<close>

lemma map_of_fs_merge: "map_of (fs_merge new old) = map_of old ++ map_of (rev new)"
proof (induction new arbitrary: old)
  case Nil then show ?case by (simp add: fs_merge_def)
next
  case (Cons x xs)
  obtain k v where x: "x = (k, v)" by (cases x)
  have "fs_merge (x # xs) old = fs_merge xs (AList.update k v old)" by (simp add: fs_merge_def x)
  with Cons.IH show ?case by (simp add: x update_conv' fun_upd_def map_add_def fun_eq_iff split: option.splits)
qed

lemma map_of_setDoc_merge:
  "map_of (the (setDoc_merge users i new i)) = map_of (case users i of None \<Rightarrow> [] | Some d \<Rightarrow> d) ++ map_of (rev new)"
  by (simp add: setDoc_merge_def map_of_fs_merge)

lemma signup_doc_profile:
  "au_email u = Some e \<Longrightarrow> profile_of (au_uid u) (signup_doc u now) =
     Some \<lparr>up_uid = au_uid u, up_email = e, up_displayName = None, up_photoURL = None,
      up_bio = None, up_phoneNumber = None, up_isPublic = True, up_createdAt = Some now,
      up_lastLoginAt = Some now, up_settings = Some default_settings\<rparr>"
  by (simp add: profile_of_def signup_doc_def str_or_null_def settings_value_def default_settings_def)

text \<open>
  C35: an account created by \<open>signUp\<close> (with an email address) has a document that
  conforms to \<open>UserProfile\<close>, with its email and all settings on, whether the auth
  listener's merge of the login time lands after the sign-up's \<open>setDoc\<close> or before it.
\<close>

theorem signUp_profile_conforms:
  assumes "au_email u = Some e"
  shows "(\<forall>users1. signUp (Inr u) None ta users = Inr users1 \<longrightarrow>
            (\<exists>p. profile_of (au_uid u) (the (fst (snd (onAuthStateChanged (Some u) None tb st users1)) (au_uid u)))
                   = Some p \<and> up_email p = e \<and> up_settings p = Some default_settings))
       \<and> (\<forall>users2. signUp (Inr u) None ta (fst (snd (onAuthStateChanged (Some u) None tb st users))) = Inr users2 \<longrightarrow>
            (\<exists>p. profile_of (au_uid u) (the (users2 (au_uid u))) = Some p
                   \<and> up_email p = e \<and> up_settings p = Some default_settings))"
proof -
  have m: "map_of (fs_merge [(''lastLoginAt'', FsTime tb)] (signup_doc u ta))
             = map_of (signup_doc u ta) ++ map_of [(''lastLoginAt'', FsTime tb)]"
    by (simp add: map_of_fs_merge)
  have "profile_of (au_uid u) (fs_merge [(''lastLoginAt'', FsTime tb)] (signup_doc u ta)) =
     Some \<lparr>up_uid = au_uid u, up_email = e, up_displayName = None, up_photoURL = None,
      up_bio = None, up_phoneNumber = None, up_isPublic = True, up_createdAt = Some ta,
      up_lastLoginAt = Some tb, up_settings = Some default_settings\<rparr>"
    unfolding profile_of_def m using assms
    by (simp add: signup_doc_def str_or_null_def settings_value_def default_settings_def)
  then show ?thesis using signup_doc_profile [OF assms]
    by (auto simp: signUp_def onAuthStateChanged_def setDoc_merge_def Let_def)
qed

theorem signUp_profile_conforms_witness:
  "\<exists>p. profile_of ''u1'' (the (fst (snd (onAuthStateChanged (Some example_auth_user) None 1762700000100 auth_init
          [''u1'' \<mapsto> signup_doc example_auth_user 1762700000000])) ''u1''))
       = Some p \<and> up_email p = ''ana@example.org'' \<and> up_settings p = Some default_settings"
proof -
  have e: "au_email example_auth_user = Some ''ana@example.org''" by (simp add: example_auth_user_def)
  have s: "signUp (Inr example_auth_user) None 1762700000000 Map.empty
             = Inr [''u1'' \<mapsto> signup_doc example_auth_user 1762700000000]"
    by (simp add: signUp_def example_auth_user_def)
  from signUp_profile_conforms [OF e, where ta = 1762700000000 and tb = 1762700000100 and users = Map.empty
         and st = auth_init] s
  show ?thesis by (simp add: example_auth_user_def)
qed

text \<open>
  C36: a new Google account never gets a document conforming to \<open>UserProfile\<close>: the
  popup handler writes no \<open>isPublic\<close>, \<open>bio\<close> or \<open>phoneNumber\<close>. Worse, when the
  auth listener's merge of the login time lands between the handler's read and its write,
  the handler sees an existing document and only merges the login time: the document
  then holds nothing but \<open>lastLoginAt\<close>.
\<close>

theorem google_signup_nonconforming:
  assumes "users (au_uid u) = None"
  shows "profile_of (au_uid u) (the (fst (handleGoogleLogin (Inr u) None ta users) (au_uid u))) = None
         \<and> (let users1 = fst (snd (onAuthStateChanged (Some u) None ta st users));
                users2 = googleLogin_write (users1 (au_uid u) \<noteq> None) u tb users1
            in the (users2 (au_uid u)) = [(''lastLoginAt'', FsTime tb)])"
  using assms
  by (simp add: handleGoogleLogin_def googleLogin_write_def google_doc_def profile_of_def
                onAuthStateChanged_def setDoc_merge_def fs_merge_def Let_def)

theorem google_signup_nonconforming_witness:
  "profile_of ''u1'' (the (fst (handleGoogleLogin (Inr example_auth_user) None 1762700000000 Map.empty) ''u1'')) = None
   \<and> the (googleLogin_write True example_auth_user 1762700000100
          (fst (snd (onAuthStateChanged (Some example_auth_user) None 1762700000000 auth_init Map.empty))) ''u1'')
       = [(''lastLoginAt'', FsTime 1762700000100)]"
proof -
  have h: "Map.empty (au_uid example_auth_user) = (None :: fs_doc option)" by simp
  have o: "fst (snd (onAuthStateChanged (Some example_auth_user) None 1762700000000 auth_init Map.empty)) ''u1'' \<noteq> None"
    by (simp add: onAuthStateChanged_def setDoc_merge_def Let_def example_auth_user_def)
  from google_signup_nonconforming [where u = example_auth_user and users = Map.empty and ta = 1762700000000
         and tb = 1762700000100 and st = auth_init, OF h] o
  have "profile_of (au_uid example_auth_user)
          (the (fst (handleGoogleLogin (Inr example_auth_user) None 1762700000000 Map.empty) (au_uid example_auth_user))) = None
        \<and> the (googleLogin_write True example_auth_user 1762700000100
          (fst (snd (onAuthStateChanged (Some example_auth_user) None 1762700000000 auth_init Map.empty)))
          (au_uid example_auth_user)) = [(''lastLoginAt'', FsTime 1762700000100)]"
    by (simp only: Let_def) (simp add: example_auth_user_def)
  then show ?thesis by (simp add: example_auth_user_def)
qed

end
