(* ===== verification/Messaging.thy ===== *)
theory Messaging
  imports Queries
begin

text \<open>
  Chats and messages (\<open>hooks/useSendMessage.ts\<close>, \<open>hooks/useCreateChat.ts\<close>,
  \<open>components/chat\<close>, \<open>components/messaging\<close>). The backend holds two collections,
  \<open>messages\<close> and \<open>chats\<close>, as lists of documents; \<open>addDoc\<close> appends a document
  under the id the backend chose (a parameter), \<open>updateDoc\<close> changes the document of an
  id and fails when there is none. Sending a message is two such requests, the message
  and then the chat's \<open>lastMessage\<close>, with no transaction around them.
\<close>

record chat_db =
  cd_messages :: "chat_message collection"
  cd_chats :: "chat collection"

definition chat_db_empty :: chat_db where
  "chat_db_empty = \<lparr>cd_messages = [], cd_chats = []\<rparr>"

text \<open>\<open>updateDoc\<close> on a collection: \<open>None\<close> (a \<open>not-found\<close> error) when no document has the id.\<close>

definition coll_update :: "doc_id \<Rightarrow> ('a \<Rightarrow> 'a) \<Rightarrow> 'a collection \<Rightarrow> 'a collection option" where
  "coll_update i f docs =
     (if i \<in> fst ` set docs then Some (map (\<lambda>d. if fst d = i then (fst d, f (snd d)) else d) docs)
      else None)"

datatype chat_notice =
    SendLoginRequired | SendNoPermission | SendFailed | ChatLoginRequired | ChatCreateFailed

datatype send_outcome = SendNotLoggedIn | SendOk doc_id | SendThrew backend_error

subsection \<open>Sending a message (\<open>hooks/useSendMessage.ts\<close>)\<close>

text \<open>
  The message document (\<open>messageData\<close>, without id), then the chat's last message (the
  same data with the new id) and update time; a failure of either request shows a toast
  and is rethrown.
\<close>

definition message_data :: "doc_id \<Rightarrow> uid \<Rightarrow> string \<Rightarrow> timestamp \<Rightarrow> chat_message" where
  "message_data chatId u content now =
     \<lparr>m_id = [], m_chatId = chatId, m_senderId = u, m_content = content, m_timestamp = now, m_read = False\<rparr>"

definition send_error_notice :: "backend_error \<Rightarrow> chat_notice" where
  "send_error_notice e = (if e = PermissionDenied then SendNoPermission else SendFailed)"

definition sendMessage ::
  "doc_id \<Rightarrow> uid option \<Rightarrow> string \<Rightarrow> backend_error + doc_id \<Rightarrow> backend_error option \<Rightarrow> timestamp
   \<Rightarrow> chat_db \<Rightarrow> chat_db \<times> chat_notice toast list \<times> send_outcome" where
  "sendMessage chatId user content addResult fault now db =
     (case user of
        None \<Rightarrow> (db, [ToastError SendLoginRequired], SendNotLoggedIn)
      | Some u \<Rightarrow>
          (let msg = message_data chatId u content now
           in case addResult of
                Inl e \<Rightarrow> (db, [ToastError (send_error_notice e)], SendThrew e)
              | Inr mid \<Rightarrow>
                  (let db1 = db\<lparr>cd_messages := cd_messages db @ [(mid, msg)]\<rparr>
                   in case fault of
                        Some e \<Rightarrow> (db1, [ToastError (send_error_notice e)], SendThrew e)
                      | None \<Rightarrow>
                          (case coll_update chatId
                                  (\<lambda>c. c\<lparr>c_lastMessage := Some (msg\<lparr>m_id := mid\<rparr>), c_updatedAt := now\<rparr>)
                                  (cd_chats db1) of
                             None \<Rightarrow> (db1, [ToastError SendFailed], SendThrew BackendFailure)
                           | Some chats' \<Rightarrow> (db1\<lparr>cd_chats := chats'\<rparr>, [], SendOk mid)))))"

subsection \<open>Creating a chat (\<open>hooks/useCreateChat.ts\<close>)\<close>

definition createChat ::
  "uid option \<Rightarrow> uid \<Rightarrow> doc_id option \<Rightarrow> backend_error + doc_id \<Rightarrow> timestamp \<Rightarrow> chat_db
   \<Rightarrow> doc_id option \<times> chat_db \<times> chat_notice toast list" where
  "createChat user participantId bookingId addResult now db =
     (case user of
        None \<Rightarrow> (None, db, [ToastError ChatLoginRequired])
      | Some u \<Rightarrow>
          (case addResult of
             Inl _ \<Rightarrow> (None, db, [ToastError ChatCreateFailed])
           | Inr cid \<Rightarrow>
               (Some cid,
                db\<lparr>cd_chats := cd_chats db @ [(cid, \<lparr>c_id = [], c_participants = [u, participantId],
                                                     c_lastMessage = None, c_updatedAt = now,
                                                     c_bookingId = bookingId\<rparr>)]\<rparr>,
                [])))"

subsection \<open>The chat window (\<open>components/chat/ChatWindow.tsx\<close>)\<close>

text \<open>
  \<open>handleSubmit\<close>: nothing without an active chat or with a blank input; otherwise the
  trimmed text is sent to the active chat. The input is cleared when \<open>sendMessage\<close>
  returns normally (also when it returned early for want of a user) and kept when it
  throws.
\<close>

definition chatWindow_submit ::
  "uid option \<Rightarrow> chat option \<Rightarrow> string \<Rightarrow> backend_error + doc_id \<Rightarrow> backend_error option \<Rightarrow> timestamp
   \<Rightarrow> chat_db \<Rightarrow> chat_db \<times> string \<times> chat_notice toast list" where
  "chatWindow_submit user activeChat newMessage addResult fault now db =
     (case activeChat of
        None \<Rightarrow> (db, newMessage, [])
      | Some c \<Rightarrow>
          if js_trim newMessage = [] then (db, newMessage, [])
          else
            (let (db', ts, out) = sendMessage (c_id c) user (js_trim newMessage) addResult fault now db
             in (db', (case out of SendThrew _ \<Rightarrow> newMessage | _ \<Rightarrow> []), ts)))"

text \<open>Each message bubble is the sender's own when its sender is the signed-in user.\<close>

definition message_bubbles :: "uid option \<Rightarrow> chat_message list \<Rightarrow> (chat_message \<times> bool) list" where
  "message_bubbles user ms = map (\<lambda>m. (m, Some (m_senderId m) = user)) ms"

definition chatWindow_title :: "chat \<Rightarrow> string" where
  "chatWindow_title c = (case c_bookingId c of Some b \<Rightarrow> ''Booking #'' @ b | None \<Rightarrow> ''Chat'')"

subsection \<open>Chat lists and panels\<close>

text \<open>
  \<open>components/chat/ChatList.tsx\<close> reads the chat store: a spinner, the error, an empty
  notice, or one entry per chat with its kind and last message; selecting a chat makes it
  the active one. \<open>ChatButton\<close> shows the active chat's window or the list.
\<close>

datatype chat_kind = GroupChat | DirectMessage

definition chatList_entries :: "chat_state \<Rightarrow> (chat_kind \<times> string option) list option" where
  "chatList_entries cs =
     (if cs_loading cs \<or> cs_error cs \<noteq> None \<or> cs_chats cs = [] then None
      else Some (map (\<lambda>c. (if 2 < length (c_participants c) then GroupChat else DirectMessage,
                             map_option m_content (c_lastMessage c))) (cs_chats cs)))"

definition handleSelectChat :: "chat \<Rightarrow> chat_state \<Rightarrow> chat_state" where
  "handleSelectChat c cs = chat_step cs (SetActiveChat (Some c))"

datatype chat_panel = PanelClosed | PanelWindow chat | PanelList

definition chatButton_panel :: "bool \<Rightarrow> chat_state \<Rightarrow> chat_panel" where
  "chatButton_panel isOpen cs =
     (if \<not> isOpen then PanelClosed
      else case cs_activeChat cs of Some c \<Rightarrow> PanelWindow c | None \<Rightarrow> PanelList)"

text \<open>
  \<open>components/messaging\<close>: \<open>MessagingCenter\<close> keeps the open flag and the selected chat
  (closing clears both); its \<open>ChatWindow\<close> destructures the result of
  \<open>useMessages\<close>, which returns nothing, so rendering it throws a \<open>TypeError\<close>.
\<close>

record messaging_center =
  mc_isOpen :: bool
  mc_selectedChat :: "chat option"

definition messagingCenter_close :: "messaging_center \<Rightarrow> messaging_center" where
  "messagingCenter_close mc = mc\<lparr>mc_isOpen := False, mc_selectedChat := None\<rparr>"

datatype messaging_render = CenterClosed | CenterList | CenterWindowThrows string

definition messagingCenter_render :: "messaging_center \<Rightarrow> messaging_render" where
  "messagingCenter_render mc =
     (if \<not> mc_isOpen mc then CenterClosed
      else case mc_selectedChat mc of
        Some _ \<Rightarrow> CenterWindowThrows ''Cannot destructure property messages of undefined''
      | None \<Rightarrow> CenterList)"

text \<open>The list of \<open>components/messaging/ChatList.tsx\<close>, fed by \<open>useChats\<close>; a title per chat.\<close>

definition messagingChatList_view :: "uid option \<Rightarrow> (chat, query_error) list_hook \<Rightarrow> string list option" where
  "messagingChatList_view user h =
     (if user = None \<or> lh_loading h \<or> lh_error h \<noteq> None \<or> lh_items h = [] then None
      else Some (map (\<lambda>c. case c_bookingId c of Some b \<Rightarrow> ''Booking #'' @ b | None \<Rightarrow> ''Direct Message'')
                     (lh_items h)))"

subsection \<open>The chat backend under sends and chat creations\<close>

datatype chat_event =
    EvSend doc_id "uid option" string "backend_error + doc_id" "backend_error option" timestamp
  | EvCreateChat "uid option" uid "doc_id option" "backend_error + doc_id" timestamp

fun chat_db_step :: "chat_db \<Rightarrow> chat_event \<Rightarrow> chat_db" where
  "chat_db_step db (EvSend cid user content r fault now) = fst (sendMessage cid user content r fault now db)"
| "chat_db_step db (EvCreateChat user p b r now) = fst (snd (createChat user p b r now db))"

text \<open>Every chat's last message is a stored message of that chat, with its document id.\<close>

definition last_message_ok :: "chat_db \<Rightarrow> bool" where
  "last_message_ok db \<longleftrightarrow>
     (\<forall>cid c m. (cid, c) \<in> set (cd_chats db) \<longrightarrow> c_lastMessage c = Some m \<longrightarrow>
        m_chatId m = cid \<and> (m_id m, m\<lparr>m_id := []\<rparr>) \<in> set (cd_messages db))"

text \<open>A direct chat between two users, used by the examples.\<close>

definition example_chat :: chat where
  "example_chat = \<lparr>c_id = ''c1'', c_participants = [''ana'', ''ben''], c_lastMessage = None,
                    c_updatedAt = 1762700000000, c_bookingId = None\<rparr>"

subsection \<open>Properties of sending\<close>

lemma coll_update_present:
  "i \<in> fst ` set docs \<Longrightarrow> coll_update i f docs = Some (map (\<lambda>d. if fst d = i then (fst d, f (snd d)) else d) docs)"
  by (simp add: coll_update_def)

lemma sendMessage_Inr_ok:
  assumes "chatId \<in> fst ` set (cd_chats db)"
  shows "sendMessage chatId (Some u) content (Inr mid) None now db =
    (db\<lparr>cd_messages := cd_messages db @ [(mid, message_data chatId u content now)],
        cd_chats := map (\<lambda>d. if fst d = chatId
                             then (fst d, (snd d)\<lparr>c_lastMessage := Some ((message_data chatId u content now)\<lparr>m_id := mid\<rparr>),
                                                   c_updatedAt := now\<rparr>)
                             else d) (cd_chats db)\<rparr>, [], SendOk mid)"
  using assms by (simp add: sendMessage_def coll_update_present Let_def)

text \<open>
  C38. Sending is not atomic: when the message is stored and the chat update then fails,
  the window keeps the text, and submitting it again stores a second copy of the message.
\<close>

theorem failed_send_retry_duplicates:
  assumes "js_trim txt \<noteq> []" "c_id c \<in> fst ` set (cd_chats db)"
      and "chatWindow_submit (Some u) (Some c) txt (Inr ma) (Some e) ta db = (dbx, txtx, tsx)"
      and "chatWindow_submit (Some u) (Some c) txtx (Inr mb) None tb dbx = (dby, txty, tsy)"
  shows "txtx = txt \<and> txty = []
         \<and> cd_messages dby = cd_messages db @ [(ma, message_data (c_id c) u (js_trim txt) ta),
                                              (mb, message_data (c_id c) u (js_trim txt) tb)]"
proof -
  have one: "dbx = db\<lparr>cd_messages := cd_messages db @ [(ma, message_data (c_id c) u (js_trim txt) ta)]\<rparr>"
          "txtx = txt"
    using assms(1,3) by (auto simp: chatWindow_submit_def sendMessage_def Let_def)
  have "c_id c \<in> fst ` set (cd_chats dbx)" using one(1) assms(2) by simp
  with assms(1,4) one show ?thesis
    by (auto simp: chatWindow_submit_def sendMessage_Inr_ok)
qed

lemma chat_db_step_ok:
  assumes "last_message_ok db"
  shows "last_message_ok (chat_db_step db e)"
proof (cases e)
  case (EvSend cid user content r fault now)
  then show ?thesis using assms
    by (fastforce simp: last_message_ok_def sendMessage_def coll_update_def message_data_def Let_def
                  split: option.splits sum.splits if_splits)
next
  case (EvCreateChat user p b r now)
  then show ?thesis using assms
    by (auto simp: last_message_ok_def createChat_def split: option.splits sum.splits)
qed

text \<open>
  C39. From the empty backend, after any sequence of sends and chat creations, every chat's
  last message is a stored message of that chat, under the id it was stored with.
\<close>

theorem chat_last_message_stored:
  assumes "(cid, c) \<in> set (cd_chats (foldl chat_db_step chat_db_empty evs))" "c_lastMessage c = Some m"
  shows "m_chatId m = cid \<and> (m_id m, m\<lparr>m_id := []\<rparr>) \<in> set (cd_messages (foldl chat_db_step chat_db_empty evs))"
proof -
  have "last_message_ok db \<Longrightarrow> last_message_ok (foldl chat_db_step db evs)" for db
    by (induction evs arbitrary: db) (auto intro: chat_db_step_ok)
  moreover have "last_message_ok chat_db_empty" by (simp add: last_message_ok_def chat_db_empty_def)
  ultimately show ?thesis using assms unfolding last_message_ok_def by blast
qed


theorem failed_send_retry_duplicates_witness:
  "map (\<lambda>d. m_content (snd d)) (cd_messages (fst (chatWindow_submit (Some ''ana'') (Some example_chat)
       (fst (snd (chatWindow_submit (Some ''ana'') (Some example_chat) ''hello'' (Inr ''m1'') (Some BackendFailure)
                   1762700000100 \<lparr>cd_messages = [], cd_chats = [(''c1'', example_chat)]\<rparr>)))
       (Inr ''m2'') None 1762700000200
       (fst (chatWindow_submit (Some ''ana'') (Some example_chat) ''hello'' (Inr ''m1'') (Some BackendFailure)
                   1762700000100 \<lparr>cd_messages = [], cd_chats = [(''c1'', example_chat)]\<rparr>)))))
   = [''hello'', ''hello'']"
proof -
  let ?db = "\<lparr>cd_messages = [], cd_chats = [(''c1'', example_chat)]\<rparr>"
  let ?r = "chatWindow_submit (Some ''ana'') (Some example_chat) ''hello'' (Inr ''m1'') (Some BackendFailure)
                   1762700000100 ?db"
  let ?q = "chatWindow_submit (Some ''ana'') (Some example_chat) (fst (snd ?r)) (Inr ''m2'') None 1762700000200 (fst ?r)"
  have h: "js_trim ''hello'' \<noteq> []" "c_id example_chat \<in> fst ` set (cd_chats ?db)"
    by (simp_all add: js_trim_def js_space_def example_chat_def)
  have e: "?r = (fst ?r, fst (snd ?r), snd (snd ?r))" "?q = (fst ?q, fst (snd ?q), snd (snd ?q))" by simp_all
  have t: "js_trim ''hello'' = ''hello''" by (simp add: js_trim_def js_space_def)
  have "cd_messages (fst ?q) = cd_messages ?db @ [(''m1'', message_data (c_id example_chat) ''ana'' (js_trim ''hello'') 1762700000100),
            (''m2'', message_data (c_id example_chat) ''ana'' (js_trim ''hello'') 1762700000200)]"
    using failed_send_retry_duplicates [OF h e] by blast
  then show ?thesis by (simp add: t message_data_def)
qed

theorem chat_last_message_stored_witness:
  "\<exists>c m. (''c1'', c) \<in> set (cd_chats (foldl chat_db_step chat_db_empty
              [EvCreateChat (Some ''ana'') ''ben'' None (Inr ''c1'') 1762700000000,
               EvSend ''c1'' (Some ''ana'') ''hello'' (Inr ''m1'') None 1762700000100]))
         \<and> c_lastMessage c = Some m \<and> m_chatId m = ''c1''
         \<and> (m_id m, m\<lparr>m_id := []\<rparr>) \<in> set (cd_messages (foldl chat_db_step chat_db_empty
              [EvCreateChat (Some ''ana'') ''ben'' None (Inr ''c1'') 1762700000000,
               EvSend ''c1'' (Some ''ana'') ''hello'' (Inr ''m1'') None 1762700000100]))"
proof -
  let ?evs = "[EvCreateChat (Some ''ana'') ''ben'' None (Inr ''c1'') 1762700000000,
               EvSend ''c1'' (Some ''ana'') ''hello'' (Inr ''m1'') None 1762700000100]"
  have "case map_of (cd_chats (foldl chat_db_step chat_db_empty ?evs)) ''c1'' of
          None \<Rightarrow> False | Some c \<Rightarrow> c_lastMessage c \<noteq> None"
    by code_simp
  then obtain c m where c: "map_of (cd_chats (foldl chat_db_step chat_db_empty ?evs)) ''c1'' = Some c"
      "c_lastMessage c = Some m"
    by (auto split: option.splits)
  from c(1) have "(''c1'', c) \<in> set (cd_chats (foldl chat_db_step chat_db_empty ?evs))" by (rule map_of_SomeD)
  with chat_last_message_stored [OF this c(2)] c(2) show ?thesis by blast
qed

end
