(* ===== verification/Views.thy ===== *)
theory Views
  imports Pages Profile Messaging
begin

text \<open>
  The read-only views reached from the profile page and the home page, and the last step
  of the booking flow: \<open>PopularRoutes\<close>, \<open>UserTripList\<close>, \<open>ReviewList\<close>,
  \<open>ProfileHeader\<close>, \<open>BookingHistory\<close> and \<open>ConfirmationStep\<close>. A list view is the
  value it renders from its hook: a spinner, the error, an empty notice, or one card per
  item with the fields the card shows. Markup, icons and date formatting are left out.
\<close>

subsection \<open>Shared rendering primitives\<close>

text \<open>
  The four states every list component renders, in the order the components test them:
  \<open>loading\<close>, then \<open>error\<close>, then an empty list.
\<close>

datatype ('e, 'c) hook_view = HookSpinner | HookError 'e | HookEmpty | HookItems "'c list"

definition hook_view :: "('a \<Rightarrow> 'c) \<Rightarrow> ('a, 'e) list_hook \<Rightarrow> ('e, 'c) hook_view" where
  "hook_view render h =
     (if lh_loading h then HookSpinner
      else case lh_error h of
        Some e \<Rightarrow> HookError e
      | None \<Rightarrow> if lh_items h = [] then HookEmpty else HookItems (map render (lh_items h)))"

text \<open>\<open>s.charAt(0).toUpperCase() + s.slice(1)\<close> on the ASCII status names.\<close>

definition js_upper_char :: "char \<Rightarrow> char" where
  "js_upper_char c =
     (let n = of_char c :: nat in if 97 \<le> n \<and> n \<le> 122 then char_of (n - 32) else c)"

definition js_capitalize :: "string \<Rightarrow> string" where
  "js_capitalize s = (case s of [] \<Rightarrow> [] | c # cs \<Rightarrow> js_upper_char c # cs)"

definition trip_status_name :: "trip_status \<Rightarrow> string" where
  "trip_status_name s =
     (case s of Open \<Rightarrow> ''open'' | Full \<Rightarrow> ''full'' | Cancelled \<Rightarrow> ''cancelled'' | Completed \<Rightarrow> ''completed'')"

definition booking_status_name :: "booking_status \<Rightarrow> string" where
  "booking_status_name s =
     (case s of BPending \<Rightarrow> ''pending'' | BConfirmed \<Rightarrow> ''confirmed''
              | BCompleted \<Rightarrow> ''completed'' | BCancelled \<Rightarrow> ''cancelled'')"

datatype badge_color = Green | Yellow | Gray | Red | Blue | Orange

text \<open>
  JavaScript's \<open>a / b\<close> on numbers; \<open>None\<close> stands for the \<open>Infinity\<close> or \<open>NaN\<close> a
  zero divisor gives.
\<close>

definition js_fdiv :: "real \<Rightarrow> real \<Rightarrow> real option" where
  "js_fdiv a b = (if b = 0 then None else Some (a / b))"

subsection \<open>Popular routes (\<open>components/PopularRoutes.tsx\<close>)\<close>

text \<open>
  Three fixed routes with a price label (a euro sign and an amount, kept as the amount);
  a card is rendered only when both ids are in the catalogue, and a click stores the two
  stations and tomorrow at 10:00 in the booking store and opens the trip list.
\<close>

record popular_route =
  pr_from :: string
  pr_to :: string
  pr_price :: int

definition popular_routes :: "popular_route list" where
  "popular_routes =
     [\<lparr>pr_from = ''gare-du-nord'', pr_to = ''cdg'', pr_price = 56\<rparr>,
      \<lparr>pr_from = ''saint-germain'', pr_to = ''orly'', pr_price = 36\<rparr>,
      \<lparr>pr_from = ''bastille'', pr_to = ''cdg'', pr_price = 56\<rparr>]"

definition popularRoutes_cards :: "(station \<times> station \<times> int) list" where
  "popularRoutes_cards =
     List.map_filter
       (\<lambda>r. case (find_station (pr_from r), find_station (pr_to r)) of
               (Some f, Some t) \<Rightarrow> Some (f, t, pr_price r)
             | _ \<Rightarrow> None)
       popular_routes"

text \<open>\<open>d.setDate(n)\<close> and \<open>d.setHours(h, m, s, ms)\<close> (ECMA-262 MakeDate/MakeDay/MakeTime), in UTC.\<close>

definition js_setDate :: "timestamp \<Rightarrow> int \<Rightarrow> timestamp" where
  "js_setDate t date =
     js_make_day (js_getFullYear t) (js_getMonth t) date * msPerDay + time_within_day t"

definition js_setHours :: "timestamp \<Rightarrow> int \<Rightarrow> int \<Rightarrow> int \<Rightarrow> int \<Rightarrow> timestamp" where
  "js_setHours t h m s ms = js_day t * msPerDay + ((h * 60 + m) * 60 + s) * 1000 + ms"

definition handleRouteClick ::
  "string \<Rightarrow> string \<Rightarrow> timestamp \<Rightarrow> booking_state \<Rightarrow> booking_state \<times> route option" where
  "handleRouteClick fromId toId now st =
     (case (find_station fromId, find_station toId) of
        (Some ps, Some ds) \<Rightarrow>
          (foldl booking_step st
             [SetPickup (Some (location_of_station ps)), SetDropoff (Some (location_of_station ds)),
              SetDate (Some (js_setHours (js_setDate now (js_getDate now + 1)) 10 0 0 0))],
           Some RTrips)
      | _ \<Rightarrow> (st, None))"

subsection \<open>A user's trips (\<open>components/trip/UserTripList.tsx\<close>)\<close>

record user_trip_card =
  ut_pickup :: string
  ut_dropoff :: string
  ut_perPerson :: "real option"
  ut_scheduledFor :: timestamp
  ut_passengers :: "int \<times> int"
  ut_badge :: badge_color
  ut_label :: string

definition userTrip_card :: "doc_id \<times> trip \<Rightarrow> user_trip_card" where
  "userTrip_card d =
     (let t = snd d
      in \<lparr>ut_pickup = st_address (pickup t), ut_dropoff = st_address (dropoff t),
          ut_perPerson = js_fdiv (real_of_int (fare t)) (real_of_int (currentPassengers t)),
          ut_scheduledFor = scheduledFor t,
          ut_passengers = (currentPassengers t, maxPassengers t),
          ut_badge = (case status t of Open \<Rightarrow> Green | Full \<Rightarrow> Yellow | Completed \<Rightarrow> Gray | Cancelled \<Rightarrow> Red),
          ut_label = js_capitalize (trip_status_name (status t))\<rparr>)"

definition userTripList_view ::
  "(doc_id \<times> trip, query_error) list_hook \<Rightarrow> (query_error, user_trip_card) hook_view" where
  "userTripList_view h = hook_view userTrip_card h"

subsection \<open>Reviews (\<open>components/reviews/ReviewList.tsx\<close>, \<open>components/profile/UserReviews.tsx\<close>)\<close>

record review_card =
  rc_photo :: "string option"
  rc_authorName :: string
  rc_createdAt :: timestamp
  rc_stars :: "bool list"
  rc_comment :: string

definition review_stars :: "int \<Rightarrow> bool list" where
  "review_stars rating = map (\<lambda>i. int i < rating) [0..<5]"

definition reviewList_card :: "doc_id \<times> review \<Rightarrow> review_card" where
  "reviewList_card d =
     (let r = snd d
      in \<lparr>rc_photo = (if js_truthy_str (r_authorPhoto r) then r_authorPhoto r else None),
          rc_authorName = r_authorName r, rc_createdAt = r_createdAt r,
          rc_stars = review_stars (r_rating r), rc_comment = r_comment r\<rparr>)"

definition reviewList_view ::
  "(doc_id \<times> review, query_error) list_hook \<Rightarrow> (query_error, review_card) hook_view" where
  "reviewList_view h = hook_view reviewList_card h"

subsection \<open>The profile header (\<open>components/profile/ProfileHeader.tsx\<close>)\<close>

text \<open>
  The avatar is the stored photo or an avatar generated from the display name (the
  \<open>ui-avatars\<close> URL, kept as the name it encodes); the header's camera and edit buttons
  are shown on one's own profile; a missing creation date reads \<open>Unknown date\<close>.
\<close>

datatype avatar = AvatarPhoto string | AvatarGenerated string

record profile_header =
  ph_isOwn :: bool
  ph_avatar :: avatar
  ph_title :: string
  ph_bio :: "string option"
  ph_joined :: "timestamp option"

definition profileHeader_view :: "uid option \<Rightarrow> user_profile \<Rightarrow> profile_header" where
  "profileHeader_view user p =
     \<lparr>ph_isOwn = (user = Some (up_uid p)),
      ph_avatar = (if js_truthy_str (up_photoURL p) then AvatarPhoto (the (up_photoURL p))
                   else AvatarGenerated (if js_truthy_str (up_displayName p) then the (up_displayName p)
                                         else ''User'')),
      ph_title = (if js_truthy_str (up_displayName p) then the (up_displayName p) else ''Anonymous User''),
      ph_bio = (if js_truthy_str (up_bio p) then up_bio p else None),
      ph_joined = up_createdAt p\<rparr>"

subsection \<open>Booking history (\<open>components/booking/BookingHistory.tsx\<close>)\<close>

text \<open>
  One \<open>getDocs\<close> of the user's bookings, newest first, when the component mounts; without
  a user the list stays empty. Its error messages differ from those of \<open>useBookings\<close>.
\<close>

datatype history_error = HistoryNoPermission | HistoryLoadFailed

definition bookingHistory_fetch ::
  "uid option \<Rightarrow> backend_error + booking collection \<Rightarrow> (doc_id \<times> booking, history_error) list_hook
   \<Rightarrow> (doc_id \<times> booking, history_error) list_hook" where
  "bookingHistory_fetch user res st =
     (case user of
        None \<Rightarrow> st\<lparr>lh_loading := False\<rparr>
      | Some u \<Rightarrow>
          (case res of
             Inl e \<Rightarrow> st\<lparr>lh_error := Some (if e = PermissionDenied then HistoryNoPermission
                                            else HistoryLoadFailed),
                         lh_loading := False\<rparr>
           | Inr docs \<Rightarrow>
               st\<lparr>lh_items := fs_query (\<lambda>b. b_userId b = u) b_createdAt Desc docs,
                  lh_error := None, lh_loading := False\<rparr>))"

record booking_card =
  bc_scheduledFor :: timestamp
  bc_pickup :: string
  bc_dropoff :: string
  bc_fare :: real
  bc_paid :: bool
  bc_badge :: badge_color
  bc_label :: string

definition bookingHistory_card :: "doc_id \<times> booking \<Rightarrow> booking_card" where
  "bookingHistory_card d =
     (let b = snd d
      in \<lparr>bc_scheduledFor = b_scheduledFor b, bc_pickup = loc_address (b_pickup b),
          bc_dropoff = loc_address (b_dropoff b), bc_fare = b_fare b,
          bc_paid = (b_paymentStatus b = PCompleted),
          bc_badge = (case b_status b of BCompleted \<Rightarrow> Green | BCancelled \<Rightarrow> Red | _ \<Rightarrow> Blue),
          bc_label = js_capitalize (booking_status_name (b_status b))\<rparr>)"

definition bookingHistory_view ::
  "(doc_id \<times> booking, history_error) list_hook \<Rightarrow> (history_error, booking_card) hook_view" where
  "bookingHistory_view h = hook_view bookingHistory_card h"

subsection \<open>The confirmation step (\<open>components/booking/steps/ConfirmationStep.tsx\<close>)\<close>

text \<open>
  The step sends the user back to \<open>/booking\<close> when a field or the fare is missing, and
  renders nothing without pickup, dropoff and date. \<open>Contacter le chauffeur\<close> adds a
  chat document whose only participant is the user (its \<open>type\<close> and \<open>createdAt\<close>
  fields are not kept) and makes it the active chat; the return button resets the
  booking store.
\<close>

definition confirmation_redirect :: "booking_state \<Rightarrow> route option" where
  "confirmation_redirect st =
     (if bs_pickup st = None \<or> bs_dropoff st = None \<or> bs_date st = None \<or> bs_fare st = 0
      then Some RBooking else None)"

record confirmation_view =
  cv_pickup :: string
  cv_dropoff :: string
  cv_date :: timestamp
  cv_passengers :: int
  cv_total :: real

definition confirmation_render :: "booking_state \<Rightarrow> confirmation_view option" where
  "confirmation_render st =
     (case (bs_pickup st, bs_dropoff st, bs_date st) of
        (Some p, Some d, Some t) \<Rightarrow>
          Some \<lparr>cv_pickup = loc_address p, cv_dropoff = loc_address d, cv_date = t,
                cv_passengers = bs_passengers st, cv_total = bs_fare st\<rparr>
      | _ \<Rightarrow> None)"

datatype confirmation_notice = StartChatSignIn | StartChatOk | StartChatFailed

definition handleStartChat ::
  "uid option \<Rightarrow> backend_error + doc_id \<Rightarrow> timestamp \<Rightarrow> chat_db \<Rightarrow> chat_state
   \<Rightarrow> chat_db \<times> chat_state \<times> confirmation_notice toast list \<times> route option" where
  "handleStartChat user addResult now db cs =
     (case user of
        None \<Rightarrow> (db, cs, [ToastError StartChatSignIn], Some RLogin)
      | Some u \<Rightarrow>
          (case addResult of
             Inl _ \<Rightarrow> (db, cs, [ToastError StartChatFailed], None)
           | Inr cid \<Rightarrow>
               (db\<lparr>cd_chats := cd_chats db @ [(cid, \<lparr>c_id = [], c_participants = [u], c_lastMessage = None,
                                                     c_updatedAt = now, c_bookingId = None\<rparr>)]\<rparr>,
                chat_step cs (SetActiveChat (Some \<lparr>c_id = cid, c_participants = [u], c_lastMessage = None,
                                                   c_updatedAt = now, c_bookingId = None\<rparr>)),
                [ToastSuccess StartChatOk], None)))"

definition handleFinish :: "booking_state \<Rightarrow> booking_state \<times> route" where
  "handleFinish st = (booking_step st Reset, RHome)"

subsection \<open>Trip details (\<open>hooks/useTrip.ts\<close>, \<open>components/trip/TripDetails.tsx\<close>)\<close>

text \<open>
  The trip listener of \<open>useTrip\<close>: a snapshot of an existing document sets the trip and
  clears the error, a missing document clears the trip and sets \<open>Trip not found\<close>, and a
  failed listener sets its error and keeps the trip it had.
\<close>

datatype trip_load_error = TripNotFound | TripLoadFailed

record trip_hook =
  th_trip :: "trip option"
  th_loading :: bool
  th_error :: "trip_load_error option"

definition trip_hook_init :: trip_hook where
  "trip_hook_init = \<lparr>th_trip = None, th_loading = True, th_error = None\<rparr>"

definition useTrip_snapshot :: "backend_error + trip option \<Rightarrow> trip_hook \<Rightarrow> trip_hook" where
  "useTrip_snapshot snap h =
     (case snap of
        Inr (Some t) \<Rightarrow> h\<lparr>th_trip := Some t, th_error := None, th_loading := False\<rparr>
      | Inr None \<Rightarrow> h\<lparr>th_trip := None, th_error := Some TripNotFound, th_loading := False\<rparr>
      | Inl _ \<Rightarrow> h\<lparr>th_error := Some TripLoadFailed, th_loading := False\<rparr>)"

text \<open>
  \<open>utils/social-share.ts\<close>: the Web Share API when the browser has one (a cancelled or
  failed share gives \<open>false\<close>), a new window on a tweet intent otherwise; it never throws.
\<close>

datatype share_env = WebShareOk | WebShareAborted | WebShareFailed | NoWebShare

definition shareTrip :: "share_env \<Rightarrow> bool" where
  "shareTrip env = (case env of WebShareOk \<Rightarrow> True | NoWebShare \<Rightarrow> True | _ \<Rightarrow> False)"

datatype details_notice = TripShared | TripShareFailed

definition tripDetails_handleShare :: "trip option \<Rightarrow> share_env \<Rightarrow> details_notice toast list" where
  "tripDetails_handleShare snap env =
     (case snap of None \<Rightarrow> [] | Some _ \<Rightarrow> if shareTrip env then [ToastSuccess TripShared] else [])"

text \<open>The join button's label, tested in the order of the source.\<close>

datatype join_label = LabelJoining | LabelOwnTrip | LabelAlreadyJoined | LabelFull | LabelFinished | LabelJoin

definition join_button_label :: "bool \<Rightarrow> trip \<Rightarrow> uid option \<Rightarrow> timestamp \<Rightarrow> join_label" where
  "join_button_label joining t user now =
     (if joining then LabelJoining
      else if user = Some (creatorId t) then LabelOwnTrip
      else if js_or_empty user \<in> set (participants t) then LabelAlreadyJoined
      else if maxPassengers t - currentPassengers t = 0 then LabelFull
      else if scheduledFor t < now then LabelFinished
      else LabelJoin)"

record trip_details =
  td_pickup :: string
  td_dropoff :: string
  td_scheduledFor :: timestamp
  td_passengers :: "int \<times> int"
  td_perPerson :: int
  td_total :: int
  td_participants :: "uid list"
  td_disabled :: bool
  td_label :: join_label

datatype details_view = DetailsSpinner | DetailsError "trip_load_error option" | DetailsShown trip_details

definition tripDetails_view :: "trip_hook \<Rightarrow> bool \<Rightarrow> uid option \<Rightarrow> timestamp \<Rightarrow> details_view" where
  "tripDetails_view h joining user now =
     (if th_loading h then DetailsSpinner
      else case (th_error h, th_trip h) of
        (None, Some t) \<Rightarrow>
          DetailsShown \<lparr>td_pickup = st_name (pickup t), td_dropoff = st_name (dropoff t),
                        td_scheduledFor = scheduledFor t,
                        td_passengers = (currentPassengers t, maxPassengers t),
                        td_perPerson = calculatePerPersonFare (fare t) (currentPassengers t),
                        td_total = fare t, td_participants = participants t,
                        td_disabled = join_button_disabled joining t user now,
                        td_label = join_button_label joining t user now\<rparr>
      | (e, _) \<Rightarrow> DetailsError e)"

text \<open>\<open>components/trip/ParticipantsList.tsx\<close>: nothing while loading, on an error or without profiles.\<close>

definition participantsList_view :: "(user_profile, query_error) list_hook \<Rightarrow> (uid \<times> string) list option" where
  "participantsList_view h =
     (if lh_loading h \<or> lh_error h \<noteq> None \<or> lh_items h = [] then None
      else Some (map (\<lambda>p. (up_uid p, if js_truthy_str (up_displayName p) then the (up_displayName p)
                                     else ''Anonyme'')) (lh_items h)))"

subsection \<open>Properties of the views\<close>

lemma popularRoutes_cards_empty: "popularRoutes_cards = []"
  by code_simp

lemma popular_route_ids_missing:
  "find_station ''gare-du-nord'' = None" "find_station ''saint-germain'' = None"
  "find_station ''bastille'' = None"
  by code_simp+

lemma popularRoutes_click_noop:
  "r \<in> set popular_routes \<Longrightarrow> handleRouteClick (pr_from r) (pr_to r) now st = (st, None)"
  by (auto simp: popular_routes_def handleRouteClick_def popular_route_ids_missing)

lemma userTrip_card_perPerson:
  assumes "0 < currentPassengers t"
  shows "ut_perPerson (userTrip_card (i, t)) = Some (real_of_int (fare t) / real_of_int (currentPassengers t))
         \<and> tc_perPersonFare (tripCard_view now t)
             = \<lceil>real_of_int (fare t) / real_of_int (currentPassengers t)\<rceil>"
  using assms by (simp add: userTrip_card_def js_fdiv_def tripCard_view_def calculatePerPersonFare_def Let_def)

lemma length_filter_less_upt: "length (filter (\<lambda>i. i < n) [0..<m]) = min m n"
  by (induction m) auto

lemma review_stars_nat: "review_stars r = map (\<lambda>i. i < nat r) [0..<5]"
  unfolding review_stars_def by (rule map_cong) auto

lemma review_stars_filled:
  "length (review_stars r) = 5 \<and> length (filter id (review_stars r)) = nat (min 5 (max 0 r))"
proof -
  have "length (filter id (review_stars r)) = length (filter (\<lambda>i. i < nat r) [0..<5])"
    by (simp add: review_stars_nat filter_map comp_def length_filter_conv_card)
  also have "\<dots> = min 5 (nat r)" by (rule length_filter_less_upt)
  finally show ?thesis by (simp add: review_stars_def)
qed

lemma bookingHistory_as_useBookings:
  assumes "u \<noteq> []"
  shows "lh_items (bookingHistory_fetch (Some u) (Inr docs) st) = lh_items (useBookings u (Inr docs) st')"
  using assms by (simp add: bookingHistory_fetch_def useBookings_def)

lemma handleStartChat_private:
  assumes "v \<noteq> u"
  shows "chats_query v (cd_chats (fst (handleStartChat (Some u) r now db cs))) = chats_query v (cd_chats db)"
  using assms by (auto simp: handleStartChat_def chats_query_def fs_query_snoc_reject split: sum.splits)

lemma confirmation_total_per_person:
  assumes "bs_pickup bs = Some p" "bs_dropoff bs = Some d" "bs_date bs = Some t"
  shows "confirmation_render (rideSelection_effect bs)
         = Some \<lparr>cv_pickup = loc_address p, cv_dropoff = loc_address d, cv_date = t,
                 cv_passengers = bs_passengers bs,
                 cv_total = real_of_int (calculateFare (location_point p) (location_point d))
                            / real_of_int (SHARING_currentPassengers + bs_passengers bs)\<rparr>"
  using assms by (simp add: rideSelection_effect_def confirmation_render_def Let_def)

lemma join_button_label_enabled:
  "join_button_label False t user now = LabelJoin \<longleftrightarrow> \<not> join_button_disabled False t user now"
  by (auto simp: join_button_label_def join_button_disabled_def)

lemma overbooked_trip_joinable:
  assumes "maxPassengers t < currentPassengers t" "user \<noteq> Some (creatorId t)"
    and "js_or_empty user \<notin> set (participants t)" "\<not> scheduledFor t < now"
  shows "join_button_label False t user now = LabelJoin \<and> \<not> join_button_disabled False t user now"
  using assms by (auto simp: join_button_label_def join_button_disabled_def)

lemma tripDetails_share_never_fails:
  "ToastError TripShareFailed \<notin> set (tripDetails_handleShare snap env)"
  by (simp add: tripDetails_handleShare_def split: option.splits)

lemma useTrip_failure_hides_trip:
  "tripDetails_view (useTrip_snapshot (Inl e) h) joining user now = DetailsError (Some TripLoadFailed)"
  by (simp add: tripDetails_view_def useTrip_snapshot_def)

end
