(* ===== verification/Notifications.thy ===== *)
theory Notifications
  imports Queries
begin

text \<open>
  The writer of the \<open>notifications\<close> collection, \<open>utils/notifications.ts\<close>: one document
  per call, with a title and a message chosen by the notification's type, unread. A failed
  write is only logged. Its reader is \<open>Queries.useNotifications\<close>; the lemmas below
  compose the two. Accented letters are their UTF-8 bytes, as in \<open>Stations\<close>.
\<close>

definition a_grave :: string where
  "a_grave = [CHR 0xC3, CHR 0xA0]"

definition getNotificationTitle :: "notification_type \<Rightarrow> string" where
  "getNotificationTitle ty =
     (case ty of
        TripUpdate \<Rightarrow> ''Trajet modifi'' @ e_acute
      | TripCancelled \<Rightarrow> ''Trajet annul'' @ e_acute
      | ParticipantJoined \<Rightarrow> ''Nouveau participant''
      | ParticipantLeft \<Rightarrow> ''Participant parti'')"

definition getNotificationMessage :: "notification_type \<Rightarrow> trip \<Rightarrow> string" where
  "getNotificationMessage ty t =
     (case ty of
        TripUpdate \<Rightarrow>
          ''Les d'' @ e_acute @ ''tails du trajet de '' @ st_address (pickup t) @ '' '' @ a_grave @ '' ''
          @ st_address (dropoff t) @ '' ont '' @ e_acute @ ''t'' @ e_acute @ '' mis '' @ a_grave @ '' jour''
      | TripCancelled \<Rightarrow>
          ''Le trajet de '' @ st_address (pickup t) @ '' '' @ a_grave @ '' '' @ st_address (dropoff t)
          @ '' a '' @ e_acute @ ''t'' @ e_acute @ '' annul'' @ e_acute
      | ParticipantJoined \<Rightarrow> ''Un nouveau participant a rejoint votre trajet vers '' @ st_address (dropoff t)
      | ParticipantLeft \<Rightarrow> ''Un participant a quitt'' @ e_acute @ '' votre trajet vers '' @ st_address (dropoff t))"

definition createTripNotification ::
  "uid \<Rightarrow> doc_id \<Rightarrow> notification_type \<Rightarrow> trip \<Rightarrow> backend_error + doc_id \<Rightarrow> timestamp
   \<Rightarrow> notification collection \<Rightarrow> notification collection" where
  "createTripNotification userId tripId ty t addResult now docs =
     (case addResult of
        Inl _ \<Rightarrow> docs
      | Inr nid \<Rightarrow>
          docs @ [(nid, \<lparr>n_id = [], n_userId = userId, n_tripId = Some tripId, n_type = ty,
                        n_title = getNotificationTitle ty, n_message = getNotificationMessage ty t,
                        n_read = False, n_createdAt = now\<rparr>)])"

subsection \<open>The writer and the reader together\<close>

lemma count_unread_mset: "mset ns = mset ms \<Longrightarrow> count_unread ns = count_unread ms"
  unfolding count_unread_def by (metis mset_filter size_mset)

lemma useNotifications_unread:
  "unreadCount (fst (useNotifications (Some u) (Inr docs) st))
   = count_unread (map snd (filter (\<lambda>d. n_userId (snd d) = u) docs))"
proof -
  have "mset (map (\<lambda>d. (snd d)\<lparr>n_id := fst d\<rparr>) (fs_query (\<lambda>n. n_userId n = u) n_createdAt Desc docs))
        = mset (map (\<lambda>d. (snd d)\<lparr>n_id := fst d\<rparr>) (filter (\<lambda>d. n_userId (snd d) = u) docs))"
    by (simp add: mset_fs_query mset_filter [symmetric] del: mset_filter)
  then have "count_unread (map (\<lambda>d. (snd d)\<lparr>n_id := fst d\<rparr>) (fs_query (\<lambda>n. n_userId n = u) n_createdAt Desc docs))
             = count_unread (map (\<lambda>d. (snd d)\<lparr>n_id := fst d\<rparr>) (filter (\<lambda>d. n_userId (snd d) = u) docs))"
    by (rule count_unread_mset)
  also have "\<dots> = count_unread (map snd (filter (\<lambda>d. n_userId (snd d) = u) docs))"
    by (simp add: count_unread_def filter_map comp_def)
  finally show ?thesis by (simp add: useNotifications_def setNotifications_def Let_def)
qed

lemma createTripNotification_unread:
  "unreadCount (fst (useNotifications (Some u) (Inr (createTripNotification v tid ty t r now docs)) st))
   = unreadCount (fst (useNotifications (Some u) (Inr docs) st'))
     + (if v = u \<and> (\<exists>nid. r = Inr nid) then 1 else 0)"
  by (auto simp: useNotifications_unread createTripNotification_def count_unread_def split: sum.splits)

end
