(* ===== verification/Admin.thy ===== *)
theory Admin
  imports Profile
begin

text \<open>
  The administration part: the route guard (\<open>components/admin/AdminGuard.tsx\<close>), the
  admin page (\<open>pages/AdminPage.tsx\<close>) with its setup button, database initializer and
  system status, and the setup utilities (\<open>utils/createAdmin.ts\<close>,
  \<open>utils/initializeAdmin.ts\<close>, \<open>utils/initializeFirestore.ts\<close>,
  \<open>utils/health-check.ts\<close>). Firebase Auth is modelled as far as these files use it: a
  table of email accounts and the signed-in user, which account creation and every
  sign-in replace. Documents are the field lists of \<open>Profile\<close>. The station and trip
  seeds written by the initializer's batch are not modelled.
\<close>

subsection \<open>Firebase Auth\<close>

record fb_account =
  fa_password :: string
  fa_uid :: uid

record fb_auth =
  fb_accounts :: "string \<Rightarrow> fb_account option"
  fb_current :: "auth_user option"

definition fb_user :: "uid \<Rightarrow> string option \<Rightarrow> auth_user" where
  "fb_user u email = \<lparr>au_uid = u, au_email = email, au_displayName = None, au_photoURL = None\<rparr>"

text \<open>\<open>createUserWithEmailAndPassword\<close> creates the account and signs it in.\<close>

definition fb_createUser :: "string \<Rightarrow> string \<Rightarrow> uid \<Rightarrow> fb_auth \<Rightarrow> auth_error + fb_auth" where
  "fb_createUser email pw newUid a =
     (if fb_accounts a email \<noteq> None then Inl EmailAlreadyInUse
      else Inr \<lparr>fb_accounts = (fb_accounts a)(email \<mapsto> \<lparr>fa_password = pw, fa_uid = newUid\<rparr>),
                fb_current = Some (fb_user newUid (Some email))\<rparr>)"

definition fb_signIn :: "string \<Rightarrow> string \<Rightarrow> fb_auth \<Rightarrow> auth_error + fb_auth" where
  "fb_signIn email pw a =
     (case fb_accounts a email of
        None \<Rightarrow> Inl UserNotFound
      | Some acc \<Rightarrow> if fa_password acc = pw then Inr (a\<lparr>fb_current := Some (fb_user (fa_uid acc) (Some email))\<rparr>)
                    else Inl WrongPassword)"

definition fb_signInAnonymously :: "uid \<Rightarrow> fb_auth \<Rightarrow> fb_auth" where
  "fb_signInAnonymously newUid a = a\<lparr>fb_current := Some (fb_user newUid None)\<rparr>"

subsection \<open>The guard and the admin page\<close>

text \<open>\<open>s.endsWith(suffix)\<close>.\<close>

definition js_ends_with :: "string \<Rightarrow> string \<Rightarrow> bool" where
  "js_ends_with s sfx = starts_with (rev sfx) (rev s)"

definition ADMIN_DOMAIN :: string where
  "ADMIN_DOMAIN = ''@cotaxiage.com''"

definition ADMIN_EMAIL :: string where
  "ADMIN_EMAIL = ''admin@cotaxiage.com''"

definition ADMIN_PASSWORD :: string where
  "ADMIN_PASSWORD = ''CoTaxiage2024!''"

text \<open>\<open>user?.email?.endsWith('@cotaxiage.com')\<close>, the only admin check of the client.\<close>

definition admin_email :: "auth_user option \<Rightarrow> bool" where
  "admin_email user =
     (case user of None \<Rightarrow> False
      | Some u \<Rightarrow> (case au_email u of None \<Rightarrow> False | Some e \<Rightarrow> js_ends_with e ADMIN_DOMAIN))"

datatype guard_view = GuardSpinner | GuardRedirect route | GuardChildren

definition adminGuard :: "bool \<Rightarrow> auth_user option \<Rightarrow> guard_view" where
  "adminGuard loading user =
     (if loading then GuardSpinner
      else if \<not> admin_email user then GuardRedirect RHome
      else GuardChildren)"

datatype admin_notice =
    AdminSetupDone | AdminExists | AdminSetupFailed | AdminAccountCreated | AdminInitFailed
  | OnlyAdmins | DbAlreadyInitialized | DbNoPermission | DbInitFailed | DbInitialized
  | SystemCheckFailed

text \<open>\<open>AdminPage\<close>: one read of \<open>admin/system\<close>; the setup button until it exists, the dashboard after.\<close>

record admin_page =
  ap_initialized :: bool
  ap_loading :: bool

definition admin_page_init :: admin_page where
  "admin_page_init = \<lparr>ap_initialized = False, ap_loading = True\<rparr>"

definition adminPage_check :: "backend_error + bool \<Rightarrow> admin_page \<Rightarrow> admin_page \<times> admin_notice toast list" where
  "adminPage_check res pg =
     (case res of
        Inl _ \<Rightarrow> (pg\<lparr>ap_loading := False\<rparr>, [ToastError SystemCheckFailed])
      | Inr exists \<Rightarrow> (pg\<lparr>ap_initialized := exists, ap_loading := False\<rparr>, []))"

datatype admin_view = AdminSpinner | AdminSetupButton | AdminDashboard

definition adminPage_view :: "admin_page \<Rightarrow> admin_view" where
  "adminPage_view pg =
     (if ap_loading pg then AdminSpinner else if \<not> ap_initialized pg then AdminSetupButton else AdminDashboard)"

subsection \<open>Setting up the admin account\<close>

record admin_backend =
  ab_auth :: fb_auth
  ab_users :: doc_store
  ab_admin :: doc_store

definition admin_settings :: fs_value where
  "admin_settings =
     FsMap [(''isPublic'', FsBool False), (''emailNotifications'', FsBool True), (''pushNotifications'', FsBool True)]"

definition admin_user_doc :: "string \<Rightarrow> timestamp \<Rightarrow> fs_doc" where
  "admin_user_doc displayName now =
     [(''email'', FsStr ADMIN_EMAIL), (''displayName'', FsStr displayName), (''isAdmin'', FsBool True),
      (''isSuperAdmin'', FsBool True), (''createdAt'', FsTime now), (''lastLoginAt'', FsTime now),
      (''settings'', admin_settings)]"

definition admin_system_doc :: "uid \<Rightarrow> timestamp \<Rightarrow> fs_doc" where
  "admin_system_doc u now =
     [(''initialized'', FsBool True), (''lastInitializedBy'', FsStr u), (''lastInitializedAt'', FsTime now),
      (''version'', FsStr ''1.0.0''), (''superAdminId'', FsStr u)]"

text \<open>
  \<open>CreateAdminButton.handleCreateAdmin\<close>: after the confirmation dialog, the fixed admin
  account, then its user document, then \<open>admin/system\<close>; the result's third component is
  the page reload. A failed write leaves the earlier ones in place.
\<close>

definition handleCreateAdmin ::
  "bool \<Rightarrow> uid \<Rightarrow> backend_error option \<Rightarrow> backend_error option \<Rightarrow> timestamp \<Rightarrow> admin_backend
   \<Rightarrow> admin_backend \<times> admin_notice toast list \<times> bool" where
  "handleCreateAdmin confirmed newUid userFault systemFault now ab =
     (if \<not> confirmed then (ab, [], False)
      else case fb_createUser ADMIN_EMAIL ADMIN_PASSWORD newUid (ab_auth ab) of
        Inl e \<Rightarrow> (ab, [ToastError (if e = EmailAlreadyInUse then AdminExists else AdminSetupFailed)], False)
      | Inr a \<Rightarrow>
          (let ab1 = ab\<lparr>ab_auth := a\<rparr>
           in case userFault of
                Some _ \<Rightarrow> (ab1, [ToastError AdminSetupFailed], False)
              | None \<Rightarrow>
                  (let ab2 = ab1\<lparr>ab_users := (ab_users ab1)(newUid \<mapsto> admin_user_doc ''Administrator'' now)\<rparr>
                   in case systemFault of
                        Some _ \<Rightarrow> (ab2, [ToastError AdminSetupFailed], False)
                      | None \<Rightarrow> (ab2\<lparr>ab_admin := (ab_admin ab2)(''system'' \<mapsto> admin_system_doc newUid now)\<rparr>,
                                 [ToastSuccess AdminSetupDone], True))))"

datatype admin_error = AdminAlreadyExistsErr | AdminAuthErr auth_error | AdminWriteErr backend_error

text \<open>\<open>createAdminAccount\<close> (\<open>utils/createAdmin.ts\<close>): the same writes, refused once \<open>admin/system\<close> exists.\<close>

definition createAdminAccount ::
  "bool \<Rightarrow> uid \<Rightarrow> backend_error option \<Rightarrow> backend_error option \<Rightarrow> timestamp \<Rightarrow> admin_backend
   \<Rightarrow> admin_backend \<times> (admin_error + uid)" where
  "createAdminAccount systemExists newUid userFault systemFault now ab =
     (if systemExists then (ab, Inl AdminAlreadyExistsErr)
      else case fb_createUser ADMIN_EMAIL ADMIN_PASSWORD newUid (ab_auth ab) of
        Inl e \<Rightarrow> (ab, Inl (AdminAuthErr e))
      | Inr a \<Rightarrow>
          (let ab1 = ab\<lparr>ab_auth := a\<rparr>
           in case userFault of
                Some e \<Rightarrow> (ab1, Inl (AdminWriteErr e))
              | None \<Rightarrow>
                  (let ab2 = ab1\<lparr>ab_users := (ab_users ab1)(newUid \<mapsto> admin_user_doc ''Administrator'' now)\<rparr>
                   in case systemFault of
                        Some e \<Rightarrow> (ab2, Inl (AdminWriteErr e))
                      | None \<Rightarrow> (ab2\<lparr>ab_admin := (ab_admin ab2)(''system'' \<mapsto> admin_system_doc newUid now)\<rparr>,
                                 Inr newUid))))"

text \<open>
  The two writes \<open>initializeAdmin\<close> and \<open>initializeFirestore\<close> share: the admin fields
  merged into the user document of the given \<open>uid\<close>, then \<open>admin/system\<close>; the second
  component is the error of the first failed write.
\<close>

definition admin_writes ::
  "uid \<Rightarrow> string \<Rightarrow> backend_error option \<Rightarrow> backend_error option \<Rightarrow> timestamp \<Rightarrow> admin_backend
   \<Rightarrow> admin_backend \<times> backend_error option" where
  "admin_writes uid displayName userFault systemFault now ab =
     (case userFault of
        Some e \<Rightarrow> (ab, Some e)
      | None \<Rightarrow>
          (let ab1 = ab\<lparr>ab_users := setDoc_merge (ab_users ab) uid (admin_user_doc displayName now)\<rparr>
           in case systemFault of
                Some e \<Rightarrow> (ab1, Some e)
              | None \<Rightarrow> (ab1\<lparr>ab_admin := (ab_admin ab1)(''system'' \<mapsto> admin_system_doc uid now)\<rparr>, None)))"

text \<open>
  \<open>initializeAdmin(uid)\<close> (\<open>utils/initializeAdmin.ts\<close>): creates the fixed account unless
  it exists, then makes the document of the given \<open>uid\<close>, whoever that is, a super
  admin's. The last component is \<open>False\<close> when it throws.
\<close>

definition initializeAdmin ::
  "uid \<Rightarrow> uid \<Rightarrow> backend_error option \<Rightarrow> backend_error option \<Rightarrow> timestamp \<Rightarrow> admin_backend
   \<Rightarrow> admin_backend \<times> admin_notice toast list \<times> bool" where
  "initializeAdmin uid newUid userFault systemFault now ab =
     (let finish = (\<lambda>ab0 ts. case admin_writes uid ''Super Admin'' userFault systemFault now ab0 of
                               (ab', None) \<Rightarrow> (ab', ts, True)
                             | (ab', Some _) \<Rightarrow> (ab', ts @ [ToastError AdminInitFailed], False))
      in case fb_createUser ADMIN_EMAIL ADMIN_PASSWORD newUid (ab_auth ab) of
           Inl e \<Rightarrow> if e \<noteq> EmailAlreadyInUse then (ab, [ToastError AdminInitFailed], False) else finish ab []
         | Inr a \<Rightarrow> finish (ab\<lparr>ab_auth := a\<rparr>) [ToastSuccess AdminAccountCreated])"

text \<open>
  \<open>initializeFirestore(uid)\<close>: the same two writes, then the seed batch (whose content is
  not modelled, only its failure); an error is shown and rethrown.
\<close>

definition db_error_notice :: "backend_error \<Rightarrow> admin_notice" where
  "db_error_notice e = (if e = PermissionDenied then DbNoPermission else DbInitFailed)"

definition initializeFirestore ::
  "uid \<Rightarrow> backend_error option \<Rightarrow> backend_error option \<Rightarrow> backend_error option \<Rightarrow> timestamp
   \<Rightarrow> admin_backend \<Rightarrow> admin_backend \<times> admin_notice toast list \<times> backend_error option" where
  "initializeFirestore uid userFault systemFault batchFault now ab =
     (case admin_writes uid ''Administrator'' userFault systemFault now ab of
        (ab', Some e) \<Rightarrow> (ab', [ToastError (db_error_notice e)], Some e)
      | (ab', None) \<Rightarrow>
          (case batchFault of
             Some e \<Rightarrow> (ab', [ToastError (db_error_notice e)], Some e)
           | None \<Rightarrow> (ab', [ToastSuccess DbInitialized], None)))"

text \<open>
  \<open>DatabaseInitializer.handleInitialize\<close>: the email check, the confirmation, a read of
  \<open>admin/system\<close> (initialising only when it is missing), then \<open>initializeFirestore\<close>
  and a reload; an error of the initializer is shown a second time by the handler.
\<close>

definition databaseInitializer_handleInitialize ::
  "auth_user option \<Rightarrow> bool \<Rightarrow> backend_error + bool \<Rightarrow> backend_error option \<Rightarrow> backend_error option
   \<Rightarrow> backend_error option \<Rightarrow> timestamp \<Rightarrow> admin_backend \<Rightarrow> admin_backend \<times> admin_notice toast list \<times> bool" where
  "databaseInitializer_handleInitialize user confirmed systemRead userFault systemFault batchFault now ab =
     (case user of
        None \<Rightarrow> (ab, [ToastError OnlyAdmins], False)
      | Some u \<Rightarrow>
          if \<not> admin_email user then (ab, [ToastError OnlyAdmins], False)
          else if \<not> confirmed then (ab, [], False)
          else case systemRead of
            Inl e \<Rightarrow> (ab, [ToastError (db_error_notice e)], False)
          | Inr True \<Rightarrow> (ab, [ToastError DbAlreadyInitialized], False)
          | Inr False \<Rightarrow>
              (case initializeFirestore (au_uid u) userFault systemFault batchFault now ab of
                 (ab', ts, None) \<Rightarrow> (ab', ts, True)
               | (ab', ts, Some e) \<Rightarrow> (ab', ts @ [ToastError (db_error_notice e)], False)))"

subsection \<open>System status (\<open>utils/health-check.ts\<close>, \<open>components/admin/SystemStatus.tsx\<close>)\<close>

text \<open>
  Each check catches its own errors. The Firebase check signs in anonymously, which
  replaces the signed-in user; the outcome is the new anonymous uid or a failure.
\<close>

datatype health_status = Healthy | Degraded | HealthError

definition checkFirebaseHealth :: "uid option \<Rightarrow> fb_auth \<Rightarrow> fb_auth \<times> health_status" where
  "checkFirebaseHealth anon a =
     (case anon of Some v \<Rightarrow> (fb_signInAnonymously v a, Healthy) | None \<Rightarrow> (a, HealthError))"

definition checkDatabaseHealth :: "backend_error option \<Rightarrow> health_status" where
  "checkDatabaseHealth fault = (case fault of None \<Rightarrow> Healthy | Some _ \<Rightarrow> HealthError)"

definition checkPWAHealth :: "bool option \<Rightarrow> health_status" where
  "checkPWAHealth registration =
     (case registration of None \<Rightarrow> HealthError | Some True \<Rightarrow> Healthy | Some False \<Rightarrow> Degraded)"

definition checkSystemHealth ::
  "uid option \<Rightarrow> backend_error option \<Rightarrow> bool option \<Rightarrow> fb_auth
   \<Rightarrow> fb_auth \<times> health_status \<times> health_status \<times> health_status" where
  "checkSystemHealth anon dbFault registration a =
     (let (a', firebase) = checkFirebaseHealth anon a
      in (a', firebase, checkDatabaseHealth dbFault, checkPWAHealth registration))"

subsection \<open>What the admin part allows\<close>

lemma admin_email_ADMIN_EMAIL: "js_ends_with ADMIN_EMAIL ADMIN_DOMAIN"
  by (simp add: js_ends_with_def ADMIN_EMAIL_def ADMIN_DOMAIN_def)

text \<open>
  C17: the admin credentials are part of the client's code. Once the setup button of the
  admin page has created the admin account, anyone who signs in with the email and the
  password written in the source is the super admin: the sign-in succeeds, the admin
  guard lets the session in, and the account's user document carries the admin flags.
\<close>

theorem admin_setup_publishes_credentials:
  assumes "fb_accounts (ab_auth ab) ADMIN_EMAIL = None"
  shows "\<exists>a. fb_signIn ADMIN_EMAIL ADMIN_PASSWORD (ab_auth (fst (handleCreateAdmin True u None None now ab))) = Inr a
             \<and> fb_current a = Some (fb_user u (Some ADMIN_EMAIL))
             \<and> adminGuard False (fb_current a) = GuardChildren
             \<and> ab_users (fst (handleCreateAdmin True u None None now ab)) u = Some (admin_user_doc ''Administrator'' now)"
  using assms admin_email_ADMIN_EMAIL
  by (simp add: handleCreateAdmin_def fb_createUser_def fb_signIn_def adminGuard_def admin_email_def fb_user_def)

theorem admin_setup_publishes_credentials_witness:
  "\<exists>a. fb_signIn ''admin@cotaxiage.com'' ''CoTaxiage2024!''
          (ab_auth (fst (handleCreateAdmin True ''u1'' None None 1762700000000
             \<lparr>ab_auth = \<lparr>fb_accounts = Map.empty, fb_current = None\<rparr>, ab_users = Map.empty, ab_admin = Map.empty\<rparr>)))
        = Inr a
      \<and> fb_current a = Some (fb_user ''u1'' (Some ADMIN_EMAIL))
      \<and> adminGuard False (fb_current a) = GuardChildren
      \<and> ab_users (fst (handleCreateAdmin True ''u1'' None None 1762700000000
             \<lparr>ab_auth = \<lparr>fb_accounts = Map.empty, fb_current = None\<rparr>, ab_users = Map.empty, ab_admin = Map.empty\<rparr>)) ''u1''
        = Some (admin_user_doc ''Administrator'' 1762700000000)"
  using admin_setup_publishes_credentials
          [where ab = "\<lparr>ab_auth = \<lparr>fb_accounts = Map.empty, fb_current = None\<rparr>, ab_users = Map.empty, ab_admin = Map.empty\<rparr>"
             and u = "''u1''" and now = 1762700000000]
  by (simp add: ADMIN_EMAIL_def ADMIN_PASSWORD_def)

lemma self_registered_domain_admitted:
  assumes "fb_accounts a e = None" "js_ends_with e ADMIN_DOMAIN"
  shows "\<exists>a'. fb_createUser e pw u a = Inr a' \<and> adminGuard False (fb_current a') = GuardChildren"
  using assms by (simp add: fb_createUser_def adminGuard_def admin_email_def fb_user_def)

lemma dashboard_initializer_refuses:
  assumes "adminPage_view (fst (adminPage_check (Inr exists) pg)) = AdminDashboard"
  shows "fst (databaseInitializer_handleInitialize user c (Inr exists) uf sf bf now ab) = ab"
  using assms
  by (auto simp: adminPage_view_def adminPage_check_def databaseInitializer_handleInitialize_def
           split: option.splits bool.splits if_splits)

lemma health_check_signs_out:
  "adminGuard False (fb_current (fst (checkSystemHealth (Some v) df r a))) = GuardRedirect RHome"
  by (simp add: checkSystemHealth_def checkFirebaseHealth_def fb_signInAnonymously_def adminGuard_def
                admin_email_def fb_user_def)

lemma initializeAdmin_promotes:
  "map_of (the (ab_users (fst (initializeAdmin uid v None None now ab)) uid)) ''isSuperAdmin'' = Some (FsBool True)
   \<and> snd (snd (initializeAdmin uid v None None now ab))"
  by (simp add: initializeAdmin_def admin_writes_def fb_createUser_def map_of_setDoc_merge admin_user_doc_def
                map_add_def)

end
