(* ===== verification/Reviews.thy ===== *)
theory Reviews
  imports Views
begin

text \<open>
  The two review writers, \<open>components/reviews/DriverRating.tsx\<close> and
  \<open>components/reviews/ReviewForm.tsx\<close>, and their reader: \<open>useReviews\<close> with
  \<open>ReviewList\<close> (\<open>Views\<close>). Both forms keep a rating, set only by five star buttons,
  and a comment; \<open>DriverRating\<close> writes the review under the booking's id with
  \<open>setDoc\<close>, \<open>ReviewForm\<close> adds a new document. Neither form is mounted by the
  application. The lemmas compose writers and reader over any sequence of form events.
\<close>

subsection \<open>The rating forms\<close>

datatype star = Star1 | Star2 | Star3 | Star4 | Star5

definition star_value :: "star \<Rightarrow> int" where
  "star_value s = (case s of Star1 \<Rightarrow> 1 | Star2 \<Rightarrow> 2 | Star3 \<Rightarrow> 3 | Star4 \<Rightarrow> 4 | Star5 \<Rightarrow> 5)"

text \<open>\<open>[1, 2, 3, 4, 5].map(value => ...)\<close>: the buttons, each filled when \<open>value <= rating\<close>.\<close>

definition rating_buttons :: "star list" where
  "rating_buttons = [Star1, Star2, Star3, Star4, Star5]"

definition rating_stars_filled :: "int \<Rightarrow> bool list" where
  "rating_stars_filled rating = map (\<lambda>s. star_value s \<le> rating) rating_buttons"

record rating_form =
  rf_rating :: int
  rf_comment :: string
  rf_busy :: bool

definition rating_form_init :: rating_form where
  "rating_form_init = \<lparr>rf_rating = 0, rf_comment = [], rf_busy = False\<rparr>"

datatype rating_input = ClickStar star | TypeComment string

definition rating_form_input :: "rating_input \<Rightarrow> rating_form \<Rightarrow> rating_form" where
  "rating_form_input i f =
     (case i of ClickStar s \<Rightarrow> f\<lparr>rf_rating := star_value s\<rparr> | TypeComment c \<Rightarrow> f\<lparr>rf_comment := c\<rparr>)"

definition rating_submit_disabled :: "rating_form \<Rightarrow> bool" where
  "rating_submit_disabled f = (rf_busy f \<or> rf_rating f = 0)"

datatype review_notice =
    DriverLoginRequired | DriverSelectRating | DriverThanks | DriverNoPermission | DriverFailed
  | FormLoginRequired | FormSelectRating | FormSent | FormFailed

text \<open>
  The review document both forms write: the reviewed user, the author with the display
  name or a fallback (\<open>'Anonymous'\<close> or \<open>'Anonyme'\<close>), the rating and comment of the form.
\<close>

definition review_doc ::
  "uid \<Rightarrow> auth_user \<Rightarrow> string \<Rightarrow> rating_form \<Rightarrow> doc_id option \<Rightarrow> timestamp \<Rightarrow> review" where
  "review_doc target u anonymous f bookingId now =
     \<lparr>r_userId = target, r_authorId = au_uid u,
      r_authorName = (if js_truthy_str (au_displayName u) then the (au_displayName u) else anonymous),
      r_authorPhoto = au_photoURL u, r_rating = rf_rating f, r_comment = rf_comment f,
      r_bookingId = bookingId, r_createdAt = now\<rparr>"

definition driverRating_submit ::
  "doc_id \<Rightarrow> uid \<Rightarrow> auth_user option \<Rightarrow> backend_error option \<Rightarrow> timestamp \<Rightarrow> rating_form
   \<Rightarrow> review collection \<Rightarrow> rating_form \<times> review collection \<times> review_notice toast list" where
  "driverRating_submit bookingId driverId user fault now f docs =
     (case user of
        None \<Rightarrow> (f, docs, [ToastError DriverLoginRequired])
      | Some u \<Rightarrow>
          if rf_rating f = 0 then (f, docs, [ToastError DriverSelectRating])
          else case fault of
            Some e \<Rightarrow> (f, docs, [ToastError (if e = PermissionDenied then DriverNoPermission else DriverFailed)])
          | None \<Rightarrow> (f\<lparr>rf_rating := 0, rf_comment := []\<rparr>,
                     coll_set bookingId (review_doc driverId u ''Anonymous'' f (Some bookingId) now) docs,
                     [ToastSuccess DriverThanks]))"

text \<open>\<open>ReviewForm.handleSubmit\<close>; the last component is the call of \<open>onSuccess\<close>.\<close>

definition reviewForm_submit ::
  "uid \<Rightarrow> doc_id option \<Rightarrow> auth_user option \<Rightarrow> backend_error + doc_id \<Rightarrow> timestamp \<Rightarrow> rating_form
   \<Rightarrow> review collection \<Rightarrow> rating_form \<times> review collection \<times> review_notice toast list \<times> bool" where
  "reviewForm_submit userId bookingId user addResult now f docs =
     (case user of
        None \<Rightarrow> (f, docs, [ToastError FormLoginRequired], False)
      | Some u \<Rightarrow>
          if rf_rating f = 0 then (f, docs, [ToastError FormSelectRating], False)
          else case addResult of
            Inl _ \<Rightarrow> (f, docs, [ToastError FormFailed], False)
          | Inr rid \<Rightarrow> (f\<lparr>rf_rating := 0, rf_comment := []\<rparr>,
                        docs @ [(rid, review_doc userId u ''Anonyme'' f bookingId now)],
                        [ToastSuccess FormSent], True))"

subsection \<open>What the forms show\<close>

datatype rating_caption = SelectRatingCaption | YouRated int bool \<comment> \<open>the rating, and whether \<open>'s'\<close> follows \<open>star\<close>\<close>

record rating_form_view =
  rfv_stars :: "bool list"
  rfv_caption :: "rating_caption option"
  rfv_comment :: string
  rfv_submitDisabled :: bool
  rfv_busyLabel :: bool

text \<open>
  \<open>DriverRating\<close>: the stars, the caption under them, the comment, and the submit button
  with its \<open>Submitting...\<close> label while the request runs.
\<close>

definition driverRating_view :: "rating_form \<Rightarrow> rating_form_view" where
  "driverRating_view f =
     \<lparr>rfv_stars = rating_stars_filled (rf_rating f),
      rfv_caption = Some (if rf_rating f = 0 then SelectRatingCaption else YouRated (rf_rating f) (rf_rating f \<noteq> 1)),
      rfv_comment = rf_comment f, rfv_submitDisabled = rating_submit_disabled f, rfv_busyLabel = rf_busy f\<rparr>"

text \<open>\<open>ReviewForm\<close>: the same stars without a caption, the comment and the submit button.\<close>

definition reviewForm_view :: "rating_form \<Rightarrow> rating_form_view" where
  "reviewForm_view f =
     \<lparr>rfv_stars = rating_stars_filled (rf_rating f), rfv_caption = None,
      rfv_comment = rf_comment f, rfv_submitDisabled = rating_submit_disabled f, rfv_busyLabel = rf_busy f\<rparr>"

subsection \<open>Both forms over one reviews collection\<close>

record review_sys =
  rv_driver :: rating_form
  rv_form :: rating_form
  rv_reviews :: "review collection"

datatype review_event =
    DriverInput rating_input
  | DriverSubmit doc_id uid "auth_user option" "backend_error option" timestamp
  | FormInput rating_input
  | FormSubmit uid "doc_id option" "auth_user option" "backend_error + doc_id" timestamp

fun review_step :: "review_sys \<Rightarrow> review_event \<Rightarrow> review_sys" where
  "review_step s (DriverInput i) = s\<lparr>rv_driver := rating_form_input i (rv_driver s)\<rparr>"
| "review_step s (DriverSubmit b d user fault now) =
     (let (f, docs, _) = driverRating_submit b d user fault now (rv_driver s) (rv_reviews s)
      in s\<lparr>rv_driver := f, rv_reviews := docs\<rparr>)"
| "review_step s (FormInput i) = s\<lparr>rv_form := rating_form_input i (rv_form s)\<rparr>"
| "review_step s (FormSubmit t b user r now) =
     (let (f, docs, _, _) = reviewForm_submit t b user r now (rv_form s) (rv_reviews s)
      in s\<lparr>rv_form := f, rv_reviews := docs\<rparr>)"

definition ratings_ok :: "review collection \<Rightarrow> bool" where
  "ratings_ok docs \<longleftrightarrow> (\<forall>d \<in> set docs. 1 \<le> r_rating (snd d) \<and> r_rating (snd d) \<le> 5)"

definition form_ok :: "rating_form \<Rightarrow> bool" where
  "form_ok f \<longleftrightarrow> 0 \<le> rf_rating f \<and> rf_rating f \<le> 5"

definition review_sys_inv :: "review_sys \<Rightarrow> bool" where
  "review_sys_inv s \<longleftrightarrow> form_ok (rv_driver s) \<and> form_ok (rv_form s) \<and> ratings_ok (rv_reviews s)"

definition review_sys_init :: review_sys where
  "review_sys_init = \<lparr>rv_driver = rating_form_init, rv_form = rating_form_init, rv_reviews = []\<rparr>"

subsection \<open>Ratings are in range and shown as they are\<close>

lemma rating_form_input_ok: "form_ok f \<Longrightarrow> form_ok (rating_form_input i f)"
  by (auto simp: form_ok_def rating_form_input_def star_value_def split: rating_input.splits star.splits)

lemma ratings_ok_append: "ratings_ok (docs @ [(i, r)]) \<longleftrightarrow> ratings_ok docs \<and> 1 \<le> r_rating r \<and> r_rating r \<le> 5"
  by (auto simp: ratings_ok_def)

lemma ratings_ok_coll_set:
  "ratings_ok docs \<Longrightarrow> 1 \<le> r_rating r \<Longrightarrow> r_rating r \<le> 5 \<Longrightarrow> ratings_ok (coll_set i r docs)"
  by (auto simp: ratings_ok_def coll_set_def)

lemma review_doc_rating [simp]: "r_rating (review_doc t u a f b now) = rf_rating f"
  by (simp add: review_doc_def)

lemma review_step_inv: "review_sys_inv s \<Longrightarrow> review_sys_inv (review_step s e)"
proof (cases e)
  case (DriverInput i)
  then show "review_sys_inv s \<Longrightarrow> review_sys_inv (review_step s e)"
    by (simp add: review_sys_inv_def rating_form_input_ok)
next
  case (DriverSubmit b d user fault now)
  then show "review_sys_inv s \<Longrightarrow> review_sys_inv (review_step s e)"
    by (auto simp: review_sys_inv_def driverRating_submit_def form_ok_def ratings_ok_coll_set
             split: option.splits)
next
  case (FormInput i)
  then show "review_sys_inv s \<Longrightarrow> review_sys_inv (review_step s e)"
    by (simp add: review_sys_inv_def rating_form_input_ok)
next
  case (FormSubmit t b user r now)
  then show "review_sys_inv s \<Longrightarrow> review_sys_inv (review_step s e)"
    by (auto simp: review_sys_inv_def reviewForm_submit_def form_ok_def ratings_ok_append
             split: option.splits sum.splits)
qed

lemma review_run_inv: "review_sys_inv s \<Longrightarrow> review_sys_inv (foldl review_step s evs)"
  by (induction evs arbitrary: s) (auto intro: review_step_inv)

lemma review_sys_init_inv: "review_sys_inv review_sys_init"
  by (simp add: review_sys_inv_def review_sys_init_def rating_form_init_def form_ok_def ratings_ok_def)

text \<open>
  C27: from a state where the stored ratings and the forms' ratings are in range (the
  initial state, for one), after any sequence of star clicks, comments and submissions of
  \<open>DriverRating\<close> and \<open>ReviewForm\<close>, every review \<open>useReviews\<close> loads for a user has a
  rating from 1 to 5, and \<open>ReviewList\<close> shows it with exactly that many filled stars.
\<close>

theorem reviews_show_their_rating:
  assumes "review_sys_inv s0" "u \<noteq> []"
    and "(i, r) \<in> set (lh_items (useReviews u (Inr (rv_reviews (foldl review_step s0 evs))) h))"
  shows "1 \<le> r_rating r \<and> r_rating r \<le> 5
         \<and> length (filter id (rc_stars (reviewList_card (i, r)))) = nat (r_rating r)"
proof -
  have "ratings_ok (rv_reviews (foldl review_step s0 evs))"
    using review_run_inv [OF assms(1)] by (simp add: review_sys_inv_def)
  moreover have "(i, r) \<in> set (rv_reviews (foldl review_step s0 evs))"
    using assms(2,3) by (auto simp: useReviews_def split: if_splits sum.splits)
  ultimately have r: "1 \<le> r_rating r \<and> r_rating r \<le> 5" by (auto simp: ratings_ok_def)
  then show ?thesis
    using review_stars_filled [of "r_rating r"] by (simp add: reviewList_card_def)
qed

lemma driverRating_overwrites:
  assumes "b \<notin> fst ` set docs" "rf_rating f \<noteq> 0" "rf_rating g \<noteq> 0"
  shows "filter (\<lambda>d. fst d = b)
           (fst (snd (driverRating_submit b d (Some v) None tb g
              (fst (snd (driverRating_submit b d (Some u) None ta f docs))))))
         = [(b, review_doc d v ''Anonymous'' g (Some b) tb)]"
  using assms by (auto simp: driverRating_submit_def coll_set_def filter_map comp_def filter_empty_conv)


theorem reviews_show_their_rating_witness:
  "1 \<le> r_rating (review_doc ''ben'' example_auth_user ''Anonyme'' (rating_form_init\<lparr>rf_rating := 4\<rparr>) None 1762700000000)
   \<and> r_rating (review_doc ''ben'' example_auth_user ''Anonyme'' (rating_form_init\<lparr>rf_rating := 4\<rparr>) None 1762700000000) \<le> 5
   \<and> length (filter id (rc_stars (reviewList_card (''r1'',
        review_doc ''ben'' example_auth_user ''Anonyme'' (rating_form_init\<lparr>rf_rating := 4\<rparr>) None 1762700000000))))
     = nat (r_rating (review_doc ''ben'' example_auth_user ''Anonyme'' (rating_form_init\<lparr>rf_rating := 4\<rparr>) None 1762700000000))"
proof -
  let ?evs = "[FormInput (ClickStar Star4),
               FormSubmit ''ben'' None (Some example_auth_user) (Inr ''r1'') 1762700000000]"
  have "(''r1'', review_doc ''ben'' example_auth_user ''Anonyme'' (rating_form_init\<lparr>rf_rating := 4\<rparr>) None 1762700000000)
        \<in> set (lh_items (useReviews ''ben'' (Inr (rv_reviews (foldl review_step review_sys_init ?evs))) list_hook_init))"
    by (simp add: review_sys_init_def rating_form_input_def star_value_def reviewForm_submit_def
                  rating_form_init_def useReviews_def fs_query_def review_doc_def)
  from reviews_show_their_rating [OF review_sys_init_inv _ this] show ?thesis by simp
qed

text \<open>A form in range shows as many filled stars as its rating, and one it may submit at least one.\<close>

lemma rating_form_view_stars:
  assumes "form_ok f"
  shows "length (filter id (rfv_stars (driverRating_view f))) = nat (rf_rating f)
         \<and> length (filter id (rfv_stars (reviewForm_view f))) = nat (rf_rating f)
         \<and> (\<not> rfv_submitDisabled (driverRating_view f) \<longrightarrow> 1 \<le> rf_rating f)"
proof -
  have "rf_rating f \<in> {0, 1, 2, 3, 4, 5}" using assms by (auto simp: form_ok_def)
  then show ?thesis
    by (auto simp: driverRating_view_def reviewForm_view_def rating_stars_filled_def rating_buttons_def
                   star_value_def rating_submit_disabled_def)
qed

end
