(* ===== verification/BookingForms.thy ===== *)
theory BookingForms
  imports Views
begin

text \<open>
  Three booking components no module mounts: \<open>components/booking/BookingForm.tsx\<close>
  (passengers and date into the booking store, an estimate, a submit that navigates),
  \<open>components/booking/BookingConfirmation.tsx\<close> (a summary and a chat with a placeholder
  driver) and \<open>components/booking/PaymentForm.tsx\<close> (a Stripe payment of the store's fare).
  Stripe and the payment server are parameters: the outcome of the request chain.
\<close>

subsection \<open>The booking form\<close>

definition bookingForm_passenger_options :: "int list" where
  "bookingForm_passenger_options = [1, 2, 3, 4]"

text \<open>
  The passenger select calls the store's \<open>setPassengers(Number(value))\<close>, the date input its
  \<open>setDate(new Date(value))\<close>; \<open>parse\<close> is the \<open>Date\<close> constructor on the input's string.
\<close>

datatype bookingForm_input = SelectPassengers int | InputDateTime string

definition bookingForm_input :: "(string \<Rightarrow> timestamp) \<Rightarrow> bookingForm_input \<Rightarrow> booking_state \<Rightarrow> booking_state" where
  "bookingForm_input parse i st =
     (case i of
        SelectPassengers n \<Rightarrow> booking_step st (SetPassengers n)
      | InputDateTime v \<Rightarrow> booking_step st (SetDate (Some (parse v))))"

text \<open>The estimate panel, shown once pickup and dropoff are set: \<open>calculateFare(pickup, dropoff)\<close>.\<close>

definition bookingForm_estimate :: "booking_state \<Rightarrow> int option" where
  "bookingForm_estimate st =
     (case (bs_pickup st, bs_dropoff st) of
        (Some p, Some d) \<Rightarrow> Some (calculateFare (location_point p) (location_point d))
      | _ \<Rightarrow> None)"

datatype bookingForm_notice = SelectLocations | SelectDateTime

definition bookingForm_submit :: "booking_state \<Rightarrow> bookingForm_notice toast list \<times> route option" where
  "bookingForm_submit st =
     (if bs_pickup st = None \<or> bs_dropoff st = None then ([ToastError SelectLocations], None)
      else if bs_date st = None then ([ToastError SelectDateTime], None)
      else ([], Some RBookingConfirm))"

subsection \<open>The booking confirmation\<close>

text \<open>
  The summary reads the store; \<open>format(date!)\<close> throws a \<open>RangeError\<close> when the store has
  no date, which is the left value here.
\<close>

record booking_summary =
  bsum_pickup :: "string option"
  bsum_dropoff :: "string option"
  bsum_date :: timestamp
  bsum_passengers :: int
  bsum_total :: real

definition bookingConfirmation_render :: "booking_state \<Rightarrow> string + booking_summary" where
  "bookingConfirmation_render st =
     (case bs_date st of
        None \<Rightarrow> Inl ''Invalid time value''
      | Some t \<Rightarrow> Inr \<lparr>bsum_pickup = map_option loc_address (bs_pickup st),
                       bsum_dropoff = map_option loc_address (bs_dropoff st), bsum_date = t,
                       bsum_passengers = bs_passengers st, bsum_total = bs_fare st\<rparr>)"

datatype bookingChat_notice = DriverChatStarted | DriverChatFailed

text \<open>\<open>handleStartChat\<close>: a chat with the literal participant \<open>'DRIVER_ID'\<close> and booking \<open>'BOOKING_ID'\<close>.\<close>

definition bookingConfirmation_startChat ::
  "uid option \<Rightarrow> backend_error + doc_id \<Rightarrow> timestamp \<Rightarrow> chat_db \<Rightarrow> chat_db \<times> bookingChat_notice toast list" where
  "bookingConfirmation_startChat user addResult now db =
     (case user of
        None \<Rightarrow> (db, [])
      | Some u \<Rightarrow>
          (case addResult of
             Inl _ \<Rightarrow> (db, [ToastError DriverChatFailed])
           | Inr cid \<Rightarrow>
               (db\<lparr>cd_chats := cd_chats db @ [(cid, \<lparr>c_id = [], c_participants = [u, ''DRIVER_ID''],
                                                     c_lastMessage = None, c_updatedAt = now,
                                                     c_bookingId = Some ''BOOKING_ID''\<rparr>)]\<rparr>,
                [ToastSuccess DriverChatStarted])))"

subsection \<open>The payment form\<close>

text \<open>
  What the Stripe chain does once started: Stripe fails to load, the payment-intent request
  or its JSON fails, the card payment returns an error, or it succeeds. Each failure is
  shown with its message.
\<close>

datatype stripe_outcome = StripeInitFailed | IntentFailed string | CardError string | CardPaid

datatype paymentForm_notice = CompleteInformation | PaymentFailedMsg string | PaymentSuccessful

text \<open>The amount the form posts: \<open>fare * 100\<close>, a JavaScript number, in cents.\<close>

definition payment_amount :: "real \<Rightarrow> real" where
  "payment_amount amount = amount * 100"

text \<open>
  \<open>handlePayment\<close>: the required fields, then the chain; the first component is the amount
  posted to \<open>/api/create-payment-intent\<close>, when the request is made, and the last the call
  of \<open>onSuccess\<close>.
\<close>

definition paymentForm_handlePayment ::
  "uid option \<Rightarrow> booking_state \<Rightarrow> stripe_outcome \<Rightarrow> real option \<times> paymentForm_notice toast list \<times> bool" where
  "paymentForm_handlePayment user st outcome =
     (if user = None \<or> bs_pickup st = None \<or> bs_dropoff st = None \<or> bs_date st = None
      then (None, [ToastError CompleteInformation], False)
      else case outcome of
        StripeInitFailed \<Rightarrow> (None, [ToastError (PaymentFailedMsg ''Stripe failed to initialize'')], False)
      | IntentFailed m \<Rightarrow> (Some (payment_amount (bs_fare st)), [ToastError (PaymentFailedMsg m)], False)
      | CardError m \<Rightarrow> (Some (payment_amount (bs_fare st)), [ToastError (PaymentFailedMsg m)], False)
      | CardPaid \<Rightarrow> (Some (payment_amount (bs_fare st)), [ToastSuccess PaymentSuccessful], True))"

text \<open>
  The form's render: the total (\<open>fare\<close> of the store, shown with \<open>toFixed(2)\<close>) and the
  pay button, disabled with its \<open>Processing...\<close> label while \<open>loading\<close>; the three
  card inputs are uncontrolled, and no handler reads them.
\<close>

datatype paymentForm_label = PayNow | PayFormProcessing

record payment_form_view =
  pfv_total :: real
  pfv_payDisabled :: bool
  pfv_label :: paymentForm_label

definition paymentForm_view :: "bool \<Rightarrow> booking_state \<Rightarrow> payment_form_view" where
  "paymentForm_view loading st =
     \<lparr>pfv_total = bs_fare st, pfv_payDisabled = loading,
      pfv_label = (if loading then PayFormProcessing else PayNow)\<rparr>"

subsection \<open>Properties of the booking forms\<close>

lemma bookingForm_four_ignored:
  "4 \<in> set bookingForm_passenger_options
   \<and> bs_passengers (bookingForm_input parse (SelectPassengers 4) st) = bs_passengers st"
  by (simp add: bookingForm_passenger_options_def bookingForm_input_def setPassengers_def)

lemma bookingForm_submit_unrouted:
  "snd (bookingForm_submit st) = Some r \<Longrightarrow> r = RBookingConfirm \<and> \<not> app_route r"
  by (auto simp: bookingForm_submit_def app_route_def split: if_splits)

lemma paymentForm_fractional_amount:
  assumes "bs_pickup st = Some p" "bs_dropoff st = Some d" "bs_date st = Some t"
    and "bs_passengers st = 3" "calculateFare (location_point p) (location_point d) = 56"
  shows "fst (paymentForm_handlePayment (Some u) (rideSelection_effect st) CardPaid) = Some (5600 / 3)
         \<and> (5600 / 3 :: real) \<notin> \<int>"
proof -
  have "fst (paymentForm_handlePayment (Some u) (rideSelection_effect st) CardPaid) = Some (5600 / 3)"
    using assms by (simp add: paymentForm_handlePayment_def rideSelection_effect_def payment_amount_def
                              SHARING_currentPassengers_def Let_def)
  moreover have "(5600 / 3 :: real) \<notin> \<int>"
  proof
    assume "(5600 / 3 :: real) \<in> \<int>"
    then obtain k :: int where "(5600 / 3 :: real) = of_int k" by (auto elim: Ints_cases)
    then have "(5600 :: real) = 3 * of_int k" by simp
    then have "(5600 :: int) = 3 * k" by linarith
    then show False by presburger
  qed
  ultimately show ?thesis by simp
qed

lemma bookingConfirmation_placeholder_driver:
  "bookingConfirmation_startChat (Some u) (Inr cid) now db = (db', ts) \<Longrightarrow>
   (cid, \<lparr>c_id = [], c_participants = [u, ''DRIVER_ID''], c_lastMessage = None, c_updatedAt = now,
          c_bookingId = Some ''BOOKING_ID''\<rparr>) \<in> set (cd_chats db')"
  by (auto simp: bookingConfirmation_startChat_def)

end
