(* ===== verification/TripSearch.thy ===== *)
theory TripSearch
  imports Queries
begin

text \<open>
  The trip search components no module mounts: \<open>components/trip/AdvancedTripSearch.tsx\<close>,
  \<open>components/trip/TripSearch.tsx\<close>, \<open>components/trip/TripFilters.tsx\<close> and
  \<open>components/trip/TripSorting.tsx\<close>. Each hands its filters to an \<open>onSearch\<close> or change
  callback of its parent; the model returns them. The filters of \<open>AdvancedTripSearch\<close> are
  a JavaScript object whose keys matter (its \<open>Clear filters\<close> button counts them), so each
  property is absent, present with \<open>undefined\<close>, or present with a value.
\<close>

subsection \<open>Advanced search\<close>

datatype 'a js_prop = Absent | Undefined | Defined 'a

definition js_prop_present :: "'a js_prop \<Rightarrow> bool" where
  "js_prop_present p = (p \<noteq> Absent)"

record search_filters =
  sf_pickupId :: "string js_prop"
  sf_dropoffId :: "string js_prop"
  sf_day :: "timestamp js_prop"
  sf_maxPrice :: "real js_prop"
  sf_minSeats :: "int js_prop"

definition search_filters_empty :: search_filters where
  "search_filters_empty =
     \<lparr>sf_pickupId = Absent, sf_dropoffId = Absent, sf_day = Absent, sf_maxPrice = Absent, sf_minSeats = Absent\<rparr>"

text \<open>\<open>Object.keys(filters).length\<close>.\<close>

definition filters_key_count :: "search_filters \<Rightarrow> nat" where
  "filters_key_count f =
     length (filter id [js_prop_present (sf_pickupId f), js_prop_present (sf_dropoffId f),
                        js_prop_present (sf_day f), js_prop_present (sf_maxPrice f),
                        js_prop_present (sf_minSeats f)])"

text \<open>\<open>e.target.value || undefined\<close> on a select's value.\<close>

definition js_or_undefined :: "string \<Rightarrow> string js_prop" where
  "js_or_undefined v = (if v = [] then Undefined else Defined v)"

record advanced_search =
  adv_showFilters :: bool
  adv_filters :: search_filters

definition advanced_search_init :: advanced_search where
  "advanced_search_init = \<lparr>adv_showFilters = False, adv_filters = search_filters_empty\<rparr>"

text \<open>
  The inputs: the two station selects, the date picker, the price input and the seat
  select (an empty value giving \<open>undefined\<close>, otherwise \<open>Number(value)\<close>, here the number
  read), and the button that shows or hides the extra filters.
\<close>

datatype advanced_input =
    AdvPickup string | AdvDropoff string | AdvDate timestamp | AdvMaxPrice "real option"
  | AdvSeats "int option" | AdvToggleFilters

definition advanced_of_option :: "'a option \<Rightarrow> 'a js_prop" where
  "advanced_of_option v = (case v of None \<Rightarrow> Undefined | Some x \<Rightarrow> Defined x)"

definition advancedSearch_input :: "advanced_input \<Rightarrow> advanced_search \<Rightarrow> advanced_search" where
  "advancedSearch_input i st =
     (let f = adv_filters st
      in case i of
           AdvPickup v \<Rightarrow> st\<lparr>adv_filters := f\<lparr>sf_pickupId := js_or_undefined v\<rparr>\<rparr>
         | AdvDropoff v \<Rightarrow> st\<lparr>adv_filters := f\<lparr>sf_dropoffId := js_or_undefined v\<rparr>\<rparr>
         | AdvDate d \<Rightarrow> st\<lparr>adv_filters := f\<lparr>sf_day := Defined d\<rparr>\<rparr>
         | AdvMaxPrice p \<Rightarrow> st\<lparr>adv_filters := f\<lparr>sf_maxPrice := advanced_of_option p\<rparr>\<rparr>
         | AdvSeats n \<Rightarrow> st\<lparr>adv_filters := f\<lparr>sf_minSeats := advanced_of_option n\<rparr>\<rparr>
         | AdvToggleFilters \<Rightarrow> st\<lparr>adv_showFilters := \<not> adv_showFilters st\<rparr>)"

definition advancedSearch_submit :: "advanced_search \<Rightarrow> search_filters" where
  "advancedSearch_submit st = adv_filters st"

definition advancedSearch_clear :: "advanced_search \<Rightarrow> advanced_search \<times> search_filters" where
  "advancedSearch_clear st = (st\<lparr>adv_filters := search_filters_empty\<rparr>, search_filters_empty)"

text \<open>What the form shows: the stations of both selects, the seat choices, and the clear button.\<close>

record advanced_view =
  av_stations :: "station list"
  av_seatOptions :: "int list"
  av_showClear :: bool
  av_showExtra :: bool

definition advancedSearch_view :: "advanced_search \<Rightarrow> advanced_view" where
  "advancedSearch_view st =
     \<lparr>av_stations = ALL_STATIONS, av_seatOptions = [1, 2, 3],
      av_showClear = (0 < filters_key_count (adv_filters st)), av_showExtra = adv_showFilters st\<rparr>"

subsection \<open>Simple search, filter bar and sorting\<close>

record trip_search =
  tsr_location :: string
  tsr_date :: "timestamp option"

definition trip_search_init :: trip_search where
  "trip_search_init = \<lparr>tsr_location = [], tsr_date = None\<rparr>"

datatype trip_search_input = TsLocation string | TsDate timestamp

definition tripSearch_input :: "trip_search_input \<Rightarrow> trip_search \<Rightarrow> trip_search" where
  "tripSearch_input i st =
     (case i of TsLocation v \<Rightarrow> st\<lparr>tsr_location := v\<rparr> | TsDate d \<Rightarrow> st\<lparr>tsr_date := Some d\<rparr>)"

text \<open>\<open>handleSearch\<close>: \<open>{location: location || undefined, date: date || undefined}\<close>.\<close>

definition tripSearch_submit :: "trip_search \<Rightarrow> string option \<times> timestamp option" where
  "tripSearch_submit st = (if tsr_location st = [] then None else Some (tsr_location st), tsr_date st)"

text \<open>\<open>TripFilters\<close>: the clear-date button when a date is chosen, and the count label.\<close>

record trip_filters_view =
  tfv_clearDate :: bool
  tfv_location :: string
  tfv_count :: "int \<times> string"

definition tripFilters_view :: "timestamp option \<Rightarrow> string option \<Rightarrow> int \<Rightarrow> trip_filters_view" where
  "tripFilters_view selectedDate selectedLocation tripCount =
     \<lparr>tfv_clearDate = (selectedDate \<noteq> None), tfv_location = js_or_empty selectedLocation,
      tfv_count = (tripCount, if tripCount = 1 then ''trip'' else ''trips'')\<rparr>"

datatype tripFilters_event = ClearDate | PickDate timestamp | PickLocation string

text \<open>What \<open>TripFilters\<close> reports to its parent: \<open>onDateChange\<close> or \<open>onLocationChange(value || null)\<close>.\<close>

definition tripFilters_change ::
  "tripFilters_event \<Rightarrow> (timestamp option, string option) sum" where
  "tripFilters_change e =
     (case e of ClearDate \<Rightarrow> Inl None | PickDate d \<Rightarrow> Inl (Some d)
      | PickLocation v \<Rightarrow> Inr (if v = [] then None else Some v))"

datatype sort_by = SortDate | SortPrice

text \<open>\<open>TripSorting\<close>: the highlighted button, and the sort a click asks for.\<close>

definition tripSorting_highlight :: "sort_by \<Rightarrow> bool \<times> bool" where
  "tripSorting_highlight s = (s = SortDate, s = SortPrice)"

subsection \<open>Properties of the search components\<close>

lemma clear_button_after_any_location:
  "filters_key_count (adv_filters (advancedSearch_input (AdvPickup []) (advancedSearch_input (AdvPickup p) advanced_search_init))) = 1
   \<and> sf_pickupId (adv_filters (advancedSearch_input (AdvPickup []) (advancedSearch_input (AdvPickup p) advanced_search_init))) = Undefined
   \<and> av_showClear (advancedSearch_view (advancedSearch_input (AdvPickup []) (advancedSearch_input (AdvPickup p) advanced_search_init)))"
  by (simp add: advancedSearch_input_def advanced_search_init_def search_filters_empty_def filters_key_count_def
                js_prop_present_def js_or_undefined_def advancedSearch_view_def)

lemma advancedSearch_clear_hides_button:
  "\<not> av_showClear (advancedSearch_view (fst (advancedSearch_clear st)))
   \<and> snd (advancedSearch_clear st) = search_filters_empty"
  by (simp add: advancedSearch_clear_def advancedSearch_view_def filters_key_count_def search_filters_empty_def
                js_prop_present_def)

lemma tripSearch_submit_any_location:
  "fst (tripSearch_submit (tripSearch_input (TsLocation []) st)) = None"
  by (simp add: tripSearch_submit_def tripSearch_input_def)

end
