(* ===== verification/SystemStatus.thy ===== *)
theory SystemStatus
  imports Admin
begin

text \<open>
  The system status panel of the admin page (\<open>components/admin/SystemStatus.tsx\<close>): a
  health check on mount, then one every five minutes through \<open>setInterval\<close> until the
  panel unmounts and \<open>clearInterval\<close> stops it. The interval is the one loop of the
  program; here it is a recursive schedule between the mount and the unmount times,
  with its termination proof, and the run folds \<open>checkSystemHealth\<close> of \<open>Admin\<close> over it.
  The outcome of each check's requests at each tick is a parameter.
\<close>

subsection \<open>The polling schedule\<close>

definition HEALTH_INTERVAL :: int where
  "HEALTH_INTERVAL = 300000"

text \<open>
  The ticks of \<open>setInterval(checkHealth, 300000)\<close> from a first tick \<open>t\<close> to the unmount
  time \<open>stop\<close>: a tick that falls when the interval is already cleared does not run.
\<close>

function interval_ticks :: "timestamp \<Rightarrow> timestamp \<Rightarrow> timestamp list" where
  "interval_ticks t stop = (if stop \<le> t then [] else t # interval_ticks (t + HEALTH_INTERVAL) stop)"
  by pat_completeness auto
termination
  by (relation "measure (\<lambda>(t, stop). nat (stop - t))") (auto simp: HEALTH_INTERVAL_def)

declare interval_ticks.simps [simp del]

text \<open>The effect's schedule: \<open>checkHealth()\<close> at mount, then the interval's ticks.\<close>

definition systemStatus_schedule :: "timestamp \<Rightarrow> timestamp \<Rightarrow> timestamp list" where
  "systemStatus_schedule mount stop = mount # interval_ticks (mount + HEALTH_INTERVAL) stop"

subsection \<open>The panel\<close>

record system_status =
  ss_health :: "(health_status \<times> health_status \<times> health_status) option"
  ss_loading :: bool

definition system_status_init :: system_status where
  "system_status_init = \<lparr>ss_health = None, ss_loading = True\<rparr>"

text \<open>
  What the requests of one check give: the anonymous sign-in's uid or its failure, the
  stations query's failure, and the service worker registration (\<open>None\<close> when the lookup
  throws).
\<close>

type_synonym health_inputs = "uid option \<times> backend_error option \<times> bool option"

text \<open>
  \<open>checkHealth\<close>: \<open>setHealth(await checkSystemHealth())\<close>, then \<open>setLoading(false)\<close> in the
  \<open>finally\<close>. Every check of \<open>checkSystemHealth\<close> catches its own errors, so the \<open>catch\<close>
  of \<open>checkHealth\<close> never runs.
\<close>

definition systemStatus_checkHealth ::
  "health_inputs \<Rightarrow> fb_auth \<times> system_status \<Rightarrow> fb_auth \<times> system_status" where
  "systemStatus_checkHealth inp s =
     (case inp of (anon, dbFault, registration) \<Rightarrow>
        (case checkSystemHealth anon dbFault registration (fst s) of
           (a', firebase, database, pwa) \<Rightarrow>
             (a', (snd s)\<lparr>ss_health := Some (firebase, database, pwa), ss_loading := False\<rparr>)))"

text \<open>The panel's life from mount to unmount, each tick's requests given by \<open>env\<close>.\<close>

definition systemStatus_run ::
  "(timestamp \<Rightarrow> health_inputs) \<Rightarrow> timestamp \<Rightarrow> timestamp \<Rightarrow> fb_auth \<Rightarrow> fb_auth \<times> system_status" where
  "systemStatus_run env mount stop a =
     foldl (\<lambda>s t. systemStatus_checkHealth (env t) s) (a, system_status_init) (systemStatus_schedule mount stop)"

datatype status_view =
    StatusSpinner
  | StatusCards "(string \<times> health_status) list"
  | StatusCrash \<comment> \<open>\<open>Object.entries(null)\<close> throws a \<open>TypeError\<close>\<close>

definition systemStatus_view :: "system_status \<Rightarrow> status_view" where
  "systemStatus_view st =
     (if ss_loading st then StatusSpinner
      else case ss_health st of
             None \<Rightarrow> StatusCrash
           | Some (firebase, database, pwa) \<Rightarrow>
               StatusCards [(''firebase'', firebase), (''database'', database), (''pwa'', pwa)])"

subsection \<open>The panel's effect over the window's timers\<close>

text \<open>
  The effect and its cleanup as the browser runs them: the window's table of active
  intervals, each firing its callback until \<open>clearInterval\<close> removes it. The panel's
  effect runs \<open>checkHealth()\<close>, registers \<open>setInterval(checkHealth, 300000)\<close> under a
  fresh id and returns the cleanup \<open>() => clearInterval(interval)\<close>, which React runs
  at unmount. \<open>sp_checks\<close> counts the calls of \<open>checkSystemHealth\<close>: each signs in
  anonymously and queries the database, whether or not the panel is still mounted.
\<close>

record status_panel =
  sp_auth :: fb_auth
  sp_status :: "system_status option"
  sp_intervals :: "nat list"
  sp_nextId :: nat
  sp_cleanup :: "nat option"
  sp_checks :: nat

definition status_panel_init :: "fb_auth \<Rightarrow> status_panel" where
  "status_panel_init a =
     \<lparr>sp_auth = a, sp_status = None, sp_intervals = [], sp_nextId = 0, sp_cleanup = None, sp_checks = 0\<rparr>"

text \<open>One run of \<open>checkHealth\<close>; its state updates reach the panel only while it is mounted.\<close>

definition statusPanel_check :: "health_inputs \<Rightarrow> status_panel \<Rightarrow> status_panel" where
  "statusPanel_check inp p =
     (let r = systemStatus_checkHealth inp (sp_auth p, case sp_status p of Some st \<Rightarrow> st | None \<Rightarrow> system_status_init)
      in p\<lparr>sp_auth := fst r, sp_status := map_option (\<lambda>_. snd r) (sp_status p), sp_checks := Suc (sp_checks p)\<rparr>)"

definition systemStatus_effect :: "health_inputs \<Rightarrow> status_panel \<Rightarrow> status_panel" where
  "systemStatus_effect inp p =
     (let p1 = statusPanel_check inp (p\<lparr>sp_status := Some system_status_init\<rparr>)
      in p1\<lparr>sp_intervals := sp_intervals p1 @ [sp_nextId p1], sp_nextId := Suc (sp_nextId p1),
             sp_cleanup := Some (sp_nextId p1)\<rparr>)"

definition systemStatus_cleanup :: "status_panel \<Rightarrow> status_panel" where
  "systemStatus_cleanup p =
     (case sp_cleanup p of
        None \<Rightarrow> p
      | Some i \<Rightarrow> p\<lparr>sp_intervals := filter (\<lambda>j. j \<noteq> i) (sp_intervals p), sp_status := None, sp_cleanup := None\<rparr>)"

datatype panel_event = PanelMount health_inputs | IntervalFires nat health_inputs | PanelUnmount

fun panel_step :: "status_panel \<Rightarrow> panel_event \<Rightarrow> status_panel" where
  "panel_step p (PanelMount inp) = (if sp_status p = None then systemStatus_effect inp p else p)"
| "panel_step p (IntervalFires i inp) = (if i \<in> set (sp_intervals p) then statusPanel_check inp p else p)"
| "panel_step p PanelUnmount = systemStatus_cleanup p"

fun is_mount :: "panel_event \<Rightarrow> bool" where
  "is_mount (PanelMount _) = True"
| "is_mount _ = False"

text \<open>The window's intervals are exactly the one the mounted panel's cleanup would clear.\<close>

definition panel_inv :: "status_panel \<Rightarrow> bool" where
  "panel_inv p =
     (sp_intervals p = (case sp_cleanup p of None \<Rightarrow> [] | Some i \<Rightarrow> [i])
      \<and> (sp_cleanup p = None \<longleftrightarrow> sp_status p = None)
      \<and> (\<forall>i. sp_cleanup p = Some i \<longrightarrow> i < sp_nextId p))"

subsection \<open>Properties of the polling\<close>

lemma systemStatus_checkHealth_current:
  "fb_current (fst (systemStatus_checkHealth inp s))
   = (case fst inp of Some v \<Rightarrow> Some (fb_user v None) | None \<Rightarrow> fb_current (fst s))"
  by (cases inp) (auto simp: systemStatus_checkHealth_def checkSystemHealth_def checkFirebaseHealth_def
                             fb_signInAnonymously_def split: option.splits prod.splits)

lemma systemStatus_checkHealth_view:
  "\<exists>f d p. systemStatus_view (snd (systemStatus_checkHealth inp s))
           = StatusCards [(''firebase'', f), (''database'', d), (''pwa'', p)]"
  by (cases inp) (auto simp: systemStatus_checkHealth_def checkSystemHealth_def checkFirebaseHealth_def
                             systemStatus_view_def split: option.splits prod.splits)

lemma foldl_checkHealth_anonymous:
  assumes "\<exists>t\<in>set ts. fst (env t) \<noteq> None"
  shows "\<exists>v. fb_current (fst (foldl (\<lambda>s t. systemStatus_checkHealth (env t) s) s0 ts)) = Some (fb_user v None)"
  using assms
proof (induction ts rule: rev_induct)
  case Nil then show ?case by simp
next
  case (snoc x xs)
  show ?case
  proof (cases "fst (env x)")
    case None
    with snoc.prems have "\<exists>t\<in>set xs. fst (env t) \<noteq> None" by auto
    with snoc.IH None show ?thesis by (simp add: systemStatus_checkHealth_current)
  next
    case (Some v)
    then show ?thesis by (auto simp: systemStatus_checkHealth_current)
  qed
qed

lemma statusPanel_check_fields [simp]:
  "sp_intervals (statusPanel_check inp p) = sp_intervals p"
  "sp_cleanup (statusPanel_check inp p) = sp_cleanup p"
  "sp_nextId (statusPanel_check inp p) = sp_nextId p"
  "sp_status (statusPanel_check inp p) = None \<longleftrightarrow> sp_status p = None"
  "sp_checks (statusPanel_check inp p) = Suc (sp_checks p)"
  by (simp_all add: statusPanel_check_def Let_def)

lemma panel_step_inv: "panel_inv p \<Longrightarrow> panel_inv (panel_step p e)"
  by (cases e) (auto simp: panel_inv_def systemStatus_effect_def systemStatus_cleanup_def Let_def
                     split: option.splits)

lemma panel_run_inv: "panel_inv p \<Longrightarrow> panel_inv (foldl panel_step p evs)"
  by (induction evs arbitrary: p) (simp_all add: panel_step_inv)

lemma panel_unmounted_idle:
  assumes "panel_inv p" "sp_cleanup p = None" "\<not> is_mount e"
  shows "panel_step p e = p"
  using assms by (cases e) (auto simp: panel_inv_def systemStatus_cleanup_def)

lemma panel_unmounted_run:
  "panel_inv p \<Longrightarrow> sp_cleanup p = None \<Longrightarrow> \<not> list_ex is_mount evs \<Longrightarrow> foldl panel_step p evs = p"
  by (induction evs) (simp_all add: panel_unmounted_idle)

lemma panel_unmount_clears:
  "panel_inv p \<Longrightarrow> sp_cleanup (panel_step p PanelUnmount) = None \<and> sp_intervals (panel_step p PanelUnmount) = []"
  by (auto simp: panel_inv_def systemStatus_cleanup_def split: option.splits)

text \<open>
  C28: the polling loop ends with the panel. Whatever the page did before, once the
  panel unmounts its cleanup has cleared the interval: the window holds no interval, and
  no later timer event runs another health check or changes anything until the panel
  is mounted again.
\<close>

theorem systemStatus_interval_stops:
  assumes "\<not> list_ex is_mount evs2"
  shows "foldl panel_step (status_panel_init a) (evs1 @ PanelUnmount # evs2)
           = foldl panel_step (status_panel_init a) (evs1 @ [PanelUnmount])
         \<and> sp_intervals (foldl panel_step (status_panel_init a) (evs1 @ [PanelUnmount])) = []"
proof -
  have "panel_inv (status_panel_init a)" by (simp add: panel_inv_def status_panel_init_def)
  then have inv: "panel_inv (foldl panel_step (status_panel_init a) evs1)" by (rule panel_run_inv)
  then have "panel_inv (foldl panel_step (status_panel_init a) (evs1 @ [PanelUnmount]))"
    using panel_step_inv [of _ PanelUnmount] by simp
  with panel_unmount_clears [OF inv] assms show ?thesis
    by (simp add: panel_unmounted_run)
qed

theorem systemStatus_interval_stops_witness:
  "\<not> list_ex is_mount [IntervalFires 0 (Some ''anon'', None, Some True)]
   \<and> foldl panel_step (status_panel_init \<lparr>fb_accounts = Map.empty, fb_current = None\<rparr>)
        ([PanelMount (None, None, Some True), IntervalFires 0 (None, None, Some True)] @ PanelUnmount
         # [IntervalFires 0 (Some ''anon'', None, Some True)])
      = foldl panel_step (status_panel_init \<lparr>fb_accounts = Map.empty, fb_current = None\<rparr>)
        ([PanelMount (None, None, Some True), IntervalFires 0 (None, None, Some True)] @ [PanelUnmount])
   \<and> sp_intervals (foldl panel_step (status_panel_init \<lparr>fb_accounts = Map.empty, fb_current = None\<rparr>)
        ([PanelMount (None, None, Some True), IntervalFires 0 (None, None, Some True)] @ [PanelUnmount])) = []"
  using systemStatus_interval_stops
          [of "[IntervalFires 0 (Some ''anon'', None, Some True)]" "\<lparr>fb_accounts = Map.empty, fb_current = None\<rparr>"
              "[PanelMount (None, None, Some True), IntervalFires 0 (None, None, Some True)]"]
  by simp

text \<open>
  C14: while the admin page shows the status panel, one Firebase check that succeeds is
  enough to end the admin's session: at unmount the signed-in user is the anonymous
  account of the last such check, and the admin guard sends it home.
\<close>

theorem systemStatus_signs_admin_out:
  assumes "\<exists>t\<in>set (systemStatus_schedule mount stop). fst (env t) \<noteq> None"
  shows "adminGuard False (fb_current (fst (systemStatus_run env mount stop a))) = GuardRedirect RHome"
proof -
  obtain v where "fb_current (fst (systemStatus_run env mount stop a)) = Some (fb_user v None)"
    using foldl_checkHealth_anonymous [OF assms] by (auto simp: systemStatus_run_def)
  then show ?thesis by (simp add: adminGuard_def admin_email_def fb_user_def)
qed

theorem systemStatus_signs_admin_out_witness:
  "(\<exists>t\<in>set (systemStatus_schedule 0 600000). fst ((\<lambda>t. (Some ''anon'', None, Some True)) t :: health_inputs) \<noteq> None)
   \<and> adminGuard False (fb_current (fst (systemStatus_run (\<lambda>t. (Some ''anon'', None, Some True)) 0 600000
        \<lparr>fb_accounts = Map.empty, fb_current = Some (fb_user ''u1'' (Some ADMIN_EMAIL))\<rparr>))) = GuardRedirect RHome"
  using systemStatus_signs_admin_out
          [where env = "\<lambda>t. (Some ''anon'', None, Some True)" and mount = 0 and stop = 600000
             and a = "\<lparr>fb_accounts = Map.empty, fb_current = Some (fb_user ''u1'' (Some ADMIN_EMAIL))\<rparr>"]
  by (auto simp: systemStatus_schedule_def)

lemma systemStatus_run_shows_cards:
  "\<exists>f d p. systemStatus_view (snd (systemStatus_run env mount stop a))
           = StatusCards [(''firebase'', f), (''database'', d), (''pwa'', p)]"
proof (cases "systemStatus_schedule mount stop" rule: rev_exhaust)
  case Nil then show ?thesis by (simp add: systemStatus_schedule_def)
next
  case (snoc ts t)
  then show ?thesis by (simp add: systemStatus_run_def systemStatus_checkHealth_view)
qed

end
