(* ===== verification/Layout.thy ===== *)
theory Layout
  imports Admin
begin

text \<open>
  The frame of every page (\<open>components/layout/Layout.tsx\<close>): the navigation bar
  (\<open>components/layout/Navbar.tsx\<close>) with its links, their highlighting by the current
  path and the logout button, above the page and the toaster. Logging out goes through
  \<open>logout\<close> of \<open>contexts/AuthContext.tsx\<close>, which signs out of the Firebase Auth model
  of \<open>Admin\<close>.
\<close>

subsection \<open>Logging out\<close>

text \<open>\<open>logout\<close>: \<open>signOut(auth)\<close>, whose failure is rethrown.\<close>

definition authContext_logout :: "backend_error option \<Rightarrow> fb_auth \<Rightarrow> backend_error + fb_auth" where
  "authContext_logout fault a = (case fault of Some e \<Rightarrow> Inl e | None \<Rightarrow> Inr (a\<lparr>fb_current := None\<rparr>))"

datatype navbar_notice = LogoutSucceeded | LogoutFailed

text \<open>\<open>handleLogout\<close>: a success toast and \<open>navigate('/')\<close>, or an error toast.\<close>

definition navbar_handleLogout ::
  "backend_error option \<Rightarrow> fb_auth \<Rightarrow> fb_auth \<times> navbar_notice toast list \<times> route option" where
  "navbar_handleLogout fault a =
     (case authContext_logout fault a of
        Inl _ \<Rightarrow> (a, [ToastError LogoutFailed], None)
      | Inr a' \<Rightarrow> (a', [ToastSuccess LogoutSucceeded], Some RHome))"

subsection \<open>The bar\<close>

text \<open>
  The items of the bar, left to right: the brand link to \<open>/\<close>, then for a signed-in user
  the notification bell, three links and the logout button, otherwise two links. A link
  carries its target and whether it is highlighted (\<open>text-blue-600\<close>); the register link
  has one style only.
\<close>

datatype nav_link = LinkCreateTrip | LinkBooking | LinkProfile | LinkLogin | LinkRegister

datatype nav_item = NavBrand | NavBell | NavLink nav_link string bool | NavLogout

definition navbar_view :: "auth_user option \<Rightarrow> string \<Rightarrow> nav_item list" where
  "navbar_view user pathname =
     (case user of
        Some u \<Rightarrow>
          [NavBrand, NavBell,
           NavLink LinkCreateTrip ''/create-trip'' (pathname = ''/create-trip''),
           NavLink LinkBooking ''/booking'' (starts_with ''/booking'' pathname),
           NavLink LinkProfile (''/profile/'' @ au_uid u) (starts_with ''/profile'' pathname),
           NavLogout]
      | None \<Rightarrow>
          [NavBrand,
           NavLink LinkLogin ''/login'' (pathname = ''/login''),
           NavLink LinkRegister ''/register'' False])"

fun nav_active :: "nav_item \<Rightarrow> bool" where
  "nav_active (NavLink _ _ b) = b"
| "nav_active _ = False"

text \<open>\<open>Layout\<close>: the bar, the page, and the toaster at the top right showing each toast 3 s.\<close>

record layout_view =
  lv_nav :: "nav_item list"
  lv_toastPosition :: string
  lv_toastDuration :: nat

definition layout_render :: "auth_user option \<Rightarrow> string \<Rightarrow> layout_view" where
  "layout_render user pathname =
     \<lparr>lv_nav = navbar_view user pathname, lv_toastPosition = ''top-right'', lv_toastDuration = 3000\<rparr>"

subsection \<open>Properties of the bar\<close>

lemma starts_with_both:
  "starts_with xs p \<Longrightarrow> starts_with ys p \<Longrightarrow> starts_with xs ys \<or> starts_with ys xs"
  by (auto simp: starts_with_prefix dest: prefix_same_cases)

lemma nav_paths_exclusive:
  "\<not> (starts_with ''/booking'' p \<and> starts_with ''/profile'' p)"
  "starts_with ''/booking'' ''/create-trip'' = False"
  "starts_with ''/profile'' ''/create-trip'' = False"
  using starts_with_both [of "''/booking''" p "''/profile''"] by auto

text \<open>
  Logging out from the bar. When Firebase signs out, the session ends, a success
  toast shows, the app goes home and the bar shows the signed-out links; when signing
  out fails, the session and the page stay and an error toast shows.
\<close>

theorem navbar_logout:
  "navbar_handleLogout None a = (a\<lparr>fb_current := None\<rparr>, [ToastSuccess LogoutSucceeded], Some RHome)
   \<and> navbar_view (fb_current (fst (navbar_handleLogout None a))) p
       = [NavBrand, NavLink LinkLogin ''/login'' (p = ''/login''), NavLink LinkRegister ''/register'' False]
   \<and> navbar_handleLogout (Some e) a = (a, [ToastError LogoutFailed], None)"
  by (simp add: navbar_handleLogout_def authContext_logout_def navbar_view_def)

text \<open>
  C5: whatever the path and whoever is signed in, the bar highlights at most one link: the exact paths and the
  path prefixes it tests exclude each other.
\<close>

theorem navbar_one_active:
  "length (filter nav_active (navbar_view user p)) \<le> 1"
  using nav_paths_exclusive(1)
  by (cases user) (auto simp: navbar_view_def)

end
