(* ===== verification/ProfileScreens.thy ===== *)
theory ProfileScreens
  imports Profile
begin

text \<open>
  The screens of the profile route: what \<open>pages/ProfilePage.tsx\<close> renders from its
  fetched profile, the tab bar of \<open>components/profile/ProfileTabs.tsx\<close> with its selected
  tab, and the settings panel of \<open>components/profile/ProfileSettings.tsx\<close> with its
  switches and its save button, over the fetch, tab and save handlers of \<open>Profile\<close>.
\<close>

subsection \<open>The profile page\<close>

datatype profile_page_view = ProfileSpinner | ProfileNotFound | ProfileShown uid bool

text \<open>The spinner while loading, the not-found message, or the header and the tabs.\<close>

definition profilePage_render :: "uid option \<Rightarrow> profile_page \<Rightarrow> profile_page_view" where
  "profilePage_render user pg =
     (if prp_loading pg then ProfileSpinner
      else case prp_profile pg of
             None \<Rightarrow> ProfileNotFound
           | Some (pid, _) \<Rightarrow> ProfileShown pid (isOwnProfile user pg))"

subsection \<open>The tab bar\<close>

text \<open>\<open>currentTab\<close> starts at \<open>'trips'\<close> and a tab's button selects it.\<close>

definition profileTabs_init :: profile_tab where
  "profileTabs_init = TabTrips"

definition profileTabs_select :: "profile_tab \<Rightarrow> profile_tab \<Rightarrow> profile_tab" where
  "profileTabs_select tab current = tab"

text \<open>The buttons, each highlighted when it is the current tab, and the content below.\<close>

definition profileTabs_view :: "uid \<Rightarrow> bool \<Rightarrow> profile_tab \<Rightarrow> (profile_tab \<times> bool) list \<times> tab_content" where
  "profileTabs_view u own current =
     (map (\<lambda>t. (t, t = current)) (profile_tabs own), renderTabContent u own current)"

subsection \<open>The settings panel\<close>

record settings_panel =
  sp_settings :: profile_settings
  sp_loading :: bool

definition settings_panel_init :: settings_panel where
  "settings_panel_init =
     \<lparr>sp_settings = \<lparr>ps_isPublic = True, ps_emailNotifications = True, ps_pushNotifications = True\<rparr>,
      sp_loading = False\<rparr>"

text \<open>
  \<open>handleSave\<close> around the request: without a user it returns at once; otherwise
  \<open>setLoading(true)\<close>, the write of \<open>Profile.settings_handleSave\<close>, and
  \<open>setLoading(false)\<close> in the \<open>finally\<close>.
\<close>

definition settingsPanel_startSave :: "uid option \<Rightarrow> settings_panel \<Rightarrow> settings_panel" where
  "settingsPanel_startSave user p = (if user = None then p else p\<lparr>sp_loading := True\<rparr>)"

definition settingsPanel_save ::
  "uid option \<Rightarrow> backend_error option \<Rightarrow> settings_panel \<Rightarrow> doc_store
   \<Rightarrow> settings_panel \<times> doc_store \<times> auth_message toast list" where
  "settingsPanel_save user fault p users =
     (case settings_handleSave user fault (sp_settings p) users of
        (users', ts) \<Rightarrow> (if user = None then p else p\<lparr>sp_loading := False\<rparr>, users', ts))"

datatype save_label = SaveChanges | Saving

record settings_view =
  sv_switches :: "(setting_key \<times> bool) list"
  sv_saveDisabled :: bool
  sv_saveLabel :: save_label

definition settingsPanel_view :: "settings_panel \<Rightarrow> settings_view" where
  "settingsPanel_view p =
     (let s = sp_settings p
      in \<lparr>sv_switches = [(KeyIsPublic, ps_isPublic s), (KeyEmailNotifications, ps_emailNotifications s),
                         (KeyPushNotifications, ps_pushNotifications s)],
          sv_saveDisabled = sp_loading p,
          sv_saveLabel = (if sp_loading p then Saving else SaveChanges)\<rparr>)"

definition settingsPanel_toggle :: "setting_key \<Rightarrow> settings_panel \<Rightarrow> settings_panel" where
  "settingsPanel_toggle k p = p\<lparr>sp_settings := handleToggle k (sp_settings p)\<rparr>"

subsection \<open>Properties of the profile screens\<close>

lemma settings_handleSave_only_user:
  "v \<noteq> u \<Longrightarrow> fst (settings_handleSave (Some u) fault s users) v = users v"
  by (auto simp: settings_handleSave_def updateDoc_fs_def split: option.splits)

lemma settingsPanel_toggle_view:
  "map_of (sv_switches (settingsPanel_view (settingsPanel_toggle k p))) k'
   = (if k' = k then map_option Not else id) (map_of (sv_switches (settingsPanel_view p)) k')"
  by (cases k; cases k') (simp_all add: settingsPanel_view_def settingsPanel_toggle_def handleToggle_def Let_def)

lemma settingsPanel_toggles:
  "sp_settings (foldl (\<lambda>p k. settingsPanel_toggle k p) p ks)
   = \<lparr>ps_isPublic = (ps_isPublic (sp_settings p) = even (count_list ks KeyIsPublic)),
      ps_emailNotifications = (ps_emailNotifications (sp_settings p) = even (count_list ks KeyEmailNotifications)),
      ps_pushNotifications = (ps_pushNotifications (sp_settings p) = even (count_list ks KeyPushNotifications))\<rparr>"
proof (induction ks arbitrary: p)
  case Nil then show ?case by simp
next
  case (Cons k ks)
  then show ?case by (cases k) (auto simp: settingsPanel_toggle_def handleToggle_def)
qed

text \<open>
  C25: the settings panel appears only on the viewer's own profile. When the profile page
  shows a profile and its tab bar shows the settings panel, the signed-in user is that
  profile's user, and saving the panel leaves every other user's document unchanged.
\<close>

theorem profile_settings_only_owner:
  assumes "profilePage_render user pg = ProfileShown pid own"
    and "snd (profileTabs_view pid own tab) = SettingsPanel"
  shows "user = Some pid \<and> (\<forall>v. v \<noteq> pid \<longrightarrow> fst (snd (settingsPanel_save user fault p users)) v = users v)"
proof -
  have own: "own" "tab = TabSettings"
    using assms(2) by (auto simp: profileTabs_view_def renderTabContent_def split: profile_tab.splits if_splits)
  then have "user = Some pid"
    using assms(1) by (auto simp: profilePage_render_def isOwnProfile_def split: if_splits option.splits)
  then show ?thesis
    by (auto simp: settingsPanel_save_def settings_handleSave_only_user split: prod.splits)
qed

theorem profile_settings_only_owner_witness:
  "profilePage_render (Some ''u1'') \<lparr>prp_profile = Some (''u1'', []), prp_loading = False\<rparr> = ProfileShown ''u1'' True
   \<and> snd (profileTabs_view ''u1'' True TabSettings) = SettingsPanel
   \<and> fst (snd (settingsPanel_save (Some ''u1'') None settings_panel_init [''u2'' \<mapsto> []])) ''u2'' = Some []"
proof -
  have a: "profilePage_render (Some ''u1'') \<lparr>prp_profile = Some (''u1'', []), prp_loading = False\<rparr>
           = ProfileShown ''u1'' True"
    by (simp add: profilePage_render_def isOwnProfile_def)
  have b: "snd (profileTabs_view ''u1'' True TabSettings) = SettingsPanel"
    by (simp add: profileTabs_view_def renderTabContent_def)
  show ?thesis
    using a b profile_settings_only_owner [OF a b, where fault = None and p = settings_panel_init
                                            and users = "[''u2'' \<mapsto> []]"]
    by simp
qed

text \<open>
  C37: the settings panel starts from fixed values, not from the stored settings, so a
  save stores, whatever the user's document held, each setting true exactly when its
  switch was clicked an even number of times; the profile's own \<open>isPublic\<close> field is
  left as it was.
\<close>

theorem settings_save_overwrites:
  assumes "users u = Some d"
  shows "read_settings (map_of (the (fst (snd (settingsPanel_save (Some u) None
             (foldl (\<lambda>p k. settingsPanel_toggle k p) settings_panel_init ks) users)) u)) ''settings'')
           = Some (Some \<lparr>ps_isPublic = even (count_list ks KeyIsPublic),
                        ps_emailNotifications = even (count_list ks KeyEmailNotifications),
                        ps_pushNotifications = even (count_list ks KeyPushNotifications)\<rparr>)
         \<and> map_of (the (fst (snd (settingsPanel_save (Some u) None
             (foldl (\<lambda>p k. settingsPanel_toggle k p) settings_panel_init ks) users)) u)) ''isPublic''
           = map_of d ''isPublic''"
  using assms settingsPanel_toggles [of settings_panel_init ks]
  by (simp add: settingsPanel_save_def settings_handleSave_def updateDoc_fs_def map_of_fs_merge
                settings_value_def settings_panel_init_def)

theorem settings_save_overwrites_witness:
  "[''u1'' \<mapsto> [(''isPublic'', FsBool False)]] ''u1'' = Some [(''isPublic'', FsBool False)]
   \<and> read_settings (map_of (the (fst (snd (settingsPanel_save (Some ''u1'') None
         (foldl (\<lambda>p k. settingsPanel_toggle k p) settings_panel_init [KeyEmailNotifications])
         [''u1'' \<mapsto> [(''isPublic'', FsBool False)]])) ''u1'')) ''settings'')
       = Some (Some \<lparr>ps_isPublic = True, ps_emailNotifications = False, ps_pushNotifications = True\<rparr>)"
  using settings_save_overwrites [of "[''u1'' \<mapsto> [(''isPublic'', FsBool False)]]" "''u1''"
          "[(''isPublic'', FsBool False)]" "[KeyEmailNotifications]"]
  by simp

end
