(* ===== verification/ChatViews.thy ===== *)
theory ChatViews
  imports Messaging
begin

text \<open>
  The two chat windows as forms with a request in flight. \<open>useSendMessage\<close> holds a
  \<open>sending\<close> flag, set once \<open>sendMessage\<close> has checked the user and cleared in its
  \<open>finally\<close>; the windows disable their input and button on it and their submit handlers
  return early while it is set. A submit is therefore two steps here, its start (the
  guards, and the flag) and its completion (the writes of \<open>Messaging.sendMessage\<close>, the
  flag cleared, the input cleared unless the send threw), and the atomic
  \<open>Messaging.chatWindow_submit\<close> is their composition. The windows' renders, and
  \<open>components/messaging/MessageList.tsx\<close>, are the values they show.
\<close>

subsection \<open>The chat store's window (\<open>components/chat/ChatWindow.tsx\<close>)\<close>

record chat_form =
  cf_newMessage :: string
  cf_sending :: bool

definition chat_form_init :: chat_form where
  "chat_form_init = \<lparr>cf_newMessage = [], cf_sending = False\<rparr>"

definition chatForm_input :: "string \<Rightarrow> chat_form \<Rightarrow> chat_form" where
  "chatForm_input v f = (if cf_sending f then f else f\<lparr>cf_newMessage := v\<rparr>)"

text \<open>
  The start of \<open>handleSubmit\<close>: the guards \<open>!activeChat || !newMessage.trim() || sending\<close>,
  then \<open>sendMessage(newMessage.trim())\<close> up to its request, which sets \<open>sending\<close> when a
  user is signed in. The second component is the text the request carries.
\<close>

definition chatWindow_start :: "uid option \<Rightarrow> chat option \<Rightarrow> chat_form \<Rightarrow> chat_form \<times> string option" where
  "chatWindow_start user activeChat f =
     (if activeChat = None \<or> js_trim (cf_newMessage f) = [] \<or> cf_sending f then (f, None)
      else (f\<lparr>cf_sending := (user \<noteq> None)\<rparr>, Some (js_trim (cf_newMessage f))))"

text \<open>
  The completion: the writes and toasts of \<open>sendMessage\<close> on the active chat,
  \<open>setSending(false)\<close>, and \<open>setNewMessage('')\<close> unless the send threw.
\<close>

definition chatWindow_complete ::
  "uid option \<Rightarrow> chat \<Rightarrow> string \<Rightarrow> backend_error + doc_id \<Rightarrow> backend_error option \<Rightarrow> timestamp
   \<Rightarrow> chat_form \<Rightarrow> chat_db \<Rightarrow> chat_form \<times> chat_db \<times> chat_notice toast list" where
  "chatWindow_complete user c content addResult fault now f db =
     (case sendMessage (c_id c) user content addResult fault now db of
        (db', ts, out) \<Rightarrow>
          (f\<lparr>cf_sending := False,
             cf_newMessage := (case out of SendThrew _ \<Rightarrow> cf_newMessage f | _ \<Rightarrow> [])\<rparr>, db', ts))"

record chat_window_view =
  cwv_title :: string
  cwv_bubbles :: "(chat_message \<times> bool) list"
  cwv_inputDisabled :: bool
  cwv_sendDisabled :: bool

text \<open>Nothing without an active chat; otherwise the title, the bubbles and the form.\<close>

definition chatWindow_view :: "uid option \<Rightarrow> chat_state \<Rightarrow> chat_form \<Rightarrow> chat_window_view option" where
  "chatWindow_view user cs f =
     (case cs_activeChat cs of
        None \<Rightarrow> None
      | Some c \<Rightarrow> Some \<lparr>cwv_title = chatWindow_title c, cwv_bubbles = message_bubbles user (cs_messages cs),
                       cwv_inputDisabled = cf_sending f,
                       cwv_sendDisabled = (js_trim (cf_newMessage f) = [] \<or> cf_sending f)\<rparr>)"

subsection \<open>The messaging window and its message list\<close>

text \<open>
  \<open>components/messaging/ChatWindow.tsx\<close> throws on its first render
  (\<open>Messaging.messagingCenter_render\<close>), so its handler never runs in the application; it
  is the chat store window's without the active-chat guard, on the chat it is given.
\<close>

definition messagingWindow_start :: "uid option \<Rightarrow> chat_form \<Rightarrow> chat_form \<times> string option" where
  "messagingWindow_start user f =
     (if js_trim (cf_newMessage f) = [] \<or> cf_sending f then (f, None)
      else (f\<lparr>cf_sending := (user \<noteq> None)\<rparr>, Some (js_trim (cf_newMessage f))))"

definition messagingWindow_input :: "string \<Rightarrow> chat_form \<Rightarrow> chat_form" where
  "messagingWindow_input v f = (if cf_sending f then f else f\<lparr>cf_newMessage := v\<rparr>)"

text \<open>
  Its completion: \<open>await sendMessage(newMessage.trim())\<close> on the chat it is given, then
  \<open>setNewMessage('')\<close>; a throw is caught and logged, and the text is kept.
\<close>

definition messagingWindow_complete ::
  "uid option \<Rightarrow> chat \<Rightarrow> string \<Rightarrow> backend_error + doc_id \<Rightarrow> backend_error option \<Rightarrow> timestamp
   \<Rightarrow> chat_form \<Rightarrow> chat_db \<Rightarrow> chat_form \<times> chat_db \<times> chat_notice toast list" where
  "messagingWindow_complete user c content addResult fault now f db =
     (case sendMessage (c_id c) user content addResult fault now db of
        (db', ts, SendThrew _) \<Rightarrow> (f\<lparr>cf_sending := False\<rparr>, db', ts)
      | (db', ts, _) \<Rightarrow> (f\<lparr>cf_sending := False, cf_newMessage := []\<rparr>, db', ts))"

definition messagingWindow_title :: "chat \<Rightarrow> string" where
  "messagingWindow_title c =
     (if js_truthy_str (c_bookingId c) then ''Booking #'' @ the (c_bookingId c) else ''Direct Message'')"

datatype message_list_view = MessagesSpinner | MessagesError string | MessagesShown "(chat_message \<times> bool) list"

text \<open>\<open>MessageList\<close>: the spinner, the error with its retry button, or the bubbles.\<close>

definition messageList_view :: "uid option \<Rightarrow> chat_message list \<Rightarrow> bool \<Rightarrow> string option \<Rightarrow> message_list_view" where
  "messageList_view user messages loading err =
     (if loading then MessagesSpinner
      else if js_truthy_str err then MessagesError (the err)
      else MessagesShown (message_bubbles user messages))"

subsection \<open>A window's session\<close>

text \<open>
  A signed-in user's session in the chat store's window on one chat: typing, submitting
  and the completion of the oldest request in flight, in any order. The pending list holds
  the texts of the requests sent and not yet answered, oldest first.
\<close>

datatype chat_ui_event = UiType string | UiSubmit | UiComplete "backend_error + doc_id" "backend_error option" timestamp

record chat_session =
  ses_form :: chat_form
  ses_pending :: "string list"

definition chat_session_init :: chat_session where
  "chat_session_init = \<lparr>ses_form = chat_form_init, ses_pending = []\<rparr>"

fun chat_session_step :: "uid \<Rightarrow> chat \<Rightarrow> chat_session \<times> chat_db \<Rightarrow> chat_ui_event \<Rightarrow> chat_session \<times> chat_db" where
  "chat_session_step u c (s, db) (UiType v) = (s\<lparr>ses_form := chatForm_input v (ses_form s)\<rparr>, db)"
| "chat_session_step u c (s, db) UiSubmit =
     (case chatWindow_start (Some u) (Some c) (ses_form s) of
        (f', None) \<Rightarrow> (s, db)
      | (f', Some t) \<Rightarrow> (s\<lparr>ses_form := f', ses_pending := ses_pending s @ [t]\<rparr>, db))"
| "chat_session_step u c (s, db) (UiComplete r fault now) =
     (case ses_pending s of
        [] \<Rightarrow> (s, db)
      | t # rest \<Rightarrow>
          (case chatWindow_complete (Some u) c t r fault now (ses_form s) db of
             (f', db', ts) \<Rightarrow> (s\<lparr>ses_form := f', ses_pending := rest\<rparr>, db')))"

definition chat_session_ok :: "chat_session \<Rightarrow> bool" where
  "chat_session_ok s = (length (ses_pending s) \<le> 1 \<and> cf_sending (ses_form s) = (ses_pending s \<noteq> []))"

subsection \<open>Properties of the chat windows\<close>

lemma chatWindow_start_sending:
  "cf_sending f \<Longrightarrow> chatWindow_start user activeChat f = (f, None)"
  by (simp add: chatWindow_start_def)

text \<open>The two windows complete a send alike: one session model serves both.\<close>

lemma messagingWindow_complete_same: "messagingWindow_complete = chatWindow_complete"
  by (intro ext) (simp add: messagingWindow_complete_def chatWindow_complete_def split: prod.splits send_outcome.splits)

lemma chat_session_step_ok:
  "chat_session_ok (fst sd) \<Longrightarrow> chat_session_ok (fst (chat_session_step u c sd e))"
proof (cases sd)
  case (Pair s db)
  assume ok: "chat_session_ok (fst sd)"
  then show ?thesis
    using Pair
    by (cases e) (auto simp: chat_session_ok_def chatForm_input_def chatWindow_start_def chatWindow_complete_def
                       split: list.splits prod.splits if_splits)
qed

lemma chat_session_run_ok:
  "chat_session_ok (fst sd) \<Longrightarrow> chat_session_ok (fst (foldl (chat_session_step u c) sd evs))"
  by (induction evs arbitrary: sd) (simp_all add: chat_session_step_ok)

lemma chatWindow_two_phase:
  assumes "\<not> cf_sending f"
  shows "chatWindow_submit user (Some c) (cf_newMessage f) addResult fault now db
         = (case chatWindow_start user (Some c) f of
              (f', None) \<Rightarrow> (db, cf_newMessage f, [])
            | (f', Some t) \<Rightarrow>
                (case chatWindow_complete user c t addResult fault now f' db of (f'', db', ts) \<Rightarrow> (db', cf_newMessage f'', ts)))"
  using assms
  by (auto simp: chatWindow_submit_def chatWindow_start_def chatWindow_complete_def split: prod.splits send_outcome.splits)

text \<open>
  C20: a double submission sends once. However the signed-in user types, clicks the send
  button and whenever the answers arrive, the chat window never has more than one send
  request in flight: its \<open>sending\<close> guard refuses a submit until the pending request
  is answered.
\<close>

theorem chat_window_one_request:
  "length (ses_pending (fst (foldl (chat_session_step u c) (chat_session_init, db) evs))) \<le> 1"
proof -
  have "chat_session_ok (fst (chat_session_init, db))"
    by (simp add: chat_session_ok_def chat_session_init_def chat_form_init_def)
  from chat_session_run_ok [OF this, of u c evs] show ?thesis by (simp add: chat_session_ok_def)
qed

end
