(* ===== verification/BookingScreens.thy ===== *)
theory BookingScreens
  imports Views
begin

text \<open>
  What the booking screens render from the booking store and the trips hook:
  \<open>pages/TripsPage.tsx\<close>, the nested routes of \<open>pages/BookingPage.tsx\<close>, and the two
  steps \<open>components/booking/steps/BookingStep.tsx\<close> and \<open>SelectionStep.tsx\<close>, whose
  \<open>RideSelection\<close> child is \<open>Booking.rideSelection_render\<close>. A render that throws is a
  left value: React unmounts the whole tree, as no error boundary is mounted.
\<close>

subsection \<open>The trips page\<close>

datatype 'e trips_page_view =
    TripsSpinner | TripsError 'e
  | TripsNoDate \<comment> \<open>\<open>date.toLocaleDateString\<close> on \<open>null\<close> throws a \<open>TypeError\<close>\<close>
  | TripsEmpty "string option" "string option" timestamp
  | TripsCards "string option" "string option" timestamp "doc_id list"

definition loc_name_of :: "location option \<Rightarrow> string option" where
  "loc_name_of l = (case l of None \<Rightarrow> None | Some x \<Rightarrow> loc_name x)"

definition tripsPage_view :: "booking_state \<Rightarrow> (doc_id \<times> trip, 'e) list_hook \<Rightarrow> 'e trips_page_view" where
  "tripsPage_view bs h =
     (if lh_loading h then TripsSpinner
      else case lh_error h of
        Some e \<Rightarrow> TripsError e
      | None \<Rightarrow>
          (case bs_date bs of
             None \<Rightarrow> TripsNoDate
           | Some d \<Rightarrow>
               if lh_items h = [] then TripsEmpty (loc_name_of (bs_pickup bs)) (loc_name_of (bs_dropoff bs)) d
               else TripsCards (loc_name_of (bs_pickup bs)) (loc_name_of (bs_dropoff bs)) d (map fst (lh_items h))))"

subsection \<open>The booking page's routes\<close>

text \<open>
  \<open>BookingPage\<close> queries the trips with the store's filters on every route, shows the
  search step at \<open>/booking\<close>, and at \<open>/booking/trips\<close> the list when the store holds a
  route and a date, otherwise a redirect to \<open>/booking\<close>.
\<close>

definition bookingPage_filters :: "booking_state \<Rightarrow> trip_filters" where
  "bookingPage_filters bs =
     \<lparr>tf_pickup = (case bs_pickup bs of Some p \<Rightarrow> loc_id p | None \<Rightarrow> None),
      tf_dropoff = (case bs_dropoff bs of Some d \<Rightarrow> loc_id d | None \<Rightarrow> None),
      tf_fromDate = bs_date bs, tf_availableSeats = Some (bs_passengers bs)\<rparr>"

datatype booking_subroute = BookingIndex | BookingTrips

datatype 'e booking_page_view =
    BookingSearchStep
  | BookingTripsList "string option" "string option" timestamp "'e list_view"
  | BookingRedirect route

definition bookingPage_render :: "booking_subroute \<Rightarrow> booking_state \<Rightarrow> (doc_id \<times> trip, 'e) list_hook \<Rightarrow> 'e booking_page_view" where
  "bookingPage_render sub bs h =
     (case sub of
        BookingIndex \<Rightarrow> BookingSearchStep
      | BookingTrips \<Rightarrow>
          (case (bs_pickup bs, bs_dropoff bs, bs_date bs) of
             (Some p, Some d, Some t) \<Rightarrow> BookingTripsList (loc_name p) (loc_name d) t (tripList_view h)
           | _ \<Rightarrow> BookingRedirect RBooking))"

subsection \<open>The booking and selection steps\<close>

datatype step_error = StepInvalidTime | StepRide render_error

datatype confirm_label = ContinueToPayment | Processing

record booking_step_view =
  bsv_pickupName :: "string option"
  bsv_dropoffName :: "string option"
  bsv_date :: timestamp
  bsv_passengers :: "int \<times> string"
  bsv_ride :: "ride_view option"
  bsv_confirmDisabled :: bool
  bsv_confirmLabel :: confirm_label
  bsv_modifyDisabled :: bool

text \<open>
  \<open>BookingStep\<close>: \<open>format(date!, 'PPp')\<close> throws a \<open>RangeError\<close> without a date; the
  \<open>RideSelection\<close> child then renders; the buttons are disabled while the confirmation
  is processing.
\<close>

definition bookingStep_view :: "booking_state \<Rightarrow> bool \<Rightarrow> step_error + booking_step_view" where
  "bookingStep_view bs isProcessing =
     (case bs_date bs of
        None \<Rightarrow> Inl StepInvalidTime
      | Some d \<Rightarrow>
          (case rideSelection_render bs of
             Inl e \<Rightarrow> Inl (StepRide e)
           | Inr rv \<Rightarrow>
               Inr \<lparr>bsv_pickupName = loc_name_of (bs_pickup bs), bsv_dropoffName = loc_name_of (bs_dropoff bs),
                    bsv_date = d,
                    bsv_passengers = (bs_passengers bs, if 1 < bs_passengers bs then ''personnes'' else ''personne''),
                    bsv_ride = rv, bsv_confirmDisabled = isProcessing,
                    bsv_confirmLabel = (if isProcessing then Processing else ContinueToPayment),
                    bsv_modifyDisabled = isProcessing\<rparr>))"

text \<open>\<open>SelectionStep\<close>: \<open>RideSelection\<close>, and the continue button, disabled while the fare is \<open>0\<close>.\<close>

definition selectionStep_view :: "booking_state \<Rightarrow> render_error + ride_view option \<times> bool" where
  "selectionStep_view bs =
     (case rideSelection_render bs of
        Inl e \<Rightarrow> Inl e
      | Inr rv \<Rightarrow> Inr (rv, bs_fare bs = 0))"

subsection \<open>The payment step's form\<close>

datatype pay_label = PayAmount "real option" | PayProcessing

record payment_view =
  pv_amount :: "real option"
  pv_cardNumber :: string
  pv_expiryDate :: string
  pv_cvc :: string
  pv_submitDisabled :: bool
  pv_label :: pay_label

datatype payment_step_view = PaymentSpinner | PaymentFormView payment_view

text \<open>
  \<open>PaymentStep\<close>'s render: the spinner while loading, then the amount
  (\<open>booking?.fare\<close>), the three inputs and the pay button, disabled while processing.
\<close>

definition paymentStep_view :: "bool \<Rightarrow> payment_page \<Rightarrow> payment_step_view" where
  "paymentStep_view processing pg =
     (if pp_loading pg then PaymentSpinner
      else PaymentFormView
             \<lparr>pv_amount = map_option b_fare (pp_booking pg), pv_cardNumber = pp_cardNumber pg,
              pv_expiryDate = pp_expiryDate pg, pv_cvc = pp_cvc pg, pv_submitDisabled = processing,
              pv_label = (if processing then PayProcessing else PayAmount (map_option b_fare (pp_booking pg)))\<rparr>)"

text \<open>
  The form's submission: the browser submits only when the three \<open>required\<close> inputs are
  non-empty, and then runs \<open>Booking.handlePayment\<close>.
\<close>

definition paymentStep_submit ::
  "doc_id option \<Rightarrow> backend_error option \<Rightarrow> timestamp \<Rightarrow> payment_page \<Rightarrow> booking_store
   \<Rightarrow> booking_store \<times> booking_message toast list \<times> route option" where
  "paymentStep_submit bookingId fault now pg store =
     (if pp_cardNumber pg = [] \<or> pp_expiryDate pg = [] \<or> pp_cvc pg = [] then (store, [], None)
      else handlePayment bookingId fault now pg store)"

definition card_digits :: "payment_page \<Rightarrow> bool" where
  "card_digits pg = (list_all is_digit (pp_cardNumber pg) \<and> list_all is_digit (pp_expiryDate pg)
                     \<and> list_all is_digit (pp_cvc pg))"

subsection \<open>Properties of the booking screens\<close>

lemma bookingPage_filters_tripsPage: "bookingPage_filters = tripsPage_filters"
  by (rule ext) (simp add: bookingPage_filters_def tripsPage_filters_def)

text \<open>
  The booking step renders only in states where its confirmation books nothing: without
  a date its render throws, and with a route and a date its \<open>RideSelection\<close> throws, so
  whenever the step is on screen \<open>handleConfirm\<close> stops at a guard.
\<close>

lemma bookingStep_confirm_books_nothing:
  assumes "bookingStep_view bs p = Inr v"
  shows "fst (snd (handleConfirm user now r bs store)) = store
         \<and> (\<forall>bid. snd (snd (snd (handleConfirm user now r bs store))) \<noteq> Some (RPayment bid))"
proof -
  obtain d where "bs_date bs = Some d" "bs_pickup bs = None \<or> bs_dropoff bs = None"
    using assms by (auto simp: bookingStep_view_def rideSelection_render_def split: option.splits sum.splits)
  then show ?thesis
    by (auto simp: handleConfirm_def split: option.splits)
qed

lemma card_digits_input: "card_digits pg \<Longrightarrow> card_digits (payment_input f v pg)"
  by (cases f) (auto simp: card_digits_def payment_input_def digits_prefix_def list_all_iff dest: in_set_takeD)

lemma js_trim_digits: "list_all is_digit s \<Longrightarrow> s \<noteq> [] \<Longrightarrow> js_trim s \<noteq> []"
  by (auto simp: js_trim_Nil_iff list_all_iff is_digit_def js_space_def neq_Nil_conv)

text \<open>
  The inputs keep only digits, so a form the browser submits has three non-blank fields:
  the \<open>'Veuillez remplir tous les champs'\<close> branch of \<open>handlePayment\<close> is never taken
  through the page.
\<close>

lemma paymentStep_fields_never_blank:
  assumes "card_digits pg"
  shows "ToastError PayFieldsRequired \<notin> set (fst (snd (paymentStep_submit bookingId fault now pg store)))"
  using assms js_trim_digits [of "pp_cardNumber pg"] js_trim_digits [of "pp_expiryDate pg"]
    js_trim_digits [of "pp_cvc pg"]
  by (auto simp: paymentStep_submit_def handlePayment_def card_digits_def split: option.splits prod.splits)

end
