(* ===== verification/AuthForms.thy ===== *)
theory AuthForms
  imports Layout
begin

text \<open>
  The email login and registration forms (\<open>components/LoginForm.tsx\<close>,
  \<open>components/RegisterForm.tsx\<close>) as forms with state, over the Firebase Auth model of
  \<open>Admin\<close>: \<open>signIn\<close> and the account creation of \<open>signUp\<close> in
  \<open>contexts/AuthContext.tsx\<close> act on it, and the handlers of \<open>Profile\<close> receive what it
  answers. The browser's constraint validation of the inputs (\<open>required\<close>, and
  \<open>type="email"\<close> as the parameter \<open>html_email_ok\<close>) runs before \<open>onSubmit\<close>: a form
  that fails it is not submitted.
\<close>

subsection \<open>The auth context's sign-in and hook\<close>

text \<open>\<open>signIn\<close>: \<open>signInWithEmailAndPassword\<close>, whose failure is rethrown.\<close>

definition authContext_signIn :: "string \<Rightarrow> string \<Rightarrow> fb_auth \<Rightarrow> auth_error + fb_auth" where
  "authContext_signIn email password a = fb_signIn email password a"

text \<open>\<open>useAuth\<close> outside an \<open>AuthProvider\<close> throws.\<close>

definition useAuth :: "'c option \<Rightarrow> string + 'c" where
  "useAuth ctx = (case ctx of None \<Rightarrow> Inl ''useAuth must be used within an AuthProvider'' | Some c \<Rightarrow> Inr c)"

subsection \<open>The forms\<close>

record auth_form =
  af_email :: string
  af_password :: string
  af_confirm :: string
  af_loading :: bool

definition auth_form_init :: auth_form where
  "auth_form_init = \<lparr>af_email = [], af_password = [], af_confirm = [], af_loading = False\<rparr>"

datatype auth_form_input = InEmail string | InPassword string | InConfirm string

definition authForm_input :: "auth_form_input \<Rightarrow> auth_form \<Rightarrow> auth_form" where
  "authForm_input i f =
     (case i of InEmail v \<Rightarrow> f\<lparr>af_email := v\<rparr> | InPassword v \<Rightarrow> f\<lparr>af_password := v\<rparr>
      | InConfirm v \<Rightarrow> f\<lparr>af_confirm := v\<rparr>)"

text \<open>
  \<open>LoginForm\<close>'s submit: the browser's checks of the two inputs; then the schema; only
  when it passes, \<open>signIn\<close>, whose answer \<open>Profile.login_handleSubmit\<close> turns into the
  toast and the navigation; \<open>loading\<close> is cleared in the \<open>finally\<close>.
\<close>

definition loginForm_submit ::
  "(string \<Rightarrow> bool) \<Rightarrow> (string \<Rightarrow> bool) \<Rightarrow> auth_form \<Rightarrow> fb_auth
   \<Rightarrow> auth_form \<times> fb_auth \<times> auth_message toast list \<times> route option" where
  "loginForm_submit html_email_ok email_ok f a =
     (if af_email f = [] \<or> \<not> html_email_ok (af_email f) \<or> af_password f = [] then (f, a, [], None)
      else
        let (a', err) =
              (if login_schema_error email_ok (af_email f) (af_password f) = None
               then (case authContext_signIn (af_email f) (af_password f) a of
                       Inl e \<Rightarrow> (a, Some e)
                     | Inr a' \<Rightarrow> (a', None))
               else (a, None));
            (ts, r) = login_handleSubmit email_ok (af_email f) (af_password f) err
        in (f\<lparr>af_loading := False\<rparr>, a', ts, r))"

text \<open>
  \<open>RegisterForm\<close>'s submit: the browser's checks of the three inputs; then the schema;
  only when it passes, \<open>signUp\<close>: \<open>createUserWithEmailAndPassword\<close> (which signs the new
  account in, under the uid \<open>newUid\<close> Firebase assigns) and the user document, as
  \<open>Profile.register_handleSubmit\<close> receives them. An account whose document write fails
  stays created and signed in.
\<close>

definition registerForm_submit ::
  "(string \<Rightarrow> bool) \<Rightarrow> (string \<Rightarrow> bool) \<Rightarrow> uid \<Rightarrow> backend_error option \<Rightarrow> timestamp \<Rightarrow> auth_form
   \<Rightarrow> fb_auth \<times> doc_store \<Rightarrow> auth_form \<times> (fb_auth \<times> doc_store) \<times> auth_message toast list \<times> route option" where
  "registerForm_submit html_email_ok email_ok newUid fault now f s =
     (if af_email f = [] \<or> \<not> html_email_ok (af_email f) \<or> af_password f = [] \<or> af_confirm f = []
      then (f, s, [], None)
      else
        let e = af_email f; p = af_password f; (a, users) = s;
            (a', created) =
              (if register_schema_error email_ok e p (af_confirm f) = None
               then (case fb_createUser e p newUid a of
                       Inl err \<Rightarrow> (a, Inl err)
                     | Inr a' \<Rightarrow> (a', Inr (fb_user newUid (Some e))))
               else (a, Inl OtherAuthError)) \<comment> \<open>not read: the handler shows the schema's error\<close>;
            (users', ts, r) = register_handleSubmit email_ok e p (af_confirm f) created fault now users
        in (f\<lparr>af_loading := False\<rparr>, (a', users'), ts, r))"

datatype auth_button = LoginButton | LoggingIn | RegisterButton | Registering

definition loginForm_button :: "auth_form \<Rightarrow> bool \<times> auth_button" where
  "loginForm_button f = (af_loading f, if af_loading f then LoggingIn else LoginButton)"

definition registerForm_button :: "auth_form \<Rightarrow> bool \<times> auth_button" where
  "registerForm_button f = (af_loading f, if af_loading f then Registering else RegisterButton)"

subsection \<open>Properties of the forms\<close>

lemma fb_user_fields [simp]: "au_uid (fb_user u e) = u" "au_email (fb_user u e) = e"
  by (simp_all add: fb_user_def)

lemma registerForm_submit_created:
  assumes "af_email f \<noteq> []" "html_email_ok (af_email f)" "email_ok (af_email f)"
    and "6 \<le> length (af_password f)" "af_confirm f = af_password f"
    and "fb_accounts a (af_email f) = None"
  shows "registerForm_submit html_email_ok email_ok u None now f (a, users)
         = (f\<lparr>af_loading := False\<rparr>,
            (\<lparr>fb_accounts = (fb_accounts a)(af_email f \<mapsto> \<lparr>fa_password = af_password f, fa_uid = u\<rparr>),
               fb_current = Some (fb_user u (Some (af_email f)))\<rparr>,
              users(u \<mapsto> signup_doc (fb_user u (Some (af_email f))) now)),
            [ToastSuccess AccountCreated], Some RDashboard)"
  using assms
  by (auto simp: registerForm_submit_def register_schema_error_def login_schema_error_def fb_createUser_def
                 register_handleSubmit_def signUp_def Let_def)

lemma loginForm_submit_account:
  assumes "af_email f \<noteq> []" "html_email_ok (af_email f)" "email_ok (af_email f)"
    and "6 \<le> length (af_password f)"
    and "fb_accounts a (af_email f) = Some \<lparr>fa_password = af_password f, fa_uid = u\<rparr>"
  shows "loginForm_submit html_email_ok email_ok f a
         = (f\<lparr>af_loading := False\<rparr>, a\<lparr>fb_current := Some (fb_user u (Some (af_email f)))\<rparr>,
            [ToastSuccess LoginSucceeded], Some (if af_email f = ''admin@cotaxiage.com'' then RAdmin else RHome))"
  using assms
  by (auto simp: loginForm_submit_def login_schema_error_def authContext_signIn_def fb_signIn_def
                 login_handleSubmit_def)

text \<open>
  C34: registering, logging out from the bar and logging in again with the same email and
  password signs the new account back in under the uid Firebase assigned it, whose user
  document the registration wrote; the registration itself navigates to
  \<open>/dashboard\<close>, a path \<open>App.tsx\<close> does not route.
\<close>

theorem register_logout_login:
  fixes u :: uid and now :: timestamp and users :: doc_store
  assumes "e \<noteq> []" "html_email_ok e" "email_ok e" "6 \<le> length p" "fb_accounts a e = None"
  defines "s1 \<equiv> registerForm_submit html_email_ok email_ok u None now
                   \<lparr>af_email = e, af_password = p, af_confirm = p, af_loading = False\<rparr> (a, users)"
  defines "a2 \<equiv> fst (navbar_handleLogout None (fst (fst (snd s1))))"
  defines "s3 \<equiv> loginForm_submit html_email_ok email_ok \<lparr>af_email = e, af_password = p, af_confirm = [], af_loading = False\<rparr> a2"
  shows "snd (snd (snd s1)) = Some RDashboard \<and> \<not> app_route RDashboard
         \<and> snd (fst (snd s1)) u = Some (signup_doc (fb_user u (Some e)) now)
         \<and> fb_current a2 = None
         \<and> fb_current (fst (snd s3)) = Some (fb_user u (Some e))
         \<and> fst (snd (snd s3)) = [ToastSuccess LoginSucceeded]"
proof -
  have s1: "s1 = (\<lparr>af_email = e, af_password = p, af_confirm = p, af_loading = False\<rparr>,
                  (\<lparr>fb_accounts = (fb_accounts a)(e \<mapsto> \<lparr>fa_password = p, fa_uid = u\<rparr>),
                    fb_current = Some (fb_user u (Some e))\<rparr>,
                   users(u \<mapsto> signup_doc (fb_user u (Some e)) now)),
                  [ToastSuccess AccountCreated], Some RDashboard)"
    unfolding s1_def using registerForm_submit_created [where f = "\<lparr>af_email = e, af_password = p, af_confirm = p, af_loading = False\<rparr>"] assms(1-5)
    by simp
  have a2: "a2 = \<lparr>fb_accounts = (fb_accounts a)(e \<mapsto> \<lparr>fa_password = p, fa_uid = u\<rparr>), fb_current = None\<rparr>"
    unfolding a2_def s1 by (simp add: navbar_handleLogout_def authContext_logout_def)
  have s3: "s3 = (\<lparr>af_email = e, af_password = p, af_confirm = [], af_loading = False\<rparr>,
                  a2\<lparr>fb_current := Some (fb_user u (Some e))\<rparr>,
                  [ToastSuccess LoginSucceeded], Some (if e = ''admin@cotaxiage.com'' then RAdmin else RHome))"
    unfolding s3_def using loginForm_submit_account [where f = "\<lparr>af_email = e, af_password = p, af_confirm = [], af_loading = False\<rparr>" and a = a2 and u = u] assms(1-4)
    by (simp add: a2)
  show ?thesis
    by (simp add: s1 s3 a2 app_route_def)
qed

theorem register_logout_login_witness:
  "''ana@example.org'' \<noteq> [] \<and> 6 \<le> length ''secret1'' \<and> fb_accounts \<lparr>fb_accounts = Map.empty, fb_current = None\<rparr> ''ana@example.org'' = None
   \<and> snd (snd (snd (registerForm_submit (\<lambda>_::string. True) (\<lambda>_::string. True) ''u1'' None 0 \<lparr>af_email = ''ana@example.org'', af_password = ''secret1'', af_confirm = ''secret1'', af_loading = False\<rparr> (\<lparr>fb_accounts = Map.empty, fb_current = None\<rparr>, Map.empty)))) = Some RDashboard \<and> \<not> app_route RDashboard
         \<and> snd (fst (snd (registerForm_submit (\<lambda>_::string. True) (\<lambda>_::string. True) ''u1'' None 0 \<lparr>af_email = ''ana@example.org'', af_password = ''secret1'', af_confirm = ''secret1'', af_loading = False\<rparr> (\<lparr>fb_accounts = Map.empty, fb_current = None\<rparr>, Map.empty)))) ''u1'' = Some (signup_doc (fb_user ''u1'' (Some ''ana@example.org'')) 0)
         \<and> fb_current (fst (navbar_handleLogout None (fst (fst (snd (registerForm_submit (\<lambda>_::string. True) (\<lambda>_::string. True) ''u1'' None 0 \<lparr>af_email = ''ana@example.org'', af_password = ''secret1'', af_confirm = ''secret1'', af_loading = False\<rparr> (\<lparr>fb_accounts = Map.empty, fb_current = None\<rparr>, Map.empty))))))) = None
         \<and> fb_current (fst (snd (loginForm_submit (\<lambda>_::string. True) (\<lambda>_::string. True) \<lparr>af_email = ''ana@example.org'', af_password = ''secret1'', af_confirm = [], af_loading = False\<rparr> (fst (navbar_handleLogout None (fst (fst (snd (registerForm_submit (\<lambda>_::string. True) (\<lambda>_::string. True) ''u1'' None 0 \<lparr>af_email = ''ana@example.org'', af_password = ''secret1'', af_confirm = ''secret1'', af_loading = False\<rparr> (\<lparr>fb_accounts = Map.empty, fb_current = None\<rparr>, Map.empty)))))))))) = Some (fb_user ''u1'' (Some ''ana@example.org''))
         \<and> fst (snd (snd (loginForm_submit (\<lambda>_::string. True) (\<lambda>_::string. True) \<lparr>af_email = ''ana@example.org'', af_password = ''secret1'', af_confirm = [], af_loading = False\<rparr> (fst (navbar_handleLogout None (fst (fst (snd (registerForm_submit (\<lambda>_::string. True) (\<lambda>_::string. True) ''u1'' None 0 \<lparr>af_email = ''ana@example.org'', af_password = ''secret1'', af_confirm = ''secret1'', af_loading = False\<rparr> (\<lparr>fb_accounts = Map.empty, fb_current = None\<rparr>, Map.empty)))))))))) = [ToastSuccess LoginSucceeded]"
  using register_logout_login [where e = "''ana@example.org''" and p = "''secret1''" and a = "\<lparr>fb_accounts = Map.empty, fb_current = None\<rparr>" and u = "''u1''"
          and now = 0 and users = Map.empty and html_email_ok = "(\<lambda>_::string. True)" and email_ok = "(\<lambda>_::string. True)"]
  by simp

text \<open>
  C13: the admin guard admits anyone who registers: an account created through the
  registration form with any address ending in \<open>@cotaxiage.com\<close> is signed in and
  passes \<open>AdminGuard\<close>, so the admin page is open to whoever picks such an address.
\<close>

theorem register_admin_domain_admitted:
  assumes "af_email f \<noteq> []" "html_email_ok (af_email f)" "email_ok (af_email f)"
    and "6 \<le> length (af_password f)" "af_confirm f = af_password f"
    and "fb_accounts a (af_email f) = None" "js_ends_with (af_email f) ADMIN_DOMAIN"
  shows "adminGuard False (fb_current (fst (fst (snd (registerForm_submit html_email_ok email_ok u None now f (a, users))))))
           = GuardChildren"
  using assms registerForm_submit_created [where f = f and html_email_ok = html_email_ok and email_ok = email_ok
                                              and a = a and u = u and now = now and users = users]
  by (simp add: adminGuard_def admin_email_def fb_user_def)

theorem register_admin_domain_admitted_witness:
  "af_email \<lparr>af_email = ''eve@cotaxiage.com'', af_password = ''secret1'', af_confirm = ''secret1'', af_loading = False\<rparr> \<noteq> []
   \<and> js_ends_with ''eve@cotaxiage.com'' ADMIN_DOMAIN
   \<and> adminGuard False (fb_current (fst (fst (snd (registerForm_submit (\<lambda>_::string. True) (\<lambda>_::string. True) ''u9'' None 0
        \<lparr>af_email = ''eve@cotaxiage.com'', af_password = ''secret1'', af_confirm = ''secret1'', af_loading = False\<rparr>
        (\<lparr>fb_accounts = Map.empty, fb_current = None\<rparr>, Map.empty)))))) = GuardChildren"
  using register_admin_domain_admitted
          [where f = "\<lparr>af_email = ''eve@cotaxiage.com'', af_password = ''secret1'', af_confirm = ''secret1'', af_loading = False\<rparr>"
             and html_email_ok = "(\<lambda>_::string. True)" and email_ok = "(\<lambda>_::string. True)" and a = "\<lparr>fb_accounts = Map.empty, fb_current = None\<rparr>" and u = "''u9''" and now = 0
             and users = Map.empty]
  by (simp add: js_ends_with_def ADMIN_DOMAIN_def)

end
