(* ===== verification/NotificationViews.thy ===== *)
theory NotificationViews
  imports Pages
begin

text \<open>
  What the notification bell (\<open>components/notifications/NotificationBell.tsx\<close>) and its
  list (\<open>components/notifications/NotificationList.tsx\<close>) render from the notification
  store: the badge, and when the popover is open, a spinner, the error, an empty notice,
  or the rows with their unread marks and the \<open>Mark all as read\<close> button. The handlers
  and the store's runs under them are in \<open>Pages\<close>.
\<close>

record notification_row =
  nr_id :: string
  nr_title :: string
  nr_message :: string
  nr_unread :: bool

datatype notification_list_view =
    NotificationsSpinner | NotificationsError string | NoNotifications
  | NotificationRows bool "notification_row list"

definition notification_row_of :: "notification \<Rightarrow> notification_row" where
  "notification_row_of n = \<lparr>nr_id = n_id n, nr_title = n_title n, nr_message = n_message n, nr_unread = (\<not> n_read n)\<rparr>"

definition notificationList_view :: "notification_state \<Rightarrow> notification_list_view" where
  "notificationList_view st =
     (if ns_loading st then NotificationsSpinner
      else if js_truthy_str (ns_error st) then NotificationsError (the (ns_error st))
      else if notifications st = [] then NoNotifications
      else NotificationRows (notificationList_showMarkAll st) (map notification_row_of (notifications st)))"

text \<open>The bell: its badge, and the list in the popover while it is open.\<close>

definition notificationBell_view :: "bool \<Rightarrow> notification_state \<Rightarrow> int option \<times> notification_list_view option" where
  "notificationBell_view isOpen st =
     (notificationBell_badge st, if isOpen then Some (notificationList_view st) else None)"

subsection \<open>The badge and the rows agree\<close>

lemma count_unread_rows:
  "count_unread ns = int (length (filter nr_unread (map notification_row_of ns)))"
  by (simp add: count_unread_def notification_row_of_def comp_def)

text \<open>
  Under the bell's events the badge of the open bell counts exactly the rows of its list
  that carry an unread mark, and the \<open>Mark all as read\<close> button shows exactly when
  there is a badge.
\<close>

lemma bell_badge_counts_rows:
  assumes "list_all bell_event_ok evs"
    and "notificationBell_view True (foldl (bell_step u) notification_init evs) = (b, Some (NotificationRows m rows))"
  shows "b = (if 0 < length (filter nr_unread rows) then Some (int (length (filter nr_unread rows))) else None)
         \<and> m = (b \<noteq> None)"
proof -
  let ?st = "foldl (bell_step u) notification_init evs"
  have "bell_inv notification_init" by (simp add: bell_inv_def unread_inv_def notification_init_def)
  from bell_run_inv [OF this assms(1)] have inv: "unreadCount ?st = count_unread (notifications ?st)"
    by (simp add: bell_inv_def unread_inv_def)
  from assms(2) have rows: "rows = map notification_row_of (notifications ?st)"
    and m: "m = notificationList_showMarkAll ?st" and b: "b = notificationBell_badge ?st"
    by (auto simp: notificationBell_view_def notificationList_view_def split: if_splits)
  have "notificationList_showMarkAll ?st = (0 < count_unread (notifications ?st))"
    by (auto simp: notificationList_showMarkAll_def count_unread_def list_ex_iff filter_empty_conv)
  then show ?thesis
    using inv rows m b by (simp add: notificationBell_badge_def count_unread_rows)
qed

end
