(* ===== verification/Routing.thy ===== *)
theory Routing
  imports AuthForms
begin

text \<open>
  The route table of \<open>App.tsx\<close> as a matcher on paths, and the path of each navigation
  target the handlers return. React Router matches a path against the route patterns by
  its \<open>/\<close>-separated segments, static segments case-insensitively and a dynamic segment
  (\<open>:tripId\<close>, the optional \<open>:userId?\<close>) by any non-empty segment; a path that no
  pattern matches renders nothing inside the layout. The abstract table
  \<open>Profile.app_route\<close> used by the handlers' lemmas is shown to agree with the matcher.
\<close>

subsection \<open>Paths\<close>

fun split_slash :: "string \<Rightarrow> string list" where
  "split_slash [] = [[]]"
| "split_slash (c # cs) =
     (let r = split_slash cs in if c = CHR ''/'' then [] # r else (c # hd r) # tl r)"

definition path_segments :: "string \<Rightarrow> string list" where
  "path_segments p = filter (\<lambda>s. s \<noteq> []) (split_slash p)"

text \<open>The path each navigation target of the handlers denotes.\<close>

fun route_path :: "route \<Rightarrow> string" where
  "route_path RHome = ''/''"
| "route_path RLogin = ''/login''"
| "route_path RTrips = ''/trips''"
| "route_path RCreateTrip = ''/create-trip''"
| "route_path (RTrip t) = ''/trip/'' @ t"
| "route_path RBooking = ''/booking''"
| "route_path RBookingPayment = ''/booking/payment''"
| "route_path (RPayment b) = ''/booking/payment/'' @ b"
| "route_path RConfirmation = ''/booking/confirmation''"
| "route_path RAdmin = ''/admin''"
| "route_path RRegister = ''/register''"
| "route_path RProfile = ''/profile''"
| "route_path RDashboard = ''/dashboard''"
| "route_path RBookingConfirm = ''/booking/confirm''"

subsection \<open>The route table\<close>

datatype app_page =
    PageHome | PageLogin | PageRegister | PageBooking | PageTrips | PageProfile "string option"
  | PageCreateTrip | PageTripDetails string | PageAdmin

definition seg_is :: "string \<Rightarrow> string \<Rightarrow> bool" where
  "seg_is lit s = (js_lower s = lit)"

definition app_match :: "string \<Rightarrow> app_page option" where
  "app_match p =
     (case path_segments p of
        [] \<Rightarrow> Some PageHome
      | [s] \<Rightarrow>
          (if seg_is ''login'' s then Some PageLogin
           else if seg_is ''register'' s then Some PageRegister
           else if seg_is ''booking'' s then Some PageBooking
           else if seg_is ''trips'' s then Some PageTrips
           else if seg_is ''profile'' s then Some (PageProfile None)
           else if seg_is ''create-trip'' s then Some PageCreateTrip
           else if seg_is ''admin'' s then Some PageAdmin
           else None)
      | [s, x] \<Rightarrow>
          (if seg_is ''profile'' s then Some (PageProfile (Some x))
           else if seg_is ''trip'' s then Some (PageTripDetails x)
           else None)
      | _ \<Rightarrow> None)"

text \<open>A document id as a path segment: non-empty and without a slash.\<close>

definition segment_id :: "string \<Rightarrow> bool" where
  "segment_id i = (i \<noteq> [] \<and> CHR ''/'' \<notin> set i)"

fun route_ids_ok :: "route \<Rightarrow> bool" where
  "route_ids_ok (RTrip t) = segment_id t"
| "route_ids_ok (RPayment b) = segment_id b"
| "route_ids_ok _ = True"

subsection \<open>Properties of the routing\<close>

lemma split_slash_segment: "CHR ''/'' \<notin> set s \<Longrightarrow> split_slash s = [s]"
  by (induction s) (auto simp: Let_def)

lemma split_slash_not_Nil [simp]: "split_slash s \<noteq> []"
  by (cases s) (auto simp: Let_def)

lemma split_slash_slash: "split_slash (xs @ CHR ''/'' # ys) = split_slash xs @ split_slash ys"
proof (induction xs)
  case Nil then show ?case by (simp add: Let_def)
next
  case (Cons c cs)
  then show ?case by (cases "split_slash cs") (auto simp: Let_def)
qed

lemma path_segments_id:
  "segment_id t \<Longrightarrow> path_segments (pre @ CHR ''/'' # t) = path_segments pre @ [t]"
  by (simp add: path_segments_def split_slash_slash split_slash_segment segment_id_def)

text \<open>
  The route table the handlers' lemmas use is the one \<open>App.tsx\<close> declares: a
  navigation target is rendered by a page exactly when \<open>Profile.app_route\<close> says so,
  for document ids that are path segments.
\<close>

lemma app_match_refines_app_route:
  assumes "route_ids_ok r"
  shows "(app_match (route_path r) \<noteq> None) = app_route r"
proof (cases r)
  case (RTrip t)
  then have "path_segments (route_path r) = [''trip'', t]"
    using assms path_segments_id [of t "''/trip''"] by (simp add: path_segments_def)
  then show ?thesis using RTrip by (simp add: app_match_def app_route_def seg_is_def js_lower_def js_lower_char_def)
next
  case (RPayment b)
  then have "path_segments (route_path r) = [''booking'', ''payment'', b]"
    using assms path_segments_id [of b "''/booking/payment''"] by (simp add: path_segments_def)
  then show ?thesis using RPayment by (simp add: app_match_def app_route_def)
qed (simp_all add: app_match_def app_route_def path_segments_def seg_is_def js_lower_def js_lower_char_def)

text \<open>
  C18: every link of the navigation bar leads to the page it names: matched against the
  routes of \<open>App.tsx\<close>, the create-trip, booking, login and register links reach their
  pages and the profile link the signed-in user's own profile, when the uid is a path
  segment.
\<close>

theorem navbar_links_routed:
  assumes "case user of Some u \<Rightarrow> segment_id (au_uid u) | None \<Rightarrow> True"
    and "NavLink k p b \<in> set (navbar_view user path)"
  shows "app_match p = Some (case k of LinkCreateTrip \<Rightarrow> PageCreateTrip | LinkBooking \<Rightarrow> PageBooking
                                | LinkProfile \<Rightarrow> PageProfile (map_option au_uid user)
                                | LinkLogin \<Rightarrow> PageLogin | LinkRegister \<Rightarrow> PageRegister)"
proof (cases user)
  case None
  then show ?thesis
    using assms(2)
    by (auto simp: navbar_view_def app_match_def path_segments_def seg_is_def js_lower_def js_lower_char_def)
next
  case (Some u)
  then have "path_segments (''/profile/'' @ au_uid u) = [''profile'', au_uid u]"
    using assms(1) path_segments_id [of "au_uid u" "''/profile''"] by (simp add: path_segments_def)
  then show ?thesis
    using assms(2) Some
    by (auto simp: navbar_view_def app_match_def path_segments_def seg_is_def js_lower_def js_lower_char_def)
qed

theorem navbar_links_routed_witness:
  "segment_id ''u1''
   \<and> NavLink LinkProfile ''/profile/u1'' False
       \<in> set (navbar_view (Some \<lparr>au_uid = ''u1'', au_email = None, au_displayName = None, au_photoURL = None\<rparr>) ''/'')
   \<and> app_match ''/profile/u1'' = Some (PageProfile (Some ''u1''))"
proof -
  have h: "case Some \<lparr>au_uid = ''u1'', au_email = None, au_displayName = None, au_photoURL = None\<rparr> of
             Some u \<Rightarrow> segment_id (au_uid u) | None \<Rightarrow> True"
    by (simp add: segment_id_def)
  have m: "NavLink LinkProfile ''/profile/u1'' False
       \<in> set (navbar_view (Some \<lparr>au_uid = ''u1'', au_email = None, au_displayName = None, au_photoURL = None\<rparr>) ''/'')"
    by (simp add: navbar_view_def)
  show ?thesis
    using navbar_links_routed [OF h m] m by (simp add: segment_id_def)
qed

end
