(* ===== verification/AdminSeed.thy ===== *)
theory AdminSeed
  imports Admin
begin

text \<open>
  The seed data the administration utilities write in one \<open>writeBatch\<close>: the station
  documents and a test trip of \<open>initializeFirestore\<close> (\<open>utils/initializeFirestore.ts\<close>),
  and the station, trip and message documents of \<open>initializeCollections\<close>
  (\<open>utils/initializeCollections.ts\<close>) with the button that runs it
  (\<open>components/admin/InitializeButton.tsx\<close>). Each document is a record of exactly the
  fields the object literal writes; a batch is committed whole or not at all.
\<close>

subsection \<open>The documents\<close>

text \<open>\<open>{...station, isActive: true, ...}\<close>, with the capacity and hours of \<open>initializeCollections\<close>.\<close>

record station_doc =
  sd_station :: station
  sd_isActive :: bool
  sd_capacity :: "int option"
  sd_hours :: "(string \<times> string) option"
  sd_createdAt :: timestamp
  sd_updatedAt :: timestamp

text \<open>
  The test trip of \<open>initializeFirestore\<close>: catalogue stations as endpoints, no
  \<open>availableSeats\<close> or \<open>perPersonFare\<close> field.
\<close>

record seed_trip =
  seed_creatorId :: uid
  seed_participants :: "uid list"
  seed_pickup :: station
  seed_dropoff :: station
  seed_scheduledFor :: timestamp
  seed_maxPassengers :: int
  seed_currentPassengers :: int
  seed_status :: trip_status
  seed_fare :: int
  seed_createdAt :: timestamp
  seed_updatedAt :: timestamp

text \<open>The example trip of \<open>initializeCollections\<close>: coordinates as endpoints.\<close>

record example_seed_trip =
  ex_creatorId :: uid
  ex_participants :: "uid list"
  ex_pickup :: geo
  ex_dropoff :: geo
  ex_scheduledFor :: timestamp
  ex_maxPassengers :: int
  ex_currentPassengers :: int
  ex_status :: trip_status
  ex_fare :: int
  ex_perPersonFare :: int
  ex_createdAt :: timestamp
  ex_updatedAt :: timestamp

text \<open>Its welcome message, which names a trip and no chat.\<close>

record seed_message =
  sm_tripId :: doc_id
  sm_senderId :: uid
  sm_content :: string
  sm_timestamp :: timestamp
  sm_read :: bool

record seed_store =
  seed_stations :: "station_doc collection"
  seed_trips :: "seed_trip collection"
  seed_exampleTrips :: "example_seed_trip collection"
  seed_messages :: "seed_message collection"

definition seed_store_empty :: seed_store where
  "seed_store_empty = \<lparr>seed_stations = [], seed_trips = [], seed_exampleTrips = [], seed_messages = []\<rparr>"

subsection \<open>The batch of \<open>initializeFirestore\<close>\<close>

definition firestore_station_doc :: "timestamp \<Rightarrow> station \<Rightarrow> station_doc" where
  "firestore_station_doc now s =
     \<lparr>sd_station = s, sd_isActive = True, sd_capacity = None, sd_hours = None,
      sd_createdAt = now, sd_updatedAt = now\<rparr>"

definition firestore_seed_trip :: "uid \<Rightarrow> timestamp \<Rightarrow> seed_trip" where
  "firestore_seed_trip uid now =
     \<lparr>seed_creatorId = uid, seed_participants = [uid], seed_pickup = ALL_STATIONS ! 0,
      seed_dropoff = ALL_STATIONS ! 1, seed_scheduledFor = now + 86400000, seed_maxPassengers = 4,
      seed_currentPassengers = 1, seed_status = Open, seed_fare = 50, seed_createdAt = now,
      seed_updatedAt = now\<rparr>"

text \<open>
  \<open>batch.set\<close> of every catalogue station under its id and of the trip under a fresh id,
  then \<open>batch.commit()\<close>; \<open>set\<close> replaces a document of the same id.
\<close>

definition firestore_batch :: "uid \<Rightarrow> timestamp \<Rightarrow> doc_id \<Rightarrow> seed_store \<Rightarrow> seed_store" where
  "firestore_batch uid now tripId ss =
     ss\<lparr>seed_stations := foldl (\<lambda>docs s. coll_set (st_id s) (firestore_station_doc now s) docs)
                              (seed_stations ss) ALL_STATIONS,
        seed_trips := coll_set tripId (firestore_seed_trip uid now) (seed_trips ss)\<rparr>"

text \<open>
  \<open>initializeFirestore\<close> with its batch: the admin documents of \<open>Admin.initializeFirestore\<close>,
  and the seed when the writes before it and the commit succeed.
\<close>

definition initializeFirestore_seeded ::
  "uid \<Rightarrow> backend_error option \<Rightarrow> backend_error option \<Rightarrow> backend_error option \<Rightarrow> timestamp \<Rightarrow> doc_id
   \<Rightarrow> admin_backend \<times> seed_store \<Rightarrow> (admin_backend \<times> seed_store) \<times> admin_notice toast list \<times> backend_error option" where
  "initializeFirestore_seeded uid userFault systemFault batchFault now tripId s =
     (case initializeFirestore uid userFault systemFault batchFault now (fst s) of
        (ab', ts, None) \<Rightarrow> ((ab', firestore_batch uid now tripId (snd s)), ts, None)
      | (ab', ts, Some e) \<Rightarrow> ((ab', snd s), ts, Some e))"

subsection \<open>The batch of \<open>initializeCollections\<close> and its button\<close>

definition collections_station_doc :: "timestamp \<Rightarrow> station \<Rightarrow> station_doc" where
  "collections_station_doc now s =
     \<lparr>sd_station = s, sd_isActive = True, sd_capacity = Some (if st_type s = Taxi then 5 else 10),
      sd_hours = Some (''00:00'', ''23:59''), sd_createdAt = now, sd_updatedAt = now\<rparr>"

definition collections_example_trip :: "timestamp \<Rightarrow> example_seed_trip" where
  "collections_example_trip now =
     \<lparr>ex_creatorId = ''system'', ex_participants = [], ex_pickup = st_location (ALL_STATIONS ! 0),
      ex_dropoff = st_location (ALL_STATIONS ! 1), ex_scheduledFor = now, ex_maxPassengers = 4,
      ex_currentPassengers = 0, ex_status = Open, ex_fare = 50, ex_perPersonFare = 25,
      ex_createdAt = now, ex_updatedAt = now\<rparr>"

definition collections_welcome :: "doc_id \<Rightarrow> timestamp \<Rightarrow> seed_message" where
  "collections_welcome tripId now =
     \<lparr>sm_tripId = tripId, sm_senderId = ''system'', sm_content = ''Welcome to CoTaxiage!'',
      sm_timestamp = now, sm_read = False\<rparr>"

definition initializeCollections ::
  "backend_error option \<Rightarrow> timestamp \<Rightarrow> doc_id \<Rightarrow> doc_id \<Rightarrow> seed_store \<Rightarrow> backend_error + seed_store" where
  "initializeCollections commitFault now tripId messageId ss =
     (case commitFault of
        Some e \<Rightarrow> Inl e
      | None \<Rightarrow>
          Inr (ss\<lparr>seed_stations := foldl (\<lambda>docs s. coll_set (st_id s) (collections_station_doc now s) docs)
                                         (seed_stations ss) ALL_STATIONS,
                   seed_exampleTrips := coll_set tripId (collections_example_trip now) (seed_exampleTrips ss),
                   seed_messages := coll_set messageId (collections_welcome tripId now) (seed_messages ss)\<rparr>))"

datatype init_notice = CollectionsInitialized | CollectionsInitFailed

definition initializeButton_handleInitialize ::
  "backend_error option \<Rightarrow> timestamp \<Rightarrow> doc_id \<Rightarrow> doc_id \<Rightarrow> seed_store \<Rightarrow> seed_store \<times> init_notice toast list" where
  "initializeButton_handleInitialize commitFault now tripId messageId ss =
     (case initializeCollections commitFault now tripId messageId ss of
        Inl _ \<Rightarrow> (ss, [ToastError CollectionsInitFailed])
      | Inr ss' \<Rightarrow> (ss', [ToastSuccess CollectionsInitialized]))"

text \<open>The button: disabled, with its \<open>Initializing...\<close> label, while the batch runs.\<close>

definition initializeButton_view :: "bool \<Rightarrow> bool \<times> bool" where
  "initializeButton_view initializing = (initializing, initializing)"

subsection \<open>The station batch of \<open>utils/collections.ts\<close>\<close>

text \<open>
  \<open>initializeTaxiStations\<close> calls \<open>db.batch()\<close>, the namespaced API of Firebase 8; the
  modular \<open>Firestore\<close> instance of \<open>getFirestore\<close> has no \<open>batch\<close> method, so the call
  throws a \<open>TypeError\<close> before any station is read, and the returned promise rejects.
\<close>

definition initializeTaxiStations :: "station list \<Rightarrow> render_error + unit" where
  "initializeTaxiStations stations = Inl (NotAFunction ''db.batch'')"

subsection \<open>Properties of the seed\<close>

text \<open>After a committed batch of \<open>initializeFirestore\<close>, every catalogue station has its document.\<close>

lemma firestore_batch_stations:
  "s \<in> set ALL_STATIONS \<Longrightarrow>
   map_of (seed_stations (firestore_batch uid now tripId ss)) (st_id s) = Some (firestore_station_doc now s)"
  using map_of_foldl_coll_set [OF ALL_STATIONS_ids_distinct, of s "firestore_station_doc now"]
  by (simp add: firestore_batch_def)

text \<open>
  Both seed trips break the rules the application's own writers keep: the test trip of
  \<open>initializeFirestore\<close> joins two train stations, a route \<open>validateRoute\<close> rejects and
  \<open>calculateFare\<close> prices at the sentinel 0, yet it stores 50; the example trip of
  \<open>initializeCollections\<close> has a creator who is not a participant.
\<close>

lemma seed_trips_break_rules:
  "validateRoute (st_id (seed_pickup (firestore_seed_trip uid now))) (st_id (seed_dropoff (firestore_seed_trip uid now))) \<noteq> Inr ()
   \<and> calculateFare (station_point (seed_pickup (firestore_seed_trip uid now)))
                   (station_point (seed_dropoff (firestore_seed_trip uid now))) = 0
   \<and> seed_fare (firestore_seed_trip uid now) = 50
   \<and> ex_creatorId (collections_example_trip now) \<notin> set (ex_participants (collections_example_trip now))"
  by (simp add: firestore_seed_trip_def collections_example_trip_def validateRoute_valid_iff
                calculateFare_zero_iff catalogue_defs find_station_def station_point_def airport_of_def
                isAirport_def js_or_empty_def js_lower_def js_lower_char_def)

end
