(* ===== verification/ErrorTracking.thy ===== *)
theory ErrorTracking
  imports Queries
begin

text \<open>
  The monitoring utilities: the error tracker of \<open>utils/error-tracking.ts\<close> and the
  navigation timing of \<open>utils/performance.ts\<close>. No module imports either file. The
  tracker is a singleton class whose constructor registers window listeners; since a
  listener is bound to the instance that registered it, the model keeps every instance
  constructed, the static \<open>ErrorTracker.instance\<close> as an index into them, and the
  window's listeners as the indices of their instances. An error event of the window is
  delivered to every listener.
\<close>

subsection \<open>The error tracker\<close>

record error_report =
  er_message :: string
  er_stack :: "string option"
  er_timestamp :: timestamp
  er_userAgent :: string
  er_path :: string

record tracker_world =
  tw_instances :: "error_report list list"
  tw_static :: "nat option"
  tw_listeners :: "nat list"

definition tracker_world_init :: tracker_world where
  "tracker_world_init = \<lparr>tw_instances = [], tw_static = None, tw_listeners = []\<rparr>"

text \<open>
  \<open>getInstance\<close>: the static instance, constructed on first use; the constructor starts
  with no errors and registers the instance's \<open>error\<close> and \<open>unhandledrejection\<close>
  listeners (one index here for the pair).
\<close>

definition tracker_getInstance :: "tracker_world \<Rightarrow> tracker_world \<times> nat" where
  "tracker_getInstance w =
     (case tw_static w of
        Some i \<Rightarrow> (w, i)
      | None \<Rightarrow>
          (let i = length (tw_instances w)
           in (w\<lparr>tw_instances := tw_instances w @ [[]], tw_static := Some i,
                 tw_listeners := tw_listeners w @ [i]\<rparr>, i)))"

text \<open>\<open>logError\<close>: the report is pushed onto the instance's \<open>errors\<close>.\<close>

definition tracker_logError :: "nat \<Rightarrow> error_report \<Rightarrow> tracker_world \<Rightarrow> tracker_world" where
  "tracker_logError i r w = w\<lparr>tw_instances := (tw_instances w)[i := tw_instances w ! i @ [r]]\<rparr>"

text \<open>\<open>handleError\<close> and \<open>handlePromiseRejection\<close>: the report each builds from its event.\<close>

definition handleError_report ::
  "string \<Rightarrow> string option \<Rightarrow> timestamp \<Rightarrow> string \<Rightarrow> string \<Rightarrow> error_report" where
  "handleError_report message stack now userAgent path =
     \<lparr>er_message = message, er_stack = stack, er_timestamp = now, er_userAgent = userAgent, er_path = path\<rparr>"

definition handlePromiseRejection_report ::
  "string option \<Rightarrow> string option \<Rightarrow> timestamp \<Rightarrow> string \<Rightarrow> string \<Rightarrow> error_report" where
  "handlePromiseRejection_report reasonMessage stack now userAgent path =
     \<lparr>er_message = (if js_truthy_str reasonMessage then the reasonMessage else ''Promise rejection''),
      er_stack = stack, er_timestamp = now, er_userAgent = userAgent, er_path = path\<rparr>"

text \<open>The window delivers an event to each registered listener, in registration order.\<close>

definition tracker_dispatch :: "error_report \<Rightarrow> tracker_world \<Rightarrow> tracker_world" where
  "tracker_dispatch r w = foldl (\<lambda>w' i. tracker_logError i r w') w (tw_listeners w)"

text \<open>\<open>getInstance().getErrors()\<close> and \<open>getInstance().clearErrors()\<close>.\<close>

definition tracker_getErrors :: "tracker_world \<Rightarrow> tracker_world \<times> error_report list" where
  "tracker_getErrors w = (case tracker_getInstance w of (w', i) \<Rightarrow> (w', tw_instances w' ! i))"

definition tracker_clearErrors :: "tracker_world \<Rightarrow> tracker_world" where
  "tracker_clearErrors w =
     (case tracker_getInstance w of (w', i) \<Rightarrow> w'\<lparr>tw_instances := (tw_instances w')[i := []]\<rparr>)"

datatype tracker_event = TrackerGet | WindowEvent error_report | TrackerClear

fun tracker_step :: "tracker_world \<Rightarrow> tracker_event \<Rightarrow> tracker_world" where
  "tracker_step w TrackerGet = fst (tracker_getInstance w)"
| "tracker_step w (WindowEvent r) = tracker_dispatch r w"
| "tracker_step w TrackerClear = tracker_clearErrors w"

subsection \<open>Navigation timing\<close>

record perf_entry =
  pe_entryType :: string
  pe_domainLookupStart :: real
  pe_domainLookupEnd :: real
  pe_connectStart :: real
  pe_connectEnd :: real
  pe_requestStart :: real
  pe_responseStart :: real
  pe_navigationStart :: real
  pe_domContentLoadedEventEnd :: real
  pe_loadEventEnd :: real

record nav_timing =
  nt_dnsLookup :: real
  nt_tcpConnection :: real
  nt_firstByte :: real
  nt_domLoad :: real
  nt_windowLoad :: real

definition navigation_timing :: "perf_entry \<Rightarrow> nav_timing" where
  "navigation_timing e =
     \<lparr>nt_dnsLookup = pe_domainLookupEnd e - pe_domainLookupStart e,
      nt_tcpConnection = pe_connectEnd e - pe_connectStart e,
      nt_firstByte = pe_responseStart e - pe_requestStart e,
      nt_domLoad = pe_domContentLoadedEventEnd e - pe_navigationStart e,
      nt_windowLoad = pe_loadEventEnd e - pe_navigationStart e\<rparr>"

text \<open>
  \<open>initializePerformanceMonitoring\<close>: outside production it returns \<open>null\<close> and observes
  nothing; in production the observer logs the timing of each navigation entry of a
  delivered list.
\<close>

definition performance_observer_log :: "bool \<Rightarrow> perf_entry list \<Rightarrow> nav_timing list" where
  "performance_observer_log production entries =
     (if production then map navigation_timing (filter (\<lambda>e. pe_entryType e = ''navigation'') entries) else [])"

text \<open>
  What the tracker promises, as an abstract log: once an instance exists, every window
  error is recorded once, in order, and a clear empties the log.
\<close>

fun tracker_spec :: "bool \<times> error_report list \<Rightarrow> tracker_event \<Rightarrow> bool \<times> error_report list" where
  "tracker_spec (a, rs) TrackerGet = (True, rs)"
| "tracker_spec (a, rs) (WindowEvent r) = (a, if a then rs @ [r] else rs)"
| "tracker_spec (a, rs) TrackerClear = (True, [])"

definition tracker_abs :: "tracker_world \<Rightarrow> bool \<times> error_report list" where
  "tracker_abs w = (case tw_static w of None \<Rightarrow> (False, []) | Some i \<Rightarrow> (True, tw_instances w ! i))"

subsection \<open>Properties of the tracker\<close>

definition tracker_inv :: "tracker_world \<Rightarrow> bool" where
  "tracker_inv w =
     (case tw_static w of
        None \<Rightarrow> tw_instances w = [] \<and> tw_listeners w = []
      | Some i \<Rightarrow> length (tw_instances w) = 1 \<and> i = 0 \<and> tw_listeners w = [0])"

lemma tracker_getInstance_inv:
  "tracker_inv w \<Longrightarrow> tracker_inv (fst (tracker_getInstance w)) \<and> snd (tracker_getInstance w) = 0"
  by (auto simp: tracker_inv_def tracker_getInstance_def split: option.splits)

lemma tracker_step_inv:
  assumes "tracker_inv w"
  shows "tracker_inv (tracker_step w e)"
proof (cases e)
  case TrackerGet then show ?thesis using tracker_getInstance_inv [OF assms] by simp
next
  case (WindowEvent r)
  then show ?thesis using assms
    by (auto simp: tracker_inv_def tracker_dispatch_def tracker_logError_def split: option.splits)
next
  case TrackerClear
  then show ?thesis
    using assms tracker_getInstance_inv [OF assms]
    by (auto simp: tracker_clearErrors_def tracker_inv_def split: prod.splits option.splits)
qed

lemma tracker_run_inv: "tracker_inv w \<Longrightarrow> tracker_inv (foldl tracker_step w evs)"
  by (induction evs arbitrary: w) (simp_all add: tracker_step_inv)

lemma tracker_step_abs:
  assumes "tracker_inv w"
  shows "tracker_abs (tracker_step w e) = tracker_spec (tracker_abs w) e"
proof (cases e)
  case TrackerGet then show ?thesis using assms
    by (auto simp: tracker_abs_def tracker_inv_def tracker_getInstance_def split: option.splits)
next
  case (WindowEvent r)
  then show ?thesis using assms
    by (auto simp: tracker_abs_def tracker_inv_def tracker_dispatch_def tracker_logError_def split: option.splits)
next
  case TrackerClear
  then show ?thesis using assms
    by (auto simp: tracker_abs_def tracker_inv_def tracker_clearErrors_def tracker_getInstance_def
             split: option.splits)
qed

lemma tracker_run_abs:
  "tracker_inv w \<Longrightarrow> tracker_abs (foldl tracker_step w evs) = foldl tracker_spec (tracker_abs w) evs"
  by (induction evs arbitrary: w) (simp_all add: tracker_step_abs tracker_step_inv)

text \<open>
  C24: the singleton logs every window error once: whatever sequence of \<open>getInstance\<close>
  calls, window errors and clears runs from a fresh page, \<open>getErrors\<close> returns exactly
  the errors raised since the instance was first made or last cleared, in order.
\<close>

theorem tracker_getErrors_refines:
  "snd (tracker_getErrors (foldl tracker_step tracker_world_init evs))
   = snd (foldl tracker_spec (False, []) evs)"
proof -
  have inv0: "tracker_inv tracker_world_init" by (simp add: tracker_inv_def tracker_world_init_def)
  let ?w = "foldl tracker_step tracker_world_init evs"
  have inv: "tracker_inv ?w" by (rule tracker_run_inv [OF inv0])
  have abs: "tracker_abs ?w = foldl tracker_spec (False, []) evs"
    using tracker_run_abs [OF inv0] by (simp add: tracker_abs_def tracker_world_init_def)
  show ?thesis
    using inv abs
    by (auto simp: tracker_getErrors_def tracker_getInstance_def tracker_abs_def tracker_inv_def
             split: option.splits) (metis snd_conv)+
qed

end
