(* ===== verification/Maps.thy ===== *)
theory Maps
  imports Queries
begin

text \<open>
  The map components: \<open>components/map/InteractiveMap.tsx\<close> (the catalogue's markers in
  a view bounded to Paris, with a popup for the clicked station),
  \<open>components/map/StationMarker.tsx\<close>, \<open>components/map/Map.tsx\<close> (the two markers of a
  booking), \<open>components/booking/BookingMap.tsx\<close> over the booking store, and
  \<open>components/trip/TripMap.tsx\<close>, the placeholder \<open>TripDetails\<close> shows. Only
  \<open>TripMap\<close> is mounted. The map library is the value each component hands to it:
  markers with their positions and colours, the view's bounds and zoom range, and the
  popup.
\<close>

subsection \<open>The interactive map\<close>

record geo_bounds =
  gb_north :: real
  gb_south :: real
  gb_east :: real
  gb_west :: real

definition PARIS_BOUNDS :: geo_bounds where
  "PARIS_BOUNDS = \<lparr>gb_north = 48.9021449, gb_south = 48.8155755, gb_east = 2.4699208, gb_west = 2.2241989\<rparr>"

record view_state =
  vs_longitude :: real
  vs_latitude :: real
  vs_zoom :: real
  vs_bearing :: real
  vs_pitch :: real

definition INITIAL_VIEW_STATE :: view_state where
  "INITIAL_VIEW_STATE = \<lparr>vs_longitude = 2.3522, vs_latitude = 48.8566, vs_zoom = 11, vs_bearing = 0, vs_pitch = 0\<rparr>"

text \<open>\<open>maxBounds\<close>: the view can show a point only inside the bounds.\<close>

definition in_bounds :: "geo_bounds \<Rightarrow> geo \<Rightarrow> bool" where
  "in_bounds b g =
     (gb_south b \<le> geo_lat g \<and> geo_lat g \<le> gb_north b \<and> gb_west b \<le> geo_lng g \<and> geo_lng g \<le> gb_east b)"

datatype marker_color = MarkerBlue | MarkerGreen | MarkerYellow | MarkerGray

record station_marker =
  smk_id :: string
  smk_position :: geo
  smk_color :: marker_color

definition interactive_marker :: "station \<Rightarrow> station_marker" where
  "interactive_marker s =
     \<lparr>smk_id = st_id s, smk_position = st_location s,
      smk_color = (if st_type s = Airport then MarkerBlue else if st_type s = Train then MarkerGreen else MarkerYellow)\<rparr>"

text \<open>The popup's station, set by a marker's click and cleared by the popup's close button.\<close>

record interactive_map =
  im_popup :: "station option"

definition interactive_map_init :: interactive_map where
  "interactive_map_init = \<lparr>im_popup = None\<rparr>"

text \<open>A marker's \<open>onClick\<close>: the popup opens and \<open>onStationSelect?.(station.id)\<close> is called.\<close>

definition interactiveMap_click :: "station \<Rightarrow> interactive_map \<Rightarrow> interactive_map \<times> string list" where
  "interactiveMap_click s st = (st\<lparr>im_popup := Some s\<rparr>, [st_id s])"

definition interactiveMap_close :: "interactive_map \<Rightarrow> interactive_map" where
  "interactiveMap_close st = st\<lparr>im_popup := None\<rparr>"

record interactive_map_view =
  imv_bounds :: geo_bounds
  imv_initial :: view_state
  imv_zoomRange :: "real \<times> real"
  imv_markers :: "station_marker list"
  imv_popup :: "(string \<times> string \<times> geo) option"

definition interactiveMap_view :: "bool \<Rightarrow> interactive_map \<Rightarrow> interactive_map_view" where
  "interactiveMap_view showAllStations st =
     \<lparr>imv_bounds = PARIS_BOUNDS, imv_initial = INITIAL_VIEW_STATE, imv_zoomRange = (10, 16),
      imv_markers = (if showAllStations then map interactive_marker ALL_STATIONS else []),
      imv_popup = map_option (\<lambda>s. (st_name s, st_address s, st_location s)) (im_popup st)\<rparr>"

subsection \<open>Station markers, the booking map and the trip map\<close>

datatype marker_icon = TrainIcon | PlaneIcon | CarIcon

definition stationMarker_icon :: "station_type \<Rightarrow> marker_icon \<times> marker_color" where
  "stationMarker_icon t =
     (case t of Train \<Rightarrow> (TrainIcon, MarkerGreen) | Airport \<Rightarrow> (PlaneIcon, MarkerBlue)
      | Taxi \<Rightarrow> (CarIcon, MarkerYellow))"

text \<open>\<open>StationMarker\<close>: its popup flag, set by a click (which also calls \<open>onClick\<close>) and cleared on close.\<close>

definition stationMarker_click :: "bool \<Rightarrow> bool \<times> bool" where
  "stationMarker_click showPopup = (True, True)"

definition stationMarker_view :: "station \<Rightarrow> bool \<Rightarrow> station_marker \<times> marker_icon \<times> (string \<times> string) option" where
  "stationMarker_view s showPopup =
     (\<lparr>smk_id = st_id s, smk_position = st_location s, smk_color = snd (stationMarker_icon (st_type s))\<rparr>,
      fst (stationMarker_icon (st_type s)), if showPopup then Some (st_name s, st_address s) else None)"

text \<open>\<open>MapView\<close>: a blue marker at the pickup and a red one at the dropoff, when set.\<close>

datatype booking_marker = PickupMarker real real | DropoffMarker real real

definition mapView_markers :: "location option \<Rightarrow> location option \<Rightarrow> booking_marker list" where
  "mapView_markers pickupLoc dropoffLoc =
     (case pickupLoc of Some p \<Rightarrow> [PickupMarker (loc_lng p) (loc_lat p)] | None \<Rightarrow> [])
     @ (case dropoffLoc of Some d \<Rightarrow> [DropoffMarker (loc_lng d) (loc_lat d)] | None \<Rightarrow> [])"

text \<open>
  \<open>BookingMap\<close>: the selected station is \<open>pickup?.id || dropoff?.id\<close>; a station's
  selection only logs it, so the store is left as it is.
\<close>

definition bookingMap_selected :: "booking_state \<Rightarrow> string option" where
  "bookingMap_selected bs =
     (let p = (case bs_pickup bs of Some l \<Rightarrow> loc_id l | None \<Rightarrow> None)
      in if js_truthy_str p then p else (case bs_dropoff bs of Some l \<Rightarrow> loc_id l | None \<Rightarrow> None))"

definition bookingMap_stationSelect :: "string \<Rightarrow> booking_state \<Rightarrow> booking_state" where
  "bookingMap_stationSelect stationId bs = bs"

text \<open>\<open>TripMap\<close>: the placeholder with the two addresses of the trip's endpoints.\<close>

definition tripMap_view :: "trip \<Rightarrow> string \<times> string" where
  "tripMap_view t = (st_address (pickup t), st_address (dropoff t))"

subsection \<open>Properties of the maps\<close>

text \<open>
  The interactive map is bounded to central Paris, and the bounds contain every train
  and taxi station of the catalogue but neither airport.
\<close>

lemma catalogue_in_paris_bounds:
  "\<forall>s \<in> set ALL_STATIONS. in_bounds PARIS_BOUNDS (st_location s) \<longleftrightarrow> st_type s \<noteq> Airport"
  by (simp add: catalogue_defs PARIS_BOUNDS_def in_bounds_def)

text \<open>
  C32: the interactive map can never show an airport. Every marker it draws lies inside
  the view's \<open>maxBounds\<close> exactly when it is not an airport's blue marker, so the markers
  of CDG and Orly, the destinations of every shared trip, are outside every view the
  map allows.
\<close>

theorem airport_markers_unreachable:
  assumes "m \<in> set (imv_markers (interactiveMap_view b st))"
  shows "in_bounds (imv_bounds (interactiveMap_view b st)) (smk_position m) \<longleftrightarrow> smk_color m \<noteq> MarkerBlue"
proof -
  obtain s where s: "s \<in> set ALL_STATIONS" "m = interactive_marker s"
    using assms by (auto simp: interactiveMap_view_def split: if_splits)
  have "smk_color m = MarkerBlue \<longleftrightarrow> st_type s = Airport"
    using s(2) by (cases "st_type s") (simp_all add: interactive_marker_def)
  then show ?thesis
    using s catalogue_in_paris_bounds by (auto simp: interactiveMap_view_def interactive_marker_def)
qed

theorem airport_markers_unreachable_witness:
  "interactive_marker (AIRPORTS ! 0) \<in> set (imv_markers (interactiveMap_view True interactive_map_init))
   \<and> smk_color (interactive_marker (AIRPORTS ! 0)) = MarkerBlue
   \<and> \<not> in_bounds (imv_bounds (interactiveMap_view True interactive_map_init)) (smk_position (interactive_marker (AIRPORTS ! 0)))"
proof -
  have m: "interactive_marker (AIRPORTS ! 0) \<in> set (imv_markers (interactiveMap_view True interactive_map_init))"
    by (simp add: interactiveMap_view_def ALL_STATIONS_def AIRPORTS_def)
  have c: "smk_color (interactive_marker (AIRPORTS ! 0)) = MarkerBlue"
    by (simp add: interactive_marker_def AIRPORTS_def)
  show ?thesis using airport_markers_unreachable [OF m] m c by simp
qed

end
