(* ===== verification/Spec2Isabelle.thy ===== *)
theory Spec2Isabelle
  imports TripRace Stores Booking Queries Pages Profile Messaging Views Notifications Admin Reviews BookingForms TripSearch SystemStatus Layout ProfileScreens ChatViews BookingScreens AuthForms NotificationViews Routing AdminSeed ErrorTracking Maps
begin

text \<open>
  \<^bold>\<open>CoTaxiage: a verification development.\<close>

  CoTaxiage (\<open>src/src\<close>) is a React/TypeScript web application for shared taxi rides
  between the Paris airports and the city's train and taxi stations. Persistence,
  authentication and live updates are Firestore and Firebase Auth; the application's own
  logic is the static station catalogue, the route validator, the fixed-rate fare
  calculator, the booking-window and payment-detail validators, and the shared-trip
  lifecycle (creation and joining), with zustand stores holding the client state. This
  development models that logic as HOL functions over explicit state and proves what it
  guarantees and where it fails.

  \<^bold>\<open>Theories and what they model.\<close>
  \<^item> \<open>Prelude\<close>: the JavaScript and Firestore primitives the code relies on
    (\<open>toLowerCase\<close>, \<open>includes\<close>, \<open>arrayUnion\<close>), each related to its HOL
    counterpart (\<open>js_includes_sublist\<close>), and shared list lemmas.
  \<^item> \<open>Stations\<close>: \<open>data/stations.ts\<close> as lists of \<open>station\<close> records,
    \<open>find_station\<close> for \<open>ALL_STATIONS.find\<close>, the flat \<open>Location\<close> of
    \<open>types/booking.ts\<close>, and \<open>fare_point\<close>, the two properties (\<open>id\<close>,
    \<open>lat\<close>) the fare calculator reads from whatever object it is given.
  \<^item> \<open>Fare\<close>: \<open>utils/fareCalculator.ts\<close> (\<open>FIXED_RATES\<close>, \<open>isAirport\<close>,
    \<open>isLeftBank\<close>, \<open>calculateFare\<close>, \<open>calculatePerPersonFare\<close>).
  \<^item> \<open>Calendar\<close>: the ECMA-262 \<open>Date\<close> arithmetic (\<open>getMonth\<close>,
    \<open>setMonth\<close>) on time values in milliseconds, read in UTC.
  \<^item> \<open>Validation\<close>: \<open>utils/validation.ts\<close> (\<open>validateRoute\<close>,
    \<open>validatePassengers\<close>, \<open>validateDateTime\<close>, \<open>validatePaymentDetails\<close>),
    each returning \<open>Inr ()\<close> or \<open>Inl\<close> of the error its message stands for.
  \<^item> \<open>Trips\<close>: the \<open>Trip\<close> document, the \<open>trips\<close> collection as a map
    \<open>doc_id \<Rightarrow> trip option\<close>, \<open>useCreateTrip.createTrip\<close>,
    \<open>useJoinTrip.joinTrip\<close>, \<open>useTrip.joinTrip\<close> and \<open>TripDetails.handleJoin\<close>.
    Handlers return the new store and the toasts they show; the share dialog's outcome,
    the backend's rejection of a write, the server time and the id \<open>addDoc\<close> assigns
    are parameters. The invariant \<open>trip_inv\<close> states the spec's data-model
    invariants of a trip (unique participants including the creator, count equal to the
    number of participants, count within capacity, \<open>full\<close> exactly at capacity).
  \<^item> \<open>TripRace\<close>: concurrent joins as an inductive step relation over the server's
    collection and the clients' snapshot copies.
  \<^item> \<open>Stores\<close>: the zustand stores of \<open>stores/\<close> (notifications, booking, chat), each a
    record of its fields and one function per action, the actions collected in datatypes
    whose step functions are folded over any sequence of actions.
  \<^item> \<open>Booking\<close>: the booking document of \<open>types/booking.ts\<close>, the two booking
    creators (\<open>useBooking.createBooking\<close>, \<open>BookingStep.handleConfirm\<close>), the fare
    effect and rendering of \<open>RideSelection\<close>, the route guards of \<open>BookingFlow\<close>
    and the payment page of \<open>PaymentStep\<close>; composed in \<open>booking_sys_step\<close>, a step
    function over a datatype of the page events, whose invariant \<open>booking_sys_inv\<close>
    every run keeps.
  \<^item> \<open>BookingScreens\<close>: what \<open>TripsPage\<close>, the nested routes of \<open>BookingPage\<close>,
    \<open>BookingStep\<close> and \<open>SelectionStep\<close> render, a throwing render being a left value.
  \<^item> \<open>Queries\<close>: the list hooks (\<open>useTrips\<close>, \<open>useUserTrips\<close>, \<open>useBookings\<close>,
    \<open>useReviews\<close>, \<open>useParticipants\<close>, \<open>useStations\<close>, \<open>useNotifications\<close>,
    \<open>useMessages\<close>, \<open>useChats\<close>, \<open>useChat\<close>), each as the effect of its
    Firestore query and of one snapshot on the hook's state. A query is
    \<open>Prelude.fs_query\<close>: the documents the \<open>where\<close> clauses accept, stably sorted by
    the \<open>orderBy\<close> key and reversed for a descending order.
  \<^item> \<open>Pages\<close>: \<open>SearchForm\<close>, \<open>TripsPage\<close>, \<open>TripList\<close>, \<open>TripCard\<close>,
    \<open>CreateTripForm\<close>, \<open>CreateTripPage\<close>, \<open>HomePage\<close> and the notification bell and
    list: form state, inputs, effects and submit handlers, with the values the pages show.
    The bell and the notification hook are composed in \<open>bell_step\<close>.
  \<^item> \<open>Profile\<close>: user documents as Firestore field lists (\<open>fs_doc\<close>) with the
    semantics of \<open>setDoc\<close>, \<open>setDoc\<close> with \<open>merge\<close> and \<open>updateDoc\<close>, read back
    into \<open>UserProfile\<close> by \<open>profile_of\<close>; \<open>AuthContext\<close> (the auth listener, the
    redirect result, \<open>signUp\<close>), the Google sign-in of \<open>SocialLogin\<close>, the login and
    registration forms, the profile page, tabs and settings panel, and \<open>App\<close>'s routes.
  \<^item> \<open>Messaging\<close>: the \<open>messages\<close> and \<open>chats\<close> collections (\<open>chat_db\<close>),
    \<open>useSendMessage\<close> as its two writes, \<open>useCreateChat\<close>, the chat window's submit
    handler, the chat lists, \<open>ChatButton\<close> and \<open>MessagingCenter\<close>; composed in
    \<open>chat_db_step\<close> over a datatype of sends and chat creations.
  \<^item> \<open>ChatViews\<close>: the chat windows as forms with a request in flight (the
    \<open>sending\<close> flag of \<open>useSendMessage\<close>), a submit split into its start and its
    completion, and a window's session as a step function over typing, submits and
    answers in any order; the two windows complete a send alike
    (\<open>ChatViews.messagingWindow_complete_same\<close>); the renders and \<open>MessageList\<close>.
  \<^item> \<open>Admin\<close>: the admin guard, the admin page and the setup utilities over a model
    of Firebase Auth accounts and the users and admin documents, and the health checks.
  \<^item> \<open>Reviews\<close>: the two review forms over the reviews collection, composed with
    \<open>useReviews\<close> and \<open>ReviewList\<close> over any sequence of form events.
  \<^item> \<open>BookingForms\<close>: the unmounted booking form, booking confirmation and payment
    form over the booking store, the chats collection and the outcome of the Stripe chain,
    with what each renders.
  \<^item> \<open>TripSearch\<close>: the unmounted search components (advanced search, simple search,
    filter bar, sorting), with the key presence of the advanced search's filter object.
  \<^item> \<open>AdminSeed\<close>: the seed batches of \<open>initializeFirestore\<close> and
    \<open>initializeCollections\<close> (with \<open>InitializeButton\<close>) as records of the fields each object
    literal writes, committed whole; \<open>initializeTaxiStations\<close>, which throws.
  \<^item> \<open>ErrorTracking\<close>: the singleton error tracker over the instances it constructs and
    the window listeners they register, refining an abstract error log
    (\<open>ErrorTracking.tracker_getErrors_refines\<close>); the performance observer's timing.
  \<^item> \<open>Maps\<close>: what the map components hand to the map library: the markers of
    \<open>InteractiveMap\<close> and \<open>StationMarker\<close> with their colours and popups, the view's
    bounds and zoom range, the two markers of \<open>MapView\<close>, \<open>BookingMap\<close>'s selection
    over the booking store, and \<open>TripMap\<close>'s placeholder.
  \<^item> \<open>SystemStatus\<close>: the admin page's status panel, whose health check runs at mount
    and then every five minutes until unmount. The \<open>setInterval\<close> loop appears twice:
    as the recursive schedule \<open>interval_ticks\<close> between mount and unmount, with its
    termination proof, over which the panel's run folds \<open>checkSystemHealth\<close> of
    \<open>Admin\<close>; and as the effect and its cleanup over the window's table of active
    intervals, where timer events arrive in any order and the cleanup's
    \<open>clearInterval\<close> ends the polling (\<open>SystemStatus.systemStatus_interval_stops\<close>).
  \<^item> \<open>ProfileScreens\<close>: what the profile page renders, the tab bar with its selected
    tab, and the settings panel with its switches, loading flag and save button.
  \<^item> \<open>AuthForms\<close>: the login and registration forms with their state, submitted
    through the browser's input checks and \<open>AuthContext\<close>'s \<open>signIn\<close> and \<open>signUp\<close>
    over the Firebase Auth model of \<open>Admin\<close>; registering, logging out and logging
    in again round-trips (\<open>AuthForms.register_logout_login\<close>).
  \<^item> \<open>Routing\<close>: the route table of \<open>App.tsx\<close> as a matcher on path segments, the
    path of every navigation target, and the agreement of the matcher with the table
    \<open>Profile.app_route\<close> the other theories use
    (\<open>Routing.app_match_refines_app_route\<close>); every link of the bar reaches the page it
    names (\<open>Routing.navbar_links_routed\<close>).
  \<^item> \<open>Layout\<close>: the navigation bar of every page (its items, their highlighting by
    path, the logout handler over \<open>AuthContext.logout\<close>) and the layout's toaster.
  \<^item> \<open>NotificationViews\<close>: what the bell and its list render; the badge counts the
    rows marked unread (\<open>NotificationViews.bell_badge_counts_rows\<close>).
  \<^item> \<open>Notifications\<close>: the writer of the notifications collection
    (\<open>utils/notifications.ts\<close>), composed with its reader \<open>useNotifications\<close>.
  \<^item> \<open>Views\<close>: the read-only views (\<open>PopularRoutes\<close>, \<open>UserTripList\<close>,
    \<open>ReviewList\<close>, \<open>ProfileHeader\<close>, \<open>BookingHistory\<close>) as the values they render,
    through one shared \<open>hook_view\<close> for the spinner, error, empty and list states, and
    \<open>ConfirmationStep\<close> with its handlers over the booking store, the chat store and the
    chats collection.

  External outcomes (the id \<open>addDoc\<close> assigns, a rejected write, the server time, the
  share dialog, Firebase Auth's answers) are parameters of the handlers, so every theorem
  holds for each of them. The one loop of the application is the status panel's
  \<open>setInterval\<close>, which runs until the panel unmounts: its schedule is a
  \<open>function\<close> from the mount to the unmount time, terminating by the measure
  \<open>stop - t\<close>; in the event model no timer event runs a check once the cleanup has
  cleared the interval (\<open>SystemStatus.systemStatus_interval_stops\<close>), whatever events
  follow. Every other operation maps, filters or
  folds finite lists, so no definition needs fuel: every function is total and computes,
  and the examples are evaluated by \<open>simp\<close> and \<open>code_simp\<close>.

  \<^bold>\<open>Results.\<close> Trip creation establishes \<open>trip_inv\<close> and a join decided on a fresh
  snapshot preserves it; but the join is not the atomic conditional update the spec
  requires: two joins decided on one snapshot of a trip with one free seat both succeed
  and overbook it (\<open>TripRace.stale_joins_overbook\<close>), and the trip page still offers
  to join the overbooked trip (\<open>Views.overbooked_trip_joinable\<close>). Every
  shared trip is priced at the right-bank rate (\<open>createTrip_fare_right_bank\<close>), while
  the booking flow decides the bank by latitude (\<open>booking_fare_by_latitude\<close>), and the
  two booking creators store different fares
  (\<open>Booking.booking_creators_store_different_fares\<close>). The booking store keeps its
  passenger count in 1..3; the notification store keeps its unread counter exact as long
  as \<open>markAsRead\<close> is only called with an id it holds
  (\<open>Stores.markAsRead_missing_breaks\<close> otherwise), and the bell's badge is exact
  under snapshots and clicks (\<open>Pages.bell_badge_exact\<close>), though nothing persists a
  read flag (\<open>Queries.notification_snapshot_overrides\<close>). A search lists exactly the
  matching trips (\<open>Pages.search_lists_matching_trips\<close>). The user documents
  \<open>signUp\<close> writes conform to \<open>UserProfile\<close> in both
  orders of the racing writes, those of the Google sign-in never do. Sending a message
  is not atomic, so a retried send stores it twice
  (\<open>Messaging.failed_send_retry_duplicates\<close>), yet every chat's last message is a
  stored message of that chat (\<open>Messaging.chat_last_message_stored\<close>), and the chat
  window never has two sends in flight (\<open>ChatViews.chat_window_one_request\<close>).
  The home page's popular routes name stations the catalogue lacks and render nothing
  (\<open>Views.popularRoutes_cards_empty\<close>); the profile's trip list and the trip card show
  different per-person prices (\<open>Views.userTrip_card_perPerson\<close>); the confirmation's
  total is the per-person share (\<open>Views.confirmation_total_per_person\<close>); and the chat
  with the driver has the user as its only participant (\<open>Views.handleStartChat_private\<close>).
  The admin credentials are literals of the client, so anyone can sign in as the super
  admin once the account exists (\<open>Admin.admin_setup_publishes_credentials\<close>); the admin
  guard checks only the email's domain, so whoever registers an address of that domain
  reaches the admin page (\<open>AuthForms.register_admin_domain_admitted\<close>), and one successful health check of the status
  panel signs the admin out (\<open>SystemStatus.systemStatus_signs_admin_out\<close>). Only the
  owner of a profile is offered its settings panel
  (\<open>ProfileScreens.profile_settings_only_owner\<close>), and its save overwrites the stored
  settings with the panel's fixed defaults toggled by the clicks
  (\<open>ProfileScreens.settings_save_overwrites\<close>). The
  navigation bar highlights at most one link (\<open>Layout.navbar_one_active\<close>).
  \<open>App.tsx\<close> imports an \<open>AuthGuard\<close> and a \<open>LoadingSpinner\<close> that the repository
  does not contain, so the routes that guard wraps are modelled unguarded. Both seed
  trips of the initialisation utilities break the rules the application's writers keep
  (\<open>AdminSeed.seed_trips_break_rules\<close>), and \<open>initializeTaxiStations\<close> throws on its
  first call; the interactive map is bounded to central Paris, so its airport markers are
  never in view (\<open>Maps.airport_markers_unreachable\<close>). The error tracker returns
  exactly the errors raised since its creation or last clear
  (\<open>ErrorTracking.tracker_getErrors_refines\<close>).

  \<^bold>\<open>Not modelled.\<close> The markup and styling of the components, date formatting,
  console output, the tiles and drawing of the map library (\<open>MapContainer\<close> only wraps
  \<open>InteractiveMap\<close> in a provider and a loading fallback), the chat window's
  scrolling, the markup of the messaging \<open>ChatWindow\<close> (its render throws before
  reaching it) and the build configuration (\<open>vite.config.ts\<close>): they call the
  browser or a UI library and hold no logic of the application's own. Firebase Auth is a
  parameter of the handlers, except in
  \<open>Admin\<close>, \<open>SystemStatus\<close>, \<open>Layout\<close> and \<open>AuthForms\<close>, which share a model of its
  account table and signed-in user; zod's email pattern and the browser's
  \<open>type="email"\<close> check are parameters.
\<close>

subsection \<open>The catalogue, the route validator and the fare calculator together\<close>

text \<open>
  \<open>validateRoute\<close> classifies stations by their \<open>type\<close> field, \<open>calculateFare\<close> by a
  substring of their id; on the catalogue the two agree.
\<close>

lemma catalogue_isAirport_all:
  "\<forall>s \<in> set ALL_STATIONS. (isAirport (st_id s) = None) = (st_type s \<noteq> Airport)"
  by code_simp

lemma catalogue_isAirport:
  "find_station sid = Some s \<Longrightarrow> (isAirport (st_id s) = None) = (st_type s \<noteq> Airport)"
  using catalogue_isAirport_all find_station_Some by blast

lemma valid_route_airports:
  assumes "validateRoute p d = Inr ()" "find_station p = Some ps" "find_station d = Some ds"
  shows "(isAirport (st_id ps) = None) \<noteq> (isAirport (st_id ds) = None)"
  using validateRoute_Inr_D [OF assms(1)] assms(2,3) catalogue_isAirport [OF assms(2)]
    catalogue_isAirport [OF assms(3)] by auto

text \<open>
  C7: the fare a created trip stores is always a right-bank rate (56 for CDG, 44 for
  Orly): \<open>useCreateTrip\<close> passes the catalogue station objects to \<open>calculateFare\<close>,
  whose \<open>lat\<close> property is undefined, so the left-bank rates 65 and 36 are never
  charged for a shared trip.
\<close>

theorem createTrip_fare_right_bank:
  assumes "createTrip user data now r store = (Some tid, store', msgs)"
  shows "\<exists>t. store' tid = Some t \<and> (fare t = 56 \<or> fare t = 44)"
proof -
  from assms obtain u ps ds where
    ok: "user = Some u" "validateRoute (ct_pickup data) (ct_dropoff data) = Inr ()"
        "find_station (ct_pickup data) = Some ps" "find_station (ct_dropoff data) = Some ds"
        "r = Inr tid" "store' = store(tid \<mapsto> new_trip u ps ds data now)"
    by (auto simp: createTrip_def split: option.splits sum.splits backend_error.splits)
  have air: "(isAirport (st_id ps) = None) \<noteq> (isAirport (st_id ds) = None)"
    by (rule valid_route_airports [OF ok(2-4)])
  have "\<exists>a. fare (new_trip u ps ds data now) = FIXED_RATES a RightBank"
    using air by (auto simp: new_trip_def calculateFare_eq airport_of_station_point split: option.splits)
  then obtain a where "fare (new_trip u ps ds data now) = FIXED_RATES a RightBank" by blast
  then show ?thesis using ok(6) FIXED_RATES_RightBank [of a] by auto
qed

theorem createTrip_fare_right_bank_witness:
  "\<exists>t. fst (snd (createTrip (Some ''ana'')
          \<lparr>ct_pickup = ''saint-antoine'', ct_dropoff = ''cdg'', ct_date = 1763000000000,
           ct_availableSeats = 3\<rparr> 1762700000000 (Inr ''t2'') example_store)) ''t2'' = Some t
       \<and> (fare t = 56 \<or> fare t = 44)"
proof -
  let ?r = "createTrip (Some ''ana'')
          \<lparr>ct_pickup = ''saint-antoine'', ct_dropoff = ''cdg'', ct_date = 1763000000000,
           ct_availableSeats = 3\<rparr> 1762700000000 (Inr ''t2'') example_store"
  have "fst ?r = Some ''t2''" by code_simp
  then have "?r = (Some ''t2'', fst (snd ?r), snd (snd ?r))" by (metis prod.collapse)
  from createTrip_fare_right_bank [OF this] show ?thesis .
qed

text \<open>
  C16: the booking flow prices a catalogue route from the flat locations the search form
  stores, so there the bank is decided by the latitude of the non-airport station.
\<close>

theorem booking_fare_by_latitude:
  assumes "validateRoute p d = Inr ()" "find_station p = Some ps" "find_station d = Some ds"
  shows "calculateFare (location_point (location_of_station ps)) (location_point (location_of_station ds))
         = (case isAirport (st_id ps) of
              Some a \<Rightarrow> FIXED_RATES a (if geo_lat (st_location ds) < 48.8566 then LeftBank else RightBank)
            | None \<Rightarrow> FIXED_RATES (the (isAirport (st_id ds)))
                       (if geo_lat (st_location ps) < 48.8566 then LeftBank else RightBank))"
  using valid_route_airports [OF assms]
  by (auto simp: calculateFare_eq airport_of_location_point location_of_station_def js_or_empty_def
                 bank_of_location_point split: option.splits)

theorem booking_fare_by_latitude_witness:
  "validateRoute ''saint-antoine'' ''cdg'' = Inr ()
   \<and> calculateFare (location_point (location_of_station (hd LEFT_BANK_STATIONS)))
        (location_point (location_of_station (hd AIRPORTS))) = 65"
proof -
  have h: "validateRoute ''saint-antoine'' ''cdg'' = Inr ()"
    "find_station ''saint-antoine'' = Some (hd LEFT_BANK_STATIONS)"
    "find_station ''cdg'' = Some (hd AIRPORTS)"
    by code_simp+
  have "calculateFare (location_point (location_of_station (hd LEFT_BANK_STATIONS)))
          (location_point (location_of_station (hd AIRPORTS)))
        = (case isAirport (st_id (hd LEFT_BANK_STATIONS)) of
              Some a \<Rightarrow> FIXED_RATES a (if geo_lat (st_location (hd AIRPORTS)) < 48.8566 then LeftBank else RightBank)
            | None \<Rightarrow> FIXED_RATES (the (isAirport (st_id (hd AIRPORTS))))
                       (if geo_lat (st_location (hd LEFT_BANK_STATIONS)) < 48.8566 then LeftBank else RightBank))"
    by (rule booking_fare_by_latitude [OF h])
  also have "\<dots> = 65" by code_simp
  finally show ?thesis using h(1) by blast
qed

end
